(* ===== verification/Prelude.thy ===== *)
theory Prelude
  imports Main "HOL-Library.Word" "HOL-Library.Multiset"
begin

section \<open>Prelude: machine types, results and database actions\<close>

text \<open>
  What every component of the development shares: the names of the machine types of the
  source, its two ways of failing (\<open>Result\<close> in a pure computation, and an early return
  with \<open>?\<close> in the middle of a sequence of database writes), and the invariant calculus
  for such sequences.

  Machine integers keep their width. A column of SQL type \<open>BigInt\<close> is an \<open>i64\<close> in the
  Rust structs and is cast with \<open>as i64\<close> and \<open>as u64\<close>, which keep the 64 bits; both
  types are the same \<^typ>\<open>64 word\<close> here, a comparison made by SQL reads it signed
  (\<^const>\<open>word_sle\<close>, \<^const>\<open>word_sless\<close>) and one made by Rust on \<open>u64\<close> reads it unsigned.
  The release profile of the workspace (Cargo.toml, \<open>overflow-checks = false\<close>) wraps, as
  word addition does. Sums of \<open>u64\<close> values kept in a \<open>u128\<close> are natural numbers; a lemma
  below bounds them.
\<close>

type_synonym u8 = "8 word"
type_synonym i32 = "32 word"
type_synonym u64 = "64 word"
type_synonym i64 = "64 word"
type_synonym bytes = "u8 list"

named_theorems preserves_intros \<open>introduction rules for invariants of database actions\<close>
named_theorems act_simps \<open>evaluation rules for database actions\<close>

subsection \<open>Results\<close>

text \<open>A fallible computation is a sum, \<^term>\<open>Inl e\<close> the error. \<open>rbind\<close> is Rust's \<open>?\<close>.\<close>

definition rbind :: "'e + 'a \<Rightarrow> ('a \<Rightarrow> 'e + 'b) \<Rightarrow> 'e + 'b" where
  "rbind r f = (case r of Inl e \<Rightarrow> Inl e | Inr a \<Rightarrow> f a)"

definition map_err :: "('e \<Rightarrow> 'f) \<Rightarrow> 'e + 'a \<Rightarrow> 'f + 'a" where
  "map_err g r = (case r of Inl e \<Rightarrow> Inl (g e) | Inr a \<Rightarrow> Inr a)"

definition ok_or :: "'e \<Rightarrow> 'a option \<Rightarrow> 'e + 'a" where
  "ok_or e x = (case x of None \<Rightarrow> Inl e | Some a \<Rightarrow> Inr a)"

definition is_ok :: "'e + 'a \<Rightarrow> bool" where
  "is_ok r = (case r of Inl e \<Rightarrow> False | Inr a \<Rightarrow> True)"

text \<open>\<open>iter().map(f).collect::<Result<Vec<_>, _>>()\<close>: the first error wins.\<close>

fun collect_results :: "('a \<Rightarrow> 'e + 'b) \<Rightarrow> 'a list \<Rightarrow> 'e + 'b list" where
  "collect_results f [] = Inr []"
| "collect_results f (x # xs) =
     rbind (f x) (\<lambda>y. rbind (collect_results f xs) (\<lambda>ys. Inr (y # ys)))"

lemma rbind_simps [simp]:
  "rbind (Inl e) f = Inl e"
  "rbind (Inr a) f = f a"
  by (simp_all add: rbind_def)

lemma rbind_eq_Inr: "rbind r f = Inr b \<longleftrightarrow> (\<exists>a. r = Inr a \<and> f a = Inr b)"
  by (cases r) auto

lemma map_err_simps [simp]:
  "map_err g (Inl e) = Inl (g e)"
  "map_err g (Inr a) = Inr a"
  by (simp_all add: map_err_def)

lemma map_err_eq_Inr: "map_err g r = Inr a \<longleftrightarrow> r = Inr a"
  by (cases r) auto

lemma ok_or_simps [simp]:
  "ok_or e None = Inl e"
  "ok_or e (Some a) = Inr a"
  by (simp_all add: ok_or_def)

lemma ok_or_eq_Inr: "ok_or e x = Inr a \<longleftrightarrow> x = Some a"
  by (cases x) auto

lemma is_ok_simps [simp]: "is_ok (Inr a)" "\<not> is_ok (Inl e)"
  by (simp_all add: is_ok_def)

lemma collect_results_Inr:
  "collect_results f xs = Inr ys \<longleftrightarrow> list_all2 (\<lambda>x y. f x = Inr y) xs ys"
  by (induction xs arbitrary: ys)
     (auto simp: rbind_eq_Inr list_all2_Cons1)

subsection \<open>Decimal numbers\<close>

text \<open>\<open>to_string\<close> and \<open>{:?}\<close> of an unsigned integer.\<close>

fun show_nat :: "nat \<Rightarrow> string" where
  "show_nat n =
     (if n < 10 then [char_of (48 + n)] else show_nat (n div 10) @ [char_of (48 + n mod 10)])"

declare show_nat.simps [simp del]

definition show_u64 :: "u64 \<Rightarrow> string" where
  "show_u64 w = show_nat (unat w)"

subsection \<open>Actions on a database\<close>

text \<open>
  An action takes the database and returns a result and the database it leaves behind. An
  error keeps the writes made before it: only an enclosing SQL transaction undoes them.
\<close>

type_synonym ('s, 'e, 'a) action = "'s \<Rightarrow> ('e + 'a) \<times> 's"

definition sreturn :: "'a \<Rightarrow> ('s, 'e, 'a) action" where
  "sreturn a s = (Inr a, s)"

definition sraise :: "'e \<Rightarrow> ('s, 'e, 'a) action" where
  "sraise e s = (Inl e, s)"

definition sread :: "('s \<Rightarrow> 'e + 'a) \<Rightarrow> ('s, 'e, 'a) action" where
  "sread r s = (r s, s)"

definition sbind :: "('s, 'e, 'a) action \<Rightarrow> ('a \<Rightarrow> ('s, 'e, 'b) action) \<Rightarrow> ('s, 'e, 'b) action" where
  "sbind m f s = (case m s of (Inl e, s') \<Rightarrow> (Inl e, s') | (Inr a, s') \<Rightarrow> f a s')"

definition sthen :: "('s, 'e, 'a) action \<Rightarrow> ('s, 'e, 'b) action \<Rightarrow> ('s, 'e, 'b) action" where
  "sthen m n = sbind m (\<lambda>_. n)"

text \<open>\<open>match\<close> on the result of a read, errors included.\<close>

definition smatch :: "('s \<Rightarrow> 'r) \<Rightarrow> ('r \<Rightarrow> ('s, 'e, 'b) action) \<Rightarrow> ('s, 'e, 'b) action" where
  "smatch r f s = f (r s) s"

text \<open>\<open>?\<close> at a call whose error converts into the caller's error type.\<close>

definition smap_err :: "('e \<Rightarrow> 'f) \<Rightarrow> ('s, 'e, 'a) action \<Rightarrow> ('s, 'f, 'a) action" where
  "smap_err f m s = (case m s of (r, s') \<Rightarrow> (map_err f r, s'))"

text \<open>A \<open>for\<close> loop whose body ends in \<open>?\<close>.\<close>

fun sfor :: "'a list \<Rightarrow> ('a \<Rightarrow> ('s, 'e, unit) action) \<Rightarrow> ('s, 'e, unit) action" where
  "sfor [] f = sreturn ()"
| "sfor (x # xs) f = sthen (f x) (sfor xs f)"

lemma sreturn_apply [act_simps]: "sreturn a s = (Inr a, s)"
  by (simp add: sreturn_def)

lemma sraise_apply [act_simps]: "sraise e s = (Inl e, s)"
  by (simp add: sraise_def)

lemma sread_apply [act_simps]: "sread r s = (r s, s)"
  by (simp add: sread_def)

lemma smatch_apply [act_simps]: "smatch r f s = f (r s) s"
  by (simp add: smatch_def)

lemma sbind_Inl [act_simps]: "m s = (Inl e, s') \<Longrightarrow> sbind m f s = (Inl e, s')"
  by (simp add: sbind_def)

lemma sbind_Inr [act_simps]: "m s = (Inr a, s') \<Longrightarrow> sbind m f s = f a s'"
  by (simp add: sbind_def)

lemma sthen_Inl [act_simps]: "m s = (Inl e, s') \<Longrightarrow> sthen m n s = (Inl e, s')"
  by (simp add: sthen_def act_simps)

lemma sthen_Inr [act_simps]: "m s = (Inr a, s') \<Longrightarrow> sthen m n s = n s'"
  by (simp add: sthen_def act_simps)

lemma sbind_sread: "sbind (sread r) f s = (case r s of Inl e \<Rightarrow> (Inl e, s) | Inr a \<Rightarrow> f a s)"
  by (simp add: sbind_def sread_def split: sum.splits)

lemma sthen_sread: "sthen (sread r) n s = (case r s of Inl e \<Rightarrow> (Inl e, s) | Inr a \<Rightarrow> n s)"
  by (simp add: sthen_def sbind_sread)

lemma sbind_eq_Inr:
  "sbind m f s = (Inr b, t) \<longleftrightarrow> (\<exists>a s'. m s = (Inr a, s') \<and> f a s' = (Inr b, t))"
  by (auto simp: sbind_def split: prod.splits sum.splits)

lemma sthen_eq_Inr:
  "sthen m n s = (Inr b, t) \<longleftrightarrow> (\<exists>a s'. m s = (Inr a, s') \<and> n s' = (Inr b, t))"
  by (simp add: sthen_def sbind_eq_Inr)

lemma sreturn_eq_Inr [simp]: "sreturn a s = (Inr b, t) \<longleftrightarrow> a = b \<and> s = t"
  by (auto simp: sreturn_def)

lemma sraise_eq_Inr [simp]: "sraise e s \<noteq> (Inr b, t)"
  by (simp add: sraise_def)

lemma smap_err_eq_Inr: "smap_err f m s = (Inr a, t) \<longleftrightarrow> m s = (Inr a, t)"
  by (auto simp: smap_err_def map_err_def split: prod.splits sum.splits)

lemma smap_err_eq_Inl: "smap_err f m s = (Inl e, t) \<longleftrightarrow> (\<exists>e'. m s = (Inl e', t) \<and> e = f e')"
  by (auto simp: smap_err_def map_err_def split: prod.splits sum.splits)

lemma sread_eq_Inr: "sread r s = (Inr b, t) \<longleftrightarrow> r s = Inr b \<and> s = t"
  by (auto simp: sread_def)

subsection \<open>Invariants of actions\<close>

text \<open>\<open>preserves P m\<close>: whatever \<open>m\<close> returns, it leaves a state with \<open>P\<close> from one with \<open>P\<close>.\<close>

definition preserves :: "('s \<Rightarrow> bool) \<Rightarrow> ('s, 'e, 'a) action \<Rightarrow> bool" where
  "preserves P m \<longleftrightarrow> (\<forall>s. P s \<longrightarrow> P (snd (m s)))"

lemma preservesI: "(\<And>s. P s \<Longrightarrow> P (snd (m s))) \<Longrightarrow> preserves P m"
  by (simp add: preserves_def)

lemma preservesD: "preserves P m \<Longrightarrow> P s \<Longrightarrow> P (snd (m s))"
  by (simp add: preserves_def)

lemma preservesD_eq: "preserves P m \<Longrightarrow> P s \<Longrightarrow> m s = (r, t) \<Longrightarrow> P t"
  using preservesD by fastforce

lemma preserves_sreturn [preserves_intros]: "preserves P (sreturn a)"
  by (simp add: preserves_def sreturn_def)

lemma preserves_sraise [preserves_intros]: "preserves P (sraise e)"
  by (simp add: preserves_def sraise_def)

lemma preserves_sread [preserves_intros]: "preserves P (sread r)"
  by (simp add: preserves_def sread_def)

lemma preserves_smatch [preserves_intros]:
  "(\<And>a. preserves P (f a)) \<Longrightarrow> preserves P (smatch r f)"
  by (simp add: preserves_def smatch_def)

lemma preserves_case_sum [preserves_intros]:
  "(\<And>e. preserves P (f e)) \<Longrightarrow> (\<And>a. preserves P (g a)) \<Longrightarrow>
   preserves P (case x of Inl e \<Rightarrow> f e | Inr a \<Rightarrow> g a)"
  by (cases x) auto

lemma preserves_sbind [preserves_intros]:
  assumes "preserves P m" and "\<And>a. preserves P (f a)"
  shows "preserves P (sbind m f)"
proof (rule preservesI)
  fix s assume "P s"
  with assms(1) have "P (snd (m s))" by (rule preservesD)
  then show "P (snd (sbind m f s))"
    using assms(2) by (auto simp: sbind_def preserves_def split: prod.splits sum.splits)
qed

lemma preserves_sthen [preserves_intros]:
  "preserves P m \<Longrightarrow> preserves P n \<Longrightarrow> preserves P (sthen m n)"
  by (simp add: sthen_def preserves_sbind)

lemma preserves_sfor [preserves_intros]:
  "(\<And>x. x \<in> set xs \<Longrightarrow> preserves P (f x)) \<Longrightarrow> preserves P (sfor xs f)"
  by (induction xs) (auto intro!: preserves_intros)

lemma preserves_if [preserves_intros]:
  "(b \<Longrightarrow> preserves P m) \<Longrightarrow> (\<not> b \<Longrightarrow> preserves P n) \<Longrightarrow> preserves P (if b then m else n)"
  by simp

lemma preserves_case_option [preserves_intros]:
  "preserves P m \<Longrightarrow> (\<And>a. preserves P (f a)) \<Longrightarrow> preserves P (case x of None \<Rightarrow> m | Some a \<Rightarrow> f a)"
  by (cases x) auto

lemma preserves_case_prod [preserves_intros]:
  "(\<And>a b. preserves P (f a b)) \<Longrightarrow> preserves P (case x of (a, b) \<Rightarrow> f a b)"
  by (cases x) auto

lemma preserves_conj:
  "preserves P m \<Longrightarrow> preserves Q m \<Longrightarrow> preserves (\<lambda>s. P s \<and> Q s) m"
  by (simp add: preserves_def)

lemma preserves_smap_err [preserves_intros]: "preserves P m \<Longrightarrow> preserves P (smap_err f m)"
  by (auto simp: preserves_def smap_err_def split: prod.splits)

subsection \<open>Lists\<close>

lemma sum_list_take_le: "sum_list (take n xs) \<le> sum_list (xs :: nat list)"
proof -
  have "sum_list xs = sum_list (take n xs) + sum_list (drop n xs)"
    by (metis append_take_drop_id sum_list_append)
  then show ?thesis by simp
qed

lemma sum_list_bound: "(\<And>x. x \<in> set xs \<Longrightarrow> x \<le> b) \<Longrightarrow> sum_list (xs :: nat list) \<le> length xs * b"
  by (induction xs) (auto intro: add_mono)

lemma filter_map_if:
  "(\<And>x. x \<in> set xs \<Longrightarrow> q x \<Longrightarrow> p (f x) = p x) \<Longrightarrow>
   filter p (map (\<lambda>x. if q x then f x else x) xs) = map (\<lambda>x. if q x then f x else x) (filter p xs)"
  by (induction xs) auto

lemma map_if_key:
  "(\<And>x. k (f x) = k x) \<Longrightarrow> map k (map (\<lambda>x. if q x then f x else x) xs) = map k xs"
  by (induction xs) auto

subsection \<open>Machine integers\<close>

lemma unat_succ:
  assumes "b < (e :: u64)"
  shows "unat (b + 1) = Suc (unat b)"
proof -
  have "unat b < unat e" "unat e < 2 ^ 64"
    using assms unsigned_less [of e, where ?'a = nat] by (simp_all add: word_less_nat_alt)
  then show ?thesis by (simp add: unat_word_ariths)
qed

lemma unat_plus_of_nat:
  assumes "unat s + i < 2 ^ 64"
  shows "unat (s + word_of_nat i :: u64) = unat s + i"
  using assms by (simp add: unat_word_ariths unat_of_nat mod_add_right_eq)

text \<open>The run of an action whose result is known.\<close>

lemma run_result: "fst p = r \<Longrightarrow> p = (r, snd p)"
  by (cases p) simp

end
