(* ===== verification/Sql.thy ===== *)
theory Sql
  imports Prelude
begin

section \<open>The query layer: three-valued conditions, joins, ordering, pagination\<close>

text \<open>
  The wallet reads and writes SQLite through Diesel. What the source uses of SQL is modelled
  here: conditions over nullable columns (three truth values, a \<open>WHERE\<close> keeps a row only
  when its condition is true), inner and left joins, \<open>SELECT DISTINCT\<close>, \<open>ORDER BY ... DESC\<close>
  and \<open>LIMIT/OFFSET\<close>. A table is the list of its rows. A query without \<open>ORDER BY\<close> is
  modelled in row order; no theorem of the development about such a query depends on it.
  The locale \<open>db_table\<close> is the interface between the database and the components that
  read one of its tables by key.
\<close>

subsection \<open>Three-valued conditions\<close>

text \<open>\<^term>\<open>None\<close> is SQL's \<open>NULL\<close>, for values and for truth values.\<close>

type_synonym tv = "bool option"

definition sql_not :: "tv \<Rightarrow> tv" where
  "sql_not a = map_option Not a"

definition sql_and :: "tv \<Rightarrow> tv \<Rightarrow> tv" where
  "sql_and a b =
     (if a = Some False \<or> b = Some False then Some False
      else if a = Some True \<and> b = Some True then Some True else None)"

definition sql_or :: "tv \<Rightarrow> tv \<Rightarrow> tv" where
  "sql_or a b =
     (if a = Some True \<or> b = Some True then Some True
      else if a = Some False \<and> b = Some False then Some False else None)"

definition sql_cmp :: "('a \<Rightarrow> 'b \<Rightarrow> bool) \<Rightarrow> 'a option \<Rightarrow> 'b option \<Rightarrow> tv" where
  "sql_cmp r a b = (case a of None \<Rightarrow> None | Some x \<Rightarrow>
     (case b of None \<Rightarrow> None | Some y \<Rightarrow> Some (r x y)))"

definition sql_eq :: "'a option \<Rightarrow> 'a option \<Rightarrow> tv" where
  "sql_eq = sql_cmp (=)"

text \<open>Comparisons of \<open>BigInt\<close> columns are signed.\<close>

definition sql_lt :: "i64 option \<Rightarrow> i64 option \<Rightarrow> tv" where
  "sql_lt = sql_cmp word_sless"

definition sql_le :: "i64 option \<Rightarrow> i64 option \<Rightarrow> tv" where
  "sql_le = sql_cmp word_sle"

definition sql_ge :: "i64 option \<Rightarrow> i64 option \<Rightarrow> tv" where
  "sql_ge a b = sql_le b a"

definition is_null :: "'a option \<Rightarrow> tv" where
  "is_null a = Some (a = None)"

definition is_not_null :: "'a option \<Rightarrow> tv" where
  "is_not_null a = Some (a \<noteq> None)"

definition sql_holds :: "tv \<Rightarrow> bool" where
  "sql_holds a \<longleftrightarrow> a = Some True"

subsection \<open>Row operations\<close>

definition sql_where :: "('r \<Rightarrow> tv) \<Rightarrow> 'r list \<Rightarrow> 'r list" where
  "sql_where c rows = filter (\<lambda>r. sql_holds (c r)) rows"

text \<open>A condition added only when an optional argument is given (\<open>if let Some(x) = arg\<close>).\<close>

definition opt_cond :: "'a option \<Rightarrow> ('a \<Rightarrow> tv) \<Rightarrow> tv" where
  "opt_cond arg c = (case arg of None \<Rightarrow> Some True | Some a \<Rightarrow> c a)"

text \<open>\<open>WHERE c1 AND c2 AND ...\<close>: one conjunct per \<open>filter\<close> of the query.\<close>

definition sql_all :: "tv list \<Rightarrow> tv" where
  "sql_all cs = foldr sql_and cs (Some True)"

definition left_join :: "('l \<Rightarrow> 'r \<Rightarrow> tv) \<Rightarrow> 'l list \<Rightarrow> 'r list \<Rightarrow> ('l \<times> 'r option) list" where
  "left_join on ls rs = concat (map (\<lambda>l.
     let ms = sql_where (on l) rs
     in if ms = [] then [(l, None)] else map (\<lambda>r. (l, Some r)) ms) ls)"

definition inner_join :: "('l \<Rightarrow> 'r \<Rightarrow> tv) \<Rightarrow> 'l list \<Rightarrow> 'r list \<Rightarrow> ('l \<times> 'r) list" where
  "inner_join on ls rs = concat (map (\<lambda>l. map (\<lambda>r. (l, r)) (sql_where (on l) rs)) ls)"

text \<open>\<open>SELECT DISTINCT\<close>: the first of equal rows is kept.\<close>

fun sql_distinct :: "'r list \<Rightarrow> 'r list" where
  "sql_distinct [] = []"
| "sql_distinct (r # rs) = r # sql_distinct (filter (\<lambda>x. x \<noteq> r) rs)"

text \<open>
  \<open>ORDER BY c DESC\<close> on a nullable \<open>BigInt\<close>: SQLite sorts \<open>NULL\<close> below every value, so last
  in a descending order. Rows with equal keys keep their order.
\<close>

definition desc_key :: "i64 option \<Rightarrow> int" where
  "desc_key c = (case c of None \<Rightarrow> 2 ^ 63 + 1 | Some w \<Rightarrow> - sint w)"

definition order_desc :: "('r \<Rightarrow> i64 option) \<Rightarrow> 'r list \<Rightarrow> 'r list" where
  "order_desc c rows = sort_key (\<lambda>r. desc_key (c r)) rows"

text \<open>
  \<open>if let (Some(o), Some(l)) = (offset, limit)\<close>, then \<open>.offset(o as i64).limit(l as i64)\<close>:
  one of them alone is ignored, a negative limit is no limit and a negative offset is zero.
\<close>

definition paginate :: "u64 option \<Rightarrow> u64 option \<Rightarrow> 'r list \<Rightarrow> 'r list" where
  "paginate offset limit rows = (case (offset, limit) of
     (Some off, Some l) \<Rightarrow>
       (let rest = drop (nat (sint off)) rows
        in if sint l < 0 then rest else take (nat (sint l)) rest)
   | _ \<Rightarrow> rows)"

definition sql_limit :: "u64 option \<Rightarrow> 'r list \<Rightarrow> 'r list" where
  "sql_limit limit rows = (case limit of
     Some l \<Rightarrow> (if sint l < 0 then rows else take (nat (sint l)) rows) | None \<Rightarrow> rows)"

text \<open>\<open>get_result\<close> and \<open>first\<close>: the first row of a result.\<close>

definition first_row :: "'r list \<Rightarrow> 'r option" where
  "first_row rows = (case rows of [] \<Rightarrow> None | r # _ \<Rightarrow> Some r)"

definition find_row :: "('r \<Rightarrow> 'k) \<Rightarrow> 'k \<Rightarrow> 'r list \<Rightarrow> 'r option" where
  "find_row key k rows = first_row (filter (\<lambda>r. key r = k) rows)"

text \<open>\<open>UPDATE ... SET ... WHERE p\<close>.\<close>

definition update_rows :: "('r \<Rightarrow> bool) \<Rightarrow> ('r \<Rightarrow> 'r) \<Rightarrow> 'r list \<Rightarrow> 'r list" where
  "update_rows p f rows = map (\<lambda>r. if p r then f r else r) rows"

subsection \<open>Lemmas on conditions\<close>

lemma sql_holds_simps [simp]:
  "sql_holds (Some b) \<longleftrightarrow> b"
  "\<not> sql_holds None"
  by (simp_all add: sql_holds_def)

lemma sql_holds_and [simp]: "sql_holds (sql_and a b) \<longleftrightarrow> sql_holds a \<and> sql_holds b"
  by (auto simp: sql_holds_def sql_and_def)

lemma sql_holds_or [simp]: "sql_holds (sql_or a b) \<longleftrightarrow> sql_holds a \<or> sql_holds b"
  by (auto simp: sql_holds_def sql_or_def)

lemma sql_holds_is_null [simp]: "sql_holds (is_null a) \<longleftrightarrow> a = None"
  by (simp add: is_null_def)

lemma sql_holds_is_not_null [simp]: "sql_holds (is_not_null a) \<longleftrightarrow> a \<noteq> None"
  by (simp add: is_not_null_def)

lemma sql_holds_eq [simp]: "sql_holds (sql_eq a b) \<longleftrightarrow> a \<noteq> None \<and> a = b"
  by (auto simp: sql_eq_def sql_cmp_def split: option.splits)

lemma sql_holds_not_eq [simp]:
  "sql_holds (sql_not (sql_eq a b)) \<longleftrightarrow> a \<noteq> None \<and> b \<noteq> None \<and> a \<noteq> b"
  by (auto simp: sql_not_def sql_eq_def sql_cmp_def split: option.splits)

lemma sql_holds_lt [simp]:
  "sql_holds (sql_lt a b) \<longleftrightarrow> (\<exists>x y. a = Some x \<and> b = Some y \<and> word_sless x y)"
  by (auto simp: sql_lt_def sql_cmp_def split: option.splits)

lemma sql_holds_le [simp]:
  "sql_holds (sql_le a b) \<longleftrightarrow> (\<exists>x y. a = Some x \<and> b = Some y \<and> word_sle x y)"
  by (auto simp: sql_le_def sql_cmp_def split: option.splits)

lemma sql_holds_ge [simp]: "sql_holds (sql_ge a b) \<longleftrightarrow> sql_holds (sql_le b a)"
  by (simp add: sql_ge_def)

subsection \<open>Lemmas on row operations\<close>

lemma set_sql_where [simp]: "set (sql_where c rows) = {r \<in> set rows. sql_holds (c r)}"
  by (auto simp: sql_where_def)

lemma sql_where_simps [simp]:
  "sql_where c [] = []"
  "sql_where c (r # rs) = (if sql_holds (c r) then r # sql_where c rs else sql_where c rs)"
  by (simp_all add: sql_where_def)

lemma sql_holds_opt_cond [simp]:
  "sql_holds (opt_cond arg c) \<longleftrightarrow> (\<forall>a. arg = Some a \<longrightarrow> sql_holds (c a))"
  by (auto simp: opt_cond_def split: option.splits)

lemma sql_holds_all [simp]: "sql_holds (sql_all cs) \<longleftrightarrow> (\<forall>c \<in> set cs. sql_holds c)"
  by (induction cs) (auto simp: sql_all_def)

lemma set_left_join:
  "set (left_join on ls rs) =
     {(l, Some r) | l r. l \<in> set ls \<and> r \<in> set rs \<and> sql_holds (on l r)} \<union>
     {(l, None) | l. l \<in> set ls \<and> (\<forall>r \<in> set rs. \<not> sql_holds (on l r))}"
  by (auto simp: left_join_def Let_def sql_where_def filter_empty_conv)

lemma set_inner_join:
  "set (inner_join on ls rs) = {(l, r). l \<in> set ls \<and> r \<in> set rs \<and> sql_holds (on l r)}"
  by (auto simp: inner_join_def)

lemma set_sql_distinct [simp]: "set (sql_distinct rows) = set rows"
  by (induction rows rule: sql_distinct.induct) auto

lemma distinct_sql_distinct [simp]: "distinct (sql_distinct rows)"
  by (induction rows rule: sql_distinct.induct) auto

lemma set_order_desc [simp]: "set (order_desc c rows) = set rows"
  by (simp add: order_desc_def)

lemma distinct_order_desc [simp]: "distinct (order_desc c rows) = distinct rows"
  by (simp add: order_desc_def)

lemma mset_order_desc [simp]: "mset (order_desc c rows) = mset rows"
  by (simp add: order_desc_def)

lemma sorted_order_desc: "sorted (map (\<lambda>r. desc_key (c r)) (order_desc c rows))"
  by (simp add: order_desc_def)

lemma set_paginate_subset: "set (paginate off l rows) \<subseteq> set rows"
  by (auto simp: paginate_def Let_def split: option.splits if_splits
      dest: in_set_takeD in_set_dropD)

lemma paginate_None [simp]: "paginate None l rows = rows" "paginate off None rows = rows"
  by (auto simp: paginate_def split: option.splits)

lemma first_row_Some: "first_row rows = Some r \<Longrightarrow> r \<in> set rows"
  by (auto simp: first_row_def split: list.splits)

lemma first_row_None: "first_row rows = None \<longleftrightarrow> rows = []"
  by (auto simp: first_row_def split: list.splits)

lemma find_row_Some: "find_row key k rows = Some r \<Longrightarrow> r \<in> set rows \<and> key r = k"
  by (auto simp: find_row_def dest!: first_row_Some)

lemma find_row_None: "find_row key k rows = None \<longleftrightarrow> k \<notin> key ` set rows"
  by (auto simp: find_row_def first_row_None filter_empty_conv)

lemma set_update_rows: "set (update_rows p f rows) = (\<lambda>r. if p r then f r else r) ` set rows"
  by (simp add: update_rows_def)

lemma map_update_rows [simp]: "(\<And>r. k (f r) = k r) \<Longrightarrow> map k (update_rows p f rows) = map k rows"
  by (simp add: update_rows_def)

lemma length_update_rows [simp]: "length (update_rows p f rows) = length rows"
  by (simp add: update_rows_def)

text \<open>A \<open>SELECT DISTINCT\<close> of the left rows of a join, restricted to rows whose key is unique,
  is the left table filtered by the existence of a joined row that meets the condition.\<close>

lemma sql_distinct_id: "distinct rows \<Longrightarrow> sql_distinct rows = rows"
proof (induction rows rule: sql_distinct.induct)
  case (2 r rs)
  then have "filter (\<lambda>x. x \<noteq> r) rs = rs"
    by (simp add: filter_id_conv) blast
  with 2 show ?case by simp
qed simp

lemma sql_distinct_append_replicate:
  "sql_distinct (replicate n r @ rs) =
     (if n = 0 then sql_distinct rs else r # sql_distinct (filter (\<lambda>x. x \<noteq> r) rs))"
proof (cases n)
  case (Suc m)
  have "filter (\<lambda>x. x \<noteq> r) (replicate m r) = []"
    by (induction m) auto
  with Suc show ?thesis by simp
qed simp

lemma sql_distinct_concat_map:
  assumes "distinct ls"
    and "\<And>l. l \<in> set ls \<Longrightarrow> \<exists>n. g l = replicate n l"
  shows "sql_distinct (concat (map g ls)) = filter (\<lambda>l. g l \<noteq> []) ls"
  using assms
proof (induction ls)
  case (Cons l ls)
  obtain n where n: "g l = replicate n l"
    using Cons.prems(2) by force
  have "x \<noteq> l" if "x \<in> set (concat (map g ls))" for x
  proof -
    from that obtain l' where l': "l' \<in> set ls" "x \<in> set (g l')" by auto
    with Cons.prems(2) have "x = l'" by (metis in_set_replicate list.set_intros(2))
    with l' Cons.prems(1) show ?thesis by auto
  qed
  then have "filter (\<lambda>x. x \<noteq> l) (concat (map g ls)) = concat (map g ls)"
    by (simp add: filter_id_conv)
  with n Cons show ?case
    by (auto simp: sql_distinct_append_replicate)
qed simp

lemma sql_distinct_select:
  assumes "distinct ls" and "\<And>l r. l \<in> set ls \<Longrightarrow> r \<in> set (g l) \<Longrightarrow> sel r = l"
  shows "sql_distinct (map sel (sql_where c (concat (map g ls)))) =
           filter (\<lambda>l. \<exists>r \<in> set (g l). sql_holds (c r)) ls"
proof -
  have *: "map sel (sql_where c (concat (map g ls))) = concat (map (\<lambda>l. map sel (sql_where c (g l))) ls)"
    by (simp add: sql_where_def filter_concat map_concat comp_def)
  have "\<exists>n. map sel (sql_where c (g l)) = replicate n l" if "l \<in> set ls" for l
  proof -
    have "map sel (sql_where c (g l)) = map (\<lambda>_. l) (sql_where c (g l))"
      using assms(2) [OF that] by (intro map_cong) auto
    then show ?thesis by (auto simp: map_replicate_const)
  qed
  with assms(1) have "sql_distinct (map sel (sql_where c (concat (map g ls)))) =
      filter (\<lambda>l. map sel (sql_where c (g l)) \<noteq> []) ls"
    unfolding * by (rule sql_distinct_concat_map)
  also have "\<dots> = filter (\<lambda>l. \<exists>r \<in> set (g l). sql_holds (c r)) ls"
    by (rule filter_cong) (auto simp: sql_where_def filter_empty_conv)
  finally show ?thesis .
qed

lemma left_join_concat: "left_join on ls rs = concat (map (\<lambda>l. left_join on [l] rs) ls)"
  by (simp add: left_join_def)

lemma left_join_append: "left_join on (ls @ ms) rs = left_join on ls rs @ left_join on ms rs"
  by (simp add: left_join_def)

lemma inner_join_append: "inner_join on (ls @ ms) rs = inner_join on ls rs @ inner_join on ms rs"
  by (simp add: inner_join_def)

lemma left_join_Nil [simp]: "left_join on [] rs = []"
  by (simp add: left_join_def)

lemma inner_join_Nil [simp]: "inner_join on [] rs = []"
  by (simp add: inner_join_def)

lemma left_join2_concat:
  "left_join on2 (left_join on1 ls rs) qs =
     concat (map (\<lambda>l. left_join on2 (left_join on1 [l] rs) qs) ls)"
proof (induction ls)
  case (Cons l ls)
  have "left_join on1 (l # ls) rs = left_join on1 [l] rs @ left_join on1 ls rs"
    using left_join_append [of on1 "[l]" ls rs] by simp
  with Cons show ?case by (simp add: left_join_append)
qed simp

lemma inner_join2_concat:
  "inner_join on2 (inner_join on1 ls rs) qs =
     concat (map (\<lambda>l. inner_join on2 (inner_join on1 [l] rs) qs) ls)"
proof (induction ls)
  case (Cons l ls)
  have "inner_join on1 (l # ls) rs = inner_join on1 [l] rs @ inner_join on1 ls rs"
    using inner_join_append [of on1 "[l]" ls rs] by simp
  with Cons show ?case by (simp add: inner_join_append)
qed simp

text \<open>\<open>SELECT DISTINCT l.* FROM ls l LEFT JOIN rs LEFT JOIN qs WHERE c\<close> keeps the rows of \<open>ls\<close>
  that some joined row accepts, in their order; the same for inner joins.\<close>

lemma select_left_join2:
  assumes "distinct ls"
  shows "sql_distinct (map (fst \<circ> fst) (sql_where c (left_join on2 (left_join on1 ls rs) qs))) =
           filter (\<lambda>l. \<exists>r q. ((l, r), q) \<in> set (left_join on2 (left_join on1 ls rs) qs) \<and>
                           sql_holds (c ((l, r), q))) ls"
proof -
  let ?g = "\<lambda>l. left_join on2 (left_join on1 [l] rs) qs"
  have sel: "(fst \<circ> fst) r = l" if "r \<in> set (?g l)" for l r
    using that by (auto simp: set_left_join)
  have "sql_distinct (map (fst \<circ> fst) (sql_where c (left_join on2 (left_join on1 ls rs) qs))) =
          filter (\<lambda>l. \<exists>r \<in> set (?g l). sql_holds (c r)) ls"
    unfolding left_join2_concat [of on2 on1 ls] by (rule sql_distinct_select [OF assms]) (rule sel)
  also have "\<dots> = filter (\<lambda>l. \<exists>r q. ((l, r), q) \<in> set (left_join on2 (left_join on1 ls rs) qs) \<and>
                           sql_holds (c ((l, r), q))) ls"
    by (rule filter_cong) (auto simp: set_left_join)
  finally show ?thesis .
qed

lemma select_inner_join2:
  assumes "distinct ls"
  shows "sql_distinct (map (fst \<circ> fst) (sql_where c (inner_join on2 (inner_join on1 ls rs) qs))) =
           filter (\<lambda>l. \<exists>r \<in> set rs. \<exists>q \<in> set qs. sql_holds (on1 l r) \<and> sql_holds (on2 (l, r) q) \<and>
                           sql_holds (c ((l, r), q))) ls"
proof -
  let ?g = "\<lambda>l. inner_join on2 (inner_join on1 [l] rs) qs"
  have sel: "(fst \<circ> fst) r = l" if "r \<in> set (?g l)" for l r
    using that by (auto simp: set_inner_join)
  have "sql_distinct (map (fst \<circ> fst) (sql_where c (inner_join on2 (inner_join on1 ls rs) qs))) =
          filter (\<lambda>l. \<exists>r \<in> set (?g l). sql_holds (c r)) ls"
    unfolding inner_join2_concat [of on2 on1 ls] by (rule sql_distinct_select [OF assms]) (rule sel)
  also have "\<dots> = filter (\<lambda>l. \<exists>r \<in> set rs. \<exists>q \<in> set qs. sql_holds (on1 l r) \<and>
                           sql_holds (on2 (l, r) q) \<and> sql_holds (c ((l, r), q))) ls"
    by (rule filter_cong) (auto simp: set_inner_join)
  finally show ?thesis .
qed

subsection \<open>The interface of a table\<close>

text \<open>
  What a component relies on when it reads or writes one table of the database: replacing its
  rows is seen by the next read, and in a database that meets its constraints the rows are
  told apart by their key.
\<close>

locale db_table =
  fixes rows :: "'d \<Rightarrow> 'r list"
    and put :: "('r list \<Rightarrow> 'r list) \<Rightarrow> 'd \<Rightarrow> 'd"
    and key :: "'r \<Rightarrow> 'k"
    and ok :: "'d \<Rightarrow> bool"
  assumes rows_put: "rows (put f d) = f (rows d)"
    and key_unique: "ok d \<Longrightarrow> distinct (map key (rows d))"
begin

lemma row_eqI:
  assumes "ok d" and "r \<in> set (rows d)" and "r' \<in> set (rows d)" and "key r = key r'"
  shows "r = r'"
  using key_unique [OF assms(1)] assms(2-4) by (meson distinct_map inj_onD)

lemma distinct_rows: "ok d \<Longrightarrow> distinct (rows d)"
  using key_unique by (blast dest: distinct_map [THEN iffD1])

lemma find_row_iff:
  assumes "ok d"
  shows "find_row key k (rows d) = Some r \<longleftrightarrow> r \<in> set (rows d) \<and> key r = k"
proof
  assume r: "r \<in> set (rows d) \<and> key r = k"
  then have "find_row key k (rows d) \<noteq> None"
    by (auto simp: find_row_None)
  then obtain r' where "find_row key k (rows d) = Some r'" by blast
  with r find_row_Some [OF this] row_eqI [OF assms] show "find_row key k (rows d) = Some r"
    by metis
qed (rule find_row_Some)

lemma find_row_update:
  assumes "ok d" and "\<And>r. key (f r) = key r" and "find_row key k (rows d) = Some r"
  shows "find_row key k (rows (put (update_rows p f) d)) = Some (if p r then f r else r)"
proof -
  have "filter (\<lambda>x. key x = k) (map (\<lambda>x. if p x then f x else x) xs) =
        map (\<lambda>x. if p x then f x else x) (filter (\<lambda>x. key x = k) xs)" for xs
    by (rule filter_map_if) (simp add: assms(2))
  with assms(3) show ?thesis
    by (auto simp: rows_put update_rows_def find_row_def first_row_def split: list.splits)
qed

lemma find_row_insert:
  assumes "ok d" and "key r \<notin> key ` set (rows d)"
  shows "find_row key (key r) (rows (put (\<lambda>xs. xs @ [r]) d)) = Some r"
proof -
  from assms(2) have "filter (\<lambda>x. key x = key r) (rows d) = []"
    by (simp add: filter_empty_conv image_iff) metis
  then show ?thesis
    by (simp add: rows_put find_row_def first_row_def)
qed

lemma find_row_delete:
  "find_row key k (rows (put (filter (\<lambda>x. key x \<noteq> k)) d)) = None"
  by (auto simp: rows_put find_row_None)

end

end
