(* ===== verification/Externals.thy ===== *)
theory Externals
  imports Sql
begin

section \<open>Third-party data and operations\<close>

text \<open>
  The wallet calls the MobileCoin crates (keys, transaction outputs, memos, the ledger
  database), Diesel and a few encoders. None of that code is part of the repository, so here
  it is a set of parameters: opaque values are byte strings, and the functions the wallet
  calls are the fields of the records \<open>externals\<close> (cryptography and encoders) and
  \<open>ledger_db\<close> (the ledger). Every definition of the model that needs them takes the record
  as an argument; laws such as ``decoding inverts encoding'' are stated as hypotheses where
  a theorem uses them.
\<close>

type_synonym ristretto_public = bytes
type_synonym compressed_public = bytes
type_synonym private_key = bytes
type_synonym account_key = bytes
type_synonym view_account_key = bytes
type_synonym public_address = bytes
type_synonym key_image = bytes
type_synonym encrypted_memo = bytes
type_synonym confirmation_number = bytes
type_synonym membership_proof = bytes
type_synonym ext_error = string

text \<open>\<open>mc_transaction_core::Amount\<close> and the fields of \<open>TxOut\<close> the wallet reads.\<close>

record amount =
  am_value :: u64
  am_token_id :: u64

record tx_out =
  to_masked_amount :: "bytes option"
  to_target_key :: compressed_public
  to_public_key :: compressed_public
  to_e_fog_hint :: bytes
  to_e_memo :: "encrypted_memo option"

text \<open>\<open>MemoPayload\<close>: two type bytes and the memo data; \<open>MemoType\<close>: the decoded memo, with the
  values the wallet reads from it.\<close>

record memo_payload =
  mp_type :: "u8 \<times> u8"
  mp_data :: bytes

datatype memo_type =
    MT_AuthenticatedSender string
  | MT_AuthenticatedSenderWithPaymentIntentId string u64
  | MT_AuthenticatedSenderWithPaymentRequestId string u64
  | MT_Destination string u8 u64 u64
  | MT_DestinationWithPaymentRequestId string u8 u64 u64 u64
  | MT_DestinationWithPaymentIntentId string u8 u64 u64 u64
  | MT_Other

text \<open>The messages a b58 \<open>PrintableWrapper\<close> carries.\<close>

record payment_request_msg =
  pr_public_address :: bytes
  pr_value :: u64
  pr_token_id :: u64
  pr_memo :: string

record transfer_payload_msg =
  tp_root_entropy :: bytes
  tp_bip39_entropy :: bytes
  tp_tx_out_public_key :: bytes
  tp_memo :: string

datatype printable_wrapper =
    PW_Empty
  | PW_PublicAddress bytes
  | PW_PaymentRequest payment_request_msg
  | PW_TransferPayload transfer_payload_msg

text \<open>Constants of the crates.\<close>

record ext_consts =
  x_MAX_INPUTS :: u64
  x_MAX_OUTPUTS :: u64
  x_RING_SIZE :: nat
  x_DEFAULT_SUBADDRESS_INDEX :: u64
  x_CHANGE_SUBADDRESS_INDEX :: u64
  x_MOB_MINIMUM_FEE :: u64
  x_MOB_ID :: u64
  x_mt_authenticated_sender :: "u8 \<times> u8"
  x_mt_authenticated_sender_payment_intent :: "u8 \<times> u8"
  x_mt_authenticated_sender_payment_request :: "u8 \<times> u8"
  x_mt_destination :: "u8 \<times> u8"
  x_mt_destination_payment_intent :: "u8 \<times> u8"
  x_mt_destination_payment_request :: "u8 \<times> u8"

text \<open>Digests and text encodings.\<close>

record ext_text = ext_consts +
  x_tx_out_digest32 :: "tx_out \<Rightarrow> bytes"
  x_address_digest32 :: "public_address \<Rightarrow> bytes"
  x_hex_encode :: "bytes \<Rightarrow> string"
  x_hex_fmt :: "bytes \<Rightarrow> string"
  x_base64_decode :: "string \<Rightarrow> ext_error + bytes"
  x_b58_encode :: "printable_wrapper \<Rightarrow> ext_error + string"
  x_b58_decode :: "string \<Rightarrow> ext_error + printable_wrapper"
  x_debug :: "bytes \<Rightarrow> string"

text \<open>Serialization.\<close>

record ext_serial = ext_text +
  x_encode_compressed :: "compressed_public \<Rightarrow> bytes"
  x_decode_compressed :: "bytes \<Rightarrow> ext_error + compressed_public"
  x_decode_ristretto :: "bytes \<Rightarrow> ext_error + ristretto_public"
  x_encode_fog_hint :: "bytes \<Rightarrow> bytes"
  x_encode_key_image :: "key_image \<Rightarrow> bytes"
  x_decode_key_image :: "bytes \<Rightarrow> ext_error + key_image"
  x_encode_confirmation :: "confirmation_number \<Rightarrow> bytes"
  x_decode_confirmation :: "bytes \<Rightarrow> ext_error + confirmation_number"
  x_encode_account_key :: "account_key \<Rightarrow> bytes"
  x_decode_account_key :: "bytes \<Rightarrow> ext_error + account_key"
  x_encode_view_account_key :: "view_account_key \<Rightarrow> bytes"
  x_decode_view_account_key :: "bytes \<Rightarrow> ext_error + view_account_key"
  x_shared_secret_encode :: "ristretto_public \<Rightarrow> bytes"
  x_shared_secret_bytes :: "ristretto_public \<Rightarrow> bytes"
  x_public_address_proto :: "public_address \<Rightarrow> bytes"
  x_public_address_try_from :: "bytes \<Rightarrow> ext_error + public_address"
  x_compressed_try_from_proto :: "bytes \<Rightarrow> ext_error + compressed_public"

text \<open>Keys.\<close>

record ext_keys = ext_serial +
  x_ristretto_try_from :: "compressed_public \<Rightarrow> ext_error + ristretto_public"
  x_compressed_leq :: "compressed_public \<Rightarrow> compressed_public \<Rightarrow> bool"
  x_compressed_from :: "ristretto_public \<Rightarrow> compressed_public"
  x_ristretto_bytes :: "ristretto_public \<Rightarrow> bytes"
  x_subaddress :: "account_key \<Rightarrow> u64 \<Rightarrow> public_address"
  x_view_subaddress :: "view_account_key \<Rightarrow> u64 \<Rightarrow> public_address"
  x_subaddress_spend_private :: "account_key \<Rightarrow> u64 \<Rightarrow> private_key"
  x_view_private_key :: "account_key \<Rightarrow> private_key"
  x_vk_view_private_key :: "view_account_key \<Rightarrow> private_key"
  x_view_account_key_from :: "account_key \<Rightarrow> view_account_key"
  x_spend_public_key :: "public_address \<Rightarrow> ristretto_public"
  x_account_key_from_mnemonic :: "bytes \<Rightarrow> account_key"
  x_account_key_with_fog :: "account_key \<Rightarrow> string \<Rightarrow> string \<Rightarrow> bytes \<Rightarrow> account_key"
  x_mnemonic_entropy :: "bytes \<Rightarrow> bytes"
  x_mnemonic_from_entropy :: "bytes \<Rightarrow> ext_error + bytes"
  x_account_key_from_root :: "bytes \<Rightarrow> string \<Rightarrow> string \<Rightarrow> bytes \<Rightarrow> account_key"
  x_get_tx_out_shared_secret :: "private_key \<Rightarrow> ristretto_public \<Rightarrow> ristretto_public"
  x_recover_public_subaddress_spend_key ::
    "private_key \<Rightarrow> ristretto_public \<Rightarrow> ristretto_public \<Rightarrow> ristretto_public"
  x_recover_onetime_private_key ::
    "ristretto_public \<Rightarrow> private_key \<Rightarrow> private_key \<Rightarrow> private_key"
  x_key_image_from :: "private_key \<Rightarrow> key_image"
  x_confirmation_validate :: "confirmation_number \<Rightarrow> ristretto_public \<Rightarrow> private_key \<Rightarrow> bool"

text \<open>Amounts and memos.\<close>

record externals = ext_keys +
  x_amount_get_value :: "bytes \<Rightarrow> ristretto_public \<Rightarrow> ext_error + amount"
  x_memo_decrypt :: "encrypted_memo \<Rightarrow> ristretto_public \<Rightarrow> memo_payload"
  x_unused_memo :: memo_payload
  x_memo_type_try_from :: "memo_payload \<Rightarrow> ext_error + memo_type"

text \<open>The ledger database: \<open>mc_ledger_db::LedgerDB\<close> and the \<open>Ledger\<close> trait it implements.\<close>

datatype ledger_error = LedgerNotFound | LedgerOther string

record block_contents =
  bc_outputs :: "tx_out list"
  bc_key_images :: "key_image list"

record ledger_db =
  l_num_blocks :: "ledger_error + u64"
  l_num_txos :: "ledger_error + u64"
  l_get_block_contents :: "u64 \<Rightarrow> ledger_error + block_contents"
  l_contains_key_image :: "key_image \<Rightarrow> ledger_error + bool"
  l_get_tx_out_index_by_public_key :: "compressed_public \<Rightarrow> ledger_error + u64"
  l_get_block_index_by_tx_out_index :: "u64 \<Rightarrow> ledger_error + u64"
  l_get_tx_out_by_index :: "u64 \<Rightarrow> ledger_error + tx_out"
  l_get_tx_out_index_by_hash :: "tx_out \<Rightarrow> ledger_error + u64"
  l_get_tx_out_proof_of_memberships :: "u64 list \<Rightarrow> ledger_error + membership_proof list"
  l_check_key_image :: "key_image \<Rightarrow> ledger_error + u64 option"

end
