(* ===== verification/Models.thy ===== *)
theory Models
  imports Externals
begin

section \<open>The wallet database: rows, tables, errors, statements\<close>

text \<open>
  The structs of \<open>db/models.rs\<close> as records, the error enum of \<open>db/wallet_db_error.rs\<close>, and the
  database as one list of rows per table. A statement that writes is checked against the
  constraints of the migrations (primary keys, unique indexes, and foreign keys, which
  \<open>wallet_db.rs\<close> switches on); a violation is an error and leaves the database as it was.
\<close>

subsection \<open>Rows\<close>

record account =
  acct_id :: string
  acct_account_key :: bytes
  acct_entropy :: "bytes option"
  acct_key_derivation_version :: i32
  acct_first_block_index :: i64
  acct_next_block_index :: i64
  acct_import_block_index :: "i64 option"
  acct_name :: string
  acct_fog_enabled :: bool
  acct_view_only :: bool
  acct_managed_by_hardware_wallet :: bool
  acct_resyncing :: bool
  acct_require_spend_subaddress :: bool

record txo =
  txo_id :: string
  txo_account_id :: "string option"
  txo_value :: i64
  txo_token_id :: i64
  txo_target_key :: bytes
  txo_public_key :: bytes
  txo_e_fog_hint :: bytes
  txo_subaddress_index :: "i64 option"
  txo_key_image :: "bytes option"
  txo_received_block_index :: "i64 option"
  txo_spent_block_index :: "i64 option"
  txo_confirmation :: "bytes option"
  txo_shared_secret :: "bytes option"
  txo_memo_type :: "i32 option"
  txo_is_synced_to_t3 :: bool

record assigned_subaddress =
  asub_public_address_b58 :: string
  asub_account_id :: string
  asub_subaddress_index :: i64
  asub_comment :: string
  asub_spend_public_key :: bytes

record transaction_log =
  tl_id :: string
  tl_account_id :: string
  tl_fee_value :: i64
  tl_fee_token_id :: i64
  tl_submitted_block_index :: "i64 option"
  tl_tombstone_block_index :: "i64 option"
  tl_finalized_block_index :: "i64 option"
  tl_comment :: string
  tl_tx :: bytes
  tl_failed :: bool

record transaction_input_txo =
  tin_transaction_log_id :: string
  tin_txo_id :: string

record transaction_output_txo =
  tout_transaction_log_id :: string
  tout_txo_id :: string
  tout_recipient_public_address_b58 :: string
  tout_is_change :: bool

record gift_code =
  gc_id :: i32
  gc_gift_code_b58 :: string
  gc_value :: i64

record authenticated_sender_memo =
  asm_txo_id :: string
  asm_sender_address_hash :: string
  asm_payment_request_id :: "i64 option"
  asm_payment_intent_id :: "i64 option"

record destination_memo =
  dm_txo_id :: string
  dm_recipient_address_hash :: string
  dm_num_recipients :: i32
  dm_fee :: i64
  dm_total_outlay :: i64
  dm_payment_request_id :: "i64 option"
  dm_payment_intent_id :: "i64 option"

subsection \<open>Errors\<close>

datatype diesel_error = DieselNotFound | UniqueViolation | ForeignKeyViolation | DatabaseLocked

datatype gift_code_db_error = GiftCodeNotFound string

datatype b58_error =
    NotPrintableWrapper
  | NotPublicAddress
  | NotPaymentRequest
  | NotTransferPayload
  | TransferPayloadRequiresSingleEntropy
  | InvalidEntropy
  | B58_ProtoConversion ext_error
  | B58_PrintableWrapper ext_error

datatype (plugins only: code size) wallet_db_error =
    WalletFunctionsDisabled
  | ViewOnlyAccountAlreadyExists string
  | AccountAlreadyExists string
  | Diesel diesel_error
  | RocketDB ext_error
  | DuplicateEntries string
  | B58Encode ext_error
  | B58Decode
  | MultipleAccountIDsInTransaction
  | TransactionLacksRecipient
  | TransactionLacksAccount
  | ProstDecode ext_error
  | UnexpectedNumberOfChangeOutputs
  | MissingKeyImage
  | NullSubaddressOnReceived
  | NoSpendableTxos string
  | InsufficientFundsFragmentedTxos
  | InsufficientFunds string
  | InsufficientFundsUnderMaxSpendable string
  | InvalidArgument string
  | UnexpectedTransactionTxoType string
  | UnexpectedAccountTxoStatus string
  | UnexpectedNumberOfAccountsAssociatedWithTxo string
  | TransactionMismatch
  | AccountNotFound string
  | AssignedSubaddressNotFound string
  | TxoNotFound string
  | TransactionLogNotFound string
  | AccountTxoStatusNotFound string
  | TransactionValueExceedsMax
  | TxoExistsForAnotherAccount string
  | TxoAssociatedWithTooManyAccounts string
  | MalformedTxoDatabaseEntry
  | AccountSecretsDoNotMatch
  | InsufficientSecretsToCreateAccount
  | GiftCodeError gift_code_db_error
  | B58 b58_error
  | LedgerDB ledger_error
  | ProtoConversion ext_error
  | Slip10Key ext_error
  | Base64Decode ext_error
  | SubaddressesNotSupportedForFOGEnabledAccounts
  | KeyError ext_error
  | InvalidTxoStatus string
  | ExpectedTxOutAsOutlay
  | MissingTxoMembershipProof string
  | MissingKeyImageForInputTxo string
  | ReqwestError ext_error
  | Dalek ext_error
  | AccountKeyNotAvailableForViewOnlyAccount
  | DecodeSlice ext_error
  | MemoDecoding ext_error

subsection \<open>The database\<close>

record db =
  db_accounts :: "account list"
  db_txos :: "txo list"
  db_assigned_subaddresses :: "assigned_subaddress list"
  db_transaction_logs :: "transaction_log list"
  db_transaction_input_txos :: "transaction_input_txo list"
  db_transaction_output_txos :: "transaction_output_txo list"
  db_authenticated_sender_memos :: "authenticated_sender_memo list"
  db_destination_memos :: "destination_memo list"
  db_gift_codes :: "gift_code list"

definition empty_db :: db where
  "empty_db = \<lparr>db_accounts = [], db_txos = [], db_assigned_subaddresses = [],
     db_transaction_logs = [], db_transaction_input_txos = [], db_transaction_output_txos = [],
     db_authenticated_sender_memos = [], db_destination_memos = [], db_gift_codes = []\<rparr>"

type_synonym 'a db_read = "db \<Rightarrow> wallet_db_error + 'a"
type_synonym 'a db_action = "(db, wallet_db_error, 'a) action"

definition tin_key :: "transaction_input_txo \<Rightarrow> string \<times> string" where
  "tin_key r = (tin_transaction_log_id r, tin_txo_id r)"

definition tout_key :: "transaction_output_txo \<Rightarrow> string \<times> string" where
  "tout_key r = (tout_transaction_log_id r, tout_txo_id r)"

definition asub_index_key :: "assigned_subaddress \<Rightarrow> string \<times> i64" where
  "asub_index_key r = (asub_account_id r, asub_subaddress_index r)"

text \<open>Primary keys and unique indexes.\<close>

definition uniq_ok :: "db \<Rightarrow> bool" where
  "uniq_ok d \<longleftrightarrow>
     distinct (map acct_id (db_accounts d)) \<and>
     distinct (map txo_id (db_txos d)) \<and>
     distinct (map asub_public_address_b58 (db_assigned_subaddresses d)) \<and>
     distinct (map asub_spend_public_key (db_assigned_subaddresses d)) \<and>
     distinct (map asub_index_key (db_assigned_subaddresses d)) \<and>
     distinct (map tl_id (db_transaction_logs d)) \<and>
     distinct (map tin_key (db_transaction_input_txos d)) \<and>
     distinct (map tout_key (db_transaction_output_txos d)) \<and>
     distinct (map asm_txo_id (db_authenticated_sender_memos d)) \<and>
     distinct (map dm_txo_id (db_destination_memos d)) \<and>
     distinct (map gc_id (db_gift_codes d))"

text \<open>Foreign keys.\<close>

definition fk_ok :: "db \<Rightarrow> bool" where
  "fk_ok d \<longleftrightarrow>
     (let accts = acct_id ` set (db_accounts d);
          txs = txo_id ` set (db_txos d);
          logs = tl_id ` set (db_transaction_logs d)
      in asub_account_id ` set (db_assigned_subaddresses d) \<subseteq> accts \<and>
         Option.these (txo_account_id ` set (db_txos d)) \<subseteq> accts \<and>
         tl_account_id ` set (db_transaction_logs d) \<subseteq> accts \<and>
         tin_transaction_log_id ` set (db_transaction_input_txos d) \<subseteq> logs \<and>
         tin_txo_id ` set (db_transaction_input_txos d) \<subseteq> txs \<and>
         tout_transaction_log_id ` set (db_transaction_output_txos d) \<subseteq> logs \<and>
         tout_txo_id ` set (db_transaction_output_txos d) \<subseteq> txs \<and>
         asm_txo_id ` set (db_authenticated_sender_memos d) \<subseteq> txs \<and>
         dm_txo_id ` set (db_destination_memos d) \<subseteq> txs)"

definition db_ok :: "db \<Rightarrow> bool" where
  "db_ok d \<longleftrightarrow> uniq_ok d \<and> fk_ok d"

text \<open>
  \<open>execute\<close> of an insert, update or delete: the statement's new contents are kept only when
  they meet the constraints.
\<close>

definition exec_stmt :: "(db \<Rightarrow> db) \<Rightarrow> unit db_action" where
  "exec_stmt f = (\<lambda>d. let d' = f d in
     if \<not> uniq_ok d' then (Inl (Diesel UniqueViolation), d)
     else if \<not> fk_ok d' then (Inl (Diesel ForeignKeyViolation), d)
     else (Inr (), d'))"

text \<open>\<open>INSERT INTO table VALUES (row)\<close>, for a table given by its record update.\<close>

definition insert_into :: "(('r list \<Rightarrow> 'r list) \<Rightarrow> db \<Rightarrow> db) \<Rightarrow> 'r \<Rightarrow> unit db_action" where
  "insert_into put r = exec_stmt (put (\<lambda>rs. rs @ [r]))"

text \<open>\<open>UPDATE table SET ... WHERE key = k\<close>, and \<open>DELETE FROM table WHERE p\<close>.\<close>

definition update_where ::
    "(('r list \<Rightarrow> 'r list) \<Rightarrow> db \<Rightarrow> db) \<Rightarrow> ('r \<Rightarrow> bool) \<Rightarrow> ('r \<Rightarrow> 'r) \<Rightarrow> unit db_action" where
  "update_where put p f = exec_stmt (put (update_rows p f))"

definition delete_where ::
    "(('r list \<Rightarrow> 'r list) \<Rightarrow> db \<Rightarrow> db) \<Rightarrow> ('r \<Rightarrow> bool) \<Rightarrow> unit db_action" where
  "delete_where put p = exec_stmt (put (filter (\<lambda>r. \<not> p r)))"

subsection \<open>Statements keep the constraints\<close>

lemma exec_stmt_ok: "db_ok (f d) \<Longrightarrow> exec_stmt f d = (Inr (), f d)"
  by (simp add: exec_stmt_def db_ok_def Let_def)

lemma exec_stmt_Inr: "exec_stmt f d = (Inr u, d') \<longleftrightarrow> db_ok (f d) \<and> d' = f d"
  by (auto simp: exec_stmt_def db_ok_def Let_def)

lemma exec_stmt_Inl:
  "exec_stmt f d = (Inl e, d') \<Longrightarrow> d' = d \<and> \<not> db_ok (f d) \<and>
     e = Diesel (if uniq_ok (f d) then ForeignKeyViolation else UniqueViolation)"
  by (auto simp: exec_stmt_def db_ok_def Let_def split: if_splits)

lemma snd_exec_stmt: "snd (exec_stmt f d) = (if db_ok (f d) then f d else d)"
  by (auto simp: exec_stmt_def db_ok_def Let_def)

text \<open>A predicate kept by the new contents of a statement is kept by the statement.\<close>

lemma preserves_exec_stmt:
  "(\<And>d. P d \<Longrightarrow> P (f d)) \<Longrightarrow> preserves P (exec_stmt f)"
  by (auto simp: preserves_def snd_exec_stmt)

lemma preserves_db_ok_exec [preserves_intros]: "preserves db_ok (exec_stmt f)"
  by (auto simp: preserves_def snd_exec_stmt)

lemma preserves_db_ok_stmts [preserves_intros]:
  "preserves db_ok (insert_into put r)"
  "preserves db_ok (update_where put' p f)"
  "preserves db_ok (delete_where put'' q)"
  by (simp_all add: insert_into_def update_where_def delete_where_def preserves_db_ok_exec)

lemma db_ok_empty: "db_ok empty_db"
  by (simp add: db_ok_def uniq_ok_def fk_ok_def empty_db_def)

text \<open>A statement that changes no row.\<close>

lemma table_update_noop:
  "f (db_accounts d) = db_accounts d \<Longrightarrow> db_accounts_update f d = d"
  "f' (db_txos d) = db_txos d \<Longrightarrow> db_txos_update f' d = d"
  "g (db_transaction_logs d) = db_transaction_logs d \<Longrightarrow> db_transaction_logs_update g d = d"
  "h (db_authenticated_sender_memos d) = db_authenticated_sender_memos d \<Longrightarrow>
     db_authenticated_sender_memos_update h d = d"
  "h' (db_destination_memos d) = db_destination_memos d \<Longrightarrow> db_destination_memos_update h' d = d"
  by (cases d; simp)+

subsection \<open>The tables as instances of the table interface\<close>

interpretation accounts_table: db_table db_accounts db_accounts_update acct_id db_ok
  by unfold_locales (simp_all add: db_ok_def uniq_ok_def)

interpretation txos_table: db_table db_txos db_txos_update txo_id db_ok
  by unfold_locales (simp_all add: db_ok_def uniq_ok_def)

interpretation subaddresses_table:
  db_table db_assigned_subaddresses db_assigned_subaddresses_update asub_public_address_b58 db_ok
  by unfold_locales (simp_all add: db_ok_def uniq_ok_def)

interpretation subaddress_spk_table:
  db_table db_assigned_subaddresses db_assigned_subaddresses_update asub_spend_public_key db_ok
  by unfold_locales (simp_all add: db_ok_def uniq_ok_def)

interpretation subaddress_index_table:
  db_table db_assigned_subaddresses db_assigned_subaddresses_update asub_index_key db_ok
  by unfold_locales (simp_all add: db_ok_def uniq_ok_def)

interpretation logs_table: db_table db_transaction_logs db_transaction_logs_update tl_id db_ok
  by unfold_locales (simp_all add: db_ok_def uniq_ok_def)

interpretation input_txos_table:
  db_table db_transaction_input_txos db_transaction_input_txos_update tin_key db_ok
  by unfold_locales (simp_all add: db_ok_def uniq_ok_def)

interpretation output_txos_table:
  db_table db_transaction_output_txos db_transaction_output_txos_update tout_key db_ok
  by unfold_locales (simp_all add: db_ok_def uniq_ok_def)

interpretation sender_memos_table:
  db_table db_authenticated_sender_memos db_authenticated_sender_memos_update asm_txo_id db_ok
  by unfold_locales (simp_all add: db_ok_def uniq_ok_def)

interpretation destination_memos_table:
  db_table db_destination_memos db_destination_memos_update dm_txo_id db_ok
  by unfold_locales (simp_all add: db_ok_def uniq_ok_def)

interpretation gift_codes_table: db_table db_gift_codes db_gift_codes_update gc_id db_ok
  by unfold_locales (simp_all add: db_ok_def uniq_ok_def)

subsection \<open>Updates that cannot violate a constraint\<close>

lemma image_update_rows [simp]:
  "(\<And>r. k (f r) = k r) \<Longrightarrow> k ` set (update_rows p f rs) = k ` set rs"
  using map_update_rows [of k f p rs] by (metis list.set_map)

lemma db_ok_update_txos:
  assumes "db_ok d" and "\<And>r. txo_id (f r) = txo_id r" and "\<And>r. txo_account_id (f r) = txo_account_id r"
  shows "db_ok (db_txos_update (update_rows p f) d)"
  using assms by (simp add: db_ok_def uniq_ok_def fk_ok_def Let_def)

lemma db_ok_update_logs:
  assumes "db_ok d" and "\<And>r. tl_id (f r) = tl_id r" and "\<And>r. tl_account_id (f r) = tl_account_id r"
  shows "db_ok (db_transaction_logs_update (update_rows p f) d)"
  using assms by (simp add: db_ok_def uniq_ok_def fk_ok_def Let_def)

lemma db_ok_update_accounts:
  assumes "db_ok d" and "\<And>r. acct_id (f r) = acct_id r"
  shows "db_ok (db_accounts_update (update_rows p f) d)"
  using assms by (simp add: db_ok_def uniq_ok_def fk_ok_def Let_def)

lemma update_where_txos:
  assumes "db_ok d" and "\<And>r. txo_id (f r) = txo_id r" and "\<And>r. txo_account_id (f r) = txo_account_id r"
  shows "update_where db_txos_update p f d = (Inr (), db_txos_update (update_rows p f) d)"
  unfolding update_where_def by (rule exec_stmt_ok) (rule db_ok_update_txos [OF assms])

lemma update_where_logs:
  assumes "db_ok d" and "\<And>r. tl_id (f r) = tl_id r" and "\<And>r. tl_account_id (f r) = tl_account_id r"
  shows "update_where db_transaction_logs_update p f d =
           (Inr (), db_transaction_logs_update (update_rows p f) d)"
  unfolding update_where_def by (rule exec_stmt_ok) (rule db_ok_update_logs [OF assms])

lemma update_where_accounts:
  assumes "db_ok d" and "\<And>r. acct_id (f r) = acct_id r"
  shows "update_where db_accounts_update p f d =
           (Inr (), db_accounts_update (update_rows p f) d)"
  unfolding update_where_def by (rule exec_stmt_ok) (rule db_ok_update_accounts [OF assms])

subsection \<open>Deletions that cannot violate a constraint\<close>

lemma image_filter_subset: "k ` set rs \<subseteq> A \<Longrightarrow> k ` set (filter p rs) \<subseteq> A"
  by auto

lemma these_filter_subset:
  "Option.these (k ` set rs) \<subseteq> A \<Longrightarrow> Option.these (k ` set (filter p rs)) \<subseteq> A"
  by (auto simp: Option.these_def)

text \<open>A key that only kept rows have is still there after the deletion.\<close>

lemma subset_keys_filter:
  assumes "S \<subseteq> k ` set rs" and "\<And>r. r \<in> set rs \<Longrightarrow> \<not> p r \<Longrightarrow> k r \<notin> S"
  shows "S \<subseteq> k ` set (filter p rs)"
proof
  fix i assume "i \<in> S"
  with assms(1) obtain r where "r \<in> set rs" "i = k r" by blast
  with assms(2) \<open>i \<in> S\<close> show "i \<in> k ` set (filter p rs)" by auto
qed

text \<open>Nothing refers to a row of these tables.\<close>

lemma db_ok_delete_leaf:
  assumes "db_ok d"
  shows "db_ok (db_authenticated_sender_memos_update (filter p1) d)"
    and "db_ok (db_destination_memos_update (filter p2) d)"
    and "db_ok (db_transaction_input_txos_update (filter p3) d)"
    and "db_ok (db_transaction_output_txos_update (filter p4) d)"
    and "db_ok (db_assigned_subaddresses_update (filter p5) d)"
    and "db_ok (db_gift_codes_update (filter p6) d)"
  using assms
  by (simp_all add: db_ok_def uniq_ok_def fk_ok_def Let_def distinct_map_filter image_filter_subset
      del: set_filter)

lemma db_ok_delete_txos:
  assumes "db_ok d"
    and "\<And>t. t \<in> set (db_txos d) \<Longrightarrow> \<not> p t \<Longrightarrow>
           txo_id t \<notin> tin_txo_id ` set (db_transaction_input_txos d) \<and>
           txo_id t \<notin> tout_txo_id ` set (db_transaction_output_txos d) \<and>
           txo_id t \<notin> asm_txo_id ` set (db_authenticated_sender_memos d) \<and>
           txo_id t \<notin> dm_txo_id ` set (db_destination_memos d)"
  shows "db_ok (db_txos_update (filter p) d)"
proof -
  from assms(1) have "uniq_ok (db_txos_update (filter p) d)"
    by (simp add: db_ok_def uniq_ok_def distinct_map_filter)
  moreover have "fk_ok (db_txos_update (filter p) d)"
    using assms(1) unfolding db_ok_def fk_ok_def Let_def
    by (simp add: these_filter_subset del: set_filter)
       (elim conjE, intro conjI subset_keys_filter; (assumption | simp add: assms(2)))
  ultimately show ?thesis by (simp add: db_ok_def)
qed

lemma db_ok_delete_logs:
  assumes "db_ok d"
    and "\<And>l. l \<in> set (db_transaction_logs d) \<Longrightarrow> \<not> p l \<Longrightarrow>
           tl_id l \<notin> tin_transaction_log_id ` set (db_transaction_input_txos d) \<and>
           tl_id l \<notin> tout_transaction_log_id ` set (db_transaction_output_txos d)"
  shows "db_ok (db_transaction_logs_update (filter p) d)"
proof -
  from assms(1) have "uniq_ok (db_transaction_logs_update (filter p) d)"
    by (simp add: db_ok_def uniq_ok_def distinct_map_filter)
  moreover have "fk_ok (db_transaction_logs_update (filter p) d)"
    using assms(1) unfolding db_ok_def fk_ok_def Let_def
    by (simp add: image_filter_subset del: set_filter)
       (elim conjE, intro conjI subset_keys_filter; (assumption | simp add: assms(2)))
  ultimately show ?thesis by (simp add: db_ok_def)
qed

lemma db_ok_delete_accounts:
  assumes "db_ok d"
    and "\<And>a. a \<in> set (db_accounts d) \<Longrightarrow> \<not> p a \<Longrightarrow>
           acct_id a \<notin> asub_account_id ` set (db_assigned_subaddresses d) \<and>
           acct_id a \<notin> Option.these (txo_account_id ` set (db_txos d)) \<and>
           acct_id a \<notin> tl_account_id ` set (db_transaction_logs d)"
  shows "db_ok (db_accounts_update (filter p) d)"
proof -
  from assms(1) have "uniq_ok (db_accounts_update (filter p) d)"
    by (simp add: db_ok_def uniq_ok_def distinct_map_filter)
  moreover have "fk_ok (db_accounts_update (filter p) d)"
    using assms(1) unfolding db_ok_def fk_ok_def Let_def
    by (simp del: set_filter)
       (elim conjE, intro conjI subset_keys_filter; (assumption | simp add: assms(2)))
  ultimately show ?thesis by (simp add: db_ok_def)
qed

end
