(* ===== verification/B58_Codes.thy ===== *)
theory B58_Codes
  imports Models
begin

section \<open>Base-58 codes\<close>

text \<open>
  \<open>util/b58/mod.rs\<close>: public addresses, payment requests and transfer payloads as b58 strings.
  The protobuf wrapper and its b58 text are third-party code (\<open>x_b58_encode\<close>, \<open>x_b58_decode\<close>);
  the wallet's own work is to choose and check the wrapper's variant and to rebuild the keys.
\<close>

datatype printable_wrapper_type = PWT_PublicAddress | PWT_PaymentRequest | PWT_TransferPayload

record decoded_payment_request =
  dpr_public_address :: public_address
  dpr_value :: u64
  dpr_token_id :: u64
  dpr_memo :: string

record decoded_transfer_payload =
  dtp_root_entropy :: "bytes option"
  dtp_bip39_entropy :: "bytes option"
  dtp_account_key :: account_key
  dtp_txo_public_key :: compressed_public
  dtp_memo :: string

definition b58_decode_wrapper :: "externals \<Rightarrow> string \<Rightarrow> b58_error + printable_wrapper" where
  "b58_decode_wrapper x s = map_err B58_PrintableWrapper (x_b58_decode x s)"

definition b58_printable_wrapper_type ::
    "externals \<Rightarrow> string \<Rightarrow> b58_error + printable_wrapper_type" where
  "b58_printable_wrapper_type x b58_code =
     rbind (b58_decode_wrapper x b58_code) (\<lambda>wrapper. case wrapper of
       PW_PaymentRequest _ \<Rightarrow> Inr PWT_PaymentRequest
     | PW_TransferPayload _ \<Rightarrow> Inr PWT_TransferPayload
     | PW_PublicAddress _ \<Rightarrow> Inr PWT_PublicAddress
     | PW_Empty \<Rightarrow> Inl NotPrintableWrapper)"

definition b58_encode_public_address ::
    "externals \<Rightarrow> public_address \<Rightarrow> b58_error + string" where
  "b58_encode_public_address x public_address =
     map_err B58_PrintableWrapper
       (x_b58_encode x (PW_PublicAddress (x_public_address_proto x public_address)))"

definition b58_decode_public_address ::
    "externals \<Rightarrow> string \<Rightarrow> b58_error + public_address" where
  "b58_decode_public_address x b58_code =
     rbind (b58_decode_wrapper x b58_code) (\<lambda>wrapper. case wrapper of
       PW_PublicAddress p \<Rightarrow> map_err B58_ProtoConversion (x_public_address_try_from x p)
     | _ \<Rightarrow> Inl NotPublicAddress)"

definition b58_encode_payment_request ::
    "externals \<Rightarrow> public_address \<Rightarrow> amount \<Rightarrow> string \<Rightarrow> b58_error + string" where
  "b58_encode_payment_request x public_address amt memo =
     map_err B58_PrintableWrapper (x_b58_encode x (PW_PaymentRequest
       \<lparr>pr_public_address = x_public_address_proto x public_address,
        pr_value = am_value amt, pr_token_id = am_token_id amt, pr_memo = memo\<rparr>))"

definition b58_decode_payment_request ::
    "externals \<Rightarrow> string \<Rightarrow> b58_error + decoded_payment_request" where
  "b58_decode_payment_request x payment_request_b58 =
     rbind (b58_decode_wrapper x payment_request_b58) (\<lambda>wrapper. case wrapper of
       PW_PaymentRequest m \<Rightarrow>
         rbind (map_err B58_ProtoConversion (x_public_address_try_from x (pr_public_address m)))
           (\<lambda>public_address. Inr
             \<lparr>dpr_public_address = public_address, dpr_value = pr_value m,
              dpr_token_id = pr_token_id m, dpr_memo = pr_memo m\<rparr>)
     | _ \<Rightarrow> Inl NotPaymentRequest)"

definition b58_encode_transfer_payload ::
    "externals \<Rightarrow> bytes \<Rightarrow> bytes \<Rightarrow> string \<Rightarrow> b58_error + string" where
  "b58_encode_transfer_payload x bip_39_entropy_bytes proto_tx_pubkey memo =
     map_err B58_PrintableWrapper (x_b58_encode x (PW_TransferPayload
       \<lparr>tp_root_entropy = [], tp_bip39_entropy = bip_39_entropy_bytes,
        tp_tx_out_public_key = proto_tx_pubkey, tp_memo = memo\<rparr>))"

text \<open>
  The decoder of a transfer payload ends in \<open>account_key.unwrap()\<close>: a panic is the outer
  \<^term>\<open>None\<close>. The two entropy steps are the two \<open>if\<close> blocks of the source.
\<close>

definition transfer_payload_bip39 ::
    "externals \<Rightarrow> bytes \<Rightarrow> b58_error + (bytes option \<times> account_key option)" where
  "transfer_payload_bip39 x bip39 =
     (if bip39 = [] then Inr (None, None)
      else case x_mnemonic_from_entropy x bip39 of
        Inr mnemonic \<Rightarrow> Inr (Some bip39, Some (x_account_key_from_mnemonic x mnemonic))
      | Inl _ \<Rightarrow> Inl InvalidEntropy)"

definition transfer_payload_root ::
    "externals \<Rightarrow> bytes \<Rightarrow> account_key option \<Rightarrow> b58_error + (bytes option \<times> account_key option)" where
  "transfer_payload_root x root account_key =
     (if root = [] then Inr (None, account_key)
      else if length root \<noteq> 32 then Inl InvalidEntropy
      else Inr (Some root, Some (x_account_key_from_root x root [] [] [])))"

definition b58_decode_transfer_payload ::
    "externals \<Rightarrow> string \<Rightarrow> (b58_error + decoded_transfer_payload) option" where
  "b58_decode_transfer_payload x transfer_payload_b58 =
     (case b58_decode_wrapper x transfer_payload_b58 of
       Inl e \<Rightarrow> Some (Inl e)
     | Inr (PW_TransferPayload m) \<Rightarrow>
         (if tp_root_entropy m = [] \<and> tp_bip39_entropy m = [] then
            Some (Inl TransferPayloadRequiresSingleEntropy)
          else if tp_root_entropy m \<noteq> [] \<and> tp_bip39_entropy m \<noteq> [] then
            Some (Inl TransferPayloadRequiresSingleEntropy)
          else
            (case transfer_payload_bip39 x (tp_bip39_entropy m) of
              Inl e \<Rightarrow> Some (Inl e)
            | Inr (bip39_entropy, key1) \<Rightarrow>
                (case transfer_payload_root x (tp_root_entropy m) key1 of
                  Inl e \<Rightarrow> Some (Inl e)
                | Inr (root_entropy, key2) \<Rightarrow>
                    (case x_compressed_try_from_proto x (tp_tx_out_public_key m) of
                      Inl e \<Rightarrow> Some (Inl (B58_ProtoConversion e))
                    | Inr tx_key \<Rightarrow>
                        map_option (\<lambda>k. Inr
                          \<lparr>dtp_root_entropy = root_entropy, dtp_bip39_entropy = bip39_entropy,
                           dtp_account_key = k, dtp_txo_public_key = tx_key,
                           dtp_memo = tp_memo m\<rparr>) key2))))
     | Inr _ \<Rightarrow> Some (Inl NotTransferPayload))"

subsection \<open>Lemmas\<close>

text \<open>What the encoders and decoders of the crates promise: b58 decoding inverts encoding,
  and a public address survives its protobuf form.\<close>

definition b58_laws :: "externals \<Rightarrow> bool" where
  "b58_laws x \<longleftrightarrow>
     (\<forall>w s. x_b58_encode x w = Inr s \<longrightarrow> x_b58_decode x s = Inr w) \<and>
     (\<forall>a. x_public_address_try_from x (x_public_address_proto x a) = Inr a)"

lemma b58_decode_wrapper_encode:
  assumes "b58_laws x" and "map_err B58_PrintableWrapper (x_b58_encode x w) = Inr s"
  shows "b58_decode_wrapper x s = Inr w"
  using assms by (cases "x_b58_encode x w") (auto simp: b58_laws_def b58_decode_wrapper_def)

lemma b58_address_decode_encode:
  assumes "b58_laws x" and "b58_encode_public_address x a = Inr s"
  shows "b58_decode_public_address x s = Inr a"
  using b58_decode_wrapper_encode [OF assms(1)] assms
  by (auto simp: b58_encode_public_address_def b58_decode_public_address_def b58_laws_def)

lemma b58_encode_public_address_inj:
  assumes "b58_laws x" and "b58_encode_public_address x a = Inr s"
    and "b58_encode_public_address x b = Inr s"
  shows "a = b"
  using b58_address_decode_encode [OF assms(1,2)] b58_address_decode_encode [OF assms(1,3)] by simp

lemma b58_payment_request_decode_encode:
  assumes "b58_laws x" and "b58_encode_payment_request x a amt memo = Inr s"
  shows "b58_decode_payment_request x s = Inr
           \<lparr>dpr_public_address = a, dpr_value = am_value amt, dpr_token_id = am_token_id amt,
            dpr_memo = memo\<rparr>"
    and "b58_decode_public_address x s = Inl NotPublicAddress"
    and "b58_printable_wrapper_type x s = Inr PWT_PaymentRequest"
  using b58_decode_wrapper_encode [OF assms(1)] assms
  by (auto simp: b58_encode_payment_request_def b58_decode_payment_request_def
      b58_decode_public_address_def b58_printable_wrapper_type_def b58_laws_def)

lemma transfer_payload_never_panics: "b58_decode_transfer_payload x s \<noteq> None"
  by (auto simp: b58_decode_transfer_payload_def transfer_payload_bip39_def
      transfer_payload_root_def split: sum.splits printable_wrapper.splits if_splits prod.splits)

lemma transfer_payload_decode_encode:
  assumes "b58_laws x" and "b58_encode_transfer_payload x ent pk memo = Inr s"
    and "ent \<noteq> []" and "x_mnemonic_from_entropy x ent = Inr m"
    and "x_compressed_try_from_proto x pk = Inr k"
  shows "b58_decode_transfer_payload x s = Some (Inr
           \<lparr>dtp_root_entropy = None, dtp_bip39_entropy = Some ent,
            dtp_account_key = x_account_key_from_mnemonic x m,
            dtp_txo_public_key = k, dtp_memo = memo\<rparr>)"
proof -
  from b58_decode_wrapper_encode [OF assms(1)] assms(2)
  have "b58_decode_wrapper x s = Inr (PW_TransferPayload
       \<lparr>tp_root_entropy = [], tp_bip39_entropy = ent, tp_tx_out_public_key = pk, tp_memo = memo\<rparr>)"
    by (simp add: b58_encode_transfer_payload_def)
  with assms(3-5) show ?thesis
    by (simp add: b58_decode_transfer_payload_def transfer_payload_bip39_def
        transfer_payload_root_def)
qed

end
