(* ===== verification/Lookups.thy ===== *)
theory Lookups
  imports B58_Codes
begin

section \<open>Reading accounts and subaddresses\<close>

text \<open>
  The read operations of \<open>db/account.rs\<close> and \<open>db/assigned_subaddress.rs\<close>, which the other
  components call: identifiers, the keys an account row holds, and the lookups of a subaddress
  by its b58 text, by account and index, and by spend public key.
\<close>

subsection \<open>Constants of the wallet\<close>

definition DEFAULT_FIRST_BLOCK_INDEX :: u64 where
  "DEFAULT_FIRST_BLOCK_INDEX = 0"

definition ROOT_ENTROPY_KEY_DERIVATION_VERSION :: u8 where
  "ROOT_ENTROPY_KEY_DERIVATION_VERSION = 1"

definition MNEMONIC_KEY_DERIVATION_VERSION :: u8 where
  "MNEMONIC_KEY_DERIVATION_VERSION = 2"

definition DEFAULT_NEXT_SUBADDRESS_INDEX :: u64 where
  "DEFAULT_NEXT_SUBADDRESS_INDEX = 2"

definition LEGACY_CHANGE_SUBADDRESS_INDEX :: u64 where
  "LEGACY_CHANGE_SUBADDRESS_INDEX = 1"

subsection \<open>Accounts\<close>

definition AccountID_from_address :: "externals \<Rightarrow> public_address \<Rightarrow> string" where
  "AccountID_from_address x src = x_hex_encode x (x_address_digest32 x src)"

definition AccountID_from_account_key :: "externals \<Rightarrow> account_key \<Rightarrow> string" where
  "AccountID_from_account_key x src =
     AccountID_from_address x (x_subaddress x src (x_DEFAULT_SUBADDRESS_INDEX x))"

definition AccountID_from_view_account_key :: "externals \<Rightarrow> view_account_key \<Rightarrow> string" where
  "AccountID_from_view_account_key x src =
     AccountID_from_address x (x_view_subaddress x src (x_DEFAULT_SUBADDRESS_INDEX x))"

definition Account_list_all :: "u64 option \<Rightarrow> u64 option \<Rightarrow> account list db_read" where
  "Account_list_all offset limit d = Inr (paginate offset limit (db_accounts d))"

definition Account_get :: "string \<Rightarrow> account db_read" where
  "Account_get account_id d =
     ok_or (AccountNotFound account_id) (find_row acct_id account_id (db_accounts d))"

definition Account_account_key :: "externals \<Rightarrow> account \<Rightarrow> wallet_db_error + account_key" where
  "Account_account_key x a =
     (if acct_view_only a then Inl AccountKeyNotAvailableForViewOnlyAccount
      else map_err ProstDecode (x_decode_account_key x (acct_account_key a)))"

definition Account_view_account_key ::
    "externals \<Rightarrow> account \<Rightarrow> wallet_db_error + view_account_key" where
  "Account_view_account_key x a =
     (if acct_view_only a then map_err ProstDecode (x_decode_view_account_key x (acct_account_key a))
      else rbind (map_err ProstDecode (x_decode_account_key x (acct_account_key a)))
        (\<lambda>k. Inr (x_view_account_key_from x k)))"

definition Account_view_private_key :: "externals \<Rightarrow> account \<Rightarrow> wallet_db_error + private_key" where
  "Account_view_private_key x a =
     rbind (Account_view_account_key x a) (\<lambda>vk. Inr (x_vk_view_private_key x vk))"

definition Account_get_shared_secret ::
    "externals \<Rightarrow> account \<Rightarrow> ristretto_public \<Rightarrow> wallet_db_error + ristretto_public" where
  "Account_get_shared_secret x a tx_public_key =
     rbind (Account_view_private_key x a)
       (\<lambda>k. Inr (x_get_tx_out_shared_secret x k tx_public_key))"

definition Account_public_address ::
    "externals \<Rightarrow> account \<Rightarrow> u64 \<Rightarrow> wallet_db_error + public_address" where
  "Account_public_address x a index =
     rbind (Account_account_key x a) (\<lambda>k. Inr (x_subaddress x k index))"

definition Account_resync_in_progress :: "bool db_read" where
  "Account_resync_in_progress d = Inr (\<exists>a \<in> set (db_accounts d). acct_resyncing a)"

subsection \<open>Assigned subaddresses\<close>

definition AssignedSubaddress_get :: "string \<Rightarrow> assigned_subaddress db_read" where
  "AssignedSubaddress_get public_address_b58 d =
     ok_or (AssignedSubaddressNotFound public_address_b58)
       (find_row asub_public_address_b58 public_address_b58 (db_assigned_subaddresses d))"

definition AssignedSubaddress_get_for_account_by_index ::
    "string \<Rightarrow> i64 \<Rightarrow> assigned_subaddress db_read" where
  "AssignedSubaddress_get_for_account_by_index account_id_hex index d =
     ok_or (Diesel DieselNotFound)
       (first_row (filter (\<lambda>s. asub_account_id s = account_id_hex \<and> asub_subaddress_index s = index)
          (db_assigned_subaddresses d)))"

definition AssignedSubaddress_find_by_subaddress_spend_public_key ::
    "externals \<Rightarrow> ristretto_public \<Rightarrow> (i64 \<times> string) db_read" where
  "AssignedSubaddress_find_by_subaddress_spend_public_key x spend_public_key d =
     (let matches = map (\<lambda>s. (asub_subaddress_index s, asub_account_id s))
            (filter (\<lambda>s. asub_spend_public_key s = x_ristretto_bytes x spend_public_key)
               (db_assigned_subaddresses d))
      in case matches of
           [] \<Rightarrow> Inl (AssignedSubaddressNotFound (x_debug x spend_public_key))
         | [m] \<Rightarrow> Inr m
         | _ \<Rightarrow> Inl (DuplicateEntries (x_debug x spend_public_key)))"

definition AssignedSubaddress_list_all ::
    "string option \<Rightarrow> u64 option \<Rightarrow> u64 option \<Rightarrow> assigned_subaddress list db_read" where
  "AssignedSubaddress_list_all account_id offset limit d =
     Inr (paginate offset limit
       (sql_where (\<lambda>s. opt_cond account_id (\<lambda>a. sql_eq (Some (asub_account_id s)) (Some a)))
          (db_assigned_subaddresses d)))"

definition AssignedSubaddress_public_address ::
    "externals \<Rightarrow> assigned_subaddress \<Rightarrow> wallet_db_error + public_address" where
  "AssignedSubaddress_public_address x s =
     map_err B58 (b58_decode_public_address x (asub_public_address_b58 s))"

definition Account_change_subaddress :: "externals \<Rightarrow> account \<Rightarrow> assigned_subaddress db_read" where
  "Account_change_subaddress x a =
     AssignedSubaddress_get_for_account_by_index (acct_id a) (x_CHANGE_SUBADDRESS_INDEX x)"

definition Account_main_subaddress :: "externals \<Rightarrow> account \<Rightarrow> assigned_subaddress db_read" where
  "Account_main_subaddress x a =
     AssignedSubaddress_get_for_account_by_index (acct_id a) (x_DEFAULT_SUBADDRESS_INDEX x)"

text \<open>
  \<open>next_subaddress_index\<close>: the row with the highest index, signed as the column is, plus one.
  Diesel answers \<open>NotFound\<close> when the account has no subaddress.
\<close>

definition Account_next_subaddress_index :: "account \<Rightarrow> u64 db_read" where
  "Account_next_subaddress_index a d =
     rbind (ok_or (Diesel DieselNotFound)
       (first_row (map asub_subaddress_index
          (order_desc (\<lambda>s. Some (asub_subaddress_index s))
             (filter (\<lambda>s. asub_account_id s = acct_id a) (db_assigned_subaddresses d))))))
       (\<lambda>highest. Inr (highest + 1))"

subsection \<open>Lemmas\<close>

lemma Account_get_Inr:
  assumes "db_ok d"
  shows "Account_get i d = Inr a \<longleftrightarrow> a \<in> set (db_accounts d) \<and> acct_id a = i"
  using accounts_table.find_row_iff [OF assms] by (simp add: Account_get_def ok_or_eq_Inr)

lemma Account_get_Inl:
  "Account_get i d = Inl e \<longleftrightarrow> i \<notin> acct_id ` set (db_accounts d) \<and> e = AccountNotFound i"
  unfolding Account_get_def find_row_None [symmetric]
  by (cases "find_row acct_id i (db_accounts d)") auto

lemma Account_get_InrD:
  "Account_get i d = Inr a \<Longrightarrow> a \<in> set (db_accounts d) \<and> acct_id a = i"
  by (auto simp: Account_get_def ok_or_eq_Inr dest: find_row_Some)

lemma AssignedSubaddress_get_Inr:
  assumes "db_ok d"
  shows "AssignedSubaddress_get b d = Inr s \<longleftrightarrow>
           s \<in> set (db_assigned_subaddresses d) \<and> asub_public_address_b58 s = b"
  using subaddresses_table.find_row_iff [OF assms]
  by (simp add: AssignedSubaddress_get_def ok_or_eq_Inr)

lemma get_for_account_by_index_Inr:
  assumes "db_ok d"
  shows "AssignedSubaddress_get_for_account_by_index a i d = Inr s \<longleftrightarrow>
           s \<in> set (db_assigned_subaddresses d) \<and> asub_account_id s = a \<and> asub_subaddress_index s = i"
proof -
  have "AssignedSubaddress_get_for_account_by_index a i d =
          ok_or (Diesel DieselNotFound) (find_row asub_index_key (a, i) (db_assigned_subaddresses d))"
    by (simp add: AssignedSubaddress_get_for_account_by_index_def find_row_def asub_index_key_def)
  with subaddress_index_table.find_row_iff [OF assms] show ?thesis
    by (auto simp: ok_or_eq_Inr asub_index_key_def)
qed

lemma filter_distinct_key:
  assumes "distinct (map k xs)"
  shows "filter (\<lambda>r. k r = v) xs = [] \<or> (\<exists>r. filter (\<lambda>r. k r = v) xs = [r])"
proof -
  have "distinct (map k (filter (\<lambda>r. k r = v) xs))"
    using assms by (simp add: distinct_map_filter)
  moreover have "set (map k (filter (\<lambda>r. k r = v) xs)) \<subseteq> {v}"
    by auto
  ultimately have "length (filter (\<lambda>r. k r = v) xs) \<le> 1"
    by (metis card_mono card.insert card.empty distinct_card empty_iff finite.emptyI finite_insert
        length_map One_nat_def)
  then show ?thesis
    by (cases "filter (\<lambda>r. k r = v) xs") auto
qed

lemma find_by_spend_public_key_Inr:
  assumes "db_ok d"
  shows "AssignedSubaddress_find_by_subaddress_spend_public_key x spk d = Inr (i, a) \<longleftrightarrow>
           (\<exists>s \<in> set (db_assigned_subaddresses d). asub_spend_public_key s = x_ristretto_bytes x spk \<and>
              asub_subaddress_index s = i \<and> asub_account_id s = a)"
proof -
  let ?f = "filter (\<lambda>s. asub_spend_public_key s = x_ristretto_bytes x spk) (db_assigned_subaddresses d)"
  have mem: "(\<exists>s \<in> set (db_assigned_subaddresses d). asub_spend_public_key s = x_ristretto_bytes x spk \<and>
               asub_subaddress_index s = i \<and> asub_account_id s = a) \<longleftrightarrow>
             (\<exists>s \<in> set ?f. asub_subaddress_index s = i \<and> asub_account_id s = a)"
    by auto
  show ?thesis
    unfolding mem
    using filter_distinct_key [OF subaddress_spk_table.key_unique [OF assms],
        of "x_ristretto_bytes x spk"]
    by (elim disjE exE)
       (auto simp: AssignedSubaddress_find_by_subaddress_spend_public_key_def Let_def
        simp del: set_filter)
qed

lemma find_by_spend_public_key_never_duplicate:
  assumes "db_ok d"
  shows "AssignedSubaddress_find_by_subaddress_spend_public_key x spk d \<noteq> Inl (DuplicateEntries s)"
  using filter_distinct_key [OF subaddress_spk_table.key_unique [OF assms],
      of "x_ristretto_bytes x spk"]
  by (auto simp: AssignedSubaddress_find_by_subaddress_spend_public_key_def Let_def)

text \<open>The next index is one past the highest, read signed.\<close>

lemma next_subaddress_index_Inr:
  assumes "Account_next_subaddress_index a d = Inr i"
  shows "\<exists>s \<in> set (db_assigned_subaddresses d). asub_account_id s = acct_id a \<and>
           i = asub_subaddress_index s + 1 \<and>
           (\<forall>s' \<in> set (db_assigned_subaddresses d). asub_account_id s' = acct_id a \<longrightarrow>
              sint (asub_subaddress_index s') \<le> sint (asub_subaddress_index s))"
proof -
  let ?f = "filter (\<lambda>s. asub_account_id s = acct_id a) (db_assigned_subaddresses d)"
  let ?o = "order_desc (\<lambda>s. Some (asub_subaddress_index s)) ?f"
  from assms obtain s rest where o: "?o = s # rest" and i: "i = asub_subaddress_index s + 1"
    by (cases ?o) (auto simp: Account_next_subaddress_index_def first_row_def)
  have s: "s \<in> set ?f"
    using o by (metis list.set_intros(1) set_order_desc)
  have "sorted (map (\<lambda>s. desc_key (Some (asub_subaddress_index s))) (s # rest))"
    using sorted_order_desc [of "\<lambda>s. Some (asub_subaddress_index s)" ?f] o by simp
  moreover have "s' \<in> set (s # rest)" if "s' \<in> set ?f" for s'
    using that o by (metis set_order_desc)
  ultimately have "sint (asub_subaddress_index s') \<le> sint (asub_subaddress_index s)"
    if "s' \<in> set ?f" for s'
    using that by (force simp: desc_key_def)
  with s i show ?thesis
    by (intro bexI [of _ s]) auto
qed

lemma sint_succ_no_overflow:
  fixes w :: i64
  assumes "w \<noteq> 2 ^ 63 - 1"
  shows "sint (w + 1) = sint w + 1"
proof -
  have lo: "- (2 ^ 63) \<le> sint w" and hi: "sint w < 2 ^ 63"
    using sint_greater_eq [of w] sint_less [of w] by simp_all
  have "sint w \<noteq> 2 ^ 63 - 1"
  proof
    assume "sint w = 2 ^ 63 - 1"
    moreover have "word_of_int (sint w) = w" by simp
    ultimately have "w = word_of_int (2 ^ 63 - 1)" by presburger
    with assms show False by simp
  qed
  with lo hi show ?thesis
    by (simp add: sint_word_ariths signed_take_bit_int_eq_self)
qed

lemma next_subaddress_index_fresh:
  assumes "Account_next_subaddress_index a d = Inr i"
    and "s \<in> set (db_assigned_subaddresses d)" and "asub_account_id s = acct_id a"
    and "i \<noteq> - (2 ^ 63)"
  shows "asub_subaddress_index s \<noteq> i \<and> sint (asub_subaddress_index s) < sint i"
proof -
  obtain h :: assigned_subaddress where h: "i = asub_subaddress_index h + 1"
    and le: "sint (asub_subaddress_index s) \<le> sint (asub_subaddress_index h)"
    using next_subaddress_index_Inr [OF assms(1)] assms(2,3) by blast
  have "asub_subaddress_index h \<noteq> (2 ^ 63 - 1 :: i64)"
    using h assms(4) by auto
  then have "sint i = sint (asub_subaddress_index h) + 1"
    unfolding h by (rule sint_succ_no_overflow)
  with le show ?thesis by force
qed

end
