(* ===== verification/Txo_Query.thy ===== *)
theory Txo_Query
  imports Lookups
begin

section \<open>Txo queries and status\<close>

text \<open>
  The read operations of \<open>db/txo.rs\<close>: the status enum and its text, the seven listings by
  status, the three dispatching listings, the lookups, the status of one txo and its memo.
  Each listing is its SQL query: joins, one condition per \<open>filter\<close>, selection of the txo
  columns, \<open>DISTINCT\<close>, order, pagination. The lemmas restate the queries without joins.
\<close>

datatype txo_status = Created | Orphaned | Pending | Secreted | Spent | Unspent | Unverified

datatype txo_memo =
    MemoUnused
  | MemoAuthenticatedSender authenticated_sender_memo
  | MemoDestination destination_memo

definition TxoStatus_display :: "txo_status \<Rightarrow> string" where
  "TxoStatus_display s = (case s of
     Created \<Rightarrow> ''created'' | Orphaned \<Rightarrow> ''orphaned'' | Pending \<Rightarrow> ''pending''
   | Secreted \<Rightarrow> ''secreted'' | Spent \<Rightarrow> ''spent'' | Unspent \<Rightarrow> ''unspent''
   | Unverified \<Rightarrow> ''unverified'')"

definition TxoStatus_from_str :: "string \<Rightarrow> wallet_db_error + txo_status" where
  "TxoStatus_from_str s =
     (if s = ''created'' then Inr Created
      else if s = ''orphaned'' then Inr Orphaned
      else if s = ''pending'' then Inr Pending
      else if s = ''secreted'' then Inr Secreted
      else if s = ''spent'' then Inr Spent
      else if s = ''unspent'' then Inr Unspent
      else if s = ''unverified'' then Inr Unverified
      else Inl (InvalidTxoStatus s))"

definition TxoID_from_tx_out :: "externals \<Rightarrow> tx_out \<Rightarrow> string" where
  "TxoID_from_tx_out x src = x_hex_encode x (x_tx_out_digest32 x src)"

definition Txo_amount :: "txo \<Rightarrow> amount" where
  "Txo_amount t = \<lparr>am_value = txo_value t, am_token_id = txo_token_id t\<rparr>"

definition Txo_public_key :: "externals \<Rightarrow> txo \<Rightarrow> ext_error + compressed_public" where
  "Txo_public_key x t = x_decode_compressed x (txo_public_key t)"

subsection \<open>Joins and shared conditions\<close>

text \<open>A column of the outer side of a left join, plain or nullable.\<close>

definition col :: "('r \<Rightarrow> 'a) \<Rightarrow> 'r option \<Rightarrow> 'a option" where
  "col f r = map_option f r"

definition ncol :: "('r \<Rightarrow> 'a option) \<Rightarrow> 'r option \<Rightarrow> 'a option" where
  "ncol f r = Option.bind r f"

text \<open>\<open>txos LEFT JOIN transaction_input_txos LEFT JOIN transaction_logs\<close>, and the same join with
  the output table.\<close>

definition txos_input_logs ::
    "db \<Rightarrow> ((txo \<times> transaction_input_txo option) \<times> transaction_log option) list" where
  "txos_input_logs d =
     left_join (\<lambda>(t, i) l. sql_eq (Some (tl_id l)) (col tin_transaction_log_id i))
       (left_join (\<lambda>t i. sql_eq (Some (tin_txo_id i)) (Some (txo_id t)))
          (db_txos d) (db_transaction_input_txos d))
       (db_transaction_logs d)"

definition txos_output_logs ::
    "db \<Rightarrow> ((txo \<times> transaction_output_txo option) \<times> transaction_log option) list" where
  "txos_output_logs d =
     left_join (\<lambda>(t, i) l. sql_eq (Some (tl_id l)) (col tout_transaction_log_id i))
       (left_join (\<lambda>t i. sql_eq (Some (tout_txo_id i)) (Some (txo_id t)))
          (db_txos d) (db_transaction_output_txos d))
       (db_transaction_logs d)"

text \<open>\<open>transaction_logs.id IS NULL OR failed = 1 OR (id IS NOT NULL AND submitted_block_index IS NULL)\<close>.\<close>

definition no_live_log :: "transaction_log option \<Rightarrow> tv" where
  "no_live_log l =
     sql_or (sql_or (is_null (col tl_id l)) (sql_eq (col tl_failed l) (Some True)))
       (sql_and (is_not_null (col tl_id l)) (is_null (ncol tl_submitted_block_index l)))"

text \<open>The optional arguments every listing has: account, subaddress, token, block range.\<close>

definition Txo_arg_conds ::
    "string option \<Rightarrow> assigned_subaddress option \<Rightarrow> u64 option \<Rightarrow> u64 option \<Rightarrow> u64 option \<Rightarrow> txo \<Rightarrow> tv" where
  "Txo_arg_conds account_id_hex subaddress token_id min_block max_block t = sql_all
     [opt_cond account_id_hex (\<lambda>a. sql_eq (txo_account_id t) (Some a)),
      opt_cond subaddress (\<lambda>s. sql_eq (txo_subaddress_index t) (Some (asub_subaddress_index s))),
      opt_cond subaddress (\<lambda>s. sql_eq (txo_account_id t) (Some (asub_account_id s))),
      opt_cond token_id (\<lambda>k. sql_eq (Some (txo_token_id t)) (Some k)),
      opt_cond min_block (\<lambda>m. sql_ge (txo_received_block_index t) (Some m)),
      opt_cond max_block (\<lambda>m. sql_le (txo_received_block_index t) (Some m))]"

text \<open>\<open>if let Some(b58) = assigned_subaddress_b58 { AssignedSubaddress::get(b58)? ... }\<close>\<close>

definition resolve_subaddress :: "string option \<Rightarrow> assigned_subaddress option db_read" where
  "resolve_subaddress b58 d = (case b58 of
     None \<Rightarrow> Inr None
   | Some b \<Rightarrow> rbind (AssignedSubaddress_get b d) (\<lambda>s. Inr (Some s)))"

definition load_ordered :: "u64 option \<Rightarrow> u64 option \<Rightarrow> txo list \<Rightarrow> txo list" where
  "load_ordered offset limit rows = paginate offset limit (order_desc txo_received_block_index rows)"

subsection \<open>Listings by status\<close>

definition Txo_list_unspent ::
    "string option \<Rightarrow> string option \<Rightarrow> u64 option \<Rightarrow> u64 option \<Rightarrow> u64 option \<Rightarrow> u64 option \<Rightarrow> u64 option
      \<Rightarrow> txo list db_read" where
  "Txo_list_unspent account_id_hex subaddress_b58 token_id min_block max_block offset limit d =
     rbind (resolve_subaddress subaddress_b58 d) (\<lambda>subaddress.
       Inr (load_ordered offset limit (sql_distinct (map (fst \<circ> fst)
         (sql_where (\<lambda>((t, i), l). sql_all
            [no_live_log l,
             is_not_null (txo_received_block_index t),
             is_not_null (txo_key_image t),
             is_null (txo_spent_block_index t),
             Txo_arg_conds account_id_hex subaddress token_id min_block max_block t])
          (txos_input_logs d))))))"

definition Txo_list_unverified ::
    "string option \<Rightarrow> string option \<Rightarrow> u64 option \<Rightarrow> u64 option \<Rightarrow> u64 option \<Rightarrow> u64 option \<Rightarrow> u64 option
      \<Rightarrow> txo list db_read" where
  "Txo_list_unverified account_id_hex subaddress_b58 token_id min_block max_block offset limit d =
     rbind (resolve_subaddress subaddress_b58 d) (\<lambda>subaddress.
       Inr (load_ordered offset limit (sql_distinct (map (fst \<circ> fst)
         (sql_where (\<lambda>((t, i), l). sql_all
            [no_live_log l,
             is_not_null (txo_received_block_index t),
             is_not_null (txo_subaddress_index t),
             is_null (txo_key_image t),
             Txo_arg_conds account_id_hex subaddress token_id min_block max_block t])
          (txos_input_logs d))))))"

definition Txo_list_created :: "string option \<Rightarrow> txo list db_read" where
  "Txo_list_created account_id_hex d =
     Inr (sql_distinct (map (fst \<circ> fst)
       (sql_where (\<lambda>((t, i), l). sql_all
          [is_null (txo_key_image t),
           is_null (txo_spent_block_index t),
           is_null (txo_subaddress_index t),
           is_null (txo_received_block_index t),
           sql_or (sql_eq (col tl_failed l) (Some True))
             (sql_and (sql_and (sql_eq (col tl_failed l) (Some False))
                (is_null (ncol tl_finalized_block_index l)))
                (is_null (ncol tl_submitted_block_index l))),
           opt_cond account_id_hex (\<lambda>a. sql_eq (col tl_account_id l) (Some a))])
        (txos_output_logs d))))"

definition Txo_list_secreted :: "string option \<Rightarrow> txo list db_read" where
  "Txo_list_secreted account_id_hex d =
     Inr (sql_distinct (map (fst \<circ> fst)
       (sql_where (\<lambda>((t, i), l). sql_all
          [sql_eq (col tout_is_change i) (Some False),
           sql_eq (col tl_failed l) (Some False),
           is_not_null (ncol tl_finalized_block_index l),
           is_not_null (ncol tl_submitted_block_index l),
           sql_not (sql_eq (col tl_account_id l) (txo_account_id t)),
           opt_cond account_id_hex (\<lambda>a. sql_eq (col tl_account_id l) (Some a))])
        (txos_output_logs d))))"

text \<open>
  The key images of an account's unspent and pending txos, as a map: \<open>collect\<close> into a
  \<open>HashMap\<close> keeps the last entry of a repeated key, so the association list is read from
  its end. Key images that do not decode are skipped.
\<close>

definition Txo_list_unspent_or_pending_key_images ::
    "externals \<Rightarrow> string \<Rightarrow> u64 option \<Rightarrow> (key_image \<times> string) list db_read" where
  "Txo_list_unspent_or_pending_key_images x account_id_hex token_id d =
     Inr (rev (List.map_filter (\<lambda>t.
         case txo_key_image t of
           Some encoded \<Rightarrow> (case x_decode_key_image x encoded of
               Inr key_image \<Rightarrow> Some (key_image, txo_id t)
             | Inl _ \<Rightarrow> None)
         | None \<Rightarrow> None)
       (order_desc txo_received_block_index
         (sql_where (\<lambda>t. sql_all
            [is_not_null (txo_key_image t),
             sql_eq (txo_account_id t) (Some account_id_hex),
             is_not_null (txo_subaddress_index t),
             is_null (txo_spent_block_index t),
             opt_cond token_id (\<lambda>k. sql_eq (Some (txo_token_id t)) (Some k))])
          (db_txos d)))))"

definition Txo_list_spent ::
    "string option \<Rightarrow> string option \<Rightarrow> u64 option \<Rightarrow> u64 option \<Rightarrow> u64 option \<Rightarrow> u64 option \<Rightarrow> u64 option
      \<Rightarrow> txo list db_read" where
  "Txo_list_spent account_id_hex subaddress_b58 token_id min_block max_block offset limit d =
     rbind (resolve_subaddress subaddress_b58 d) (\<lambda>subaddress.
       Inr (load_ordered offset limit
         (sql_where (\<lambda>t. sql_all
            [is_not_null (txo_spent_block_index t),
             Txo_arg_conds account_id_hex subaddress token_id min_block max_block t])
          (db_txos d))))"

definition Txo_list_orphaned ::
    "string option \<Rightarrow> u64 option \<Rightarrow> u64 option \<Rightarrow> u64 option \<Rightarrow> u64 option \<Rightarrow> u64 option
      \<Rightarrow> txo list db_read" where
  "Txo_list_orphaned account_id_hex token_id min_block max_block offset limit d =
     Inr (load_ordered offset limit
       (sql_where (\<lambda>t. sql_all
          [is_null (txo_subaddress_index t),
           is_null (txo_key_image t),
           Txo_arg_conds account_id_hex None token_id min_block max_block t])
        (db_txos d)))"

definition Txo_list_pending ::
    "string option \<Rightarrow> string option \<Rightarrow> u64 option \<Rightarrow> u64 option \<Rightarrow> u64 option \<Rightarrow> u64 option \<Rightarrow> u64 option
      \<Rightarrow> txo list db_read" where
  "Txo_list_pending account_id_hex subaddress_b58 token_id min_block max_block offset limit d =
     rbind (resolve_subaddress subaddress_b58 d) (\<lambda>subaddress.
       Inr (load_ordered offset limit (sql_distinct (map (fst \<circ> fst)
         (sql_where (\<lambda>((t, i), l). sql_all
            [sql_eq (Some (tl_failed l)) (Some False),
             is_null (tl_finalized_block_index l),
             is_not_null (tl_submitted_block_index l),
             is_not_null (txo_subaddress_index t),
             is_null (txo_spent_block_index t),
             Txo_arg_conds account_id_hex subaddress token_id min_block max_block t])
          (inner_join (\<lambda>(t, i) l. sql_eq (Some (tl_id l)) (Some (tin_transaction_log_id i)))
             (inner_join (\<lambda>t i. sql_eq (Some (tin_txo_id i)) (Some (txo_id t)))
                (db_txos d) (db_transaction_input_txos d))
             (db_transaction_logs d)))))))"

subsection \<open>Dispatching listings\<close>

definition Txo_list ::
    "txo_status option \<Rightarrow> u64 option \<Rightarrow> u64 option \<Rightarrow> u64 option \<Rightarrow> u64 option \<Rightarrow> u64 option
      \<Rightarrow> txo list db_read" where
  "Txo_list status min_block max_block offset limit token_id d = (case status of
     Some Unverified \<Rightarrow> Txo_list_unverified None None token_id min_block max_block offset limit d
   | Some Unspent \<Rightarrow> Txo_list_unspent None None token_id min_block max_block offset limit d
   | Some Pending \<Rightarrow> Txo_list_pending None None token_id min_block max_block offset limit d
   | Some Spent \<Rightarrow> Txo_list_spent None None token_id min_block max_block offset limit d
   | Some Orphaned \<Rightarrow> Txo_list_orphaned None token_id min_block max_block offset limit d
   | Some Created \<Rightarrow> Txo_list_created None d
   | Some Secreted \<Rightarrow> Txo_list_secreted None d
   | None \<Rightarrow> Inr (load_ordered offset limit
       (sql_where (Txo_arg_conds None None token_id min_block max_block) (db_txos d))))"

definition Txo_list_for_account ::
    "string \<Rightarrow> txo_status option \<Rightarrow> u64 option \<Rightarrow> u64 option \<Rightarrow> u64 option \<Rightarrow> u64 option \<Rightarrow> u64 option
      \<Rightarrow> txo list db_read" where
  "Txo_list_for_account account_id_hex status min_block max_block offset limit token_id d =
     (let a = Some account_id_hex in case status of
        Some Unverified \<Rightarrow> Txo_list_unverified a None token_id min_block max_block offset limit d
      | Some Unspent \<Rightarrow> Txo_list_unspent a None token_id min_block max_block offset limit d
      | Some Pending \<Rightarrow> Txo_list_pending a None token_id min_block max_block offset limit d
      | Some Spent \<Rightarrow> Txo_list_spent a None token_id min_block max_block offset limit d
      | Some Orphaned \<Rightarrow> Txo_list_orphaned a token_id min_block max_block offset limit d
      | Some Created \<Rightarrow> Txo_list_created a d
      | Some Secreted \<Rightarrow> Txo_list_secreted a d
      | None \<Rightarrow> Inr (load_ordered offset limit
          (sql_where (Txo_arg_conds a None token_id min_block max_block) (db_txos d))))"

definition Txo_list_for_address ::
    "string \<Rightarrow> txo_status option \<Rightarrow> u64 option \<Rightarrow> u64 option \<Rightarrow> u64 option \<Rightarrow> u64 option \<Rightarrow> u64 option
      \<Rightarrow> txo list db_read" where
  "Txo_list_for_address subaddress_b58 status min_block max_block offset limit token_id d =
     (let b = Some subaddress_b58 in case status of
        Some Unverified \<Rightarrow> Txo_list_unverified None b token_id min_block max_block offset limit d
      | Some Unspent \<Rightarrow> Txo_list_unspent None b token_id min_block max_block offset limit d
      | Some Pending \<Rightarrow> Txo_list_pending None b token_id min_block max_block offset limit d
      | Some Spent \<Rightarrow> Txo_list_spent None b token_id min_block max_block offset limit d
      | Some Orphaned \<Rightarrow> Inr []
      | Some Created \<Rightarrow> Inr []
      | Some Secreted \<Rightarrow> Inr []
      | None \<Rightarrow> rbind (AssignedSubaddress_get subaddress_b58 d) (\<lambda>s.
          Inr (order_desc txo_received_block_index
            (sql_where (Txo_arg_conds None (Some s) token_id min_block max_block) (db_txos d)))))"

subsection \<open>Lookups\<close>

definition Txo_get :: "string \<Rightarrow> txo db_read" where
  "Txo_get txo_id_hex d = ok_or (TxoNotFound txo_id_hex) (find_row txo_id txo_id_hex (db_txos d))"

definition Txo_select_by_public_key :: "externals \<Rightarrow> compressed_public list \<Rightarrow> txo list db_read" where
  "Txo_select_by_public_key x public_keys d =
     Inr (filter (\<lambda>t. txo_public_key t \<in> set (map (x_encode_compressed x) public_keys)) (db_txos d))"

definition Txo_select_by_id :: "string list \<Rightarrow> txo list db_read" where
  "Txo_select_by_id txo_ids d = Inr (filter (\<lambda>t. txo_id t \<in> set txo_ids) (db_txos d))"

definition Account_get_by_txo_id :: "string \<Rightarrow> account list db_read" where
  "Account_get_by_txo_id txo_id_hex d =
     rbind (Txo_get txo_id_hex d) (\<lambda>t. case txo_account_id t of
       None \<Rightarrow> Inr []
     | Some account_id \<Rightarrow> rbind (Account_get account_id d) (\<lambda>a. Inr [a]))"

definition Txo_account :: "txo \<Rightarrow> account option db_read" where
  "Txo_account t d = (case txo_account_id t of
     None \<Rightarrow> Inr None
   | Some account_id \<Rightarrow> rbind (Account_get account_id d) (\<lambda>a. Inr (Some a)))"

definition Account_get_token_ids :: "account \<Rightarrow> u64 list db_read" where
  "Account_get_token_ids a d =
     Inr (sql_distinct (map txo_token_id
       (sql_where (\<lambda>t. sql_eq (txo_account_id t) (Some (acct_id a))) (db_txos d))))"

definition Txo_validate_confirmation ::
    "externals \<Rightarrow> string \<Rightarrow> string \<Rightarrow> confirmation_number \<Rightarrow> bool db_read" where
  "Txo_validate_confirmation x account_id txo_id_hex confirmation d =
     rbind (Txo_get txo_id_hex d) (\<lambda>t.
     rbind (map_err ProstDecode (x_decode_ristretto x (txo_public_key t))) (\<lambda>public_key.
     rbind (Account_get account_id d) (\<lambda>a.
     rbind (map_err ProstDecode (x_decode_account_key x (acct_account_key a))) (\<lambda>account_key.
       Inr (x_confirmation_validate x confirmation public_key (x_view_private_key x account_key))))))"

definition TransactionOutputTxo_recipient_public_address ::
    "externals \<Rightarrow> transaction_output_txo \<Rightarrow> wallet_db_error + public_address" where
  "TransactionOutputTxo_recipient_public_address x r =
     map_err B58 (b58_decode_public_address x (tout_recipient_public_address_b58 r))"

definition Txo_recipient_public_address :: "externals \<Rightarrow> txo \<Rightarrow> public_address option db_read" where
  "Txo_recipient_public_address x t d = (case (txo_account_id t, txo_subaddress_index t) of
     (Some account_id, Some subaddress_index) \<Rightarrow>
       rbind (AssignedSubaddress_get_for_account_by_index account_id subaddress_index d) (\<lambda>s.
       rbind (AssignedSubaddress_public_address x s) (\<lambda>p. Inr (Some p)))
   | (None, None) \<Rightarrow>
       rbind (ok_or (Diesel DieselNotFound)
         (first_row (filter (\<lambda>r. tout_txo_id r = txo_id t) (db_transaction_output_txos d)))) (\<lambda>r.
       rbind (TransactionOutputTxo_recipient_public_address x r) (\<lambda>p. Inr (Some p)))
   | _ \<Rightarrow> Inr None)"

definition Txo_membership_proof ::
    "externals \<Rightarrow> ledger_db \<Rightarrow> txo \<Rightarrow> wallet_db_error + membership_proof" where
  "Txo_membership_proof x ledger t =
     rbind (map_err ProstDecode (Txo_public_key x t)) (\<lambda>pk.
     rbind (map_err LedgerDB (l_get_tx_out_index_by_public_key ledger pk)) (\<lambda>index.
     rbind (map_err LedgerDB (l_get_tx_out_proof_of_memberships ledger [index])) (\<lambda>proofs.
       ok_or (MissingTxoMembershipProof (txo_id t)) (first_row proofs))))"

subsection \<open>Status and memo of one txo\<close>

text \<open>
  The three counting queries of \<open>status\<close>. The secreted query joins the txos table again and
  reads its \<open>account_id\<close> column, not the one of \<open>self\<close>.
\<close>

definition count_pending_logs :: "txo \<Rightarrow> db \<Rightarrow> nat" where
  "count_pending_logs t d = length
     (sql_where (\<lambda>((l, i), out). sql_all
        [sql_or (sql_eq (Some (tin_txo_id i)) (Some (txo_id t)))
           (sql_eq (Some (tout_txo_id out)) (Some (txo_id t))),
         is_null (tl_finalized_block_index l),
         is_not_null (tl_submitted_block_index l),
         sql_eq (Some (tl_failed l)) (Some False)])
      (inner_join (\<lambda>(l, i) out. sql_eq (Some (tout_transaction_log_id out)) (Some (tl_id l)))
         (inner_join (\<lambda>l i. sql_eq (Some (tin_transaction_log_id i)) (Some (tl_id l)))
            (db_transaction_logs d) (db_transaction_input_txos d))
         (db_transaction_output_txos d)))"

definition count_secreted_logs :: "txo \<Rightarrow> db \<Rightarrow> nat" where
  "count_secreted_logs t d = length
     (sql_where (\<lambda>((l, out), t'). sql_all
        [sql_eq (col tout_txo_id out) (Some (txo_id t)),
         sql_eq (col tout_is_change out) (Some False),
         sql_eq (Some (tl_failed l)) (Some False),
         is_not_null (tl_finalized_block_index l),
         is_not_null (tl_submitted_block_index l),
         sql_not (sql_eq (Some (tl_account_id l)) (ncol txo_account_id t'))])
      (left_join (\<lambda>(l, out) t'. sql_eq (col tout_txo_id out) (Some (txo_id t')))
         (left_join (\<lambda>l out. sql_eq (Some (tout_transaction_log_id out)) (Some (tl_id l)))
            (db_transaction_logs d) (db_transaction_output_txos d))
         (db_txos d)))"

definition count_created_logs :: "txo \<Rightarrow> db \<Rightarrow> nat" where
  "count_created_logs t d = length
     (sql_where (\<lambda>(l, out). sql_all
        [sql_eq (Some (tout_txo_id out)) (Some (txo_id t)),
         sql_or (sql_eq (Some (tl_failed l)) (Some True))
           (sql_and (sql_and (sql_eq (Some (tl_failed l)) (Some False))
              (is_null (tl_finalized_block_index l)))
              (is_null (tl_submitted_block_index l)))])
      (inner_join (\<lambda>l out. sql_eq (Some (tout_transaction_log_id out)) (Some (tl_id l)))
         (db_transaction_logs d) (db_transaction_output_txos d)))"

definition Txo_status :: "txo \<Rightarrow> txo_status db_read" where
  "Txo_status t d =
     (if txo_spent_block_index t \<noteq> None then Inr Spent
      else if count_pending_logs t d > 0 then Inr Pending
      else if count_secreted_logs t d > 0 then Inr Secreted
      else if count_created_logs t d > 0 then Inr Created
      else if txo_subaddress_index t \<noteq> None \<and> txo_key_image t \<noteq> None then Inr Unspent
      else if txo_subaddress_index t \<noteq> None then Inr Unverified
      else Inr Orphaned)"

definition i32_to_two_bytes :: "i32 \<Rightarrow> u8 \<times> u8" where
  "i32_to_two_bytes value = (ucast (signed_drop_bit 8 value), ucast (and value 0xFF))"

definition two_bytes_to_i32 :: "u8 \<times> u8 \<Rightarrow> i32" where
  "two_bytes_to_i32 bs = or (push_bit 8 (ucast (fst bs))) (ucast (snd bs))"

definition Txo_memo :: "externals \<Rightarrow> txo \<Rightarrow> txo_memo db_read" where
  "Txo_memo x t d = (case txo_memo_type t of
     None \<Rightarrow> Inr MemoUnused
   | Some mtype \<Rightarrow>
       (let b = i32_to_two_bytes mtype in
        if b = x_mt_authenticated_sender x \<or> b = x_mt_authenticated_sender_payment_intent x
           \<or> b = x_mt_authenticated_sender_payment_request x then
          rbind (ok_or (Diesel DieselNotFound)
            (find_row asm_txo_id (txo_id t) (db_authenticated_sender_memos d)))
            (\<lambda>m. Inr (MemoAuthenticatedSender m))
        else if b = x_mt_destination x \<or> b = x_mt_destination_payment_intent x
           \<or> b = x_mt_destination_payment_request x then
          rbind (ok_or (Diesel DieselNotFound)
            (find_row dm_txo_id (txo_id t) (db_destination_memos d)))
            (\<lambda>m. Inr (MemoDestination m))
        else Inr MemoUnused))"

text \<open>\<open>limit\<close> without an offset and without an order.\<close>

definition Txo_get_txos_that_need_to_be_synced_to_t3 ::
    "externals \<Rightarrow> u64 option \<Rightarrow> txo list db_read" where
  "Txo_get_txos_that_need_to_be_synced_to_t3 x limit d =
     (let memo_types = map two_bytes_to_i32
            [x_mt_authenticated_sender x, x_mt_authenticated_sender_payment_intent x,
             x_mt_authenticated_sender_payment_request x]
      in Inr (sql_limit limit
           (filter (\<lambda>t. \<not> txo_is_synced_to_t3 t \<and>
               (\<exists>m \<in> set memo_types. txo_memo_type t = Some m)) (db_txos d))))"

end
