(* ===== verification/Txo_Facts.thy ===== *)
theory Txo_Facts
  imports Txo_Query
begin

section \<open>What the txo queries return\<close>

text \<open>
  Join-free descriptions of the listings and of the status of a txo, in a database that meets
  its constraints, and how the listings relate to the status.
\<close>

text \<open>The transaction logs that use a txo as an input, and those that created it as an output.\<close>

definition input_logs :: "db \<Rightarrow> txo \<Rightarrow> transaction_log list" where
  "input_logs d t = filter (\<lambda>l. \<exists>i \<in> set (db_transaction_input_txos d).
     tin_txo_id i = txo_id t \<and> tin_transaction_log_id i = tl_id l) (db_transaction_logs d)"

definition output_logs :: "db \<Rightarrow> txo \<Rightarrow> transaction_log list" where
  "output_logs d t = filter (\<lambda>l. \<exists>r \<in> set (db_transaction_output_txos d).
     tout_txo_id r = txo_id t \<and> tout_transaction_log_id r = tl_id l) (db_transaction_logs d)"

definition log_pending :: "transaction_log \<Rightarrow> bool" where
  "log_pending l \<longleftrightarrow> \<not> tl_failed l \<and> tl_finalized_block_index l = None \<and> tl_submitted_block_index l \<noteq> None"

definition log_dead :: "transaction_log \<Rightarrow> bool" where
  "log_dead l \<longleftrightarrow> tl_failed l \<or> tl_submitted_block_index l = None"

text \<open>The arguments of a listing, as a plain condition on a txo.\<close>

definition txo_matches ::
    "string option \<Rightarrow> assigned_subaddress option \<Rightarrow> u64 option \<Rightarrow> u64 option \<Rightarrow> u64 option \<Rightarrow> txo \<Rightarrow> bool" where
  "txo_matches acct sub token mn mx t \<longleftrightarrow>
     (\<forall>a. acct = Some a \<longrightarrow> txo_account_id t = Some a) \<and>
     (\<forall>s. sub = Some s \<longrightarrow> txo_subaddress_index t = Some (asub_subaddress_index s) \<and>
        txo_account_id t = Some (asub_account_id s)) \<and>
     (\<forall>k. token = Some k \<longrightarrow> txo_token_id t = k) \<and>
     (\<forall>m. mn = Some m \<longrightarrow> (\<exists>b. txo_received_block_index t = Some b \<and> m \<le>s b)) \<and>
     (\<forall>m. mx = Some m \<longrightarrow> (\<exists>b. txo_received_block_index t = Some b \<and> b \<le>s m))"

lemma txo_matches_code [code]:
  "txo_matches acct sub token mn mx t \<longleftrightarrow>
     (case acct of None \<Rightarrow> True | Some a \<Rightarrow> txo_account_id t = Some a) \<and>
     (case sub of None \<Rightarrow> True | Some s \<Rightarrow> txo_subaddress_index t = Some (asub_subaddress_index s) \<and>
        txo_account_id t = Some (asub_account_id s)) \<and>
     (case token of None \<Rightarrow> True | Some k \<Rightarrow> txo_token_id t = k) \<and>
     (case mn of None \<Rightarrow> True | Some m \<Rightarrow> case txo_received_block_index t of None \<Rightarrow> False | Some b \<Rightarrow> m \<le>s b) \<and>
     (case mx of None \<Rightarrow> True | Some m \<Rightarrow> case txo_received_block_index t of None \<Rightarrow> False | Some b \<Rightarrow> b \<le>s m)"
  by (cases acct; cases sub; cases token; cases mn; cases mx)
     (simp_all add: txo_matches_def split: option.splits)

lemma sql_holds_arg_conds [simp]:
  "sql_holds (Txo_arg_conds acct sub token mn mx t) \<longleftrightarrow> txo_matches acct sub token mn mx t"
  by (auto simp: Txo_arg_conds_def txo_matches_def)

lemma sql_holds_no_live_log [simp]:
  "sql_holds (no_live_log l) \<longleftrightarrow> (case l of None \<Rightarrow> True | Some l' \<Rightarrow> log_dead l')"
  by (auto simp: no_live_log_def col_def ncol_def log_dead_def split: option.splits)

subsection \<open>The joined rows\<close>

lemma fk_input:
  assumes "db_ok d" and "i \<in> set (db_transaction_input_txos d)"
  shows "\<exists>l \<in> set (db_transaction_logs d). tl_id l = tin_transaction_log_id i"
    and "\<exists>t \<in> set (db_txos d). txo_id t = tin_txo_id i"
  using assms by (auto simp: db_ok_def fk_ok_def Let_def image_subset_iff image_iff) metis+

lemma fk_output:
  assumes "db_ok d" and "i \<in> set (db_transaction_output_txos d)"
  shows "\<exists>l \<in> set (db_transaction_logs d). tl_id l = tout_transaction_log_id i"
    and "\<exists>t \<in> set (db_txos d). txo_id t = tout_txo_id i"
  using assms by (auto simp: db_ok_def fk_ok_def Let_def image_subset_iff image_iff) metis+

lemma input_row_iff:
  assumes "db_ok d"
  shows "((t, i), l) \<in> set (txos_input_logs d) \<longleftrightarrow> t \<in> set (db_txos d) \<and>
     (i = None \<and> l = None \<and> (\<forall>i' \<in> set (db_transaction_input_txos d). tin_txo_id i' \<noteq> txo_id t) \<or>
      (\<exists>i' \<in> set (db_transaction_input_txos d). \<exists>l' \<in> set (db_transaction_logs d).
         i = Some i' \<and> l = Some l' \<and> tin_txo_id i' = txo_id t \<and> tin_transaction_log_id i' = tl_id l'))"
  using fk_input(1) [OF assms]
  by (cases i; cases l; auto simp: txos_input_logs_def set_left_join col_def; metis)

lemma output_row_iff:
  assumes "db_ok d"
  shows "((t, i), l) \<in> set (txos_output_logs d) \<longleftrightarrow> t \<in> set (db_txos d) \<and>
     (i = None \<and> l = None \<and> (\<forall>i' \<in> set (db_transaction_output_txos d). tout_txo_id i' \<noteq> txo_id t) \<or>
      (\<exists>i' \<in> set (db_transaction_output_txos d). \<exists>l' \<in> set (db_transaction_logs d).
         i = Some i' \<and> l = Some l' \<and> tout_txo_id i' = txo_id t \<and> tout_transaction_log_id i' = tl_id l'))"
  using fk_output(1) [OF assms]
  by (cases i; cases l; auto simp: txos_output_logs_def set_left_join col_def; metis)

lemma input_logs_Nil:
  assumes "db_ok d"
  shows "input_logs d t = [] \<longleftrightarrow>
           (\<forall>i \<in> set (db_transaction_input_txos d). tin_txo_id i \<noteq> txo_id t)"
  using fk_input(1) [OF assms] by (auto simp: input_logs_def filter_empty_conv) metis

lemma ex_input_row:
  assumes "db_ok d"
  shows "(\<exists>i l. ((t, i), l) \<in> set (txos_input_logs d) \<and> P l) \<longleftrightarrow>
           t \<in> set (db_txos d) \<and>
           (input_logs d t = [] \<and> P None \<or> (\<exists>l \<in> set (input_logs d t). P (Some l)))"
  unfolding input_row_iff [OF assms] input_logs_Nil [OF assms]
  by (auto simp: input_logs_def)

lemma ex_output_row:
  assumes "db_ok d" and "\<not> P None None"
  shows "(\<exists>r l. ((t, r), l) \<in> set (txos_output_logs d) \<and> P r l) \<longleftrightarrow>
           t \<in> set (db_txos d) \<and>
           (\<exists>r \<in> set (db_transaction_output_txos d). \<exists>l \<in> set (db_transaction_logs d).
              tout_txo_id r = txo_id t \<and> tout_transaction_log_id r = tl_id l \<and> P (Some r) (Some l))"
  unfolding output_row_iff [OF assms(1)] using assms(2) by auto

subsection \<open>Join-free listings\<close>

text \<open>A txo that no transaction log uses as an input, or that a dead log (failed or never
  submitted) uses: the condition the listings of spendable txos have.\<close>

definition logs_allow_spend :: "db \<Rightarrow> txo \<Rightarrow> bool" where
  "logs_allow_spend d t \<longleftrightarrow> input_logs d t = [] \<or> (\<exists>l \<in> set (input_logs d t). log_dead l)"

lemma select_from_join:
  assumes "db_ok d"
  shows "sql_distinct (map (fst \<circ> fst) (sql_where c (txos_input_logs d))) =
           filter (\<lambda>t. \<exists>i l. ((t, i), l) \<in> set (txos_input_logs d) \<and> sql_holds (c ((t, i), l))) (db_txos d)"
    and "sql_distinct (map (fst \<circ> fst) (sql_where c' (txos_output_logs d))) =
           filter (\<lambda>t. \<exists>i l. ((t, i), l) \<in> set (txos_output_logs d) \<and> sql_holds (c' ((t, i), l))) (db_txos d)"
  unfolding txos_input_logs_def txos_output_logs_def
  by (rule select_left_join2 [OF txos_table.distinct_rows [OF assms]])+

lemma select_txos_input_logs:
  assumes "db_ok d"
  shows "sql_distinct (map (fst \<circ> fst) (sql_where (\<lambda>((t, i), l). sql_all (no_live_log l # C t)) (txos_input_logs d)))
         = filter (\<lambda>t. logs_allow_spend d t \<and> (\<forall>c \<in> set (C t). sql_holds c)) (db_txos d)"
proof -
  have "filter (\<lambda>t. \<exists>i l. ((t, i), l) \<in> set (txos_input_logs d) \<and>
            sql_holds (sql_all (no_live_log l # C t))) (db_txos d)
        = filter (\<lambda>t. logs_allow_spend d t \<and> (\<forall>c \<in> set (C t). sql_holds c)) (db_txos d)"
    using ex_input_row [OF assms, where P = "\<lambda>l. sql_holds (sql_all (no_live_log l # C _))"]
    by (intro filter_cong) (auto simp: logs_allow_spend_def)
  then show ?thesis
    unfolding select_from_join(1) [OF assms] by simp
qed

lemma list_unspent_eq:
  assumes "db_ok d" and "resolve_subaddress b58 d = Inr sub"
  shows "Txo_list_unspent acct b58 token mn mx off lim d =
    Inr (load_ordered off lim (filter (\<lambda>t. logs_allow_spend d t \<and> txo_received_block_index t \<noteq> None \<and>
       txo_key_image t \<noteq> None \<and> txo_spent_block_index t = None \<and> txo_matches acct sub token mn mx t)
     (db_txos d)))"
  using assms(2) select_txos_input_logs [OF assms(1), where
      C = "\<lambda>t. [is_not_null (txo_received_block_index t), is_not_null (txo_key_image t),
             is_null (txo_spent_block_index t), Txo_arg_conds acct sub token mn mx t]"]
  by (simp add: Txo_list_unspent_def)

lemma list_unverified_eq:
  assumes "db_ok d" and "resolve_subaddress b58 d = Inr sub"
  shows "Txo_list_unverified acct b58 token mn mx off lim d =
    Inr (load_ordered off lim (filter (\<lambda>t. logs_allow_spend d t \<and> txo_received_block_index t \<noteq> None \<and>
       txo_subaddress_index t \<noteq> None \<and> txo_key_image t = None \<and> txo_matches acct sub token mn mx t)
     (db_txos d)))"
  using assms(2) select_txos_input_logs [OF assms(1), where
      C = "\<lambda>t. [is_not_null (txo_received_block_index t), is_not_null (txo_subaddress_index t),
             is_null (txo_key_image t), Txo_arg_conds acct sub token mn mx t]"]
  by (simp add: Txo_list_unverified_def)

lemma list_pending_eq:
  assumes "db_ok d" and "resolve_subaddress b58 d = Inr sub"
  shows "Txo_list_pending acct b58 token mn mx off lim d =
    Inr (load_ordered off lim (filter (\<lambda>t. (\<exists>l \<in> set (input_logs d t). log_pending l) \<and>
       txo_subaddress_index t \<noteq> None \<and> txo_spent_block_index t = None \<and>
       txo_matches acct sub token mn mx t) (db_txos d)))"
  using assms(2) unfolding Txo_list_pending_def
  by (simp add: select_inner_join2 [OF txos_table.distinct_rows [OF assms(1)]])
     (rule arg_cong [where f = "load_ordered off lim"], rule filter_cong,
      auto simp: input_logs_def log_pending_def; metis)

lemma list_created_eq:
  assumes "db_ok d"
  shows "Txo_list_created acct d =
    Inr (filter (\<lambda>t. txo_key_image t = None \<and> txo_spent_block_index t = None \<and>
       txo_subaddress_index t = None \<and> txo_received_block_index t = None \<and>
       (\<exists>l \<in> set (output_logs d t).
          (tl_failed l \<or> tl_finalized_block_index l = None \<and> tl_submitted_block_index l = None) \<and>
          (\<forall>a. acct = Some a \<longrightarrow> tl_account_id l = a))) (db_txos d))"
  unfolding Txo_list_created_def select_from_join(2) [OF assms] prod.case
  by (intro arg_cong [where f = Inr] filter_cong refl, subst ex_output_row [OF assms])
     (auto simp: output_logs_def col_def ncol_def)

lemma list_secreted_eq:
  assumes "db_ok d"
  shows "Txo_list_secreted acct d =
    Inr (filter (\<lambda>t. \<exists>r \<in> set (db_transaction_output_txos d). \<exists>l \<in> set (db_transaction_logs d).
       tout_txo_id r = txo_id t \<and> tout_transaction_log_id r = tl_id l \<and>
       \<not> tout_is_change r \<and> \<not> tl_failed l \<and> tl_finalized_block_index l \<noteq> None \<and>
       tl_submitted_block_index l \<noteq> None \<and>
       txo_account_id t \<noteq> None \<and> Some (tl_account_id l) \<noteq> txo_account_id t \<and>
       (\<forall>a. acct = Some a \<longrightarrow> tl_account_id l = a)) (db_txos d))"
  unfolding Txo_list_secreted_def select_from_join(2) [OF assms] prod.case
  by (intro arg_cong [where f = Inr] filter_cong refl, subst ex_output_row [OF assms])
     (auto simp: col_def ncol_def)

subsection \<open>The status of a txo\<close>

definition log_has_inputs :: "db \<Rightarrow> transaction_log \<Rightarrow> bool" where
  "log_has_inputs d l \<longleftrightarrow> (\<exists>i \<in> set (db_transaction_input_txos d). tin_transaction_log_id i = tl_id l)"

definition log_has_outputs :: "db \<Rightarrow> transaction_log \<Rightarrow> bool" where
  "log_has_outputs d l \<longleftrightarrow> (\<exists>r \<in> set (db_transaction_output_txos d). tout_transaction_log_id r = tl_id l)"

text \<open>A succeeded transaction that paid the txo to an account of the wallet other than the sender.\<close>

definition secreted_log :: "db \<Rightarrow> txo \<Rightarrow> transaction_log \<Rightarrow> bool" where
  "secreted_log d t l \<longleftrightarrow>
     \<not> tl_failed l \<and> tl_finalized_block_index l \<noteq> None \<and> tl_submitted_block_index l \<noteq> None \<and>
     txo_account_id t \<noteq> None \<and> Some (tl_account_id l) \<noteq> txo_account_id t \<and>
     (\<exists>r \<in> set (db_transaction_output_txos d). tout_txo_id r = txo_id t \<and>
        tout_transaction_log_id r = tl_id l \<and> \<not> tout_is_change r)"

definition created_log :: "transaction_log \<Rightarrow> bool" where
  "created_log l \<longleftrightarrow>
     tl_failed l \<or> tl_finalized_block_index l = None \<and> tl_submitted_block_index l = None"

lemma count_pending_pos:
  "count_pending_logs t d > 0 \<longleftrightarrow>
     (\<exists>l \<in> set (db_transaction_logs d). log_pending l \<and>
        (l \<in> set (input_logs d t) \<and> log_has_outputs d l \<or> l \<in> set (output_logs d t) \<and> log_has_inputs d l))"
  unfolding count_pending_logs_def length_greater_0_conv
  by (simp add: sql_where_def filter_empty_conv set_inner_join)
     (auto simp: log_pending_def input_logs_def output_logs_def log_has_outputs_def log_has_inputs_def)

lemma secreted_row_iff:
  assumes "db_ok d" and "t \<in> set (db_txos d)"
  shows "((l, out), t') \<in> set (left_join (\<lambda>(l, out) t'. sql_eq (col tout_txo_id out) (Some (txo_id t')))
            (left_join (\<lambda>l out. sql_eq (Some (tout_transaction_log_id out)) (Some (tl_id l)))
              (db_transaction_logs d) (db_transaction_output_txos d)) (db_txos d)) \<and>
           sql_holds (sql_eq (col tout_txo_id out) (Some (txo_id t))) \<longleftrightarrow>
         l \<in> set (db_transaction_logs d) \<and> t' = Some t \<and>
         (\<exists>r \<in> set (db_transaction_output_txos d). out = Some r \<and>
            tout_transaction_log_id r = tl_id l \<and> tout_txo_id r = txo_id t)"
proof -
  have t: "txo_id u = txo_id t \<longleftrightarrow> u = t" "txo_id t = txo_id u \<longleftrightarrow> u = t" if "u \<in> set (db_txos d)" for u
    using txos_table.row_eqI [OF assms(1) that assms(2)] by auto
  show ?thesis
    using assms(2) by (cases out; cases t'; auto simp: set_left_join col_def t)
qed

lemma count_secreted_pos:
  assumes "db_ok d" and "t \<in> set (db_txos d)"
  shows "count_secreted_logs t d > 0 \<longleftrightarrow> (\<exists>l \<in> set (db_transaction_logs d). secreted_log d t l)"
proof -
  let ?J = "left_join (\<lambda>(l, out) t'. sql_eq (col tout_txo_id out) (Some (txo_id t')))
            (left_join (\<lambda>l out. sql_eq (Some (tout_transaction_log_id out)) (Some (tl_id l)))
              (db_transaction_logs d) (db_transaction_output_txos d)) (db_txos d)"
  let ?P = "\<lambda>l out t'. sql_holds (sql_all
        [sql_eq (col tout_is_change out) (Some False),
         sql_eq (Some (tl_failed l)) (Some False),
         is_not_null (tl_finalized_block_index l),
         is_not_null (tl_submitted_block_index l),
         sql_not (sql_eq (Some (tl_account_id l)) (ncol txo_account_id t'))])"
  have "count_secreted_logs t d > 0 \<longleftrightarrow>
          (\<exists>l out t'. (((l, out), t') \<in> set ?J \<and>
             sql_holds (sql_eq (col tout_txo_id out) (Some (txo_id t)))) \<and> ?P l out t')"
    unfolding count_secreted_logs_def length_greater_0_conv sql_where_def filter_empty_conv
    by (simp add: Bex_def split_paired_Ex)
  also have "\<dots> \<longleftrightarrow> (\<exists>l \<in> set (db_transaction_logs d). secreted_log d t l)"
    unfolding secreted_row_iff [OF assms] secreted_log_def
    by (auto simp: col_def ncol_def)
  finally show ?thesis .
qed

lemma count_created_pos:
  "count_created_logs t d > 0 \<longleftrightarrow> (\<exists>l \<in> set (output_logs d t). created_log l)"
  unfolding count_created_logs_def length_greater_0_conv
  by (simp add: sql_where_def filter_empty_conv set_inner_join)
     (auto simp: created_log_def output_logs_def)

text \<open>The specification of the status: the first of seven cases that applies.\<close>

definition status_spec :: "db \<Rightarrow> txo \<Rightarrow> txo_status" where
  "status_spec d t =
     (if txo_spent_block_index t \<noteq> None then Spent
      else if \<exists>l \<in> set (db_transaction_logs d). log_pending l \<and>
        (l \<in> set (input_logs d t) \<and> log_has_outputs d l \<or> l \<in> set (output_logs d t) \<and> log_has_inputs d l)
        then Pending
      else if \<exists>l \<in> set (db_transaction_logs d). secreted_log d t l then Secreted
      else if \<exists>l \<in> set (output_logs d t). created_log l then Created
      else if txo_subaddress_index t \<noteq> None \<and> txo_key_image t \<noteq> None then Unspent
      else if txo_subaddress_index t \<noteq> None then Unverified
      else Orphaned)"

lemma Txo_status_eq:
  assumes "db_ok d" and "t \<in> set (db_txos d)"
  shows "Txo_status t d = Inr (status_spec d t)"
  unfolding Txo_status_def status_spec_def count_pending_pos count_secreted_pos [OF assms]
    count_created_pos
  by (simp only: if_distrib [of Inr])

lemma TxoStatus_parse_display: "TxoStatus_from_str (TxoStatus_display s) = Inr s"
  by (cases s) (simp_all add: TxoStatus_display_def TxoStatus_from_str_def)

lemma TxoStatus_parse_Inr: "TxoStatus_from_str str = Inr s \<longleftrightarrow> str = TxoStatus_display s"
  by (cases s) (auto simp: TxoStatus_display_def TxoStatus_from_str_def)

lemma Txo_get_Inr:
  assumes "db_ok d"
  shows "Txo_get i d = Inr t \<longleftrightarrow> t \<in> set (db_txos d) \<and> txo_id t = i"
  using txos_table.find_row_iff [OF assms] by (simp add: Txo_get_def ok_or_eq_Inr)

lemma Txo_get_Inl:
  "Txo_get i d = Inl e \<longleftrightarrow> i \<notin> txo_id ` set (db_txos d) \<and> e = TxoNotFound i"
  unfolding Txo_get_def find_row_None [symmetric]
  by (cases "find_row txo_id i (db_txos d)") auto

subsection \<open>Memo type bytes\<close>

lemma bit_0xFF: "bit (0xFF :: int) n \<longleftrightarrow> n < 8"
proof -
  have "(0xFF :: int) = mask 8"
    by (simp add: mask_eq_exp_minus_1)
  then have "bit (0xFF :: int) n \<longleftrightarrow> bit (mask 8 :: int) n"
    by (rule arg_cong)
  also have "\<dots> \<longleftrightarrow> n < 8"
    unfolding bit_mask_iff by simp
  finally show ?thesis .
qed

lemma two_bytes_roundtrip: "i32_to_two_bytes (two_bytes_to_i32 b) = b"
proof (cases b)
  case (Pair hi lo)
  have "ucast (signed_drop_bit 8 (or (push_bit 8 (ucast hi)) (ucast lo) :: i32)) = (hi :: u8)"
    by (rule bit_word_eqI) (auto simp: bit_simps dest: bit_imp_le_length)
  moreover have "ucast (and (or (push_bit 8 (ucast hi)) (ucast lo)) 0xFF :: i32) = (lo :: u8)"
    by (rule bit_word_eqI) (simp add: bit_simps bit_0xFF)
  ultimately show ?thesis
    by (simp only: Pair i32_to_two_bytes_def two_bytes_to_i32_def fst_conv snd_conv)
qed

lemma two_bytes_to_i32_inj: "two_bytes_to_i32 a = two_bytes_to_i32 b \<longleftrightarrow> a = b"
  by (rule iffI) (drule arg_cong [where f = i32_to_two_bytes], simp_all add: two_bytes_roundtrip)

end
