(* ===== verification/Tx_Proposal.thy ===== *)
theory Tx_Proposal
  imports Txo_Query
begin

section \<open>Transaction proposals\<close>

text \<open>
  The structs of \<open>service/models/tx_proposal.rs\<close> that pass between the transaction builder, the
  signer and the database, with the fields of the third-party \<open>Tx\<close> and \<open>UnsignedTx\<close> that the
  wallet reads, and the key image of an input.
\<close>

record tx_prefix =
  pfx_fee :: u64
  pfx_fee_token_id :: u64
  pfx_tombstone_block :: u64

record tx =
  tx_prefix :: tx_prefix
  tx_bytes :: bytes

record unsigned_tx =
  utx_prefix :: tx_prefix
  utx_bytes :: bytes

record input_txo =
  in_tx_out :: tx_out
  in_subaddress_index :: u64
  in_key_image :: key_image
  in_amount :: amount

record unsigned_input_txo =
  uin_tx_out :: tx_out
  uin_subaddress_index :: u64
  uin_amount :: amount

record output_txo =
  out_tx_out :: tx_out
  out_recipient_public_address :: public_address
  out_confirmation_number :: confirmation_number
  out_amount :: amount
  out_shared_secret :: "ristretto_public option"

record tx_proposal =
  tp_tx :: tx
  tp_input_txos :: "input_txo list"
  tp_payload_txos :: "output_txo list"
  tp_change_txos :: "output_txo list"

record unsigned_tx_proposal =
  utp_unsigned_tx :: unsigned_tx
  utp_unsigned_input_txos :: "unsigned_input_txo list"
  utp_payload_txos :: "output_txo list"
  utp_change_txos :: "output_txo list"

text \<open>Signing an input with the local signer: its key image comes from its one-time private key.\<close>

definition sign_input ::
    "externals \<Rightarrow> account_key \<Rightarrow> unsigned_input_txo \<Rightarrow> ext_error + input_txo" where
  "sign_input x account_key txo =
     rbind (x_ristretto_try_from x (to_public_key (uin_tx_out txo))) (\<lambda>tx_out_public_key.
       let onetime_private_key = x_recover_onetime_private_key x tx_out_public_key
             (x_view_private_key x account_key)
             (x_subaddress_spend_private x account_key (uin_subaddress_index txo))
       in Inr \<lparr>in_tx_out = uin_tx_out txo, in_subaddress_index = uin_subaddress_index txo,
               in_key_image = x_key_image_from x onetime_private_key, in_amount = uin_amount txo\<rparr>)"

subsection \<open>Lemmas\<close>

abbreviation same_input :: "unsigned_input_txo \<Rightarrow> input_txo \<Rightarrow> bool" where
  "same_input u i \<equiv> in_tx_out i = uin_tx_out u \<and> in_subaddress_index i = uin_subaddress_index u \<and>
     in_amount i = uin_amount u"

lemma sign_input_Inr: "sign_input x k u = Inr i \<Longrightarrow> same_input u i"
  by (auto simp: sign_input_def rbind_eq_Inr Let_def)

lemma collect_same_inputs:
  assumes "collect_results f us = Inr qs" and "\<And>u i. f u = Inr i \<Longrightarrow> same_input u i"
  shows "list_all2 same_input us qs"
  using assms by (auto simp: collect_results_Inr elim!: list_all2_mono)

end
