(* ===== verification/Samples.thy ===== *)
theory Samples
  imports B58_Codes
begin

section \<open>Concrete instances\<close>

text \<open>
  A concrete implementation of the third-party functions and a small wallet database. The
  examples of the other theories evaluate the model on them; they also show that the
  hypotheses on the third-party code can hold together.
\<close>

subsection \<open>Text and byte encodings\<close>

definition chars_of_bytes :: "bytes \<Rightarrow> string" where
  "chars_of_bytes bs = map (\<lambda>b. char_of (unat (b + 65))) bs"

definition bytes_of_chars :: "string \<Rightarrow> bytes" where
  "bytes_of_chars s = map (\<lambda>c. word_of_nat (of_char c) - 65) s"

definition enc_nat :: "nat \<Rightarrow> string" where
  "enc_nat n = replicate n (CHR ''1'') @ ''0''"

definition dec_nat :: "string \<Rightarrow> nat \<times> string" where
  "dec_nat s = (length (takeWhile (\<lambda>c. c = CHR ''1'') s), drop 1 (dropWhile (\<lambda>c. c = CHR ''1'') s))"

definition enc_str :: "string \<Rightarrow> string" where
  "enc_str s = enc_nat (length s) @ s"

definition dec_str :: "string \<Rightarrow> string \<times> string" where
  "dec_str s = (case dec_nat s of (n, r) \<Rightarrow> (take n r, drop n r))"

fun sample_b58_encode :: "printable_wrapper \<Rightarrow> ext_error + string" where
  "sample_b58_encode PW_Empty = Inr ''E''"
| "sample_b58_encode (PW_PublicAddress a) = Inr (CHR ''A'' # chars_of_bytes a)"
| "sample_b58_encode (PW_PaymentRequest m) =
     Inr (CHR ''P'' # enc_str (chars_of_bytes (pr_public_address m)) @ enc_nat (unat (pr_value m))
       @ enc_nat (unat (pr_token_id m)) @ pr_memo m)"
| "sample_b58_encode (PW_TransferPayload m) =
     Inr (CHR ''T'' # enc_str (chars_of_bytes (tp_root_entropy m))
       @ enc_str (chars_of_bytes (tp_bip39_entropy m))
       @ enc_str (chars_of_bytes (tp_tx_out_public_key m)) @ tp_memo m)"

definition sample_b58_decode :: "string \<Rightarrow> ext_error + printable_wrapper" where
  "sample_b58_decode s =
     (case s of
       [] \<Rightarrow> Inl ''empty''
     | c # r \<Rightarrow>
         (if c = CHR ''E'' then Inr PW_Empty
          else if c = CHR ''A'' then Inr (PW_PublicAddress (bytes_of_chars r))
          else if c = CHR ''P'' then
            (case dec_str r of (a, r1) \<Rightarrow> case dec_nat r1 of (v, r2) \<Rightarrow> case dec_nat r2 of (t, memo) \<Rightarrow>
               Inr (PW_PaymentRequest \<lparr>pr_public_address = bytes_of_chars a,
                 pr_value = word_of_nat v, pr_token_id = word_of_nat t, pr_memo = memo\<rparr>))
          else if c = CHR ''T'' then
            (case dec_str r of (a, r1) \<Rightarrow> case dec_str r1 of (b, r2) \<Rightarrow> case dec_str r2 of (k, memo) \<Rightarrow>
               Inr (PW_TransferPayload \<lparr>tp_root_entropy = bytes_of_chars a,
                 tp_bip39_entropy = bytes_of_chars b, tp_tx_out_public_key = bytes_of_chars k,
                 tp_memo = memo\<rparr>))
          else Inl ''tag''))"

subsection \<open>The third-party functions\<close>

text \<open>Keys are byte strings: the subaddress \<open>i\<close> of the account key \<open>k\<close> is \<open>k\<close> followed by the last
  byte of \<open>i\<close>, a masked amount is a triple of owner, value and token bytes, and only the owner
  can open it.\<close>

definition sample_amount :: "bytes \<Rightarrow> ristretto_public \<Rightarrow> ext_error + amount" where
  "sample_amount m s =
     (case m of
       [owner, v, t] \<Rightarrow>
         (if take 1 s = [owner] then Inr \<lparr>am_value = ucast v, am_token_id = ucast t\<rparr>
          else Inl ''not ours'')
     | _ \<Rightarrow> Inl ''malformed'')"

fun bytes_leq :: "bytes \<Rightarrow> bytes \<Rightarrow> bool" where
  "bytes_leq [] _ = True"
| "bytes_leq (a # as) [] = False"
| "bytes_leq (a # as) (b # bs) = (a < b \<or> a = b \<and> bytes_leq as bs)"

definition sample_ext :: externals where
  "sample_ext =
    \<lparr>x_MAX_INPUTS = 16, x_MAX_OUTPUTS = 16, x_RING_SIZE = 11,
     x_DEFAULT_SUBADDRESS_INDEX = 0, x_CHANGE_SUBADDRESS_INDEX = 18446744073709551614,
     x_MOB_MINIMUM_FEE = 4, x_MOB_ID = 0,
     x_mt_authenticated_sender = (1, 0), x_mt_authenticated_sender_payment_intent = (1, 2),
     x_mt_authenticated_sender_payment_request = (1, 1), x_mt_destination = (2, 0),
     x_mt_destination_payment_intent = (2, 4), x_mt_destination_payment_request = (2, 3),
     x_tx_out_digest32 = to_public_key, x_address_digest32 = (\<lambda>a. a),
     x_hex_encode = chars_of_bytes, x_hex_fmt = chars_of_bytes,
     x_base64_decode = (\<lambda>s. Inr (bytes_of_chars s)),
     x_b58_encode = sample_b58_encode, x_b58_decode = sample_b58_decode,
     x_debug = chars_of_bytes,
     x_encode_compressed = (\<lambda>b. b), x_decode_compressed = Inr, x_decode_ristretto = Inr,
     x_encode_fog_hint = (\<lambda>b. b), x_encode_key_image = (\<lambda>b. b), x_decode_key_image = Inr,
     x_encode_confirmation = (\<lambda>b. b), x_decode_confirmation = Inr,
     x_encode_account_key = (\<lambda>b. b), x_decode_account_key = Inr,
     x_encode_view_account_key = (\<lambda>b. b), x_decode_view_account_key = Inr,
     x_shared_secret_encode = (\<lambda>b. b), x_shared_secret_bytes = (\<lambda>b. b),
     x_public_address_proto = (\<lambda>b. b), x_public_address_try_from = Inr,
     x_compressed_try_from_proto = Inr,
     x_ristretto_try_from = Inr, x_compressed_leq = bytes_leq,
     x_compressed_from = (\<lambda>b. b), x_ristretto_bytes = (\<lambda>b. b),
     x_subaddress = (\<lambda>k i. k @ [ucast i]), x_view_subaddress = (\<lambda>k i. k @ [ucast i]),
     x_subaddress_spend_private = (\<lambda>k i. k @ [ucast i]),
     x_view_private_key = (\<lambda>k. k), x_vk_view_private_key = (\<lambda>k. k),
     x_view_account_key_from = (\<lambda>k. k), x_spend_public_key = (\<lambda>a. a),
     x_account_key_from_mnemonic = (\<lambda>m. m), x_account_key_with_fog = (\<lambda>k _ _ _. k),
     x_mnemonic_entropy = (\<lambda>m. m), x_mnemonic_from_entropy = Inr,
     x_account_key_from_root = (\<lambda>e _ _ _. e),
     x_get_tx_out_shared_secret = (\<lambda>v p. v @ p),
     x_recover_public_subaddress_spend_key = (\<lambda>v target p. target),
     x_recover_onetime_private_key = (\<lambda>p v s. p @ s), x_key_image_from = (\<lambda>k. k),
     x_confirmation_validate = (\<lambda>c p v. c = p),
     x_amount_get_value = sample_amount,
     x_memo_decrypt = (\<lambda>m s. \<lparr>mp_type = (0, 0), mp_data = m\<rparr>),
     x_unused_memo = \<lparr>mp_type = (0, 0), mp_data = []\<rparr>,
     x_memo_type_try_from = (\<lambda>m. Inr MT_Other)\<rparr>"

text \<open>A wallet with one account (key \<open>[1]\<close>, identifier \<open>BA\<close>), its main and change subaddresses and
  three received txos of values 5, 7 and 100, the last one spent by a pending transaction.\<close>

definition sample_account :: account where
  "sample_account = \<lparr>acct_id = ''BA'', acct_account_key = [1], acct_entropy = Some [1],
     acct_key_derivation_version = 2, acct_first_block_index = 0, acct_next_block_index = 3,
     acct_import_block_index = None, acct_name = ''alice'', acct_fog_enabled = False,
     acct_view_only = False, acct_managed_by_hardware_wallet = False, acct_resyncing = False,
     acct_require_spend_subaddress = False\<rparr>"

definition sample_txo :: "string \<Rightarrow> u8 \<Rightarrow> i64 \<Rightarrow> i64 \<Rightarrow> txo" where
  "sample_txo i key v blk = \<lparr>txo_id = i, txo_account_id = Some ''BA'', txo_value = v,
     txo_token_id = 0, txo_target_key = [1, 0], txo_public_key = [key], txo_e_fog_hint = [],
     txo_subaddress_index = Some 0, txo_key_image = Some [key, 1, 0],
     txo_received_block_index = Some blk, txo_spent_block_index = None, txo_confirmation = None,
     txo_shared_secret = Some [1, key], txo_memo_type = None, txo_is_synced_to_t3 = False\<rparr>"

definition sample_log :: transaction_log where
  "sample_log = \<lparr>tl_id = ''L1'', tl_account_id = ''BA'', tl_fee_value = 4, tl_fee_token_id = 0,
     tl_submitted_block_index = Some 2, tl_tombstone_block_index = Some 10,
     tl_finalized_block_index = None, tl_comment = [], tl_tx = [], tl_failed = False\<rparr>"

definition sample_db :: db where
  "sample_db = \<lparr>
     db_accounts = [sample_account],
     db_txos = [sample_txo ''A'' 0 5 1, sample_txo ''B'' 1 7 1, sample_txo ''C'' 2 100 2],
     db_assigned_subaddresses =
       [\<lparr>asub_public_address_b58 = ''ABA'', asub_account_id = ''BA'', asub_subaddress_index = 0,
         asub_comment = ''Main'', asub_spend_public_key = [1, 0]\<rparr>,
        \<lparr>asub_public_address_b58 = ''AB?'', asub_account_id = ''BA'',
         asub_subaddress_index = 18446744073709551614, asub_comment = ''Change'',
         asub_spend_public_key = [1, 0xFE]\<rparr>],
     db_transaction_logs = [sample_log],
     db_transaction_input_txos = [\<lparr>tin_transaction_log_id = ''L1'', tin_txo_id = ''C''\<rparr>],
     db_transaction_output_txos = [],
     db_authenticated_sender_memos = [], db_destination_memos = [], db_gift_codes = []\<rparr>"

text \<open>A transaction output for the account: value 9 of token 0, at its main subaddress.\<close>

definition sample_tx_out :: tx_out where
  "sample_tx_out = \<lparr>to_masked_amount = Some [1, 9, 0], to_target_key = [1, 0],
     to_public_key = [3], to_e_fog_hint = [], to_e_memo = None\<rparr>"

text \<open>A ledger of five blocks: block 3 holds that output and the key image of the sample txo \<open>C\<close>.\<close>

definition sample_ledger :: ledger_db where
  "sample_ledger = \<lparr>
     l_num_blocks = Inr 5, l_num_txos = Inr 40,
     l_get_block_contents = (\<lambda>i.
       if i = 3 then Inr \<lparr>bc_outputs = [sample_tx_out], bc_key_images = [[2, 1, 0]]\<rparr>
       else if i < 5 then Inr \<lparr>bc_outputs = [], bc_key_images = []\<rparr> else Inl LedgerNotFound),
     l_contains_key_image = (\<lambda>k. Inr (k = [2, 1, 0])),
     l_get_tx_out_index_by_public_key = (\<lambda>k. if k = [3] then Inr 7 else Inl LedgerNotFound),
     l_get_block_index_by_tx_out_index = (\<lambda>i. if i = 7 then Inr 3 else Inl LedgerNotFound),
     l_get_tx_out_by_index = (\<lambda>i. Inr sample_tx_out),
     l_get_tx_out_index_by_hash = (\<lambda>t. if t = sample_tx_out then Inr 7 else Inl LedgerNotFound),
     l_get_tx_out_proof_of_memberships = (\<lambda>is. Inr (map (\<lambda>i. [ucast i]) is)),
     l_check_key_image = (\<lambda>k. Inr (if k = [2, 1, 0] then Some 3 else None))\<rparr>"

text \<open>The sample wallet with an orphaned txo that was sent to its subaddress 1.\<close>

definition sample_orphan :: txo where
  "sample_orphan = (sample_txo ''O'' 9 50 2)\<lparr>txo_subaddress_index := None, txo_key_image := None,
     txo_target_key := [1, 1]\<rparr>"

definition sample_orphan_db :: db where
  "sample_orphan_db = db_txos_update (\<lambda>ts. ts @ [sample_orphan]) sample_db"

subsection \<open>The laws hold\<close>

lemma bytes_of_chars_inverse [simp]: "bytes_of_chars (chars_of_bytes bs) = bs"
proof -
  have "word_of_nat (of_char (char_of (unat (b + 65)) :: char) :: nat) - 65 = b" for b :: u8
    using unsigned_less [of "b + 65", where ?'a = nat] by simp
  then show ?thesis
    by (induction bs) (simp_all add: chars_of_bytes_def bytes_of_chars_def)
qed

lemma dec_nat_enc [simp]: "dec_nat (enc_nat n @ r) = (n, r)"
  by (simp add: dec_nat_def enc_nat_def takeWhile_append dropWhile_append)

lemma dec_str_enc [simp]: "dec_str (enc_str s @ r) = (s, r)"
  by (simp add: dec_str_def enc_str_def)

lemma sample_b58_decode_encode: "sample_b58_encode w = Inr s \<Longrightarrow> sample_b58_decode s = Inr w"
  by (cases w) (auto simp: sample_b58_decode_def)

lemma sample_b58_laws: "b58_laws sample_ext"
  by (simp add: b58_laws_def sample_ext_def sample_b58_decode_encode)

lemma sample_db_ok: "db_ok sample_db"
  by code_simp

lemma sample_orphan_db_ok: "db_ok sample_orphan_db"
  by code_simp

end
