(* ===== verification/Txo_Write.thy ===== *)
theory Txo_Write
  imports Txo_Facts Tx_Proposal Samples
begin

section \<open>Writing txos\<close>

text \<open>
  The write operations of \<open>db/txo.rs\<close>: recording a received txo and a new output, the updates
  of single columns, scrubbing an account, deleting what nothing refers to, and the memo rows.
\<close>

subsection \<open>Memos\<close>

text \<open>\<open>INSERT ... ON CONFLICT DO NOTHING\<close>: a row with the same key wins.\<close>

definition add_authenticated_memo_to_database ::
    "string \<Rightarrow> string \<Rightarrow> i64 option \<Rightarrow> i64 option \<Rightarrow> unit db_action" where
  "add_authenticated_memo_to_database tid sender_address_hash payment_request_id payment_intent_id =
     exec_stmt (db_authenticated_sender_memos_update (\<lambda>rs.
       if tid \<in> asm_txo_id ` set rs then rs
       else rs @ [\<lparr>asm_txo_id = tid, asm_sender_address_hash = sender_address_hash,
                   asm_payment_request_id = payment_request_id,
                   asm_payment_intent_id = payment_intent_id\<rparr>]))"

definition add_destination_memo_to_database ::
    "string \<Rightarrow> string \<Rightarrow> i32 \<Rightarrow> i64 \<Rightarrow> i64 \<Rightarrow> i64 option \<Rightarrow> i64 option \<Rightarrow> unit db_action" where
  "add_destination_memo_to_database tid recipient_address_hash num_recipients fee total_outlay
      payment_request_id payment_intent_id =
     exec_stmt (db_destination_memos_update (\<lambda>rs.
       if tid \<in> dm_txo_id ` set rs then rs
       else rs @ [\<lparr>dm_txo_id = tid, dm_recipient_address_hash = recipient_address_hash,
                   dm_num_recipients = num_recipients, dm_fee = fee, dm_total_outlay = total_outlay,
                   dm_payment_request_id = payment_request_id,
                   dm_payment_intent_id = payment_intent_id\<rparr>]))"

definition add_memo_to_database :: "externals \<Rightarrow> string \<Rightarrow> memo_payload \<Rightarrow> unit db_action" where
  "add_memo_to_database x tid memo_payload = (case x_memo_type_try_from x memo_payload of
     Inl e \<Rightarrow> sraise (MemoDecoding e)
   | Inr (MT_AuthenticatedSender h) \<Rightarrow> add_authenticated_memo_to_database tid h None None
   | Inr (MT_AuthenticatedSenderWithPaymentIntentId h i) \<Rightarrow>
       add_authenticated_memo_to_database tid h None (Some i)
   | Inr (MT_AuthenticatedSenderWithPaymentRequestId h r) \<Rightarrow>
       add_authenticated_memo_to_database tid h (Some r) None
   | Inr (MT_Destination h n fee total_outlay) \<Rightarrow>
       add_destination_memo_to_database tid h (ucast n) fee total_outlay None None
   | Inr (MT_DestinationWithPaymentRequestId h n fee total_outlay r) \<Rightarrow>
       add_destination_memo_to_database tid h (ucast n) fee total_outlay (Some r) None
   | Inr (MT_DestinationWithPaymentIntentId h n fee total_outlay i) \<Rightarrow>
       add_destination_memo_to_database tid h (ucast n) fee total_outlay None (Some i)
   | Inr MT_Other \<Rightarrow> sreturn ())"

definition decrypt_memo :: "externals \<Rightarrow> encrypted_memo option \<Rightarrow> ristretto_public \<Rightarrow> memo_payload" where
  "decrypt_memo x e_memo shared_secret = (case e_memo of
     Some m \<Rightarrow> x_memo_decrypt x m shared_secret | None \<Rightarrow> x_unused_memo x)"

subsection \<open>Single-row updates\<close>

definition Txo_update_as_received ::
    "externals \<Rightarrow> txo \<Rightarrow> u64 option \<Rightarrow> key_image option \<Rightarrow> u64 \<Rightarrow> string \<Rightarrow> amount \<Rightarrow> bytes \<Rightarrow> bytes
      \<Rightarrow> bytes \<Rightarrow> bytes option \<Rightarrow> i32 option \<Rightarrow> unit db_action" where
  "Txo_update_as_received x self subaddress_index received_key_image block_index account_id_hex
      amt target_key public_key e_fog_hint shared_secret memo_type =
     update_where db_txos_update (\<lambda>t. txo_id t = txo_id self) (\<lambda>t. t\<lparr>
        txo_subaddress_index := subaddress_index,
        txo_key_image := map_option (x_encode_key_image x) received_key_image,
        txo_received_block_index := Some block_index,
        txo_account_id := Some account_id_hex,
        txo_value := am_value amt,
        txo_token_id := am_token_id amt,
        txo_target_key := target_key,
        txo_public_key := public_key,
        txo_e_fog_hint := e_fog_hint,
        txo_shared_secret := shared_secret,
        txo_memo_type := memo_type\<rparr>)"

definition Txo_update_spent_block_index :: "string \<Rightarrow> u64 \<Rightarrow> unit db_action" where
  "Txo_update_spent_block_index txo_id_hex spent_block_index =
     update_where db_txos_update (\<lambda>t. txo_id t = txo_id_hex)
       (\<lambda>t. t\<lparr>txo_spent_block_index := Some spent_block_index\<rparr>)"

definition Txo_update_key_image ::
    "externals \<Rightarrow> string \<Rightarrow> key_image \<Rightarrow> u64 option \<Rightarrow> unit db_action" where
  "Txo_update_key_image x txo_id_hex key_image spent_block_index =
     update_where db_txos_update (\<lambda>t. txo_id t = txo_id_hex)
       (\<lambda>t. t\<lparr>txo_key_image := Some (x_encode_key_image x key_image),
              txo_spent_block_index := spent_block_index\<rparr>)"

definition Txo_update_key_image_by_pubkey ::
    "externals \<Rightarrow> compressed_public \<Rightarrow> key_image \<Rightarrow> u64 option \<Rightarrow> unit db_action" where
  "Txo_update_key_image_by_pubkey x public_key key_image spent_block_index =
     sbind (sread (\<lambda>d. ok_or (Diesel DieselNotFound)
       (first_row (filter (\<lambda>t. txo_public_key t = x_encode_compressed x public_key) (db_txos d))))) (\<lambda>t.
     sbind (sread (Txo_get (txo_id t))) (\<lambda>t'.
       Txo_update_key_image x (txo_id t') key_image spent_block_index))"

definition Txo_update_is_synced_to_t3 :: "txo \<Rightarrow> bool \<Rightarrow> unit db_action" where
  "Txo_update_is_synced_to_t3 self is_synced =
     update_where db_txos_update (\<lambda>t. txo_id t = txo_id self)
       (\<lambda>t. t\<lparr>txo_is_synced_to_t3 := is_synced\<rparr>)"

definition Txo_scrub_account :: "string \<Rightarrow> unit db_action" where
  "Txo_scrub_account account_id_hex =
     update_where db_txos_update (\<lambda>t. sql_holds (sql_eq (txo_account_id t) (Some account_id_hex)))
       (\<lambda>t. t\<lparr>txo_account_id := None\<rparr>)"

text \<open>\<open>delete_unreferenced\<close>: memos first, then the txos. Each statement evaluates the subquery
  on the database it finds.\<close>

definition unreferenced :: "db \<Rightarrow> txo \<Rightarrow> bool" where
  "unreferenced d t \<longleftrightarrow>
     \<not> (\<exists>i \<in> set (db_transaction_input_txos d). tin_txo_id i = txo_id t) \<and>
     \<not> (\<exists>r \<in> set (db_transaction_output_txos d). tout_txo_id r = txo_id t) \<and>
     txo_account_id t = None"

definition unreferenced_ids :: "db \<Rightarrow> string set" where
  "unreferenced_ids d = txo_id ` set (filter (unreferenced d) (db_txos d))"

definition Txo_delete_unreferenced :: "unit db_action" where
  "Txo_delete_unreferenced =
     sthen (exec_stmt (\<lambda>d. db_authenticated_sender_memos_update
              (filter (\<lambda>m. asm_txo_id m \<notin> unreferenced_ids d)) d))
     (sthen (exec_stmt (\<lambda>d. db_destination_memos_update
              (filter (\<lambda>m. dm_txo_id m \<notin> unreferenced_ids d)) d))
     (exec_stmt (\<lambda>d. db_txos_update (filter (\<lambda>t. \<not> unreferenced d t)) d)))"

subsection \<open>Received txos and new outputs\<close>

definition new_txo_row ::
    "externals \<Rightarrow> string \<Rightarrow> string option \<Rightarrow> amount \<Rightarrow> tx_out \<Rightarrow> i64 option \<Rightarrow> bytes option \<Rightarrow> i64 option
      \<Rightarrow> bytes option \<Rightarrow> bytes option \<Rightarrow> i32 option \<Rightarrow> txo" where
  "new_txo_row x tid account_id amt tx_out subaddress_index key_image received_block_index
      confirmation shared_secret memo_type =
     \<lparr>txo_id = tid, txo_account_id = account_id, txo_value = am_value amt,
      txo_token_id = am_token_id amt,
      txo_target_key = x_encode_compressed x (to_target_key tx_out),
      txo_public_key = x_encode_compressed x (to_public_key tx_out),
      txo_e_fog_hint = x_encode_fog_hint x (to_e_fog_hint tx_out),
      txo_subaddress_index = subaddress_index, txo_key_image = key_image,
      txo_received_block_index = received_block_index, txo_spent_block_index = None,
      txo_confirmation = confirmation, txo_shared_secret = shared_secret,
      txo_memo_type = memo_type, txo_is_synced_to_t3 = False\<rparr>"

definition Txo_create_received ::
    "externals \<Rightarrow> tx_out \<Rightarrow> u64 option \<Rightarrow> key_image option \<Rightarrow> amount \<Rightarrow> u64 \<Rightarrow> string
      \<Rightarrow> string db_action" where
  "Txo_create_received x tx_out subaddress_index key_image amt received_block_index account_id_hex =
     sbind (sread (Account_get account_id_hex)) (\<lambda>a.
     sbind (sread (\<lambda>_. map_err KeyError (x_ristretto_try_from x (to_public_key tx_out)))) (\<lambda>tx_public_key.
     sbind (sread (\<lambda>_. Account_get_shared_secret x a tx_public_key)) (\<lambda>shared_secret.
       let tid = TxoID_from_tx_out x tx_out;
           shared_secret_vec = x_shared_secret_encode x shared_secret;
           memo_payload = decrypt_memo x (to_e_memo tx_out) shared_secret;
           memo_type = Some (two_bytes_to_i32 (mp_type memo_payload))
       in sthen (smatch (Txo_get tid) (\<lambda>found. case found of
              Inr found_txo \<Rightarrow>
                Txo_update_as_received x found_txo subaddress_index key_image received_block_index
                  account_id_hex amt (x_encode_compressed x (to_target_key tx_out))
                  (x_encode_compressed x (to_public_key tx_out))
                  (x_encode_fog_hint x (to_e_fog_hint tx_out))
                  (Some shared_secret_vec) memo_type
            | Inl e \<Rightarrow> (case e of
                TxoNotFound _ \<Rightarrow>
                  insert_into db_txos_update
                    (new_txo_row x tid (Some account_id_hex) amt tx_out subaddress_index
                      (map_option (x_encode_key_image x) key_image) (Some received_block_index)
                      None (Some shared_secret_vec) memo_type)
              | _ \<Rightarrow> sraise e)))
          (sthen (add_memo_to_database x tid memo_payload) (sreturn tid)))))"

definition Txo_create_new_output ::
    "externals \<Rightarrow> output_txo \<Rightarrow> bool \<Rightarrow> string \<Rightarrow> unit db_action" where
  "Txo_create_new_output x output_txo is_change transaction_id =
     (let tid = TxoID_from_tx_out x (out_tx_out output_txo);
          memo_payload = map_option (decrypt_memo x (to_e_memo (out_tx_out output_txo)))
            (out_shared_secret output_txo);
          memo_type = map_option (\<lambda>p. two_bytes_to_i32 (mp_type p)) memo_payload
      in sthen (insert_into db_txos_update
             (new_txo_row x tid None (out_amount output_txo) (out_tx_out output_txo) None None None
                (Some (x_encode_confirmation x (out_confirmation_number output_txo)))
                (map_option (x_shared_secret_bytes x) (out_shared_secret output_txo)) memo_type))
        (sbind (sread (\<lambda>_. map_err B58
             (b58_encode_public_address x (out_recipient_public_address output_txo)))) (\<lambda>recipient_b58.
        sthen (insert_into db_transaction_output_txos_update
             \<lparr>tout_transaction_log_id = transaction_id, tout_txo_id = tid,
              tout_recipient_public_address_b58 = recipient_b58, tout_is_change = is_change\<rparr>)
        (case memo_payload of
           Some p \<Rightarrow> add_memo_to_database x tid p
         | None \<Rightarrow> sreturn ()))))"

subsection \<open>Constraints are kept\<close>

lemma preserves_case_memo_type [preserves_intros]:
  assumes "\<And>h. preserves P (f1 h)" "\<And>h i. preserves P (f2 h i)" "\<And>h i. preserves P (f3 h i)"
    "\<And>h n a b. preserves P (f4 h n a b)" "\<And>h n a b i. preserves P (f5 h n a b i)"
    "\<And>h n a b i. preserves P (f6 h n a b i)" "preserves P f7"
  shows "preserves P (case m of MT_AuthenticatedSender h \<Rightarrow> f1 h
     | MT_AuthenticatedSenderWithPaymentIntentId h i \<Rightarrow> f2 h i
     | MT_AuthenticatedSenderWithPaymentRequestId h i \<Rightarrow> f3 h i
     | MT_Destination h n a b \<Rightarrow> f4 h n a b
     | MT_DestinationWithPaymentRequestId h n a b i \<Rightarrow> f5 h n a b i
     | MT_DestinationWithPaymentIntentId h n a b i \<Rightarrow> f6 h n a b i
     | MT_Other \<Rightarrow> f7)"
  using assms by (cases m) auto

text \<open>The statements of this theory are the only writes an action on txos makes; what each keeps,
  the action keeps.\<close>

definition kept_by_memos :: "(db \<Rightarrow> bool) \<Rightarrow> bool" where
  "kept_by_memos P \<longleftrightarrow>
     (\<forall>f. preserves P (exec_stmt (db_authenticated_sender_memos_update f))) \<and>
     (\<forall>f. preserves P (exec_stmt (db_destination_memos_update f)))"

lemma preserves_add_memo:
  assumes "kept_by_memos P"
  shows "preserves P (add_memo_to_database x tid p)"
  unfolding add_memo_to_database_def add_authenticated_memo_to_database_def
    add_destination_memo_to_database_def
  using assms by (auto intro!: preserves_intros simp: kept_by_memos_def)

lemma preserves_case_error [preserves_intros]:
  "(\<And>s. preserves P (f s)) \<Longrightarrow> preserves P g \<Longrightarrow>
   preserves P (case e of TxoNotFound s \<Rightarrow> f s | _ \<Rightarrow> g)"
  "(\<And>s. preserves P (f s)) \<Longrightarrow> preserves P g \<Longrightarrow>
   preserves P (case e of TransactionLogNotFound s \<Rightarrow> f s | _ \<Rightarrow> g)"
  by (cases e; simp)+

lemma preserves_create_received:
  assumes "kept_by_memos P"
    and "\<And>r. txo_account_id r = Some acct \<Longrightarrow> txo_received_block_index r = Some blk \<Longrightarrow>
           preserves P (insert_into db_txos_update r)"
    and "\<And>t hint ss mt tk pk. preserves P
           (Txo_update_as_received x t sub ki blk acct amt tk pk hint ss mt)"
  shows "preserves P (Txo_create_received x tx_out sub ki amt blk acct)"
  unfolding Txo_create_received_def Let_def
  by (auto intro!: preserves_intros preserves_add_memo assms simp: new_txo_row_def)

lemma preserves_create_new_output:
  assumes "kept_by_memos P"
    and "\<And>r. txo_account_id r = None \<Longrightarrow> txo_received_block_index r = None \<Longrightarrow>
           txo_spent_block_index r = None \<Longrightarrow> preserves P (insert_into db_txos_update r)"
    and "\<And>r. preserves P (insert_into db_transaction_output_txos_update r)"
  shows "preserves P (Txo_create_new_output x o' c tid)"
  unfolding Txo_create_new_output_def Let_def
  by (auto intro!: preserves_intros preserves_add_memo assms simp: new_txo_row_def)

lemma kept_by_memos_db_ok [simp]: "kept_by_memos db_ok"
  by (simp add: kept_by_memos_def preserves_db_ok_exec)

lemma db_ok_txo_writes [preserves_intros]:
  "preserves db_ok (add_memo_to_database x tid p)"
  "preserves db_ok (Txo_update_as_received x t sub ki blk acct amt tk pk hint ss mt)"
  "preserves db_ok (Txo_update_spent_block_index i b)"
  "preserves db_ok (Txo_update_key_image x i k s)"
  "preserves db_ok (Txo_update_key_image_by_pubkey x pub k s)"
  "preserves db_ok (Txo_update_is_synced_to_t3 t bl)"
  "preserves db_ok (Txo_scrub_account acct)"
  "preserves db_ok Txo_delete_unreferenced"
  "preserves db_ok (Txo_create_received x tx_out sub ki amt blk acct)"
  "preserves db_ok (Txo_create_new_output x o' c tlid)"
  by (auto intro!: preserves_intros preserves_add_memo preserves_create_received
      preserves_create_new_output
      simp: Txo_update_as_received_def Txo_update_spent_block_index_def Txo_update_key_image_def
        Txo_update_key_image_by_pubkey_def Txo_update_is_synced_to_t3_def Txo_scrub_account_def
        Txo_delete_unreferenced_def)

subsection \<open>Effects\<close>

text \<open>Memo writes touch the two memo tables only.\<close>

definition memo_frame :: "db \<Rightarrow> db \<Rightarrow> bool" where
  "memo_frame d d' \<longleftrightarrow> db_txos d' = db_txos d \<and> db_accounts d' = db_accounts d \<and>
     db_assigned_subaddresses d' = db_assigned_subaddresses d \<and>
     db_transaction_logs d' = db_transaction_logs d \<and>
     db_transaction_input_txos d' = db_transaction_input_txos d \<and>
     db_transaction_output_txos d' = db_transaction_output_txos d \<and>
     db_gift_codes d' = db_gift_codes d"

lemma kept_by_memos_frame: "kept_by_memos (memo_frame d)"
  unfolding kept_by_memos_def by (auto intro!: preserves_exec_stmt simp: memo_frame_def)

lemma memo_frame_refl: "memo_frame d d"
  by (simp add: memo_frame_def)

lemma add_memo_frame: "memo_frame d (snd (add_memo_to_database x tid p d))"
  by (rule preservesD [OF preserves_add_memo [OF kept_by_memos_frame] memo_frame_refl])

lemma add_memo_tables:
  assumes "add_memo_to_database x tid p d = (r, d')"
  shows "db_txos d' = db_txos d" "db_accounts d' = db_accounts d"
    "db_assigned_subaddresses d' = db_assigned_subaddresses d"
    "db_transaction_logs d' = db_transaction_logs d"
    "db_transaction_input_txos d' = db_transaction_input_txos d"
    "db_transaction_output_txos d' = db_transaction_output_txos d"
  using add_memo_frame [of d x tid p] assms by (auto simp: memo_frame_def)

lemma add_memo_idem:
  assumes "add_memo_to_database x tid p d = (Inr (), d')" and "db_ok d"
  shows "add_memo_to_database x tid p d' = (Inr (), d')"
proof -
  have ok: "db_ok d'"
    by (rule preservesD_eq [OF db_ok_txo_writes(1) assms(2,1)])
  have a: "add_authenticated_memo_to_database tid h r i d' = (Inr (), d')"
    if "add_authenticated_memo_to_database tid h r i d = (Inr (), d')" for h r i
  proof -
    have "tid \<in> asm_txo_id ` set (db_authenticated_sender_memos d')"
      using that by (auto simp: add_authenticated_memo_to_database_def exec_stmt_Inr split: if_splits)
    then show ?thesis
      using ok by (simp add: add_authenticated_memo_to_database_def exec_stmt_ok table_update_noop)
  qed
  have b: "add_destination_memo_to_database tid h n f t r i d' = (Inr (), d')"
    if "add_destination_memo_to_database tid h n f t r i d = (Inr (), d')" for h n f t r i
  proof -
    have "tid \<in> dm_txo_id ` set (db_destination_memos d')"
      using that by (auto simp: add_destination_memo_to_database_def exec_stmt_Inr split: if_splits)
    then show ?thesis
      using ok by (simp add: add_destination_memo_to_database_def exec_stmt_ok table_update_noop)
  qed
  show ?thesis
    using assms(1) a b
    by (auto simp: add_memo_to_database_def sraise_apply sreturn_apply
        split: sum.splits memo_type.splits)
qed

text \<open>What a txo row holds after it was recorded as received.\<close>

definition received_row ::
    "externals \<Rightarrow> tx_out \<Rightarrow> u64 option \<Rightarrow> key_image option \<Rightarrow> amount \<Rightarrow> u64 \<Rightarrow> string \<Rightarrow> bytes \<Rightarrow> i32
      \<Rightarrow> txo \<Rightarrow> txo" where
  "received_row x tx_out sub ki amt blk acct ss mt t = t\<lparr>
     txo_subaddress_index := sub, txo_key_image := map_option (x_encode_key_image x) ki,
     txo_received_block_index := Some blk, txo_account_id := Some acct,
     txo_value := am_value amt, txo_token_id := am_token_id amt,
     txo_target_key := x_encode_compressed x (to_target_key tx_out),
     txo_public_key := x_encode_compressed x (to_public_key tx_out),
     txo_e_fog_hint := x_encode_fog_hint x (to_e_fog_hint tx_out),
     txo_shared_secret := Some ss, txo_memo_type := Some mt\<rparr>"

lemma create_received_Inr:
  assumes "Txo_create_received x tx_out sub ki amt blk acct d = (Inr tid, d')"
  shows "\<exists>a tpk ss mp d1 mt. Account_get acct d = Inr a \<and>
    x_ristretto_try_from x (to_public_key tx_out) = Inr tpk \<and>
    Account_get_shared_secret x a tpk = Inr ss \<and> mp = decrypt_memo x (to_e_memo tx_out) ss \<and>
    mt = two_bytes_to_i32 (mp_type mp) \<and>
    tid = TxoID_from_tx_out x tx_out \<and> db_ok d1 \<and>
    d1 = (case Txo_get tid d of
       Inr t \<Rightarrow> db_txos_update (update_rows (\<lambda>u. txo_id u = tid)
         (received_row x tx_out sub ki amt blk acct (x_shared_secret_encode x ss) mt)) d
     | Inl _ \<Rightarrow> db_txos_update (\<lambda>ts. ts @ [received_row x tx_out sub ki amt blk acct
         (x_shared_secret_encode x ss) mt
         (new_txo_row x tid None amt tx_out None None None None None None)]) d) \<and>
    add_memo_to_database x tid mp d1 = (Inr (), d')"
proof -
  from assms obtain a tpk ss where r:
    "Account_get acct d = Inr a" "x_ristretto_try_from x (to_public_key tx_out) = Inr tpk"
    "Account_get_shared_secret x a tpk = Inr ss"
    by (auto simp: Txo_create_received_def sbind_eq_Inr sread_apply map_err_def split: sum.splits)
  show ?thesis
  proof (cases "Txo_get (TxoID_from_tx_out x tx_out) d")
    case (Inl e)
    then have "e = TxoNotFound (TxoID_from_tx_out x tx_out)" by (simp add: Txo_get_Inl)
    with assms r Inl show ?thesis
      by (auto simp: Txo_create_received_def sbind_sread sthen_eq_Inr smatch_apply sreturn_apply
          Let_def insert_into_def exec_stmt_Inr received_row_def new_txo_row_def)
  next
    case (Inr t)
    then have "txo_id t = TxoID_from_tx_out x tx_out"
      by (auto simp: Txo_get_def ok_or_eq_Inr dest: find_row_Some)
    with assms r Inr show ?thesis
      by (auto simp: Txo_create_received_def sbind_sread sthen_eq_Inr smatch_apply sreturn_apply
          Let_def Txo_update_as_received_def update_where_def exec_stmt_Inr received_row_def [abs_def])
  qed
qed

lemma update_spent_eq:
  assumes "db_ok d"
  shows "Txo_update_spent_block_index i b d = (Inr (), db_txos_update
           (update_rows (\<lambda>t. txo_id t = i) (\<lambda>t. t\<lparr>txo_spent_block_index := Some b\<rparr>)) d)"
  unfolding Txo_update_spent_block_index_def by (rule update_where_txos [OF assms]) simp_all

lemma update_key_image_eq:
  assumes "db_ok d"
  shows "Txo_update_key_image x i k b d = (Inr (), db_txos_update (update_rows (\<lambda>t. txo_id t = i)
           (\<lambda>t. t\<lparr>txo_key_image := Some (x_encode_key_image x k), txo_spent_block_index := b\<rparr>)) d)"
  unfolding Txo_update_key_image_def by (rule update_where_txos [OF assms]) simp_all

lemma sql_holds_eq_Some: "sql_holds (sql_eq a (Some b)) \<longleftrightarrow> a = Some b"
  by auto

lemma scrub_account_ok:
  assumes "db_ok d"
  shows "Txo_scrub_account acct d = (Inr (), db_txos_update
           (update_rows (\<lambda>t. txo_account_id t = Some acct) (\<lambda>t. t\<lparr>txo_account_id := None\<rparr>)) d)"
proof -
  let ?f = "update_rows (\<lambda>t. txo_account_id t = Some acct) (\<lambda>t. t\<lparr>txo_account_id := None\<rparr>)"
  have "Option.these (txo_account_id ` set (?f (db_txos d))) \<subseteq> Option.these (txo_account_id ` set (db_txos d))"
    by (auto simp: set_update_rows Option.these_def split: if_splits)
  with assms have "db_ok (db_txos_update ?f d)"
    by (auto simp: db_ok_def uniq_ok_def fk_ok_def Let_def)
  then show ?thesis
    by (simp only: Txo_scrub_account_def update_where_def sql_holds_eq_Some exec_stmt_ok)
qed

lemma unreferenced_cong:
  assumes "db_transaction_input_txos d' = db_transaction_input_txos d"
    and "db_transaction_output_txos d' = db_transaction_output_txos d"
  shows "unreferenced d' = unreferenced d"
  using assms by (simp add: unreferenced_def [abs_def])

lemma delete_unreferenced_ok:
  assumes "db_ok d"
  shows "Txo_delete_unreferenced d = (Inr (), d\<lparr>
    db_authenticated_sender_memos :=
      filter (\<lambda>m. asm_txo_id m \<notin> unreferenced_ids d) (db_authenticated_sender_memos d),
    db_destination_memos := filter (\<lambda>m. dm_txo_id m \<notin> unreferenced_ids d) (db_destination_memos d),
    db_txos := filter (\<lambda>t. \<not> unreferenced d t) (db_txos d)\<rparr>)"
proof -
  let ?U = "unreferenced_ids d"
  let ?d1 = "db_authenticated_sender_memos_update (filter (\<lambda>m. asm_txo_id m \<notin> ?U)) d"
  let ?d2 = "db_destination_memos_update (filter (\<lambda>m. dm_txo_id m \<notin> ?U)) ?d1"
  have u: "unreferenced ?d1 = unreferenced d" "unreferenced ?d2 = unreferenced d"
    "unreferenced_ids ?d1 = ?U"
    by (simp_all add: unreferenced_def [abs_def] unreferenced_ids_def)
  have ok: "db_ok ?d1" "db_ok ?d2"
    by (intro db_ok_delete_leaf assms)+
  have "db_ok (db_txos_update (filter (\<lambda>t. \<not> unreferenced d t)) ?d2)"
    by (rule db_ok_delete_txos [OF ok(2)])
       (auto simp: unreferenced_def unreferenced_ids_def image_iff)
  with ok show ?thesis
    by (simp add: Txo_delete_unreferenced_def sthen_Inr [OF exec_stmt_ok] exec_stmt_ok u)
qed

text \<open>The row a received output leaves, whether it was known before (as an output the wallet
  built itself, or from an earlier scan) or not.\<close>

lemma create_received_row:
  assumes "db_ok d" and "Txo_create_received x tx_out sub ki amt blk acct d = (Inr tid, d')"
  shows "tid = TxoID_from_tx_out x tx_out"
    and "\<exists>t. Txo_get tid d' = Inr t \<and> txo_account_id t = Some acct \<and>
           txo_received_block_index t = Some blk \<and> txo_subaddress_index t = sub \<and>
           txo_key_image t = map_option (x_encode_key_image x) ki \<and>
           txo_value t = am_value amt \<and> txo_token_id t = am_token_id amt \<and>
           txo_spent_block_index t =
             (case Txo_get tid d of Inr old \<Rightarrow> txo_spent_block_index old | Inl _ \<Rightarrow> None)"
    and "\<And>i. i \<noteq> tid \<Longrightarrow> Txo_get i d' = Txo_get i d"
proof -
  from create_received_Inr [OF assms(2)] obtain mp mt d1 ss where
    tid: "tid = TxoID_from_tx_out x tx_out" and memo: "add_memo_to_database x tid mp d1 = (Inr (), d')"
    and d1: "d1 = (case Txo_get tid d of
       Inr t \<Rightarrow> db_txos_update (update_rows (\<lambda>u. txo_id u = tid)
         (received_row x tx_out sub ki amt blk acct (x_shared_secret_encode x ss) mt)) d
     | Inl _ \<Rightarrow> db_txos_update (\<lambda>ts. ts @ [received_row x tx_out sub ki amt blk acct
         (x_shared_secret_encode x ss) mt
         (new_txo_row x tid None amt tx_out None None None None None None)]) d)"
    by blast
  show "tid = TxoID_from_tx_out x tx_out" by (rule tid)
  have get: "Txo_get i d' = Txo_get i d1" for i
    using add_memo_tables(1) [OF memo] by (simp add: Txo_get_def)
  show "\<exists>t. Txo_get tid d' = Inr t \<and> txo_account_id t = Some acct \<and>
           txo_received_block_index t = Some blk \<and> txo_subaddress_index t = sub \<and>
           txo_key_image t = map_option (x_encode_key_image x) ki \<and>
           txo_value t = am_value amt \<and> txo_token_id t = am_token_id amt \<and>
           txo_spent_block_index t =
             (case Txo_get tid d of Inr old \<Rightarrow> txo_spent_block_index old | Inl _ \<Rightarrow> None)"
  proof (cases "Txo_get tid d")
    case (Inr t)
    then have "find_row txo_id tid (db_txos d) = Some t" and "txo_id t = tid"
      by (auto simp: Txo_get_def ok_or_eq_Inr dest: find_row_Some)
    then have "find_row txo_id tid (db_txos d1) =
        Some (received_row x tx_out sub ki amt blk acct (x_shared_secret_encode x ss) mt t)"
      using txos_table.find_row_update [OF assms(1), of
          "received_row x tx_out sub ki amt blk acct (x_shared_secret_encode x ss) mt" tid t
          "\<lambda>u. txo_id u = tid"]
      by (simp add: d1 Inr received_row_def)
    then show ?thesis
      by (simp add: get Inr) (simp add: Txo_get_def received_row_def)
  next
    case (Inl e)
    then have "tid \<notin> txo_id ` set (db_txos d)" by (simp add: Txo_get_Inl)
    then have "find_row txo_id tid (db_txos d1) = Some (received_row x tx_out sub ki amt blk acct
         (x_shared_secret_encode x ss) mt
         (new_txo_row x tid None amt tx_out None None None None None None))"
      using txos_table.find_row_insert [OF assms(1), of "received_row x tx_out sub ki amt blk acct
         (x_shared_secret_encode x ss) mt
         (new_txo_row x tid None amt tx_out None None None None None None)"]
      by (simp add: d1 Inl received_row_def new_txo_row_def)
    then show ?thesis
      by (simp add: get Inl) (simp add: Txo_get_def received_row_def new_txo_row_def)
  qed
  have "Txo_get i d1 = Txo_get i d" if "i \<noteq> tid" for i
    using that
    by (auto simp: d1 Txo_get_def find_row_def update_rows_def filter_map_if received_row_def
        new_txo_row_def comp_def split: sum.splits
        intro!: arg_cong [where f = "\<lambda>r. ok_or _ (first_row r)"] map_idI)
  then show "\<And>i. i \<noteq> tid \<Longrightarrow> Txo_get i d' = Txo_get i d"
    by (simp add: get)
qed

lemma received_row_idem:
  "received_row x o' sub ki amt blk acct ss mt (received_row x o' sub ki amt blk acct ss mt t) =
   received_row x o' sub ki amt blk acct ss mt t"
  by (simp add: received_row_def)

lemma txo_id_received_row [simp]: "txo_id (received_row x o' sub ki amt blk acct ss mt t) = txo_id t"
  by (simp add: received_row_def)

text \<open>Recording the same output again changes nothing.\<close>

lemma create_received_again:
  assumes "db_ok d" and "Txo_create_received x tx_out sub ki amt blk acct d = (Inr tid, d')"
  shows "Txo_create_received x tx_out sub ki amt blk acct d' = (Inr tid, d')"
proof -
  from create_received_Inr [OF assms(2)] obtain a tpk ss mp mt d1 where
    a: "Account_get acct d = Inr a" and tpk: "x_ristretto_try_from x (to_public_key tx_out) = Inr tpk"
    and ss: "Account_get_shared_secret x a tpk = Inr ss" and mp: "mp = decrypt_memo x (to_e_memo tx_out) ss"
    and mt: "mt = two_bytes_to_i32 (mp_type mp)" and tid: "tid = TxoID_from_tx_out x tx_out"
    and ok1: "db_ok d1" and memo: "add_memo_to_database x tid mp d1 = (Inr (), d')"
    and d1: "d1 = (case Txo_get tid d of
       Inr t \<Rightarrow> db_txos_update (update_rows (\<lambda>u. txo_id u = tid)
         (received_row x tx_out sub ki amt blk acct (x_shared_secret_encode x ss) mt)) d
     | Inl _ \<Rightarrow> db_txos_update (\<lambda>ts. ts @ [received_row x tx_out sub ki amt blk acct
         (x_shared_secret_encode x ss) mt
         (new_txo_row x tid None amt tx_out None None None None None None)]) d)"
    by blast
  let ?F = "received_row x tx_out sub ki amt blk acct (x_shared_secret_encode x ss) mt"
  note tables = add_memo_tables [OF memo]
  have ok': "db_ok d'" by (rule preservesD_eq [OF db_ok_txo_writes(9) assms(1,2)])
  have a': "Account_get acct d' = Inr a"
    using a tables(2) by (simp add: Account_get_def d1 split: sum.splits)
  obtain t where t: "Txo_get tid d' = Inr t" and tid': "txo_id t = tid"
    using create_received_row(2) [OF assms] by (auto simp: Txo_get_def ok_or_eq_Inr dest: find_row_Some)
  have fix1: "?F u = u" if "u \<in> set (db_txos d1)" "txo_id u = tid" for u
  proof (cases "Txo_get tid d")
    case (Inl e)
    then have "tid \<notin> txo_id ` set (db_txos d)" by (simp add: Txo_get_Inl)
    moreover from that(1) Inl have "u \<in> set (db_txos d) \<or> (\<exists>v. u = ?F v)" by (auto simp: d1)
    moreover note that(2)
    ultimately obtain v where "u = ?F v" by blast
    then show ?thesis by (simp only: received_row_idem)
  next
    case (Inr v)
    from that(1) Inr have "u \<in> (\<lambda>v. if txo_id v = tid then ?F v else v) ` set (db_txos d)"
      by (simp add: d1 set_update_rows)
    then obtain v where "u = (if txo_id v = tid then ?F v else v)" by blast
    with that(2) have "u = ?F v" by (cases "txo_id v = tid") simp_all
    then show ?thesis by (simp only: received_row_idem)
  qed
  have noop: "db_txos_update (update_rows (\<lambda>u. txo_id u = tid) ?F) d' = d'"
    using fix1 tables(1) by (auto simp: update_rows_def intro!: table_update_noop(2) map_idI)
  have "Txo_update_as_received x t sub ki blk acct amt (x_encode_compressed x (to_target_key tx_out))
      (x_encode_compressed x (to_public_key tx_out)) (x_encode_fog_hint x (to_e_fog_hint tx_out))
      (Some (x_shared_secret_encode x ss)) (Some mt) d' = exec_stmt (db_txos_update (update_rows (\<lambda>u. txo_id u = tid) ?F)) d'"
    by (simp add: Txo_update_as_received_def update_where_def received_row_def [abs_def] tid')
  also have "\<dots> = (Inr (), d')"
    using exec_stmt_ok [of "db_txos_update (update_rows (\<lambda>u. txo_id u = tid) ?F)" d'] noop ok' by simp
  finally show ?thesis
    using add_memo_idem [OF memo ok1] t a' tpk ss
    by (simp add: Txo_create_received_def sbind_sread Let_def sthen_Inr smatch_apply sreturn_apply
        tid [symmetric] mp mt)
qed

subsection \<open>Properties\<close>

lemma sample_received:
  "fst (Txo_create_received sample_ext sample_tx_out (Some 0) (Some [3, 1, 0])
     \<lparr>am_value = 9, am_token_id = 0\<rparr> 3 ''BA'' sample_db) = Inr ''D''"
  by code_simp



text \<open>Recording a received output is idempotent. Scanning the same block a second time (a
  resync) with the same decoded data succeeds and leaves the whole database as the first scan
  left it.\<close>

theorem create_received_idempotent:
  assumes "db_ok d" and "Txo_create_received x tx_out sub ki amt blk acct d = (Inr tid, d')"
  shows "Txo_create_received x tx_out sub ki amt blk acct d' = (Inr tid, d')"
  by (rule create_received_again [OF assms])

theorem create_received_idempotent_witness:
  "let scan = Txo_create_received sample_ext sample_tx_out (Some 0) (Some [3, 1, 0])
       \<lparr>am_value = 9, am_token_id = 0\<rparr> 3 ''BA''; d' = snd (scan sample_db)
   in scan d' = (Inr ''D'', d')"
  using create_received_idempotent [OF sample_db_ok run_result [OF sample_received]]
  by (simp add: Let_def)

end
