(* ===== verification/Transaction_Log.thy ===== *)
theory Transaction_Log
  imports Txo_Write
begin

section \<open>Transaction logs\<close>

text \<open>
  \<open>db/transaction_log.rs\<close>: the identifier of a transaction, the status of its log, the three
  ways a log is written (built, signed, submitted), how the sync thread finalizes or fails it,
  and the queries on it.
\<close>

datatype tx_status = Built | Signed | TxPending | Succeeded | Failed

definition TxStatus_display :: "tx_status \<Rightarrow> string" where
  "TxStatus_display s = (case s of
     Built \<Rightarrow> ''built'' | Signed \<Rightarrow> ''signed'' | TxPending \<Rightarrow> ''pending''
   | Succeeded \<Rightarrow> ''succeeded'' | Failed \<Rightarrow> ''failed'')"

datatype txo_type = Input | Payload | Change

definition TxoType_display :: "txo_type \<Rightarrow> string" where
  "TxoType_display s = (case s of Input \<Rightarrow> ''input'' | Payload \<Rightarrow> ''payload'' | Change \<Rightarrow> ''change'')"

record associated_txos =
  at_inputs :: "txo list"
  at_outputs :: "(txo \<times> string) list"
  at_change :: "(txo \<times> string) list"

subsection \<open>Identifiers\<close>

text \<open>\<open>Iterator::min\<close>: the first of the least elements.\<close>

fun iter_min :: "('a \<Rightarrow> 'a \<Rightarrow> bool) \<Rightarrow> 'a list \<Rightarrow> 'a option" where
  "iter_min leq [] = None"
| "iter_min leq (a # as) = Some (foldl (\<lambda>m b. if leq m b then m else b) a as)"

definition TransactionId_try_from_outputs :: "externals \<Rightarrow> output_txo list \<Rightarrow> string + string" where
  "TransactionId_try_from_outputs x payload_txos =
     rbind (ok_or ''no valid payload_txo''
       (iter_min (x_compressed_leq x) (map (\<lambda>t. to_public_key (out_tx_out t)) payload_txos)))
       (\<lambda>k. Inr (x_hex_fmt x k))"

definition TransactionId_try_from_proposal :: "externals \<Rightarrow> tx_proposal \<Rightarrow> string + string" where
  "TransactionId_try_from_proposal x p = TransactionId_try_from_outputs x (tp_payload_txos p)"

definition TransactionId_try_from_unsigned :: "externals \<Rightarrow> unsigned_tx_proposal \<Rightarrow> string + string" where
  "TransactionId_try_from_unsigned x p = TransactionId_try_from_outputs x (utp_payload_txos p)"

subsection \<open>Reading logs\<close>

definition TransactionLog_fee_amount :: "transaction_log \<Rightarrow> amount" where
  "TransactionLog_fee_amount l = \<lparr>am_value = tl_fee_value l, am_token_id = tl_fee_token_id l\<rparr>"

definition TransactionLog_status :: "transaction_log \<Rightarrow> tx_status" where
  "TransactionLog_status l =
     (if tl_failed l then Failed
      else if tl_finalized_block_index l \<noteq> None then Succeeded
      else if tl_submitted_block_index l \<noteq> None then TxPending
      else Built)"

definition TransactionLog_get :: "string \<Rightarrow> transaction_log db_read" where
  "TransactionLog_get i d =
     ok_or (TransactionLogNotFound i) (find_row tl_id i (db_transaction_logs d))"

definition TransactionLog_get_associated_txos :: "transaction_log \<Rightarrow> associated_txos db_read" where
  "TransactionLog_get_associated_txos l d =
     (let inputs = inner_join (\<lambda>t i. sql_eq (Some (tin_txo_id i)) (Some (txo_id t)))
            (db_txos d) (db_transaction_input_txos d);
          outputs = inner_join (\<lambda>t r. sql_eq (Some (tout_txo_id r)) (Some (txo_id t)))
            (db_txos d) (db_transaction_output_txos d);
          select = (\<lambda>chg. map (\<lambda>(t, r). (t, tout_recipient_public_address_b58 r))
            (filter (\<lambda>(t, r). tout_transaction_log_id r = tl_id l \<and> tout_is_change r = chg) outputs))
      in Inr \<lparr>at_inputs = map fst (filter (\<lambda>(t, i). tin_transaction_log_id i = tl_id l) inputs),
              at_outputs = select False, at_change = select True\<rparr>)"

definition TransactionLog_value_for_token_id :: "transaction_log \<Rightarrow> u64 \<Rightarrow> u64 db_read" where
  "TransactionLog_value_for_token_id l token_id d =
     rbind (TransactionLog_get_associated_txos l d) (\<lambda>a.
       Inr (sum_list (map (\<lambda>(t, _). txo_value t)
         (filter (\<lambda>(t, _). txo_token_id t = token_id) (at_outputs a)))))"

text \<open>\<open>value_map\<close>: \<open>entry(token).or_insert(0)\<close>, then a wrapping \<open>+=\<close>.\<close>

definition add_to_value_map :: "txo \<Rightarrow> (u64 \<rightharpoonup> u64) \<Rightarrow> (u64 \<rightharpoonup> u64)" where
  "add_to_value_map t m = m(txo_token_id t \<mapsto>
     (case m (txo_token_id t) of None \<Rightarrow> 0 | Some v \<Rightarrow> v) + txo_value t)"

definition TransactionLog_value_map :: "transaction_log \<Rightarrow> (u64 \<rightharpoonup> u64) db_read" where
  "TransactionLog_value_map l d =
     rbind (TransactionLog_get_associated_txos l d) (\<lambda>a.
       Inr (fold (\<lambda>(t, _). add_to_value_map t) (at_outputs a) Map.empty))"

definition TransactionLog_list_all ::
    "string option \<Rightarrow> u64 option \<Rightarrow> u64 option \<Rightarrow> u64 option \<Rightarrow> u64 option
      \<Rightarrow> (transaction_log \<times> associated_txos \<times> (u64 \<rightharpoonup> u64)) list db_read" where
  "TransactionLog_list_all account_id offset limit min_block max_block d =
     collect_results (\<lambda>l.
       rbind (TransactionLog_get_associated_txos l d) (\<lambda>a.
       rbind (TransactionLog_value_map l d) (\<lambda>m. Inr (l, a, m))))
       (paginate offset limit (order_desc tl_submitted_block_index
         (sql_where (\<lambda>l. sql_all
            [opt_cond account_id (\<lambda>a. sql_eq (Some (tl_account_id l)) (Some a)),
             opt_cond min_block (\<lambda>m. sql_ge (tl_submitted_block_index l) (Some m)),
             opt_cond max_block (\<lambda>m. sql_le (tl_submitted_block_index l) (Some m))])
          (db_transaction_logs d))))"

subsection \<open>Updating logs\<close>

definition TransactionLog_update_submitted_block_index ::
    "transaction_log \<Rightarrow> u64 \<Rightarrow> unit db_action" where
  "TransactionLog_update_submitted_block_index self submitted_block_index =
     update_where db_transaction_logs_update (\<lambda>l. tl_id l = tl_id self)
       (\<lambda>l. l\<lparr>tl_submitted_block_index := Some submitted_block_index\<rparr>)"

definition TransactionLog_update_comment :: "transaction_log \<Rightarrow> string \<Rightarrow> unit db_action" where
  "TransactionLog_update_comment self comment =
     update_where db_transaction_logs_update (\<lambda>l. tl_id l = tl_id self)
       (\<lambda>l. l\<lparr>tl_comment := comment\<rparr>)"

definition TransactionLog_update_tx_and_tombstone_block_index ::
    "transaction_log \<Rightarrow> bytes \<Rightarrow> i64 option \<Rightarrow> unit db_action" where
  "TransactionLog_update_tx_and_tombstone_block_index self t tombstone_block_index =
     update_where db_transaction_logs_update (\<lambda>l. tl_id l = tl_id self)
       (\<lambda>l. l\<lparr>tl_tx := t, tl_tombstone_block_index := tombstone_block_index\<rparr>)"

definition TransactionLog_update_pending_associated_with_txo_to_succeeded ::
    "string \<Rightarrow> u64 \<Rightarrow> unit db_action" where
  "TransactionLog_update_pending_associated_with_txo_to_succeeded txo_id_hex finalized_block_index =
     sbind (sread (\<lambda>d. Inr (map (\<lambda>(l, i). tl_id l)
         (filter (\<lambda>(l, i). tin_txo_id i = txo_id_hex \<and> tl_submitted_block_index l \<noteq> None \<and>
              \<not> tl_failed l \<and> tl_finalized_block_index l = None)
           (inner_join (\<lambda>l i. sql_eq (Some (tin_transaction_log_id i)) (Some (tl_id l)))
              (db_transaction_logs d) (db_transaction_input_txos d))))))
       (\<lambda>ids. update_where db_transaction_logs_update (\<lambda>l. tl_id l \<in> set ids)
          (\<lambda>l. l\<lparr>tl_finalized_block_index := Some finalized_block_index\<rparr>))"

definition TransactionLog_update_pending_exceeding_tombstone_block_index_to_failed ::
    "u64 \<Rightarrow> unit db_action" where
  "TransactionLog_update_pending_exceeding_tombstone_block_index_to_failed block_index =
     update_where db_transaction_logs_update
       (\<lambda>l. sql_holds (sql_all
          [sql_lt (tl_tombstone_block_index l) (Some block_index),
           sql_eq (Some (tl_failed l)) (Some False),
           is_null (tl_finalized_block_index l)]))
       (\<lambda>l. l\<lparr>tl_failed := True\<rparr>)"

definition TransactionLog_delete_all_for_account :: "string \<Rightarrow> unit db_action" where
  "TransactionLog_delete_all_for_account account_id_hex =
     sbind (sread (\<lambda>d. Inr (map fst (filter (\<lambda>(i, l). tl_account_id l = account_id_hex)
         (inner_join (\<lambda>i l. sql_eq (Some (tin_transaction_log_id i)) (Some (tl_id l)))
            (db_transaction_input_txos d) (db_transaction_logs d)))))) (\<lambda>ins.
     sthen (sfor ins (\<lambda>i. delete_where db_transaction_input_txos_update (\<lambda>r. tin_key r = tin_key i)))
     (sbind (sread (\<lambda>d. Inr (map fst (filter (\<lambda>(r, l). tl_account_id l = account_id_hex)
         (inner_join (\<lambda>r l. sql_eq (Some (tout_transaction_log_id r)) (Some (tl_id l)))
            (db_transaction_output_txos d) (db_transaction_logs d)))))) (\<lambda>outs.
     sthen (sfor outs (\<lambda>i. delete_where db_transaction_output_txos_update (\<lambda>r. tout_key r = tout_key i)))
       (delete_where db_transaction_logs_update (\<lambda>l. tl_account_id l = account_id_hex)))))"

subsection \<open>Logging a transaction\<close>

definition new_log_row ::
    "string \<Rightarrow> string \<Rightarrow> tx_prefix \<Rightarrow> i64 option \<Rightarrow> i64 option \<Rightarrow> string \<Rightarrow> bytes \<Rightarrow> transaction_log" where
  "new_log_row i account_id prefix submitted tombstone comment t =
     \<lparr>tl_id = i, tl_account_id = account_id, tl_fee_value = pfx_fee prefix,
      tl_fee_token_id = pfx_fee_token_id prefix, tl_submitted_block_index = submitted,
      tl_tombstone_block_index = tombstone, tl_finalized_block_index = None,
      tl_comment = comment, tl_tx = t, tl_failed = False\<rparr>"

definition insert_input_txo :: "string \<Rightarrow> string \<Rightarrow> unit db_action" where
  "insert_input_txo log_id tid = insert_into db_transaction_input_txos_update
     \<lparr>tin_transaction_log_id = log_id, tin_txo_id = tid\<rparr>"

definition create_outputs ::
    "externals \<Rightarrow> output_txo list \<Rightarrow> output_txo list \<Rightarrow> string \<Rightarrow> unit db_action" where
  "create_outputs x payload_txos change_txos log_id =
     sthen (sfor payload_txos (\<lambda>t. Txo_create_new_output x t False log_id))
       (sfor change_txos (\<lambda>t. Txo_create_new_output x t True log_id))"

definition TransactionLog_log_built ::
    "externals \<Rightarrow> unsigned_tx_proposal \<Rightarrow> string \<Rightarrow> transaction_log db_action" where
  "TransactionLog_log_built x p account_id =
     sthen (sread (Account_get account_id))
     (sbind (sread (\<lambda>_. map_err InvalidArgument (TransactionId_try_from_unsigned x p))) (\<lambda>log_id.
     sthen (insert_into db_transaction_logs_update
       (new_log_row log_id account_id (utx_prefix (utp_unsigned_tx p)) None None [] []))
     (sthen (sfor (utp_unsigned_input_txos p)
       (\<lambda>i. insert_input_txo log_id (TxoID_from_tx_out x (uin_tx_out i))))
     (sthen (create_outputs x (utp_payload_txos p) (utp_change_txos p) log_id)
       (sread (TransactionLog_get log_id))))))"

definition input_with_key_image :: "externals \<Rightarrow> string \<Rightarrow> input_txo \<Rightarrow> unit db_action" where
  "input_with_key_image x log_id i =
     (let tid = TxoID_from_tx_out x (in_tx_out i)
      in sthen (Txo_update_key_image x tid (in_key_image i) None) (insert_input_txo log_id tid))"

definition TransactionLog_log_signed ::
    "externals \<Rightarrow> (tx \<Rightarrow> bytes) \<Rightarrow> tx_proposal \<Rightarrow> string \<Rightarrow> string \<Rightarrow> transaction_log db_action" where
  "TransactionLog_log_signed x encode_tx p comment account_id_hex =
     sthen (sread (Account_get account_id_hex))
     (sbind (sread (\<lambda>_. map_err InvalidArgument (TransactionId_try_from_proposal x p))) (\<lambda>log_id.
      let t = encode_tx (tp_tx p);
          tombstone = Some (pfx_tombstone_block (tx_prefix (tp_tx p)))
      in sthen (smatch (TransactionLog_get log_id) (\<lambda>found. case found of
           Inr l \<Rightarrow>
             sthen (sfor (tp_input_txos p) (\<lambda>i.
               Txo_update_key_image x (TxoID_from_tx_out x (in_tx_out i)) (in_key_image i) None))
             (sthen (TransactionLog_update_comment l comment)
               (TransactionLog_update_tx_and_tombstone_block_index l t tombstone))
         | Inl e \<Rightarrow> (case e of
             TransactionLogNotFound _ \<Rightarrow>
               sthen (insert_into db_transaction_logs_update
                 (new_log_row log_id account_id_hex (tx_prefix (tp_tx p)) None tombstone comment t))
               (sthen (sfor (tp_input_txos p) (input_with_key_image x log_id))
                 (create_outputs x (tp_payload_txos p) (tp_change_txos p) log_id))
           | _ \<Rightarrow> sraise e)))
         (sread (TransactionLog_get log_id))))"

definition TransactionLog_log_submitted ::
    "externals \<Rightarrow> (tx \<Rightarrow> bytes) \<Rightarrow> tx_proposal \<Rightarrow> u64 \<Rightarrow> string \<Rightarrow> string \<Rightarrow> transaction_log db_action" where
  "TransactionLog_log_submitted x encode_tx p block_index comment account_id_hex =
     sthen (sread (Account_get account_id_hex))
     (sbind (sread (\<lambda>_. map_err InvalidArgument (TransactionId_try_from_proposal x p))) (\<lambda>log_id.
      let t = encode_tx (tp_tx p);
          tombstone = Some (pfx_tombstone_block (tx_prefix (tp_tx p)))
      in sthen (smatch (TransactionLog_get log_id) (\<lambda>found. case found of
           Inr l \<Rightarrow>
             sthen (TransactionLog_update_submitted_block_index l block_index)
               (TransactionLog_update_comment l comment)
         | Inl e \<Rightarrow> (case e of
             TransactionLogNotFound _ \<Rightarrow>
               sthen (insert_into db_transaction_logs_update
                 (new_log_row log_id account_id_hex (tx_prefix (tp_tx p)) (Some block_index)
                    tombstone comment t))
               (sthen (sfor (tp_input_txos p) (input_with_key_image x log_id))
                 (create_outputs x (tp_payload_txos p) (tp_change_txos p) log_id))
           | _ \<Rightarrow> sraise e)))
         (sread (TransactionLog_get log_id))))"

end
