(* ===== verification/Txlog_Facts.thy ===== *)
theory Txlog_Facts
  imports Transaction_Log
begin

section \<open>Invariants and effects of the transaction log operations\<close>

text \<open>
  The locale \<open>txlog_invariant\<close> is the interface between a property of the database and the
  operations built from single statements: a predicate that every statement of the txo and
  transaction log components keeps is kept by the operations that compose them. It is
  interpreted for the constraints, for the well-formedness of rows, for the tables these
  components do not write, and for the order in which the status of a log advances. The
  second half gives the exact effect of the statements and of the deletion of an account's
  logs.
\<close>

locale txlog_invariant =
  fixes P :: "db \<Rightarrow> bool"
  assumes keep_memos: "kept_by_memos P"
    and keep_received: "txo_account_id r \<noteq> None \<Longrightarrow> txo_received_block_index r \<noteq> None \<Longrightarrow>
      preserves P (insert_into db_txos_update r)"
    and keep_output: "txo_account_id r = None \<Longrightarrow> preserves P (insert_into db_txos_update r)"
    and keep_update_received:
      "preserves P (Txo_update_as_received x t sub ki blk acct amt tk pk hint ss mt)"
    and keep_spent: "preserves P (Txo_update_spent_block_index i b)"
    and keep_key_image: "preserves P (Txo_update_key_image x i k s)"
    and keep_new_log: "\<not> tl_failed l \<Longrightarrow> tl_finalized_block_index l = None \<Longrightarrow>
      preserves P (insert_into db_transaction_logs_update l)"
    and keep_submitted: "preserves P (TransactionLog_update_submitted_block_index l b)"
    and keep_comment: "preserves P (TransactionLog_update_comment l c)"
    and keep_tombstone: "preserves P (TransactionLog_update_tx_and_tombstone_block_index l bs tb)"
    and keep_succeeded: "preserves P (TransactionLog_update_pending_associated_with_txo_to_succeeded i b)"
    and keep_failed:
      "preserves P (TransactionLog_update_pending_exceeding_tombstone_block_index_to_failed b)"
    and keep_input_row: "preserves P (insert_into db_transaction_input_txos_update ri)"
    and keep_output_row: "preserves P (insert_into db_transaction_output_txos_update ro)"
begin

lemma keeps_create_received: "preserves P (Txo_create_received x tx_out sub ki amt blk acct)"
  by (intro preserves_create_received keep_memos keep_received keep_update_received) auto

lemma keeps_create_new_output: "preserves P (Txo_create_new_output x out chg i)"
  by (intro preserves_create_new_output keep_memos keep_output keep_output_row)

lemma keeps_create_outputs: "preserves P (create_outputs x ps cs i)"
  unfolding create_outputs_def by (intro preserves_intros keeps_create_new_output)

lemma keeps_insert_input: "preserves P (insert_input_txo i t)"
  unfolding insert_input_txo_def by (rule keep_input_row)

lemma keeps_input_with_key_image: "preserves P (input_with_key_image x i t)"
  unfolding input_with_key_image_def Let_def
  by (intro preserves_intros keep_key_image keeps_insert_input)

lemma keeps_new_log_row: "preserves P (insert_into db_transaction_logs_update (new_log_row i a p s tb c t))"
  by (rule keep_new_log) (simp_all add: new_log_row_def)

lemmas keeps_parts = keeps_create_outputs keeps_insert_input keeps_input_with_key_image
  keeps_new_log_row keep_key_image keep_submitted keep_comment keep_tombstone

lemma keeps_log_built: "preserves P (TransactionLog_log_built x p acct)"
  unfolding TransactionLog_log_built_def by (intro preserves_intros keeps_parts)

lemma keeps_log_signed: "preserves P (TransactionLog_log_signed x enc p c acct)"
  unfolding TransactionLog_log_signed_def Let_def by (intro preserves_intros keeps_parts)

lemma keeps_log_submitted: "preserves P (TransactionLog_log_submitted x enc p b c acct)"
  unfolding TransactionLog_log_submitted_def Let_def by (intro preserves_intros keeps_parts)

end

lemmas log_update_defs =
  TransactionLog_update_submitted_block_index_def TransactionLog_update_comment_def
  TransactionLog_update_tx_and_tombstone_block_index_def
  TransactionLog_update_pending_associated_with_txo_to_succeeded_def
  TransactionLog_update_pending_exceeding_tombstone_block_index_to_failed_def

lemmas txo_update_defs =
  Txo_update_as_received_def Txo_update_spent_block_index_def Txo_update_key_image_def

subsection \<open>The constraints\<close>

interpretation ok_inv: txlog_invariant db_ok
  by unfold_locales
     (auto intro!: preserves_intros simp: log_update_defs)

subsection \<open>Well-formed rows\<close>

text \<open>
  A txo owned by an account was received in some block. A log that was finalized had been
  submitted and has not failed.
\<close>

definition txo_row_ok :: "txo \<Rightarrow> bool" where
  "txo_row_ok t \<longleftrightarrow> (txo_account_id t \<noteq> None \<longrightarrow> txo_received_block_index t \<noteq> None)"

definition log_row_ok :: "transaction_log \<Rightarrow> bool" where
  "log_row_ok l \<longleftrightarrow> (tl_finalized_block_index l \<noteq> None \<longrightarrow>
     tl_submitted_block_index l \<noteq> None \<and> \<not> tl_failed l)"

definition rows_ok :: "db \<Rightarrow> bool" where
  "rows_ok d \<longleftrightarrow> list_all txo_row_ok (db_txos d) \<and> list_all log_row_ok (db_transaction_logs d)"

lemma list_all_update_rows:
  "list_all Q rs \<Longrightarrow> (\<And>r. Q r \<Longrightarrow> p r \<Longrightarrow> Q (f r)) \<Longrightarrow> list_all Q (update_rows p f rs)"
  by (induction rs) (auto simp: update_rows_def)

lemma list_all_filter: "list_all Q rs \<Longrightarrow> list_all Q (filter p rs)"
  by (simp add: list_all_iff)

lemma rows_ok_update_txos:
  "(\<And>t. txo_row_ok t \<Longrightarrow> txo_row_ok (f t)) \<Longrightarrow> preserves rows_ok (update_where db_txos_update p f)"
  unfolding update_where_def
  by (rule preserves_exec_stmt) (simp add: rows_ok_def list_all_update_rows)

lemma rows_ok_update_logs:
  "(\<And>l. log_row_ok l \<Longrightarrow> p l \<Longrightarrow> log_row_ok (f l)) \<Longrightarrow>
   preserves rows_ok (update_where db_transaction_logs_update p f)"
  unfolding update_where_def
  by (rule preserves_exec_stmt) (simp add: rows_ok_def list_all_update_rows)

text \<open>The logs a finalization selects are pending.\<close>

lemma log_with_id:
  assumes "db_ok d" and "l \<in> set (db_transaction_logs d)" and "l' \<in> set (db_transaction_logs d)"
  shows "tl_id l = tl_id l' \<longleftrightarrow> l = l'"
  using logs_table.row_eqI [OF assms] by blast

definition uses_input :: "db \<Rightarrow> string \<Rightarrow> transaction_log \<Rightarrow> bool" where
  "uses_input d tid l \<longleftrightarrow> (\<exists>i \<in> set (db_transaction_input_txos d).
     tin_txo_id i = tid \<and> tin_transaction_log_id i = tl_id l)"

lemma finalize_ids:
  assumes "db_ok d" and "l \<in> set (db_transaction_logs d)"
  shows "tl_id l \<in> set (map (\<lambda>(l, i). tl_id l)
         (filter (\<lambda>(l, i). tin_txo_id i = tid \<and> tl_submitted_block_index l \<noteq> None \<and>
              \<not> tl_failed l \<and> tl_finalized_block_index l = None)
           (inner_join (\<lambda>l i. sql_eq (Some (tin_transaction_log_id i)) (Some (tl_id l)))
              (db_transaction_logs d) (db_transaction_input_txos d)))) \<longleftrightarrow>
         log_pending l \<and> uses_input d tid l"
proof -
  have eq: "l' = l" if "l' \<in> set (db_transaction_logs d)" "tl_id l' = tl_id l" for l'
    using log_with_id [OF assms(1) that(1) assms(2)] that(2) by blast
  show ?thesis
    using assms(2)
    by (auto simp: set_inner_join log_pending_def uses_input_def image_iff) (metis eq)+
qed

lemma update_rows_cong:
  "(\<And>r. r \<in> set rs \<Longrightarrow> p r = q r) \<Longrightarrow> update_rows p f rs = update_rows q f rs"
  by (simp add: update_rows_def)

lemma logs_update_cong:
  "f (db_transaction_logs d) = g (db_transaction_logs d) \<Longrightarrow>
   db_transaction_logs_update f d = db_transaction_logs_update g d"
  by simp

lemma finalize_eq:
  assumes "db_ok d"
  shows "TransactionLog_update_pending_associated_with_txo_to_succeeded tid b d =
    (Inr (), db_transaction_logs_update (update_rows (\<lambda>l. log_pending l \<and> uses_input d tid l)
       (\<lambda>l. l\<lparr>tl_finalized_block_index := Some b\<rparr>)) d)"
proof -
  let ?ids = "map (\<lambda>(l, i). tl_id l)
         (filter (\<lambda>(l, i). tin_txo_id i = tid \<and> tl_submitted_block_index l \<noteq> None \<and>
              \<not> tl_failed l \<and> tl_finalized_block_index l = None)
           (inner_join (\<lambda>l i. sql_eq (Some (tin_transaction_log_id i)) (Some (tl_id l)))
              (db_transaction_logs d) (db_transaction_input_txos d)))"
  have "TransactionLog_update_pending_associated_with_txo_to_succeeded tid b d =
      (Inr (), db_transaction_logs_update (update_rows (\<lambda>l. tl_id l \<in> set ?ids)
       (\<lambda>l. l\<lparr>tl_finalized_block_index := Some b\<rparr>)) d)"
    unfolding TransactionLog_update_pending_associated_with_txo_to_succeeded_def sbind_sread sum.case
    by (rule update_where_logs [OF assms]) simp_all
  also have "\<dots> = (Inr (), db_transaction_logs_update (update_rows (\<lambda>l. log_pending l \<and> uses_input d tid l)
       (\<lambda>l. l\<lparr>tl_finalized_block_index := Some b\<rparr>)) d)"
    by (rule arg_cong [where f = "\<lambda>d. (Inr (), d)"], rule logs_update_cong, rule update_rows_cong,
        rule finalize_ids [OF assms])
  finally show ?thesis .
qed

definition past_tombstone :: "u64 \<Rightarrow> transaction_log \<Rightarrow> bool" where
  "past_tombstone b l \<longleftrightarrow> (\<exists>tb. tl_tombstone_block_index l = Some tb \<and> tb <s b) \<and>
     \<not> tl_failed l \<and> tl_finalized_block_index l = None"

lemma past_tombstone_cond:
  "sql_holds (sql_all [sql_lt (tl_tombstone_block_index l) (Some b),
     sql_eq (Some (tl_failed l)) (Some False), is_null (tl_finalized_block_index l)]) \<longleftrightarrow> past_tombstone b l"
  by (auto simp: past_tombstone_def)

lemma tombstone_eq:
  assumes "db_ok d"
  shows "TransactionLog_update_pending_exceeding_tombstone_block_index_to_failed b d =
    (Inr (), db_transaction_logs_update (update_rows (past_tombstone b) (\<lambda>l. l\<lparr>tl_failed := True\<rparr>)) d)"
  unfolding TransactionLog_update_pending_exceeding_tombstone_block_index_to_failed_def
    past_tombstone_cond
  by (rule update_where_logs [OF assms]) simp_all

definition db_wf :: "db \<Rightarrow> bool" where
  "db_wf d \<longleftrightarrow> db_ok d \<and> rows_ok d"

lemma preserves_wf_conj:
  "preserves db_ok m \<Longrightarrow> preserves rows_ok m \<Longrightarrow> preserves db_wf m"
  unfolding db_wf_def [abs_def] by (rule preserves_conj)

lemma rows_ok_memo: "kept_by_memos rows_ok"
  unfolding kept_by_memos_def by (auto intro!: preserves_exec_stmt simp: rows_ok_def)

lemma wf_memo: "kept_by_memos db_wf"
  using kept_by_memos_db_ok rows_ok_memo
  unfolding kept_by_memos_def by (auto intro!: preserves_wf_conj)

lemma rows_ok_insert_txo: "txo_row_ok r \<Longrightarrow> preserves rows_ok (insert_into db_txos_update r)"
  unfolding insert_into_def by (rule preserves_exec_stmt) (simp add: rows_ok_def)

lemma rows_ok_insert_log: "log_row_ok r \<Longrightarrow> preserves rows_ok (insert_into db_transaction_logs_update r)"
  unfolding insert_into_def by (rule preserves_exec_stmt) (simp add: rows_ok_def)

lemma rows_ok_links:
  "preserves rows_ok (insert_into db_transaction_input_txos_update ri)"
  "preserves rows_ok (insert_into db_transaction_output_txos_update ro)"
  unfolding insert_into_def by (rule preserves_exec_stmt, simp add: rows_ok_def)+

lemma wf_finalize: "preserves db_wf (TransactionLog_update_pending_associated_with_txo_to_succeeded i b)"
proof (rule preservesI)
  fix d assume d: "db_wf d"
  then have ok: "db_ok d" by (simp add: db_wf_def)
  have "rows_ok (db_transaction_logs_update (update_rows (\<lambda>l. log_pending l \<and> uses_input d i l)
          (\<lambda>l. l\<lparr>tl_finalized_block_index := Some b\<rparr>)) d)"
    using d by (auto simp: db_wf_def rows_ok_def intro!: list_all_update_rows)
      (auto simp: log_row_ok_def log_pending_def)
  then show "db_wf (snd (TransactionLog_update_pending_associated_with_txo_to_succeeded i b d))"
    using preservesD [OF ok_inv.keep_succeeded ok, of i b] unfolding finalize_eq [OF ok] db_wf_def by simp
qed

interpretation wf_inv: txlog_invariant db_wf
proof unfold_locales
  show "kept_by_memos db_wf" by (rule wf_memo)
  show "preserves db_wf (insert_into db_txos_update r)"
    if "txo_account_id r \<noteq> None" "txo_received_block_index r \<noteq> None" for r :: txo
    using that by (intro preserves_wf_conj preserves_intros rows_ok_insert_txo) (simp add: txo_row_ok_def)
  show "preserves db_wf (insert_into db_txos_update r)" if "txo_account_id r = None" for r :: txo
    using that by (intro preserves_wf_conj preserves_intros rows_ok_insert_txo) (simp add: txo_row_ok_def)
  show "preserves db_wf (insert_into db_transaction_logs_update l)"
    if "\<not> tl_failed l" "tl_finalized_block_index l = None" for l :: transaction_log
    using that by (intro preserves_wf_conj preserves_intros rows_ok_insert_log) (simp add: log_row_ok_def)
  show "preserves db_wf (TransactionLog_update_pending_associated_with_txo_to_succeeded i b)" for i b
    by (rule wf_finalize)
  show "preserves db_wf (TransactionLog_update_pending_exceeding_tombstone_block_index_to_failed b)" for b
    unfolding TransactionLog_update_pending_exceeding_tombstone_block_index_to_failed_def
      past_tombstone_cond
    by (intro preserves_wf_conj preserves_intros rows_ok_update_logs)
       (auto simp: log_row_ok_def past_tombstone_def)
  show "preserves db_wf (insert_into db_transaction_input_txos_update ri)"
    "preserves db_wf (insert_into db_transaction_output_txos_update ro)" for ri ro
    by (intro preserves_wf_conj preserves_intros rows_ok_links)+
qed (auto intro!: preserves_wf_conj rows_ok_update_txos rows_ok_update_logs preserves_intros
      simp: txo_update_defs log_update_defs txo_row_ok_def log_row_ok_def)

subsection \<open>Tables these operations do not write\<close>

definition same_owners :: "db \<Rightarrow> db \<Rightarrow> bool" where
  "same_owners d d' \<longleftrightarrow> db_accounts d' = db_accounts d \<and>
     db_assigned_subaddresses d' = db_assigned_subaddresses d \<and> db_gift_codes d' = db_gift_codes d"

lemma same_owners_update:
  "preserves (same_owners d) (update_where db_txos_update p f)"
  "preserves (same_owners d) (update_where db_transaction_logs_update p' f')"
  "preserves (same_owners d) (insert_into db_txos_update r1)"
  "preserves (same_owners d) (insert_into db_transaction_logs_update r2)"
  "preserves (same_owners d) (insert_into db_transaction_input_txos_update r3)"
  "preserves (same_owners d) (insert_into db_transaction_output_txos_update r4)"
  unfolding update_where_def insert_into_def
  by (rule preserves_exec_stmt, simp add: same_owners_def)+

interpretation owners_inv: txlog_invariant "same_owners d" for d
proof unfold_locales
  show "kept_by_memos (same_owners d)"
    unfolding kept_by_memos_def by (auto intro!: preserves_exec_stmt simp: same_owners_def)
qed (auto intro!: same_owners_update preserves_intros simp: txo_update_defs log_update_defs)

subsection \<open>The life of a transaction log\<close>

text \<open>The abstract life cycle: a built transaction is submitted or expires, a pending one
  succeeds or fails, and nothing leaves the last two states.\<close>

inductive status_step :: "tx_status \<Rightarrow> tx_status \<Rightarrow> bool" where
  submit: "status_step Built TxPending"
| expire: "status_step Built Failed"
| finalize: "status_step TxPending Succeeded"
| reject: "status_step TxPending Failed"

inductive_simps status_step_from [simp]:
  "status_step Built s" "status_step TxPending s" "status_step Succeeded s"
  "status_step Failed s" "status_step Signed s"

definition status_le :: "tx_status \<Rightarrow> tx_status \<Rightarrow> bool" where
  "status_le s t \<longleftrightarrow> status_step\<^sup>*\<^sup>* s t"

lemma status_le_refl [simp]: "status_le s s"
  by (simp add: status_le_def)

lemma status_le_trans: "status_le a b \<Longrightarrow> status_le b c \<Longrightarrow> status_le a c"
  by (simp add: status_le_def)

lemma status_le_terminal: "s \<in> {Succeeded, Failed} \<Longrightarrow> status_le s t \<Longrightarrow> t = s"
  unfolding status_le_def by (erule converse_rtranclpE) auto

lemma status_step_le: "status_step s t \<Longrightarrow> status_le s t"
  by (simp add: status_le_def)

lemma status_le_from_pending: "status_le TxPending t \<longleftrightarrow> t \<in> {TxPending, Succeeded, Failed}"
proof
  assume "status_le TxPending t"
  then show "t \<in> {TxPending, Succeeded, Failed}"
    unfolding status_le_def by (induction rule: rtranclp_induct) auto
qed (auto intro: status_step_le)

text \<open>\<open>logs_advance d0 d\<close>: every log of \<open>d0\<close> is still there, for the same account, at the same or
  a later point of its life.\<close>

definition logs_advance :: "db \<Rightarrow> db \<Rightarrow> bool" where
  "logs_advance d0 d \<longleftrightarrow> db_ok d \<and> (\<forall>l \<in> set (db_transaction_logs d0).
     \<exists>l' \<in> set (db_transaction_logs d). tl_id l' = tl_id l \<and> tl_account_id l' = tl_account_id l \<and>
       status_le (TransactionLog_status l) (TransactionLog_status l'))"

lemma logs_advance_refl: "db_ok d \<Longrightarrow> logs_advance d d"
  by (auto simp: logs_advance_def)

lemma logs_advance_update:
  assumes "logs_advance d0 d" and "db_ok (db_transaction_logs_update (update_rows p f) d)"
    and "\<And>l. tl_id (f l) = tl_id l" and "\<And>l. tl_account_id (f l) = tl_account_id l"
    and "\<And>l. p l \<Longrightarrow> status_le (TransactionLog_status l) (TransactionLog_status (f l))"
  shows "logs_advance d0 (db_transaction_logs_update (update_rows p f) d)"
  unfolding logs_advance_def
proof (intro conjI ballI)
  fix l assume "l \<in> set (db_transaction_logs d0)"
  then obtain l' where l': "l' \<in> set (db_transaction_logs d)" "tl_id l' = tl_id l"
    "tl_account_id l' = tl_account_id l" "status_le (TransactionLog_status l) (TransactionLog_status l')"
    using assms(1) by (auto simp: logs_advance_def)
  let ?l = "if p l' then f l' else l'"
  have "?l \<in> set (db_transaction_logs (db_transaction_logs_update (update_rows p f) d))"
    using l'(1) by (auto simp: set_update_rows)
  moreover have "tl_id ?l = tl_id l" "tl_account_id ?l = tl_account_id l"
    using l' assms(3,4) by auto
  moreover have "status_le (TransactionLog_status l) (TransactionLog_status ?l)"
    using l'(4) assms(5) status_le_trans by auto
  ultimately show "\<exists>l' \<in> set (db_transaction_logs (db_transaction_logs_update (update_rows p f) d)).
      tl_id l' = tl_id l \<and> tl_account_id l' = tl_account_id l \<and>
      status_le (TransactionLog_status l) (TransactionLog_status l')"
    by blast
qed (rule assms(2))

lemma preserves_advance_logs:
  assumes "\<And>l. tl_id (f l) = tl_id l" and "\<And>l. tl_account_id (f l) = tl_account_id l"
    and "\<And>l. p l \<Longrightarrow> status_le (TransactionLog_status l) (TransactionLog_status (f l))"
  shows "preserves (logs_advance d0) (update_where db_transaction_logs_update p f)"
  unfolding update_where_def
  by (rule preserves_exec_stmt, rule logs_advance_update)
     (auto intro: db_ok_update_logs simp: assms logs_advance_def)

lemma preserves_advance_other:
  assumes "\<And>d. set (db_transaction_logs d) \<subseteq> set (db_transaction_logs (f d))"
  shows "preserves (logs_advance d0) (exec_stmt f)"
  using assms by (fastforce simp: preserves_def snd_exec_stmt logs_advance_def)

lemma advance_finalize:
  "preserves (logs_advance d0) (TransactionLog_update_pending_associated_with_txo_to_succeeded i b)"
proof (rule preservesI)
  fix d assume d: "logs_advance d0 d"
  then have ok: "db_ok d" by (simp add: logs_advance_def)
  show "logs_advance d0 (snd (TransactionLog_update_pending_associated_with_txo_to_succeeded i b d))"
    unfolding finalize_eq [OF ok] snd_conv
    by (rule logs_advance_update [OF d])
       (auto intro!: db_ok_update_logs ok status_step_le simp: TransactionLog_status_def log_pending_def)
qed

interpretation advance_inv: txlog_invariant "logs_advance d0" for d0
proof unfold_locales
  show "kept_by_memos (logs_advance d0)"
    unfolding kept_by_memos_def by (auto intro!: preserves_advance_other)
  show "preserves (logs_advance d0) (TransactionLog_update_pending_associated_with_txo_to_succeeded i b)" for i b
    by (rule advance_finalize)
  show "preserves (logs_advance d0) (TransactionLog_update_pending_exceeding_tombstone_block_index_to_failed b)" for b
    unfolding TransactionLog_update_pending_exceeding_tombstone_block_index_to_failed_def
      past_tombstone_cond
    by (rule preserves_advance_logs)
       (auto intro!: status_step_le simp: TransactionLog_status_def past_tombstone_def)
  show "preserves (logs_advance d0) (TransactionLog_update_submitted_block_index l b)" for l b
    unfolding TransactionLog_update_submitted_block_index_def
    by (rule preserves_advance_logs)
       (auto intro!: status_step_le simp: TransactionLog_status_def)
qed (auto intro!: preserves_advance_logs preserves_advance_other simp: txo_update_defs
      TransactionLog_update_comment_def TransactionLog_update_tx_and_tombstone_block_index_def
      TransactionLog_status_def insert_into_def update_where_def [where put = db_txos_update])

subsection \<open>Deleting the logs of an account\<close>

lemma sfor_delete_inputs:
  assumes "db_ok d"
  shows "sfor ks (\<lambda>i. delete_where db_transaction_input_txos_update (\<lambda>r. tin_key r = tin_key i)) d =
    (Inr (), db_transaction_input_txos_update (filter (\<lambda>r. tin_key r \<notin> tin_key ` set ks)) d)"
  using assms
proof (induction ks arbitrary: d)
  case (Cons k ks)
  have "delete_where db_transaction_input_txos_update (\<lambda>r. tin_key r = tin_key k) d =
      (Inr (), db_transaction_input_txos_update (filter (\<lambda>r. tin_key r \<noteq> tin_key k)) d)"
    unfolding delete_where_def by (rule exec_stmt_ok) (rule db_ok_delete_leaf [OF Cons.prems])
  moreover have "db_ok (db_transaction_input_txos_update (filter (\<lambda>r. tin_key r \<noteq> tin_key k)) d)"
    by (rule db_ok_delete_leaf [OF Cons.prems])
  ultimately show ?case
    by (simp add: sthen_Inr Cons.IH comp_def conj_commute)
qed (simp add: sreturn_apply comp_def)

lemma sfor_delete_outputs:
  assumes "db_ok d"
  shows "sfor ks (\<lambda>i. delete_where db_transaction_output_txos_update (\<lambda>r. tout_key r = tout_key i)) d =
    (Inr (), db_transaction_output_txos_update (filter (\<lambda>r. tout_key r \<notin> tout_key ` set ks)) d)"
  using assms
proof (induction ks arbitrary: d)
  case (Cons k ks)
  have "delete_where db_transaction_output_txos_update (\<lambda>r. tout_key r = tout_key k) d =
      (Inr (), db_transaction_output_txos_update (filter (\<lambda>r. tout_key r \<noteq> tout_key k)) d)"
    unfolding delete_where_def by (rule exec_stmt_ok) (rule db_ok_delete_leaf [OF Cons.prems])
  moreover have "db_ok (db_transaction_output_txos_update (filter (\<lambda>r. tout_key r \<noteq> tout_key k)) d)"
    by (rule db_ok_delete_leaf [OF Cons.prems])
  ultimately show ?case
    by (simp add: sthen_Inr Cons.IH comp_def conj_commute)
qed (simp add: sreturn_apply comp_def)

lemma put_links:
  "f (db_transaction_input_txos d) = v \<Longrightarrow>
     db_transaction_input_txos_update f d = d\<lparr>db_transaction_input_txos := v\<rparr>"
  "g (db_transaction_output_txos d) = w \<Longrightarrow>
     db_transaction_output_txos_update g d = d\<lparr>db_transaction_output_txos := w\<rparr>"
  by auto

text \<open>The identifiers of an account's logs.\<close>

definition log_ids_of :: "string \<Rightarrow> db \<Rightarrow> string set" where
  "log_ids_of acct d = tl_id ` {l \<in> set (db_transaction_logs d). tl_account_id l = acct}"

lemma delete_all_for_account_eq:
  assumes "db_ok d"
  shows "TransactionLog_delete_all_for_account acct d = (Inr (), d\<lparr>
    db_transaction_input_txos := filter (\<lambda>r. tin_transaction_log_id r \<notin> log_ids_of acct d) (db_transaction_input_txos d),
    db_transaction_output_txos := filter (\<lambda>r. tout_transaction_log_id r \<notin> log_ids_of acct d) (db_transaction_output_txos d),
    db_transaction_logs := filter (\<lambda>l. tl_account_id l \<noteq> acct) (db_transaction_logs d)\<rparr>)"
proof -
  let ?ins = "map fst (filter (\<lambda>(i, l). tl_account_id l = acct)
         (inner_join (\<lambda>i l. sql_eq (Some (tin_transaction_log_id i)) (Some (tl_id l)))
            (db_transaction_input_txos d) (db_transaction_logs d)))"
  let ?outs = "map fst (filter (\<lambda>(r, l). tl_account_id l = acct)
         (inner_join (\<lambda>r l. sql_eq (Some (tout_transaction_log_id r)) (Some (tl_id l)))
            (db_transaction_output_txos d) (db_transaction_logs d)))"
  have ins: "tin_key r \<notin> tin_key ` set ?ins \<longleftrightarrow> tin_transaction_log_id r \<notin> log_ids_of acct d"
    if "r \<in> set (db_transaction_input_txos d)" for r
    using that by (auto simp: set_inner_join log_ids_of_def tin_key_def image_iff)
  have outs: "tout_key r \<notin> tout_key ` set ?outs \<longleftrightarrow> tout_transaction_log_id r \<notin> log_ids_of acct d"
    if "r \<in> set (db_transaction_output_txos d)" for r
    using that by (auto simp: set_inner_join log_ids_of_def tout_key_def image_iff)
  let ?d1 = "d\<lparr>db_transaction_input_txos := filter (\<lambda>r. tin_transaction_log_id r \<notin> log_ids_of acct d) (db_transaction_input_txos d)\<rparr>"
  let ?d2 = "?d1\<lparr>db_transaction_output_txos := filter (\<lambda>r. tout_transaction_log_id r \<notin> log_ids_of acct d) (db_transaction_output_txos d)\<rparr>"
  have d1: "db_transaction_input_txos_update (filter (\<lambda>r. tin_key r \<notin> tin_key ` set ?ins)) d = ?d1"
    by (rule put_links, rule filter_cong [OF refl], rule ins)
  have out1: "db_transaction_output_txos ?d1 = db_transaction_output_txos d" by simp
  have d2: "db_transaction_output_txos_update (filter (\<lambda>r. tout_key r \<notin> tout_key ` set ?outs)) ?d1 = ?d2"
    by (rule put_links, unfold out1, rule filter_cong [OF refl], rule outs)
  have ok1: "db_ok ?d1" unfolding d1 [symmetric] by (rule db_ok_delete_leaf [OF assms])
  have ok2: "db_ok ?d2" unfolding d2 [symmetric] by (rule db_ok_delete_leaf [OF ok1])
  have "db_ok (db_transaction_logs_update (filter (\<lambda>l. \<not> tl_account_id l = acct)) ?d2)"
    by (rule db_ok_delete_logs [OF ok2]) (auto simp: log_ids_of_def image_iff)
  then show ?thesis
    using sfor_delete_inputs [OF assms, of ?ins] sfor_delete_outputs [OF ok1, of ?outs]
    unfolding d1 d2
    by (simp add: TransactionLog_delete_all_for_account_def sbind_sread sthen_Inr delete_where_def
        exec_stmt_ok)
qed

subsection \<open>Transaction identifiers and values\<close>

definition total_order :: "('a \<Rightarrow> 'a \<Rightarrow> bool) \<Rightarrow> bool" where
  "total_order leq \<longleftrightarrow> (\<forall>a b. leq a b \<or> leq b a) \<and> (\<forall>a b. leq a b \<longrightarrow> leq b a \<longrightarrow> a = b) \<and>
     (\<forall>a b c. leq a b \<longrightarrow> leq b c \<longrightarrow> leq a c)"

lemma foldl_min_least:
  assumes "total_order leq"
  shows "foldl (\<lambda>m b. if leq m b then m else b) a as \<in> set (a # as) \<and>
         (\<forall>b \<in> set (a # as). leq (foldl (\<lambda>m b. if leq m b then m else b) a as) b)"
proof (induction as arbitrary: a)
  case (Cons c as)
  from assms have tot: "leq c a \<or> leq a c" and refl: "leq a a" "leq c c"
    and trans: "\<And>u v w. leq u v \<Longrightarrow> leq v w \<Longrightarrow> leq u w"
    by (auto simp: total_order_def)
  show ?case
  proof (cases "leq a c")
    case True
    with Cons.IH [of a] trans show ?thesis by (auto intro: trans)
  next
    case False
    with tot have "leq c a" by blast
    with False Cons.IH [of c] trans show ?thesis by (auto intro: trans)
  qed
qed (use assms in \<open>auto simp: total_order_def\<close>)

lemma iter_min_set:
  assumes "total_order leq" and "set as = set bs"
  shows "iter_min leq as = iter_min leq bs"
proof (cases as)
  case (Cons a as')
  with assms(2) obtain b bs' where bs: "bs = b # bs'" by (cases bs) auto
  let ?m = "foldl (\<lambda>m b. if leq m b then m else b) a as'"
  let ?n = "foldl (\<lambda>m b. if leq m b then m else b) b bs'"
  have "leq ?m ?n" "leq ?n ?m"
    using foldl_min_least [OF assms(1), of a as'] foldl_min_least [OF assms(1), of b bs'] assms(2)
    unfolding Cons bs by blast+
  with assms(1) have "?m = ?n" by (auto simp: total_order_def)
  with Cons bs show ?thesis by simp
qed (use assms(2) in simp)

lemma fold_value_map:
  "fold (\<lambda>(t, _). add_to_value_map t) xs m token =
     (if \<exists>(t, s) \<in> set xs. txo_token_id t = token then
        Some ((case m token of None \<Rightarrow> 0 | Some v \<Rightarrow> v) +
          sum_list (map (\<lambda>(t, _). txo_value t) (filter (\<lambda>(t, _). txo_token_id t = token) xs)))
      else m token)"
  by (induction xs arbitrary: m) (auto simp: add_to_value_map_def split: option.splits)

end
