(* ===== verification/Account_Ops.thy ===== *)
theory Account_Ops
  imports Txlog_Facts
begin

section \<open>Creating, updating and deleting accounts and subaddresses\<close>

text \<open>
  The write operations of \<open>db/assigned_subaddress.rs\<close> and \<open>db/account.rs\<close>.
\<close>

subsection \<open>Subaddresses\<close>

definition insert_subaddress ::
    "externals \<Rightarrow> string \<Rightarrow> public_address \<Rightarrow> u64 \<Rightarrow> string \<Rightarrow> string db_action" where
  "insert_subaddress x account_id subaddress subaddress_index comment =
     sbind (sread (\<lambda>_. map_err B58 (b58_encode_public_address x subaddress))) (\<lambda>subaddress_b58.
     sthen (insert_into db_assigned_subaddresses_update
       \<lparr>asub_public_address_b58 = subaddress_b58, asub_account_id = account_id,
        asub_subaddress_index = subaddress_index, asub_comment = comment,
        asub_spend_public_key = x_ristretto_bytes x (x_spend_public_key x subaddress)\<rparr>)
     (sreturn subaddress_b58))"

definition AssignedSubaddress_create ::
    "externals \<Rightarrow> account_key \<Rightarrow> u64 \<Rightarrow> string \<Rightarrow> string db_action" where
  "AssignedSubaddress_create x account_key subaddress_index comment =
     insert_subaddress x (AccountID_from_account_key x account_key)
       (x_subaddress x account_key subaddress_index) subaddress_index comment"

definition AssignedSubaddress_create_for_view_only_account ::
    "externals \<Rightarrow> view_account_key \<Rightarrow> u64 \<Rightarrow> string \<Rightarrow> string db_action" where
  "AssignedSubaddress_create_for_view_only_account x account_key subaddress_index comment =
     insert_subaddress x (AccountID_from_view_account_key x account_key)
       (x_view_subaddress x account_key subaddress_index) subaddress_index comment"

definition AssignedSubaddress_create_for_view_only_fog_account ::
    "externals \<Rightarrow> view_account_key \<Rightarrow> u64 \<Rightarrow> public_address \<Rightarrow> string \<Rightarrow> string db_action" where
  "AssignedSubaddress_create_for_view_only_fog_account x account_key subaddress_index public_address comment =
     insert_subaddress x (AccountID_from_view_account_key x account_key)
       public_address subaddress_index comment"

definition AssignedSubaddress_delete_all :: "string \<Rightarrow> unit db_action" where
  "AssignedSubaddress_delete_all account_id_hex =
     delete_where db_assigned_subaddresses_update (\<lambda>s. asub_account_id s = account_id_hex)"

text \<open>The repair loops of \<open>create_next_for_account\<close>: an orphaned txo whose recovered spend key is
  the one of the new subaddress gets its index and, when the spend key of the account is
  known, its key image; if the ledger already holds that key image the txo is marked spent.\<close>

definition txo_update_row :: "txo \<Rightarrow> (txo \<Rightarrow> txo) \<Rightarrow> unit db_action" where
  "txo_update_row self f = update_where db_txos_update (\<lambda>t. txo_id t = txo_id self) f"

definition repair_orphan_view_only ::
    "externals \<Rightarrow> view_account_key \<Rightarrow> u64 \<Rightarrow> txo \<Rightarrow> unit db_action" where
  "repair_orphan_view_only x view_account_key next_index orphan =
     sbind (sread (\<lambda>_. map_err ProstDecode (x_decode_ristretto x (txo_target_key orphan)))) (\<lambda>target_key.
     sbind (sread (\<lambda>_. map_err ProstDecode (x_decode_ristretto x (txo_public_key orphan)))) (\<lambda>tx_key.
       if x_recover_public_subaddress_spend_key x (x_vk_view_private_key x view_account_key)
            target_key tx_key
          = x_spend_public_key x (x_view_subaddress x view_account_key next_index)
       then txo_update_row orphan (\<lambda>t. t\<lparr>txo_subaddress_index := Some next_index\<rparr>)
       else sreturn ()))"

definition repair_orphan ::
    "externals \<Rightarrow> ledger_db \<Rightarrow> account_key \<Rightarrow> u64 \<Rightarrow> txo \<Rightarrow> unit db_action" where
  "repair_orphan x ledger account_key next_index orphan =
     sbind (sread (\<lambda>_. map_err ProstDecode (x_decode_ristretto x (txo_target_key orphan)))) (\<lambda>target_key.
     sbind (sread (\<lambda>_. map_err ProstDecode (x_decode_ristretto x (txo_public_key orphan)))) (\<lambda>tx_key.
       if x_recover_public_subaddress_spend_key x (x_view_private_key x account_key)
            target_key tx_key
          = x_spend_public_key x (x_subaddress x account_key next_index)
       then
         (let key_image = x_key_image_from x (x_recover_onetime_private_key x tx_key
                (x_view_private_key x account_key)
                (x_subaddress_spend_private x account_key next_index))
          in sbind (sread (\<lambda>_. map_err LedgerDB (l_contains_key_image ledger key_image))) (\<lambda>contained.
             sthen
               (if contained then
                  sbind (sread (\<lambda>_. map_err LedgerDB
                    (l_get_tx_out_index_by_public_key ledger (x_compressed_from x tx_key)))) (\<lambda>txo_index.
                  sbind (sread (\<lambda>_. map_err LedgerDB
                    (l_get_block_index_by_tx_out_index ledger txo_index))) (\<lambda>block_index.
                    txo_update_row orphan (\<lambda>t. t\<lparr>txo_spent_block_index := Some block_index\<rparr>)))
                else sreturn ())
               (txo_update_row orphan (\<lambda>t. t\<lparr>txo_subaddress_index := Some next_index,
                  txo_key_image := Some (x_encode_key_image x key_image)\<rparr>))))
       else sreturn ()))"

definition AssignedSubaddress_create_next_for_account ::
    "externals \<Rightarrow> string \<Rightarrow> string \<Rightarrow> ledger_db \<Rightarrow> (string \<times> i64) db_action" where
  "AssignedSubaddress_create_next_for_account x account_id_hex comment ledger =
     sbind (sread (Account_get account_id_hex)) (\<lambda>a.
       if acct_fog_enabled a then sraise SubaddressesNotSupportedForFOGEnabledAccounts
       else if acct_view_only a then
         sbind (sread (\<lambda>_. map_err ProstDecode (x_decode_view_account_key x (acct_account_key a)))) (\<lambda>vk.
         sbind (sread (Account_next_subaddress_index a)) (\<lambda>next_index.
         sbind (AssignedSubaddress_create_for_view_only_account x vk next_index comment) (\<lambda>b58.
         sbind (sread (Txo_list_orphaned (Some account_id_hex) None None None None None)) (\<lambda>orphans.
         sthen (sfor orphans (repair_orphan_view_only x vk next_index))
           (sreturn (b58, next_index))))))
       else
         sbind (sread (\<lambda>_. map_err ProstDecode (x_decode_account_key x (acct_account_key a)))) (\<lambda>k.
         sbind (sread (Account_next_subaddress_index a)) (\<lambda>next_index.
         sbind (AssignedSubaddress_create x k next_index comment) (\<lambda>b58.
         sbind (sread (Txo_list_orphaned (Some account_id_hex) None None None None None)) (\<lambda>orphans.
         sthen (sfor orphans (repair_orphan x ledger k next_index))
           (sreturn (b58, next_index)))))))"

subsection \<open>Accounts\<close>

text \<open>\<open>DEFAULT_NEXT_SUBADDRESS_INDEX..next_subaddress_index\<close>.\<close>

definition u64_range :: "u64 \<Rightarrow> u64 \<Rightarrow> u64 list" where
  "u64_range lo hi = map word_of_nat [unat lo..<unat hi]"

definition Account_create ::
    "externals \<Rightarrow> bytes \<Rightarrow> u8 \<Rightarrow> account_key \<Rightarrow> u64 option \<Rightarrow> u64 option \<Rightarrow> u64 option \<Rightarrow> string \<Rightarrow> bool
      \<Rightarrow> bool \<Rightarrow> (string \<times> string) db_action" where
  "Account_create x entropy key_derivation_version account_key first_block_index import_block_index
      next_subaddress_index name fog_enabled require_spend_subaddress =
     (let account_id = AccountID_from_account_key x account_key;
          first_block = (case first_block_index of None \<Rightarrow> DEFAULT_FIRST_BLOCK_INDEX | Some b \<Rightarrow> b);
          next_subaddress = (case next_subaddress_index of
            None \<Rightarrow> DEFAULT_NEXT_SUBADDRESS_INDEX | Some i \<Rightarrow> i)
      in smatch (Account_get account_id) (\<lambda>r.
        if is_ok r then sraise (AccountAlreadyExists account_id)
        else
          sthen (insert_into db_accounts_update
            \<lparr>acct_id = account_id, acct_account_key = x_encode_account_key x account_key,
             acct_entropy = Some entropy, acct_key_derivation_version = ucast key_derivation_version,
             acct_first_block_index = first_block, acct_next_block_index = first_block,
             acct_import_block_index = import_block_index, acct_name = name,
             acct_fog_enabled = fog_enabled, acct_view_only = False,
             acct_managed_by_hardware_wallet = False, acct_resyncing = False,
             acct_require_spend_subaddress = require_spend_subaddress\<rparr>)
          (sbind (AssignedSubaddress_create x account_key (x_DEFAULT_SUBADDRESS_INDEX x) ''Main'') (\<lambda>main_b58.
          sthen (AssignedSubaddress_create x account_key (x_CHANGE_SUBADDRESS_INDEX x) ''Change'')
          (sthen
            (if fog_enabled then sreturn ()
             else sthen (AssignedSubaddress_create x account_key LEGACY_CHANGE_SUBADDRESS_INDEX ''Legacy Change'')
               (sfor (u64_range DEFAULT_NEXT_SUBADDRESS_INDEX next_subaddress)
                 (\<lambda>i. sthen (AssignedSubaddress_create x account_key i []) (sreturn ()))))
            (sreturn (account_id, main_b58)))))))"

definition Account_create_from_mnemonic ::
    "externals \<Rightarrow> bytes \<Rightarrow> u64 option \<Rightarrow> u64 option \<Rightarrow> u64 option \<Rightarrow> string \<Rightarrow> string \<Rightarrow> string \<Rightarrow> bool
      \<Rightarrow> (string \<times> string) db_action" where
  "Account_create_from_mnemonic x mnemonic first_block_index import_block_index next_subaddress_index
      name fog_report_url fog_authority_spki require_spend_subaddress =
     (let fog_enabled = fog_report_url \<noteq> [];
          account_key = x_account_key_from_mnemonic x mnemonic
      in sbind (sread (\<lambda>_. map_err Base64Decode (x_base64_decode x fog_authority_spki))) (\<lambda>spki.
           Account_create x (x_mnemonic_entropy x mnemonic) MNEMONIC_KEY_DERIVATION_VERSION
             (x_account_key_with_fog x account_key fog_report_url [] spki)
             first_block_index import_block_index next_subaddress_index name fog_enabled
             require_spend_subaddress))"

definition Account_create_from_root_entropy ::
    "externals \<Rightarrow> bytes \<Rightarrow> u64 option \<Rightarrow> u64 option \<Rightarrow> u64 option \<Rightarrow> string \<Rightarrow> string \<Rightarrow> string \<Rightarrow> bool
      \<Rightarrow> (string \<times> string) db_action" where
  "Account_create_from_root_entropy x entropy first_block_index import_block_index
      next_subaddress_index name fog_report_url fog_authority_spki require_spend_subaddress =
     (let fog_enabled = fog_report_url \<noteq> []
      in sbind (sread (\<lambda>_. map_err Base64Decode (x_base64_decode x fog_authority_spki))) (\<lambda>spki.
           Account_create x entropy ROOT_ENTROPY_KEY_DERIVATION_VERSION
             (x_account_key_from_root x entropy fog_report_url [] spki)
             first_block_index import_block_index next_subaddress_index name fog_enabled
             require_spend_subaddress))"

definition Account_import ::
    "externals \<Rightarrow> bytes \<Rightarrow> string option \<Rightarrow> u64 \<Rightarrow> u64 option \<Rightarrow> u64 option \<Rightarrow> string \<Rightarrow> string \<Rightarrow> bool
      \<Rightarrow> account db_action" where
  "Account_import x mnemonic name import_block_index first_block_index next_subaddress_index
      fog_report_url fog_authority_spki require_spend_subaddress =
     sbind (Account_create_from_mnemonic x mnemonic first_block_index (Some import_block_index)
        next_subaddress_index (case name of None \<Rightarrow> [] | Some n \<Rightarrow> n) fog_report_url
        fog_authority_spki require_spend_subaddress) (\<lambda>(account_id, _).
       sread (Account_get account_id))"

definition Account_import_legacy ::
    "externals \<Rightarrow> bytes \<Rightarrow> string option \<Rightarrow> u64 \<Rightarrow> u64 option \<Rightarrow> u64 option \<Rightarrow> string \<Rightarrow> string \<Rightarrow> bool
      \<Rightarrow> account db_action" where
  "Account_import_legacy x root_entropy name import_block_index first_block_index
      next_subaddress_index fog_report_url fog_authority_spki require_spend_subaddress =
     sbind (Account_create_from_root_entropy x root_entropy first_block_index
        (Some import_block_index) next_subaddress_index (case name of None \<Rightarrow> [] | Some n \<Rightarrow> n)
        fog_report_url fog_authority_spki require_spend_subaddress) (\<lambda>(account_id, _).
       sread (Account_get account_id))"

definition view_only_row ::
    "externals \<Rightarrow> view_account_key \<Rightarrow> string option \<Rightarrow> u64 \<Rightarrow> u64 option \<Rightarrow> bool \<Rightarrow> bool \<Rightarrow> bool \<Rightarrow> account" where
  "view_only_row x vk name import_block_index first_block_index fog_enabled hardware require_spend =
     (let first_block = (case first_block_index of None \<Rightarrow> DEFAULT_FIRST_BLOCK_INDEX | Some b \<Rightarrow> b)
      in \<lparr>acct_id = AccountID_from_view_account_key x vk,
          acct_account_key = x_encode_view_account_key x vk, acct_entropy = None,
          acct_key_derivation_version = ucast MNEMONIC_KEY_DERIVATION_VERSION,
          acct_first_block_index = first_block, acct_next_block_index = first_block,
          acct_import_block_index = Some import_block_index,
          acct_name = (case name of None \<Rightarrow> [] | Some n \<Rightarrow> n),
          acct_fog_enabled = fog_enabled, acct_view_only = True,
          acct_managed_by_hardware_wallet = hardware, acct_resyncing = False,
          acct_require_spend_subaddress = require_spend\<rparr>)"

definition Account_import_view_only ::
    "externals \<Rightarrow> view_account_key \<Rightarrow> string option \<Rightarrow> u64 \<Rightarrow> u64 option \<Rightarrow> u64 option \<Rightarrow> bool \<Rightarrow> bool
      \<Rightarrow> account db_action" where
  "Account_import_view_only x vk name import_block_index first_block_index next_subaddress_index
      managed_by_hardware_wallet require_spend_subaddress =
     (let account_id = AccountID_from_view_account_key x vk;
          next_subaddress = (case next_subaddress_index of
            None \<Rightarrow> DEFAULT_NEXT_SUBADDRESS_INDEX | Some i \<Rightarrow> i)
      in smatch (Account_get account_id) (\<lambda>r.
        if is_ok r then sraise (AccountAlreadyExists account_id)
        else
          sthen (insert_into db_accounts_update (view_only_row x vk name import_block_index
            first_block_index False managed_by_hardware_wallet require_spend_subaddress))
          (sthen (AssignedSubaddress_create_for_view_only_account x vk (x_DEFAULT_SUBADDRESS_INDEX x) ''Main'')
          (sthen (AssignedSubaddress_create_for_view_only_account x vk LEGACY_CHANGE_SUBADDRESS_INDEX ''Legacy Change'')
          (sthen (AssignedSubaddress_create_for_view_only_account x vk (x_CHANGE_SUBADDRESS_INDEX x) ''Change'')
          (sthen (sfor (u64_range DEFAULT_NEXT_SUBADDRESS_INDEX next_subaddress)
             (\<lambda>i. sthen (AssignedSubaddress_create_for_view_only_account x vk i []) (sreturn ())))
          (sread (Account_get account_id))))))))"

definition Account_import_view_only_from_hardware_wallet_with_fog ::
    "externals \<Rightarrow> view_account_key \<Rightarrow> string option \<Rightarrow> u64 \<Rightarrow> u64 option \<Rightarrow> public_address \<Rightarrow> bool
      \<Rightarrow> account db_action" where
  "Account_import_view_only_from_hardware_wallet_with_fog x vk name import_block_index
      first_block_index default_public_address require_spend_subaddress =
     (let account_id = AccountID_from_view_account_key x vk
      in smatch (Account_get account_id) (\<lambda>r.
        if is_ok r then sraise (AccountAlreadyExists account_id)
        else
          sthen (insert_into db_accounts_update (view_only_row x vk name import_block_index
            first_block_index True True require_spend_subaddress))
          (sthen (AssignedSubaddress_create_for_view_only_fog_account x vk
             (x_DEFAULT_SUBADDRESS_INDEX x) default_public_address ''Main'')
          (sthen (AssignedSubaddress_create_for_view_only_account x vk (x_CHANGE_SUBADDRESS_INDEX x) ''Change'')
          (sread (Account_get account_id))))))"

definition account_update_row :: "account \<Rightarrow> (account \<Rightarrow> account) \<Rightarrow> unit db_action" where
  "account_update_row self f = update_where db_accounts_update (\<lambda>a. acct_id a = acct_id self) f"

definition Account_update_name :: "account \<Rightarrow> string \<Rightarrow> unit db_action" where
  "Account_update_name self new_name = account_update_row self (\<lambda>a. a\<lparr>acct_name := new_name\<rparr>)"

definition Account_update_require_spend_subaddress :: "account \<Rightarrow> bool \<Rightarrow> unit db_action" where
  "Account_update_require_spend_subaddress self b =
     account_update_row self (\<lambda>a. a\<lparr>acct_require_spend_subaddress := b\<rparr>)"

definition Account_update_next_block_index :: "account \<Rightarrow> u64 \<Rightarrow> unit db_action" where
  "Account_update_next_block_index self next_block_index =
     account_update_row self (\<lambda>a. a\<lparr>acct_next_block_index := next_block_index\<rparr>)"

definition Account_update_resyncing :: "account \<Rightarrow> bool \<Rightarrow> unit db_action" where
  "Account_update_resyncing self b = account_update_row self (\<lambda>a. a\<lparr>acct_resyncing := b\<rparr>)"

definition Account_delete :: "account \<Rightarrow> unit db_action" where
  "Account_delete self =
     sthen (TransactionLog_delete_all_for_account (acct_id self))
     (sthen (AssignedSubaddress_delete_all (acct_id self))
     (sthen (Txo_scrub_account (acct_id self))
     (sthen (delete_where db_accounts_update (\<lambda>a. acct_id a = acct_id self))
       Txo_delete_unreferenced)))"

end
