(* ===== verification/Account_Facts.thy ===== *)
theory Account_Facts
  imports Account_Ops
begin

section \<open>Properties of the account and subaddress operations\<close>

text \<open>
  The locale \<open>account_invariant\<close> extends the interface of the transaction log component by the
  statements on accounts and subaddresses. Then the effect of creating subaddresses and
  accounts, of the repair of orphaned txos, and of the deletion of an account.
\<close>

subsection \<open>Invariants\<close>

locale account_invariant = txlog_invariant +
  assumes keep_new_account: "preserves P (insert_into db_accounts_update a)"
    and keep_update_account: "(\<And>r. acct_id (f r) = acct_id r) \<Longrightarrow> preserves P (account_update_row b f)"
    and keep_new_subaddress: "preserves P (insert_into db_assigned_subaddresses_update s)"
    and keep_repair: "(\<And>r. txo_id (g r) = txo_id r) \<Longrightarrow> (\<And>r. txo_account_id (g r) = txo_account_id r) \<Longrightarrow>
      (\<And>r. txo_received_block_index (g r) = txo_received_block_index r) \<Longrightarrow>
      preserves P (txo_update_row t g)"
begin

lemma keeps_insert_subaddress: "preserves P (insert_subaddress x i a n c)"
  unfolding insert_subaddress_def by (intro preserves_intros keep_new_subaddress)

lemma keeps_create_subaddress:
  "preserves P (AssignedSubaddress_create x k i c)"
  "preserves P (AssignedSubaddress_create_for_view_only_account x vk i c)"
  "preserves P (AssignedSubaddress_create_for_view_only_fog_account x vk i pa c)"
  unfolding AssignedSubaddress_create_def AssignedSubaddress_create_for_view_only_account_def
    AssignedSubaddress_create_for_view_only_fog_account_def
  by (rule keeps_insert_subaddress)+

lemma keeps_repair_orphan:
  "preserves P (repair_orphan_view_only x vk i t)" "preserves P (repair_orphan x l k i t)"
  unfolding repair_orphan_view_only_def repair_orphan_def Let_def
  by (intro preserves_intros keep_repair; simp)+

lemma keeps_create_next: "preserves P (AssignedSubaddress_create_next_for_account x i c l)"
  unfolding AssignedSubaddress_create_next_for_account_def
  by (intro preserves_intros keeps_create_subaddress keeps_repair_orphan)

lemma keeps_create_account: "preserves P (Account_create x e v k fb ib ns n fog rs)"
  unfolding Account_create_def Let_def
  by (intro preserves_intros keeps_create_subaddress keep_new_account)

lemma keeps_create_from:
  "preserves P (Account_create_from_mnemonic x mn fb ib ns n url spki rs)"
  "preserves P (Account_create_from_root_entropy x e fb ib ns n url spki rs)"
  unfolding Account_create_from_mnemonic_def Account_create_from_root_entropy_def Let_def
  by (intro preserves_intros keeps_create_account)+

lemma keeps_import:
  "preserves P (Account_import x mn nm ib fb ns url spki rs)"
  "preserves P (Account_import_legacy x e nm ib fb ns url spki rs)"
  "preserves P (Account_import_view_only x vk nm ib fb ns hw rs)"
  "preserves P (Account_import_view_only_from_hardware_wallet_with_fog x vk nm ib fb pa rs)"
  unfolding Account_import_def Account_import_legacy_def Account_import_view_only_def
    Account_import_view_only_from_hardware_wallet_with_fog_def Let_def
  by (intro preserves_intros keeps_create_from keeps_create_subaddress keep_new_account)+

lemma keeps_account_updates:
  "preserves P (Account_update_name b n)"
  "preserves P (Account_update_require_spend_subaddress b r)"
  "preserves P (Account_update_next_block_index b i)"
  "preserves P (Account_update_resyncing b r)"
  unfolding Account_update_name_def Account_update_require_spend_subaddress_def
    Account_update_next_block_index_def Account_update_resyncing_def
  by (rule keep_update_account; simp)+

end

interpretation ok_acct: account_invariant db_ok
  by unfold_locales (auto intro!: preserves_intros simp: account_update_row_def txo_update_row_def)

lemma rows_ok_accounts:
  "preserves rows_ok (insert_into db_accounts_update a)"
  "preserves rows_ok (insert_into db_assigned_subaddresses_update s)"
  "preserves rows_ok (update_where db_accounts_update p f)"
  unfolding insert_into_def update_where_def
  by (rule preserves_exec_stmt, simp add: rows_ok_def)+

interpretation wf_acct: account_invariant db_wf
  by unfold_locales
     (auto intro!: preserves_wf_conj preserves_intros rows_ok_accounts rows_ok_update_txos
       simp: account_update_row_def txo_update_row_def txo_row_ok_def)

subsection \<open>Creating subaddresses\<close>

definition subaddress_row ::
    "externals \<Rightarrow> string \<Rightarrow> public_address \<Rightarrow> u64 \<Rightarrow> string \<Rightarrow> string \<Rightarrow> assigned_subaddress" where
  "subaddress_row x account_id addr i comment b58 =
     \<lparr>asub_public_address_b58 = b58, asub_account_id = account_id, asub_subaddress_index = i,
      asub_comment = comment, asub_spend_public_key = x_ristretto_bytes x (x_spend_public_key x addr)\<rparr>"

lemma insert_subaddress_Inr:
  "insert_subaddress x account_id addr i comment d = (Inr b58, d') \<longleftrightarrow>
     b58_encode_public_address x addr = Inr b58 \<and>
     d' = db_assigned_subaddresses_update (\<lambda>rs. rs @ [subaddress_row x account_id addr i comment b58]) d \<and>
     db_ok d'"
  by (cases "b58_encode_public_address x addr")
     (auto simp: insert_subaddress_def sbind_sread sthen_eq_Inr insert_into_def exec_stmt_Inr
       subaddress_row_def)

text \<open>A loop that creates subaddresses appends one row per index.\<close>

lemma sfor_create_subaddresses:
  assumes "sfor is (\<lambda>i. sthen (insert_subaddress x account_id (addr i) i comment) (sreturn ())) d = (Inr (), d')"
  shows "\<exists>rows. d' = db_assigned_subaddresses_update (\<lambda>rs. rs @ rows) d \<and>
    (\<forall>i \<in> set is. \<exists>b58. b58_encode_public_address x (addr i) = Inr b58 \<and>
       subaddress_row x account_id (addr i) i comment b58 \<in> set rows)"
  using assms
proof (induction "is" arbitrary: d)
  case Nil
  then show ?case by (intro exI [of _ "[]"]) simp
next
  case (Cons i "is")
  let ?S = "\<lambda>i. sthen (insert_subaddress x account_id (addr i) i comment) (sreturn ())"
  from Cons.prems obtain b58 d1 where
    1: "insert_subaddress x account_id (addr i) i comment d = (Inr b58, d1)"
    and 2: "sfor is ?S d1 = (Inr (), d')"
    by (auto simp: sthen_eq_Inr)
  from Cons.IH [OF 2] obtain rows where
    d': "d' = db_assigned_subaddresses_update (\<lambda>rs. rs @ rows) d1" and
    r: "\<forall>i \<in> set is. \<exists>b58. b58_encode_public_address x (addr i) = Inr b58 \<and>
       subaddress_row x account_id (addr i) i comment b58 \<in> set rows" by blast
  from 1 have b: "b58_encode_public_address x (addr i) = Inr b58"
    and d1: "d1 = db_assigned_subaddresses_update
            (\<lambda>rs. rs @ [subaddress_row x account_id (addr i) i comment b58]) d"
    unfolding insert_subaddress_Inr by blast+
  show ?case
    using r b by (intro exI [of _ "subaddress_row x account_id (addr i) i comment b58 # rows"])
      (auto simp: d' d1 comp_def)
qed

text \<open>A row in the table is found by account and index.\<close>

lemma get_by_index_of_row:
  assumes "db_ok d" and "s \<in> set (db_assigned_subaddresses d)"
  shows "AssignedSubaddress_get_for_account_by_index (asub_account_id s) (asub_subaddress_index s) d = Inr s"
  using get_for_account_by_index_Inr assms by blast

subsection \<open>Creating accounts\<close>

text \<open>The indices that get a subaddress when an account is created.\<close>

definition initial_indices :: "externals \<Rightarrow> bool \<Rightarrow> u64 option \<Rightarrow> u64 set" where
  "initial_indices x fog_enabled next_subaddress_index =
     {x_DEFAULT_SUBADDRESS_INDEX x, x_CHANGE_SUBADDRESS_INDEX x} \<union>
     (if fog_enabled then {}
      else insert LEGACY_CHANGE_SUBADDRESS_INDEX (set (u64_range DEFAULT_NEXT_SUBADDRESS_INDEX
        (case next_subaddress_index of None \<Rightarrow> DEFAULT_NEXT_SUBADDRESS_INDEX | Some i \<Rightarrow> i))))"

text \<open>\<open>has_subaddress\<close>: the row of the subaddress with a given index is in the database.\<close>

definition has_subaddress :: "externals \<Rightarrow> string \<Rightarrow> (u64 \<Rightarrow> public_address) \<Rightarrow> db \<Rightarrow> u64 \<Rightarrow> bool" where
  "has_subaddress x account_id addr d i \<longleftrightarrow>
     (\<exists>comment b58. b58_encode_public_address x (addr i) = Inr b58 \<and>
        subaddress_row x account_id (addr i) i comment b58 \<in> set (db_assigned_subaddresses d))"

lemma insert_subaddress_has:
  assumes "insert_subaddress x account_id (addr i) i comment d = (r, d')" and "is_ok r"
  shows "has_subaddress x account_id addr d' i"
    and "has_subaddress x account_id addr d j \<Longrightarrow> has_subaddress x account_id addr d' j"
    and "db_accounts d' = db_accounts d" and "db_ok d'"
  using assms by (cases r; auto simp: insert_subaddress_Inr has_subaddress_def)+

lemma sfor_insert_has:
  assumes "sfor is (\<lambda>i. sthen (insert_subaddress x account_id (addr i) i comment) (sreturn ())) d = (Inr (), d')"
  shows "i \<in> set is \<Longrightarrow> has_subaddress x account_id addr d' i"
    and "has_subaddress x account_id addr d j \<Longrightarrow> has_subaddress x account_id addr d' j"
    and "db_accounts d' = db_accounts d"
  using sfor_create_subaddresses [OF assms] by (auto simp: has_subaddress_def) blast+

lemma has_subaddress_get:
  assumes "has_subaddress x account_id addr d i" and "db_ok d"
  shows "\<exists>s. AssignedSubaddress_get_for_account_by_index account_id i d = Inr s \<and>
    asub_spend_public_key s = x_ristretto_bytes x (x_spend_public_key x (addr i)) \<and>
    b58_encode_public_address x (addr i) = Inr (asub_public_address_b58 s)"
proof -
  from assms(1) obtain comment b58 where b: "b58_encode_public_address x (addr i) = Inr b58"
    and r: "subaddress_row x account_id (addr i) i comment b58 \<in> set (db_assigned_subaddresses d)"
    by (auto simp: has_subaddress_def)
  from get_by_index_of_row [OF assms(2) r] b show ?thesis
    by (auto simp: subaddress_row_def)
qed

text \<open>The account row that \<open>create\<close> writes.\<close>

definition created_account ::
    "externals \<Rightarrow> bytes \<Rightarrow> u8 \<Rightarrow> account_key \<Rightarrow> u64 option \<Rightarrow> u64 option \<Rightarrow> string \<Rightarrow> bool \<Rightarrow> bool \<Rightarrow> account" where
  "created_account x ent ver k fb ib name fog rs =
     \<lparr>acct_id = AccountID_from_account_key x k, acct_account_key = x_encode_account_key x k,
      acct_entropy = Some ent, acct_key_derivation_version = ucast ver,
      acct_first_block_index = (case fb of None \<Rightarrow> DEFAULT_FIRST_BLOCK_INDEX | Some b \<Rightarrow> b),
      acct_next_block_index = (case fb of None \<Rightarrow> DEFAULT_FIRST_BLOCK_INDEX | Some b \<Rightarrow> b),
      acct_import_block_index = ib, acct_name = name, acct_fog_enabled = fog,
      acct_view_only = False, acct_managed_by_hardware_wallet = False, acct_resyncing = False,
      acct_require_spend_subaddress = rs\<rparr>"

lemma Account_create_steps:
  assumes "Account_create x ent ver k fb ib ns name fog rs d = (Inr (aid, main), d')"
  shows "aid = AccountID_from_account_key x k \<and> \<not> is_ok (Account_get aid d) \<and>
    (\<exists>d1 d2 d3 change. d1 = db_accounts_update (\<lambda>as. as @ [created_account x ent ver k fb ib name fog rs]) d \<and>
      db_ok d1 \<and>
      insert_subaddress x aid (x_subaddress x k (x_DEFAULT_SUBADDRESS_INDEX x))
        (x_DEFAULT_SUBADDRESS_INDEX x) ''Main'' d1 = (Inr main, d2) \<and>
      insert_subaddress x aid (x_subaddress x k (x_CHANGE_SUBADDRESS_INDEX x))
        (x_CHANGE_SUBADDRESS_INDEX x) ''Change'' d2 = (Inr change, d3) \<and>
      (if fog then d' = d3
       else \<exists>legacy d4. insert_subaddress x aid (x_subaddress x k LEGACY_CHANGE_SUBADDRESS_INDEX)
             LEGACY_CHANGE_SUBADDRESS_INDEX ''Legacy Change'' d3 = (Inr legacy, d4) \<and>
         sfor (u64_range DEFAULT_NEXT_SUBADDRESS_INDEX
             (case ns of None \<Rightarrow> DEFAULT_NEXT_SUBADDRESS_INDEX | Some i \<Rightarrow> i))
           (\<lambda>i. sthen (insert_subaddress x aid (x_subaddress x k i) i []) (sreturn ())) d4 = (Inr (), d')))"
  using assms
  by (cases fog; cases "Account_get (AccountID_from_account_key x k) d")
     (auto simp: Account_create_def Let_def smatch_apply is_ok_def sthen_eq_Inr sbind_eq_Inr
       insert_into_def exec_stmt_Inr created_account_def AssignedSubaddress_create_def)

lemma created_subaddresses:
  assumes "db_ok d" and "Account_create x ent ver k fb ib ns name fog rs d = (Inr (aid, main), d')"
  shows "db_accounts d' = db_accounts d @ [created_account x ent ver k fb ib name fog rs]"
    and "i \<in> initial_indices x fog ns \<Longrightarrow> has_subaddress x aid (x_subaddress x k) d' i"
proof -
  let ?has = "has_subaddress x aid (x_subaddress x k)"
  from Account_create_steps [OF assms(2)] obtain d1 d2 d3 c where
    d1: "d1 = db_accounts_update (\<lambda>as. as @ [created_account x ent ver k fb ib name fog rs]) d"
    and m: "insert_subaddress x aid (x_subaddress x k (x_DEFAULT_SUBADDRESS_INDEX x))
              (x_DEFAULT_SUBADDRESS_INDEX x) ''Main'' d1 = (Inr main, d2)"
    and c: "insert_subaddress x aid (x_subaddress x k (x_CHANGE_SUBADDRESS_INDEX x))
              (x_CHANGE_SUBADDRESS_INDEX x) ''Change'' d2 = (Inr c, d3)"
    and rest: "if fog then d' = d3
       else \<exists>legacy d4. insert_subaddress x aid (x_subaddress x k LEGACY_CHANGE_SUBADDRESS_INDEX)
             LEGACY_CHANGE_SUBADDRESS_INDEX ''Legacy Change'' d3 = (Inr legacy, d4) \<and>
         sfor (u64_range DEFAULT_NEXT_SUBADDRESS_INDEX
             (case ns of None \<Rightarrow> DEFAULT_NEXT_SUBADDRESS_INDEX | Some i \<Rightarrow> i))
           (\<lambda>i. sthen (insert_subaddress x aid (x_subaddress x k i) i []) (sreturn ())) d4 = (Inr (), d')"
    by blast
  note M = insert_subaddress_has [where addr = "x_subaddress x k", OF m, simplified]
    and C = insert_subaddress_has [where addr = "x_subaddress x k", OF c, simplified]
  have base: "?has d3 (x_DEFAULT_SUBADDRESS_INDEX x)" "?has d3 (x_CHANGE_SUBADDRESS_INDEX x)"
    using M C by auto
  have acc: "db_accounts d3 = db_accounts d @ [created_account x ent ver k fb ib name fog rs]"
    using M(3) C(3) d1 by simp
  show "db_accounts d' = db_accounts d @ [created_account x ent ver k fb ib name fog rs]"
    and "i \<in> initial_indices x fog ns \<Longrightarrow> ?has d' i"
    using rest base acc sfor_insert_has [where addr = "x_subaddress x k"]
      insert_subaddress_has [where addr = "x_subaddress x k"]
    by (auto simp: initial_indices_def is_ok_def split: if_splits)
qed

subsection \<open>Repairing orphaned txos\<close>

text \<open>A loop that updates one txo row per round, found by its identifier.\<close>

lemma sfor_update_by_id:
  assumes "\<And>t d d'. t \<in> set ts \<Longrightarrow> step t d = (Inr (), d') \<Longrightarrow>
      d' = db_txos_update (update_rows (\<lambda>r. txo_id r = txo_id t) (f t)) d"
    and "\<And>t r. txo_id (f t r) = txo_id r" and "distinct (map txo_id ts)"
    and "sfor ts step d = (Inr (), d')"
  shows "d' = db_txos_update (map (\<lambda>r. case find (\<lambda>t. txo_id t = txo_id r) ts of None \<Rightarrow> r | Some t \<Rightarrow> f t r)) d"
  using assms(1,3,4)
proof (induction ts arbitrary: d)
  case Nil
  then show ?case by simp
next
  case (Cons t ts)
  from Cons.prems(3) obtain d1 where d1: "step t d = (Inr (), d1)" and rest: "sfor ts step d1 = (Inr (), d')"
    by (auto simp: sthen_eq_Inr)
  let ?g = "\<lambda>r. if txo_id r = txo_id t then f t r else r"
  have fresh: "find (\<lambda>t'. txo_id t' = txo_id t) ts = None"
    using Cons.prems(2) by (simp add: find_None_iff) (metis imageI)
  have "d' = db_txos_update (map (\<lambda>r. case find (\<lambda>t. txo_id t = txo_id r) ts of None \<Rightarrow> r | Some t \<Rightarrow> f t r)) d1"
    using Cons.prems(1,2) by (intro Cons.IH [OF _ _ rest]) auto
  moreover have "d1 = db_txos_update (update_rows (\<lambda>r. txo_id r = txo_id t) (f t)) d"
    using Cons.prems(1) d1 by simp
  moreover have "(case find (\<lambda>t. txo_id t = txo_id (?g r)) ts of None \<Rightarrow> ?g r | Some u \<Rightarrow> f u (?g r)) =
      (case find (\<lambda>t. txo_id t = txo_id r) (t # ts) of None \<Rightarrow> r | Some u \<Rightarrow> f u r)" for r
    using fresh by (cases "txo_id r = txo_id t") (auto simp: assms(2))
  ultimately show ?case
    by (simp add: update_rows_def comp_def)
qed

lemma sfor_update_txos:
  assumes "\<And>t d d'. t \<in> set ts \<Longrightarrow> step t d = (Inr (), d') \<Longrightarrow>
      d' = db_txos_update (update_rows (\<lambda>r. txo_id r = txo_id t) (f t)) d"
    and "\<And>t r. txo_id (f t r) = txo_id r" and "distinct ts" and "set ts \<subseteq> set (db_txos d)" and "db_ok d"
    and "sfor ts step d = (Inr (), d')"
  shows "d' = db_txos_update (map (\<lambda>r. if r \<in> set ts then f r r else r)) d"
proof -
  have eq: "r = t" if "r \<in> set (db_txos d)" "t \<in> set ts" "txo_id r = txo_id t" for r t
    using txos_table.row_eqI [OF assms(5)] that assms(4) by blast
  have "inj_on txo_id (set ts)"
    using eq assms(4) by (auto intro!: inj_onI)
  with assms(3) have "distinct (map txo_id ts)" by (simp add: distinct_map)
  from sfor_update_by_id [where f = f, OF assms(1,2) this assms(6)]
  have d': "d' = db_txos_update (map (\<lambda>r. case find (\<lambda>t. txo_id t = txo_id r) ts of None \<Rightarrow> r | Some t \<Rightarrow> f t r)) d"
    by blast
  have "find (\<lambda>t. txo_id t = txo_id r) ts = (if r \<in> set ts then Some r else None)"
    if "r \<in> set (db_txos d)" for r
  proof (cases "find (\<lambda>t. txo_id t = txo_id r) ts")
    case None
    then show ?thesis by (auto simp: find_None_iff)
  next
    case (Some t)
    then have "t \<in> set ts" "txo_id t = txo_id r" by (auto simp: find_Some_iff)
    with eq [OF that] Some show ?thesis by metis
  qed
  then show ?thesis
    unfolding d' by (cases d) simp
qed

text \<open>An orphaned txo of the account, and the row a repair makes of it.\<close>

definition orphan_of :: "string \<Rightarrow> txo \<Rightarrow> bool" where
  "orphan_of acct t \<longleftrightarrow> txo_account_id t = Some acct \<and> txo_subaddress_index t = None \<and> txo_key_image t = None"

definition sent_to :: "externals \<Rightarrow> private_key \<Rightarrow> public_address \<Rightarrow> txo \<Rightarrow> bool" where
  "sent_to x view_key addr t \<longleftrightarrow>
     (case (x_decode_ristretto x (txo_target_key t), x_decode_ristretto x (txo_public_key t)) of
       (Inr target, Inr key) \<Rightarrow>
         x_recover_public_subaddress_spend_key x view_key target key = x_spend_public_key x addr
     | _ \<Rightarrow> False)"

definition orphan_key_image :: "externals \<Rightarrow> account_key \<Rightarrow> u64 \<Rightarrow> txo \<Rightarrow> key_image" where
  "orphan_key_image x k i t =
     (case x_decode_ristretto x (txo_public_key t) of
       Inr key \<Rightarrow> x_key_image_from x (x_recover_onetime_private_key x key (x_view_private_key x k)
          (x_subaddress_spend_private x k i))
     | Inl _ \<Rightarrow> [])"

definition orphan_spent_block :: "externals \<Rightarrow> ledger_db \<Rightarrow> account_key \<Rightarrow> u64 \<Rightarrow> txo \<Rightarrow> u64 option" where
  "orphan_spent_block x l k i t =
     (case x_decode_ristretto x (txo_public_key t) of
       Inr key \<Rightarrow>
         (if l_contains_key_image l (orphan_key_image x k i t) = Inr True then
            (case rbind (l_get_tx_out_index_by_public_key l (x_compressed_from x key))
                 (l_get_block_index_by_tx_out_index l) of Inr b \<Rightarrow> Some b | Inl _ \<Rightarrow> None)
          else txo_spent_block_index t)
     | Inl _ \<Rightarrow> None)"

definition repaired :: "externals \<Rightarrow> ledger_db \<Rightarrow> account_key \<Rightarrow> u64 \<Rightarrow> txo \<Rightarrow> txo" where
  "repaired x l k i t = t\<lparr>txo_spent_block_index := orphan_spent_block x l k i t,
     txo_subaddress_index := Some i,
     txo_key_image := Some (x_encode_key_image x (orphan_key_image x k i t))\<rparr>"

lemma update_rows_id: "update_rows p (\<lambda>r. r) rs = rs"
  by (simp add: update_rows_def)

lemma update_rows_twice:
  "(\<And>r. p r \<Longrightarrow> p (f r)) \<Longrightarrow> update_rows p g (update_rows p f rs) = update_rows p (\<lambda>r. g (f r)) rs"
  by (simp add: update_rows_def comp_def)

lemma txo_update_row_Inr:
  "txo_update_row t f d = (Inr u, d') \<Longrightarrow>
   d' = db_txos_update (update_rows (\<lambda>r. txo_id r = txo_id t) f) d"
  by (simp add: txo_update_row_def update_where_def exec_stmt_Inr)

lemma repair_orphan_Inr:
  assumes "repair_orphan x l k i t d = (Inr (), d')"
  shows "d' = db_txos_update (update_rows (\<lambda>r. txo_id r = txo_id t)
     (if sent_to x (x_view_private_key x k) (x_subaddress x k i) t then
        (\<lambda>r. r\<lparr>txo_spent_block_index := (if l_contains_key_image l (orphan_key_image x k i t) = Inr True
              then orphan_spent_block x l k i t else txo_spent_block_index r),
           txo_subaddress_index := Some i,
           txo_key_image := Some (x_encode_key_image x (orphan_key_image x k i t))\<rparr>)
      else (\<lambda>r. r))) d"
  using assms
  by (auto simp: repair_orphan_def sbind_sread Let_def sthen_eq_Inr update_rows_twice update_rows_id
      sent_to_def orphan_key_image_def orphan_spent_block_def map_err_def rbind_def comp_def
      dest!: txo_update_row_Inr split: sum.splits if_splits)

lemma repair_loop_Inr:
  assumes "db_ok d" and "distinct ts" and "set ts \<subseteq> set (db_txos d)"
    and "sfor ts (repair_orphan x l k i) d = (Inr (), d')"
  shows "d' = db_txos_update (map (\<lambda>t. if t \<in> set ts \<and> sent_to x (x_view_private_key x k) (x_subaddress x k i) t
           then repaired x l k i t else t)) d"
proof -
  let ?f = "\<lambda>t. if sent_to x (x_view_private_key x k) (x_subaddress x k i) t then
        (\<lambda>r. r\<lparr>txo_spent_block_index := (if l_contains_key_image l (orphan_key_image x k i t) = Inr True
              then orphan_spent_block x l k i t else txo_spent_block_index r),
           txo_subaddress_index := Some i,
           txo_key_image := Some (x_encode_key_image x (orphan_key_image x k i t))\<rparr>)
      else (\<lambda>r. r)"
  have "d' = db_txos_update (map (\<lambda>r. if r \<in> set ts then ?f r r else r)) d"
    using repair_orphan_Inr by (intro sfor_update_txos [OF _ _ assms(2,3,1,4)]) auto
  moreover have "?f t t = (if sent_to x (x_view_private_key x k) (x_subaddress x k i) t
      then repaired x l k i t else t)" for t
    by (auto simp: repaired_def orphan_spent_block_def sent_to_def split: sum.splits)
  ultimately show ?thesis by (simp add: if_distrib cong: if_cong)
qed

lemma list_orphaned_eq:
  "Txo_list_orphaned (Some acct) None None None None None d =
     Inr (order_desc txo_received_block_index (filter (orphan_of acct) (db_txos d)))"
proof -
  have "sql_where (\<lambda>t. sql_all [is_null (txo_subaddress_index t), is_null (txo_key_image t),
           Txo_arg_conds (Some acct) None None None None t]) (db_txos d) = filter (orphan_of acct) (db_txos d)"
    unfolding sql_where_def by (rule filter_cong) (auto simp: txo_matches_def orphan_of_def)
  then show ?thesis by (simp add: Txo_list_orphaned_def load_ordered_def)
qed

lemma create_next_Inr:
  assumes "db_ok d" and "Account_get acct d = Inr a" and "\<not> acct_view_only a"
    and "AssignedSubaddress_create_next_for_account x acct comment l d = (Inr (b58, i), d')"
  shows "\<exists>k. x_decode_account_key x (acct_account_key a) = Inr k \<and> \<not> acct_fog_enabled a \<and>
    Account_next_subaddress_index a d = Inr i \<and>
    b58_encode_public_address x (x_subaddress x k i) = Inr b58 \<and>
    d' = d\<lparr>db_assigned_subaddresses := db_assigned_subaddresses d @
             [subaddress_row x (AccountID_from_account_key x k) (x_subaddress x k i) i comment b58],
           db_txos := map (\<lambda>t. if orphan_of acct t \<and> sent_to x (x_view_private_key x k) (x_subaddress x k i) t
             then repaired x l k i t else t) (db_txos d)\<rparr>"
proof -
  from assms(2-4) obtain k d1 where k: "x_decode_account_key x (acct_account_key a) = Inr k"
    and fog: "\<not> acct_fog_enabled a" and i: "Account_next_subaddress_index a d = Inr i"
    and ins: "insert_subaddress x (AccountID_from_account_key x k) (x_subaddress x k i) i comment d = (Inr b58, d1)"
    and rest: "sfor (order_desc txo_received_block_index (filter (orphan_of acct) (db_txos d1)))
           (repair_orphan x l k i) d1 = (Inr (), d')"
    by (auto simp: AssignedSubaddress_create_next_for_account_def AssignedSubaddress_create_def
        sbind_sread sbind_eq_Inr sthen_eq_Inr map_err_def list_orphaned_eq split: sum.splits if_splits)
  have d1: "d1 = db_assigned_subaddresses_update (\<lambda>rs. rs @
       [subaddress_row x (AccountID_from_account_key x k) (x_subaddress x k i) i comment b58]) d"
    and b: "b58_encode_public_address x (x_subaddress x k i) = Inr b58" and ok: "db_ok d1"
    using ins unfolding insert_subaddress_Inr by blast+
  have "distinct (db_txos d1)" using txos_table.distinct_rows [OF ok] .
  then have "d' = db_txos_update (map (\<lambda>t. if t \<in> set (order_desc txo_received_block_index (filter (orphan_of acct) (db_txos d1)))
        \<and> sent_to x (x_view_private_key x k) (x_subaddress x k i) t then repaired x l k i t else t)) d1"
    by (intro repair_loop_Inr [OF ok _ _ rest]) auto
  also have "\<dots> = d1\<lparr>db_txos := map (\<lambda>t. if orphan_of acct t \<and> sent_to x (x_view_private_key x k) (x_subaddress x k i) t
             then repaired x l k i t else t) (db_txos d1)\<rparr>"
    by (cases d1) simp
  finally show ?thesis
    using k fog i b by (cases d) (simp add: d1)
qed

subsection \<open>Deleting an account\<close>

lemma delete_account_eq:
  assumes "db_ok d"
  obtains d' where "Account_delete a d = (Inr (), d')" and "db_ok d'"
    and "db_accounts d' = filter (\<lambda>b. acct_id b \<noteq> acct_id a) (db_accounts d)"
    and "db_assigned_subaddresses d' = filter (\<lambda>s. asub_account_id s \<noteq> acct_id a) (db_assigned_subaddresses d)"
    and "db_transaction_logs d' = filter (\<lambda>l. tl_account_id l \<noteq> acct_id a) (db_transaction_logs d)"
    and "db_transaction_input_txos d' =
      filter (\<lambda>r. tin_transaction_log_id r \<notin> log_ids_of (acct_id a) d) (db_transaction_input_txos d)"
    and "db_transaction_output_txos d' =
      filter (\<lambda>r. tout_transaction_log_id r \<notin> log_ids_of (acct_id a) d) (db_transaction_output_txos d)"
    and "db_txos d' = filter (\<lambda>t. \<not> unreferenced d' t)
      (update_rows (\<lambda>t. txo_account_id t = Some (acct_id a)) (\<lambda>t. t\<lparr>txo_account_id := None\<rparr>) (db_txos d))"
    and "db_gift_codes d' = db_gift_codes d"
proof -
  let ?i = "acct_id a"
  obtain d1 where run1: "TransactionLog_delete_all_for_account ?i d = (Inr (), d1)"
    and d1: "d1 = d\<lparr>
    db_transaction_input_txos := filter (\<lambda>r. tin_transaction_log_id r \<notin> log_ids_of ?i d) (db_transaction_input_txos d),
    db_transaction_output_txos := filter (\<lambda>r. tout_transaction_log_id r \<notin> log_ids_of ?i d) (db_transaction_output_txos d),
    db_transaction_logs := filter (\<lambda>l. tl_account_id l \<noteq> ?i) (db_transaction_logs d)\<rparr>"
    using delete_all_for_account_eq [OF assms] by blast
  have "preserves db_ok (TransactionLog_delete_all_for_account ?i)"
    unfolding TransactionLog_delete_all_for_account_def by (intro preserves_intros)
  from preservesD_eq [OF this assms run1] have ok1: "db_ok d1" .
  define d2 where "d2 = db_assigned_subaddresses_update (filter (\<lambda>s. asub_account_id s \<noteq> ?i)) d1"
  have ok2: "db_ok d2" unfolding d2_def by (rule db_ok_delete_leaf [OF ok1])
  then have run2: "AssignedSubaddress_delete_all ?i d1 = (Inr (), d2)"
    unfolding AssignedSubaddress_delete_all_def delete_where_def d2_def by (rule exec_stmt_ok)
  define d3 where "d3 = db_txos_update
      (update_rows (\<lambda>t. txo_account_id t = Some ?i) (\<lambda>t. t\<lparr>txo_account_id := None\<rparr>)) d2"
  have run3: "Txo_scrub_account ?i d2 = (Inr (), d3)"
    unfolding d3_def by (rule scrub_account_ok [OF ok2])
  from db_ok_txo_writes run3 ok2 have ok3: "db_ok d3"
    unfolding Txo_scrub_account_def update_where_def exec_stmt_Inr by blast
  define d4 where "d4 = db_accounts_update (filter (\<lambda>b. acct_id b \<noteq> ?i)) d3"
  have ok4: "db_ok d4"
    unfolding d4_def by (rule db_ok_delete_accounts [OF ok3])
      (auto simp: d3_def d2_def d1 set_update_rows Option.these_def split: if_splits)
  then have run4: "delete_where db_accounts_update (\<lambda>b. acct_id b = ?i) d3 = (Inr (), d4)"
    unfolding delete_where_def d4_def by (rule exec_stmt_ok)
  from delete_unreferenced_ok [OF ok4] obtain d5 where run5: "Txo_delete_unreferenced d4 = (Inr (), d5)"
    and d5: "d5 = d4\<lparr>
    db_authenticated_sender_memos :=
      filter (\<lambda>m. asm_txo_id m \<notin> unreferenced_ids d4) (db_authenticated_sender_memos d4),
    db_destination_memos := filter (\<lambda>m. dm_txo_id m \<notin> unreferenced_ids d4) (db_destination_memos d4),
    db_txos := filter (\<lambda>t. \<not> unreferenced d4 t) (db_txos d4)\<rparr>" by blast
  have "preserves db_ok Txo_delete_unreferenced"
    unfolding Txo_delete_unreferenced_def by (intro preserves_intros)
  from preservesD_eq [OF this ok4 run5] have ok5: "db_ok d5" .
  have u: "unreferenced d5 = unreferenced d4"
    by (rule unreferenced_cong) (simp_all add: d5)
  show thesis
    by (rule that [of d5])
       (simp_all add: Account_delete_def sthen_def sbind_def run1 run2 run3 run4 run5 ok5 u,
        simp_all add: d5 d4_def d3_def d2_def d1)
qed

subsection \<open>Properties\<close>

text \<open>C10: creating an account. A successful \<open>create\<close> found no account with that identifier, adds one
  account row that starts scanning at its first block, and gives the account a subaddress, with
  the spend key of its derivation and found by index, at the default and change indices and,
  without fog, at the legacy change index and at every index below the requested next one.\<close>

theorem account_create_effect:
  assumes "db_ok d" and "Account_create x ent ver k fb ib ns name fog rs d = (Inr (aid, main), d')"
  shows "aid = AccountID_from_account_key x k \<and> \<not> is_ok (Account_get aid d) \<and>
    db_accounts d' = db_accounts d @ [created_account x ent ver k fb ib name fog rs] \<and>
    (\<forall>i \<in> initial_indices x fog ns. \<exists>s.
       AssignedSubaddress_get_for_account_by_index aid i d' = Inr s \<and>
       asub_spend_public_key s = x_ristretto_bytes x (x_spend_public_key x (x_subaddress x k i)) \<and>
       b58_encode_public_address x (x_subaddress x k i) = Inr (asub_public_address_b58 s))"
proof -
  have "db_ok d'"
    using preservesD_eq [OF ok_acct.keeps_create_account assms] .
  then show ?thesis
    using Account_create_steps [OF assms(2)] created_subaddresses [OF assms] has_subaddress_get by blast
qed

lemma sample_create:
  "fst (Account_create sample_ext [7] 2 [7] None None (Some 4) ''bob'' False False sample_db) =
     Inr (''HA'', ''AHA'')"
  by code_simp

theorem account_create_effect_witness:
  "let d' = snd (Account_create sample_ext [7] 2 [7] None None (Some 4) ''bob'' False False sample_db)
   in map acct_id (db_accounts d') = [''BA'', ''HA''] \<and>
      (\<exists>s. AssignedSubaddress_get_for_account_by_index ''HA'' 3 d' = Inr s)"
proof -
  have "3 \<in> initial_indices sample_ext False (Some 4)"
    by code_simp
  moreover have "map acct_id (db_accounts sample_db @ [created_account sample_ext [7] 2 [7] None None ''bob'' False False]) =
      [''BA'', ''HA'']"
    by code_simp
  ultimately show ?thesis
    unfolding Let_def
    using account_create_effect [OF sample_db_ok run_result [OF sample_create]] by metis
qed


lemma sample_create_next:
  "fst (AssignedSubaddress_create_next_for_account sample_ext ''BA'' ''shop'' sample_ledger sample_orphan_db) =
     Inr (''ABB'', 1)"
  by code_simp


text \<open>C9: deleting an account. The deletion always succeeds and removes the account, its
  subaddresses and its transaction logs with their links; no txo refers to it any more, no
  unreferenced txo is left behind, and the txos of the other accounts stay.\<close>

theorem account_delete_effect:
  assumes "db_ok d"
  shows "\<exists>d'. Account_delete a d = (Inr (), d') \<and> db_ok d' \<and>
    db_accounts d' = filter (\<lambda>b. acct_id b \<noteq> acct_id a) (db_accounts d) \<and>
    db_assigned_subaddresses d' = filter (\<lambda>s. asub_account_id s \<noteq> acct_id a) (db_assigned_subaddresses d) \<and>
    db_transaction_logs d' = filter (\<lambda>l. tl_account_id l \<noteq> acct_id a) (db_transaction_logs d) \<and>
    (\<forall>t \<in> set (db_txos d'). txo_account_id t \<noteq> Some (acct_id a) \<and> \<not> unreferenced d' t) \<and>
    (\<forall>t \<in> set (db_txos d). txo_account_id t \<noteq> None \<and> txo_account_id t \<noteq> Some (acct_id a) \<longrightarrow>
       t \<in> set (db_txos d'))"
proof (rule delete_account_eq [OF assms, of a], goal_cases)
  case (1 d')
  have "\<forall>t \<in> set (db_txos d'). txo_account_id t \<noteq> Some (acct_id a) \<and> \<not> unreferenced d' t"
    unfolding 1(8) by (auto simp: set_update_rows split: if_splits)
  moreover have "t \<in> set (db_txos d')"
    if "t \<in> set (db_txos d)" "txo_account_id t \<noteq> None" "txo_account_id t \<noteq> Some (acct_id a)" for t
    using that unfolding 1(8) by (auto simp: set_update_rows unreferenced_def intro!: bexI [of _ t])
  ultimately show ?case using 1(1-5) by blast
qed

theorem account_delete_effect_witness:
  "\<exists>d'. Account_delete sample_account sample_db = (Inr (), d') \<and> db_accounts d' = [] \<and>
     db_transaction_logs d' = []"
proof -
  have "filter (\<lambda>b. acct_id b \<noteq> acct_id sample_account) (db_accounts sample_db) = []"
    "filter (\<lambda>l. tl_account_id l \<noteq> acct_id sample_account) (db_transaction_logs sample_db) = []"
    by code_simp+
  then show ?thesis
    using account_delete_effect [OF sample_db_ok, of sample_account] by metis
qed

end
