(* ===== verification/Wallet_Db.thy ===== *)
theory Wallet_Db
  imports Lookups Samples
begin

section \<open>The wallet database: transactions, escaping, conversions, gift codes\<close>

text \<open>
  \<open>db/wallet_db.rs\<close>: the exclusive transaction with its retries, the escaping of the database
  password, the change of that password, the repair of the migrations table and the one-time
  conversion of spend public keys. And \<open>db/gift_code.rs\<close>.
\<close>

subsection \<open>Exclusive transactions\<close>

definition BASE_DELAY_MS :: nat where
  "BASE_DELAY_MS = 10"

definition NUM_RETRIES :: nat where
  "NUM_RETRIES = 5"

text \<open>One SQLite transaction: commit on success, roll back on error.\<close>

definition transaction :: "('s, 'e, 'a) action \<Rightarrow> ('s, 'e, 'a) action" where
  "transaction m s = (case m s of (Inr a, s') \<Rightarrow> (Inr a, s') | (Inl e, _) \<Rightarrow> (Inl e, s))"

text \<open>
  What happens around attempt \<open>i\<close>: whether another connection holds the lock, and what the other
  connections have committed when the attempt begins.
\<close>

record 's tx_env =
  env_busy :: "nat \<Rightarrow> bool"
  env_others :: "nat \<Rightarrow> 's \<Rightarrow> 's"

text \<open>The result of the loop: the value returned (\<open>None\<close> for the panic after it), the delays slept
  in milliseconds, and the state.\<close>

fun attempts ::
    "'e \<Rightarrow> 's tx_env \<Rightarrow> ('s, 'e, 'a) action \<Rightarrow> nat list \<Rightarrow> 's \<Rightarrow> ('e + 'a) option \<times> nat list \<times> 's" where
  "attempts locked env m [] s = (None, [], s)"
| "attempts locked env m (i # is) s =
     (let s0 = env_others env i s;
          (r, s1) = (if env_busy env i then (Inl locked, s0) else transaction m s0)
      in if is_ok r \<or> i = NUM_RETRIES - 1 then (Some r, [], s1)
         else (case attempts locked env m is s1 of
                 (res, delays, s2) \<Rightarrow> (res, BASE_DELAY_MS * 2 ^ i # delays, s2)))"

definition exclusive_transaction ::
    "'e \<Rightarrow> 's tx_env \<Rightarrow> ('s, 'e, 'a) action \<Rightarrow> 's \<Rightarrow> ('e + 'a) option \<times> nat list \<times> 's" where
  "exclusive_transaction locked env m s = attempts locked env m [0..<NUM_RETRIES] s"

subsection \<open>The database password\<close>

fun double_quotes :: "string \<Rightarrow> string" where
  "double_quotes [] = []"
| "double_quotes (c # s) =
     (if c = CHR 0x27 then CHR 0x27 # CHR 0x27 # double_quotes s else c # double_quotes s)"

definition sql_escape_string :: "string \<Rightarrow> string" where
  "sql_escape_string s = CHR 0x27 # double_quotes s @ [CHR 0x27]"

text \<open>How SQLite reads a string literal: up to a quote that is not doubled.\<close>

fun literal_body :: "string \<Rightarrow> (string \<times> string) option" where
  "literal_body [] = None"
| "literal_body (c # s) =
     (if c = CHR 0x27 then
        (case s of
          c' # s' \<Rightarrow> (if c' = CHR 0x27 then map_option (\<lambda>(v, r). (CHR 0x27 # v, r)) (literal_body s')
                     else Some ([], s))
        | [] \<Rightarrow> Some ([], []))
      else map_option (\<lambda>(v, r). (c # v, r)) (literal_body s))"

definition sql_literal :: "string \<Rightarrow> (string \<times> string) option" where
  "sql_literal s = (case s of c # r \<Rightarrow> if c = CHR 0x27 then literal_body r else None | [] \<Rightarrow> None)"

record env_vars =
  MC_PASSWORD :: "string option"
  MC_CHANGED_PASSWORD :: "string option"

definition unwrap_var :: "string option \<Rightarrow> string" where
  "unwrap_var v = (case v of None \<Rightarrow> [] | Some s \<Rightarrow> s)"

text \<open>Both functions return the statements executed; the outer \<open>None\<close> is a panic. \<open>batch_execute\<close>
  tells whether the database accepts a statement.\<close>

definition set_db_encryption_key_from_env :: "(string \<Rightarrow> bool) \<Rightarrow> env_vars \<Rightarrow> string list option" where
  "set_db_encryption_key_from_env batch_execute env =
     (let encryption_key = unwrap_var (MC_PASSWORD env);
          stmt = ''PRAGMA key = '' @ sql_escape_string encryption_key @ '';''
      in if encryption_key = [] then Some []
         else if batch_execute stmt then Some [stmt] else None)"

definition try_change_db_encryption_key_from_env ::
    "(string \<Rightarrow> bool) \<Rightarrow> env_vars \<Rightarrow> (string list \<times> env_vars) option" where
  "try_change_db_encryption_key_from_env batch_execute env =
     (let encryption_key = unwrap_var (MC_PASSWORD env);
          changed = unwrap_var (MC_CHANGED_PASSWORD env);
          stmt = ''PRAGMA rekey = '' @ sql_escape_string changed @ '';''
      in if encryption_key \<noteq> [] \<and> changed \<noteq> [] \<and> encryption_key \<noteq> changed then
           (if batch_execute stmt then Some ([stmt], env\<lparr>MC_PASSWORD := Some changed\<rparr>) else None)
         else Some ([], env))"

subsection \<open>Migrations and conversions\<close>

definition missing_migrations :: "string list" where
  "missing_migrations =
    [''20202109165203'', ''20210303035127'', ''20210307192850'', ''20210308031049'',
     ''20210325042338'', ''20210330021521'', ''20210331220723'', ''20210403183001'',
     ''20210409050201'', ''20210420182449'', ''20210625225113'', ''20211214005344'',
     ''20220208225206'', ''20220215200456'', ''20220228190052'', ''20220328194805'',
     ''20220427170453'', ''20220513170243'', ''20220601162825'']"

text \<open>The versions in the migrations table; \<open>None\<close> when the table does not exist.\<close>

definition add_mising_migrations :: "string list option \<Rightarrow> string list option" where
  "add_mising_migrations migrations =
     (case migrations of
       Some ms \<Rightarrow>
         (if length ms = 1 \<and> ms ! 0 = ''20220613204000'' then Some (ms @ missing_migrations)
          else Some ms)
     | None \<Rightarrow> None)"

text \<open>The rows are converted one after the other; the first that does not decode ends the loop. A
  failed update is a panic.\<close>

fun proto_conversion_loop :: "externals \<Rightarrow> assigned_subaddress list \<Rightarrow> db \<Rightarrow> db option" where
  "proto_conversion_loop x [] d = Some d"
| "proto_conversion_loop x (s # ss) d =
     (case x_decode_ristretto x (asub_spend_public_key s) of
       Inl _ \<Rightarrow> Some d
     | Inr spend_public_key \<Rightarrow>
         (case update_where db_assigned_subaddresses_update
             (\<lambda>r. asub_public_address_b58 r = asub_public_address_b58 s)
             (\<lambda>r. r\<lparr>asub_spend_public_key := x_ristretto_bytes x spend_public_key\<rparr>) d of
           (Inr _, d') \<Rightarrow> proto_conversion_loop x ss d'
         | (Inl _, _) \<Rightarrow> None))"

definition run_assigned_subaddress_proto_conversions :: "externals \<Rightarrow> db \<Rightarrow> db option" where
  "run_assigned_subaddress_proto_conversions x d =
     proto_conversion_loop x (db_assigned_subaddresses d) d"

subsection \<open>Gift codes\<close>

text \<open>The identifier is SQLite's row number: one more than the largest in use.\<close>

definition next_row_id :: "gift_code list \<Rightarrow> i32" where
  "next_row_id gs = (if gs = [] then 1 else word_of_int (Max (sint ` gc_id ` set gs)) + 1)"

definition GiftCode_get :: "string \<Rightarrow> gift_code db_read" where
  "GiftCode_get gift_code_b58 d =
     ok_or (GiftCodeError (GiftCodeNotFound gift_code_b58))
       (find_row gc_gift_code_b58 gift_code_b58 (db_gift_codes d))"

definition GiftCode_create :: "string \<Rightarrow> i64 \<Rightarrow> gift_code db_action" where
  "GiftCode_create gift_code_b58 value =
     sthen (exec_stmt (\<lambda>d. db_gift_codes_update (\<lambda>gs. gs @
         [\<lparr>gc_id = next_row_id gs, gc_gift_code_b58 = gift_code_b58, gc_value = value\<rparr>]) d))
       (sread (GiftCode_get gift_code_b58))"

definition GiftCode_list_all :: "u64 option \<Rightarrow> u64 option \<Rightarrow> gift_code list db_read" where
  "GiftCode_list_all offset limit d = Inr (paginate offset limit (db_gift_codes d))"

definition GiftCode_delete :: "gift_code \<Rightarrow> unit db_action" where
  "GiftCode_delete self =
     delete_where db_gift_codes_update (\<lambda>g. gc_gift_code_b58 g = gc_gift_code_b58 self)"

subsection \<open>Lemmas\<close>

lemma transaction_Inr: "transaction m s = (Inr a, s') \<longleftrightarrow> m s = (Inr a, s')"
  by (auto simp: transaction_def split: prod.splits sum.splits)

lemma transaction_Inl: "transaction m s = (Inl e, s') \<longleftrightarrow> s' = s \<and> (\<exists>t. m s = (Inl e, t))"
  by (auto simp: transaction_def split: prod.splits sum.splits)

lemma fst_transaction: "fst (transaction m s) = fst (m s)"
  by (auto simp: transaction_def split: prod.splits sum.splits)

lemma preserves_transaction [preserves_intros]: "preserves P m \<Longrightarrow> preserves P (transaction m)"
  by (fastforce simp: preserves_def transaction_def split: prod.splits sum.splits)

lemma attempts_from:
  assumes "n < NUM_RETRIES"
  shows "\<exists>i r s'. n \<le> i \<and> i < NUM_RETRIES \<and>
    attempts locked env m [n..<NUM_RETRIES] s =
      (Some r, map (\<lambda>j. BASE_DELAY_MS * 2 ^ j) [n..<i], s') \<and>
    (case r of
       Inr a \<Rightarrow> m (fold (env_others env) [n..<Suc i] s) = (Inr a, s')
     | Inl e \<Rightarrow> i = NUM_RETRIES - 1 \<and> s' = fold (env_others env) [n..<Suc i] s)"
  using assms
proof (induction "NUM_RETRIES - Suc n" arbitrary: n s)
  case 0
  then have n: "n = NUM_RETRIES - 1" "[n..<NUM_RETRIES] = [n]"
    by (auto simp: NUM_RETRIES_def upt_conv_Cons)
  show ?case
    by (rule exI [of _ n])
       (auto simp: n NUM_RETRIES_def transaction_def Let_def split: prod.splits sum.splits)
next
  case (Suc k)
  let ?s0 = "env_others env n s"
  have n: "n \<noteq> NUM_RETRIES - 1" "[n..<NUM_RETRIES] = n # [Suc n..<NUM_RETRIES]"
    using Suc.hyps(2) Suc.prems by (auto simp: upt_conv_Cons)
  show ?case
  proof (cases "\<not> env_busy env n \<and> is_ok (fst (m ?s0))")
    case True
    then obtain a s' where "m ?s0 = (Inr a, s')"
      by (cases "m ?s0"; cases "fst (m ?s0)") (auto simp: is_ok_def)
    with True show ?thesis
      by (intro exI [of _ n] exI [of _ "Inr a"] exI [of _ s'])
         (use Suc.prems in \<open>auto simp: n transaction_def is_ok_def\<close>)
  next
    case False
    then have fail: "\<exists>e. (if env_busy env n then (Inl locked, ?s0) else transaction m ?s0) = (Inl e, ?s0)"
      by (cases "m ?s0"; cases "fst (m ?s0)") (auto simp: transaction_def is_ok_def)
    have "k = NUM_RETRIES - Suc (Suc n)" "Suc n < NUM_RETRIES"
      using Suc.hyps(2) Suc.prems by auto
    from Suc.hyps(1) [OF this, of ?s0] obtain i r s' where
      i: "Suc n \<le> i" "i < NUM_RETRIES"
      and run: "attempts locked env m [Suc n..<NUM_RETRIES] ?s0 =
        (Some r, map (\<lambda>j. BASE_DELAY_MS * 2 ^ j) [Suc n..<i], s')"
      and res: "case r of Inr a \<Rightarrow> m (fold (env_others env) [Suc n..<Suc i] ?s0) = (Inr a, s')
        | Inl e \<Rightarrow> i = NUM_RETRIES - 1 \<and> s' = fold (env_others env) [Suc n..<Suc i] ?s0"
      by blast
    have up: "[n..<i] = n # [Suc n..<i]" "[n..<Suc i] = n # [Suc n..<Suc i]"
      using i(1) by (simp_all add: upt_conv_Cons)
    show ?thesis
      using fail i res run n(1)
      by (intro exI [of _ i] exI [of _ r] exI [of _ s']) (auto simp: n(2) up Let_def is_ok_def split: sum.splits simp del: upt_Suc)
  qed
qed

lemma literal_body_double:
  "rest = [] \<or> hd rest \<noteq> CHR 0x27 \<Longrightarrow> literal_body (double_quotes s @ CHR 0x27 # rest) = Some (s, rest)"
  by (induction s) (auto split: list.splits)

lemma next_row_id_fresh:
  assumes "\<forall>g \<in> set gs. sint (gc_id g) < 2 ^ 31 - 1"
  shows "next_row_id gs \<notin> gc_id ` set gs"
proof (cases "gs = []")
  case False
  let ?S = "sint ` gc_id ` set gs"
  have fin: "finite ?S" "?S \<noteq> {}" using False by auto
  then obtain g where g: "g \<in> set gs" "Max ?S = sint (gc_id g)"
    using Max_in [OF fin] by blast
  have bound: "- (2 ^ 31) \<le> sint (gc_id g)"
    using sint_greater_eq [of "gc_id g"] by simp
  have "sint (next_row_id gs) = Max ?S + 1"
    using False assms g bound
    by (simp add: next_row_id_def sint_word_ariths signed_take_bit_int_eq_self)
  then have "sint (next_row_id gs) \<notin> ?S"
    using Max_ge [OF fin(1), of "sint (next_row_id gs)"] by linarith
  then show ?thesis by (metis imageI)
qed simp

lemma GiftCode_create_Inr:
  assumes "db_ok d" and "\<forall>g \<in> set (db_gift_codes d). sint (gc_id g) < 2 ^ 31 - 1"
    and "\<forall>g \<in> set (db_gift_codes d). gc_gift_code_b58 g \<noteq> b58"
  shows "\<exists>g d'. GiftCode_create b58 v d = (Inr g, d') \<and> gc_gift_code_b58 g = b58 \<and> gc_value g = v \<and>
    GiftCode_get b58 d' = Inr g \<and> GiftCode_delete g d' = (Inr (), d)"
proof -
  define g where "g = \<lparr>gc_id = next_row_id (db_gift_codes d), gc_gift_code_b58 = b58, gc_value = v\<rparr>"
  let ?d' = "db_gift_codes_update (\<lambda>gs. gs @ [\<lparr>gc_id = next_row_id gs, gc_gift_code_b58 = b58, gc_value = v\<rparr>]) d"
  have d': "?d' = db_gift_codes_update (\<lambda>gs. gs @ [g]) d"
    by (cases d) (simp add: g_def)
  have ok: "db_ok ?d'"
    unfolding d' using assms(1) next_row_id_fresh [OF assms(2)]
    by (simp add: db_ok_def uniq_ok_def fk_ok_def g_def)
  have none: "filter (\<lambda>r. gc_gift_code_b58 r = b58) (db_gift_codes d) = []"
    and all: "filter (\<lambda>r. gc_gift_code_b58 r \<noteq> b58) (db_gift_codes d) = db_gift_codes d"
    using assms(3) by (simp_all add: filter_empty_conv filter_id_conv)
  have get: "GiftCode_get b58 ?d' = Inr g"
    unfolding d' using none by (simp add: GiftCode_get_def find_row_def first_row_def g_def ok_or_def)
  have undo: "db_gift_codes_update (filter (\<lambda>r. \<not> gc_gift_code_b58 r = gc_gift_code_b58 g)) ?d' = d"
    unfolding d' using all by (cases d) (simp add: g_def)
  have "GiftCode_create b58 v d = (Inr g, ?d')"
    using ok by (simp add: GiftCode_create_def sthen_def sbind_def exec_stmt_ok sread_apply get)
  moreover have "GiftCode_delete g ?d' = (Inr (), d)"
    unfolding GiftCode_delete_def delete_where_def
    using exec_stmt_ok [of "db_gift_codes_update (filter (\<lambda>r. \<not> gc_gift_code_b58 r = gc_gift_code_b58 g))" ?d']
      assms(1) undo by simp
  ultimately show ?thesis using get by (auto simp: g_def)
qed

subsection \<open>Properties\<close>

text \<open>C28: the exclusive transaction. For every behaviour of the other connections the retry loop
  returns (the panic after it is unreachable). It makes at most five attempts and sleeps
  exponentially growing delays between them. A success is one complete run of the closure on
  the state that attempt found; an error is the fifth, and the closure then leaves no trace:
  the state is what the other connections made of it.\<close>

theorem exclusive_transaction_atomic:
  "\<exists>i r s'. i < NUM_RETRIES \<and>
    exclusive_transaction locked env m s = (Some r, map (\<lambda>j. BASE_DELAY_MS * 2 ^ j) [0..<i], s') \<and>
    (case r of
       Inr a \<Rightarrow> m (fold (env_others env) [0..<Suc i] s) = (Inr a, s')
     | Inl e \<Rightarrow> i = NUM_RETRIES - 1 \<and> s' = fold (env_others env) [0..<Suc i] s)"
  unfolding exclusive_transaction_def
  using attempts_from [of 0 locked env m s] by (simp add: NUM_RETRIES_def)

text \<open>C30: escaping the password. SQLite reads the escaped text back as the password itself and
  continues right after it, so no password can end the literal early or inject SQL.\<close>

theorem sql_escape_roundtrip:
  assumes "rest = [] \<or> hd rest \<noteq> CHR 0x27"
  shows "sql_literal (sql_escape_string s @ rest) = Some (s, rest)"
  using literal_body_double [OF assms] by (simp add: sql_literal_def sql_escape_string_def)

theorem sql_escape_roundtrip_witness:
  "sql_literal (sql_escape_string (CHR 0x27 # ''; DROP TABLE accounts;'') @ '';'') =
     Some (CHR 0x27 # ''; DROP TABLE accounts;'', '';'')"
  using sql_escape_roundtrip [of "'';''" "CHR 0x27 # ''; DROP TABLE accounts;''"] by simp

text \<open>Gift codes round trip. A code that is not in the database yet is created with its value,
  found again, and removed by deleting it, which restores the database.\<close>

theorem gift_code_roundtrip:
  assumes "db_ok d" and "\<forall>g \<in> set (db_gift_codes d). sint (gc_id g) < 2 ^ 31 - 1"
    and "\<forall>g \<in> set (db_gift_codes d). gc_gift_code_b58 g \<noteq> b58"
  shows "\<exists>g d'. GiftCode_create b58 v d = (Inr g, d') \<and> gc_gift_code_b58 g = b58 \<and> gc_value g = v \<and>
    GiftCode_get b58 d' = Inr g \<and> GiftCode_delete g d' = (Inr (), d)"
  by (rule GiftCode_create_Inr [OF assms])

theorem gift_code_roundtrip_witness:
  "\<exists>g d'. GiftCode_create ''code'' 5 sample_db = (Inr g, d') \<and> gc_value g = 5 \<and>
     GiftCode_delete g d' = (Inr (), sample_db)"
proof -
  have "\<forall>g \<in> set (db_gift_codes sample_db). sint (gc_id g) < 2 ^ 31 - 1"
    "\<forall>g \<in> set (db_gift_codes sample_db). gc_gift_code_b58 g \<noteq> ''code''"
    by code_simp+
  from gift_code_roundtrip [OF sample_db_ok this, of 5] show ?thesis by blast
qed

end
