(* ===== verification/Sync.thy ===== *)
theory Sync
  imports Account_Facts Wallet_Db
begin

section \<open>Scanning the ledger\<close>

text \<open>
  \<open>service/sync.rs\<close>: reading a chunk of blocks from the ledger, recognising the outputs that
  belong to an account, writing them, matching key images, and advancing the account.
\<close>

datatype sync_error =
    SyncAccountNotFound
  | SyncDatabase wallet_db_error
  | SyncLedgerDB ledger_error
  | SyncCryptoKey ext_error
  | SyncProstDecode ext_error
  | SyncAmount ext_error
  | SyncDiesel diesel_error
  | SyncB58 b58_error

type_synonym 'a sync_action = "(db, sync_error, 'a) action"

abbreviation wdb :: "'a db_action \<Rightarrow> 'a sync_action" where
  "wdb \<equiv> smap_err SyncDatabase"

definition BLOCKS_CHUNK_SIZE :: u64 where
  "BLOCKS_CHUNK_SIZE = 1000"

subsection \<open>Recognising outputs\<close>

definition decode_amount :: "externals \<Rightarrow> tx_out \<Rightarrow> private_key \<Rightarrow> amount option" where
  "decode_amount x tx_out view_private_key =
     (case x_ristretto_try_from x (to_public_key tx_out) of
       Inl _ \<Rightarrow> None
     | Inr tx_public_key \<Rightarrow>
         (let shared_secret = x_get_tx_out_shared_secret x view_private_key tx_public_key
          in case to_masked_amount tx_out of
               None \<Rightarrow> None
             | Some m \<Rightarrow> (case x_amount_get_value x m shared_secret of Inr a \<Rightarrow> Some a | Inl _ \<Rightarrow> None)))"

definition decode_subaddress_index :: "externals \<Rightarrow> tx_out \<Rightarrow> private_key \<Rightarrow> db \<Rightarrow> u64 option" where
  "decode_subaddress_index x tx_out view_private_key d =
     (case x_ristretto_try_from x (to_public_key tx_out) of
       Inl _ \<Rightarrow> None
     | Inr tx_public_key \<Rightarrow>
         (case x_ristretto_try_from x (to_target_key tx_out) of
           Inl _ \<Rightarrow> None
         | Inr tx_out_target_key \<Rightarrow>
             (case AssignedSubaddress_find_by_subaddress_spend_public_key x
                 (x_recover_public_subaddress_spend_key x view_private_key tx_out_target_key
                   tx_public_key) d of
               Inr (idx, _) \<Rightarrow> Some idx
             | Inl _ \<Rightarrow> None)))"

definition decode_subaddress_and_key_image ::
    "externals \<Rightarrow> tx_out \<Rightarrow> account_key \<Rightarrow> db \<Rightarrow> u64 option \<times> key_image option" where
  "decode_subaddress_and_key_image x tx_out account_key d =
     (case x_ristretto_try_from x (to_public_key tx_out) of
       Inl _ \<Rightarrow> (None, None)
     | Inr tx_public_key \<Rightarrow>
         (let subaddress_index = decode_subaddress_index x tx_out (x_view_private_key x account_key) d
          in (subaddress_index,
              map_option (\<lambda>subaddress_i. x_key_image_from x (x_recover_onetime_private_key x
                  tx_public_key (x_view_private_key x account_key)
                  (x_subaddress_spend_private x account_key subaddress_i))) subaddress_index)))"

subsection \<open>One chunk\<close>

text \<open>What the loop over the blocks collects.\<close>

record chunk =
  ch_end :: "u64 option"
  ch_tx_outs :: "(u64 \<times> tx_out) list"
  ch_key_images :: "(u64 \<times> key_image) list"

text \<open>The loop over \<open>block_index\<close> in \<open>start..end\<close>.\<close>

function scan_blocks :: "ledger_db \<Rightarrow> u64 \<Rightarrow> u64 \<Rightarrow> chunk \<Rightarrow> ledger_error + chunk" where
  "scan_blocks ledger block_index end_index c =
     (if block_index < end_index then
        (case l_get_block_contents ledger block_index of
          Inr block_contents \<Rightarrow>
            scan_blocks ledger (block_index + 1) end_index
              \<lparr>ch_end = Some block_index,
               ch_tx_outs = ch_tx_outs c @ map (\<lambda>t. (block_index, t)) (bc_outputs block_contents),
               ch_key_images = ch_key_images c @ map (\<lambda>k. (block_index, k)) (bc_key_images block_contents)\<rparr>
        | Inl LedgerNotFound \<Rightarrow> Inr c
        | Inl err \<Rightarrow> Inl err)
      else Inr c)"
  by pat_completeness auto
termination
  by (relation "measure (\<lambda>(_, b, e, _). unat e - unat b)")
     (auto simp: unat_succ word_less_nat_alt)

declare scan_blocks.simps [simp del]

definition received_view_only ::
    "externals \<Rightarrow> view_account_key \<Rightarrow> (u64 \<times> tx_out) list \<Rightarrow> db
      \<Rightarrow> (u64 \<times> tx_out \<times> amount \<times> u64 option \<times> key_image option) list" where
  "received_view_only x view_account_key tx_outs d =
     (let vpk = x_vk_view_private_key x view_account_key;
          received_txos = List.map_filter (\<lambda>(block_index, tx_out).
            map_option (\<lambda>amount. (block_index, tx_out, amount)) (decode_amount x tx_out vpk)) tx_outs
      in map (\<lambda>(block_index, tx_out, amount).
           (block_index, tx_out, amount, decode_subaddress_index x tx_out vpk d, None)) received_txos)"

definition received_full ::
    "externals \<Rightarrow> account_key \<Rightarrow> (u64 \<times> tx_out) list \<Rightarrow> db
      \<Rightarrow> (u64 \<times> tx_out \<times> amount \<times> u64 option \<times> key_image option) list" where
  "received_full x account_key tx_outs d =
     (let vpk = x_view_private_key x account_key;
          received_txos = List.map_filter (\<lambda>(block_index, tx_out).
            map_option (\<lambda>amount. (block_index, tx_out, amount)) (decode_amount x tx_out vpk)) tx_outs
      in map (\<lambda>(block_index, tx_out, amount).
           (block_index, tx_out, amount, decode_subaddress_and_key_image x tx_out account_key d))
         received_txos)"

text \<open>Writing the received outputs, then the rest of the chunk: mark the spent txos, finalize and
  expire transaction logs, advance the account.\<close>

definition write_received ::
    "externals \<Rightarrow> string \<Rightarrow> (u64 \<times> tx_out \<times> amount \<times> u64 option \<times> key_image option) list
      \<Rightarrow> unit sync_action" where
  "write_received x account_id_hex received =
     sfor received (\<lambda>(block_index, tx_out, amount, subaddress_index, key_image).
       sthen (wdb (Txo_create_received x tx_out subaddress_index key_image amount block_index account_id_hex))
         (sreturn ()))"

definition mark_spent :: "(u64 \<times> string) list \<Rightarrow> unit sync_action" where
  "mark_spent spent_txos =
     sfor spent_txos (\<lambda>(block_index, txo_id_hex).
       sthen (wdb (Txo_update_spent_block_index txo_id_hex block_index))
         (wdb (TransactionLog_update_pending_associated_with_txo_to_succeeded txo_id_hex block_index)))"

definition settle_chunk ::
    "externals \<Rightarrow> account \<Rightarrow> string \<Rightarrow> (u64 \<times> key_image) list \<Rightarrow> u64 \<Rightarrow> unit sync_action" where
  "settle_chunk x a account_id_hex key_images end_block_index =
     sbind (wdb (sread (Txo_list_unspent_or_pending_key_images x account_id_hex None))) (\<lambda>unspent_key_images.
       let spent_txos = List.map_filter (\<lambda>(block_index, key_image).
             map_option (\<lambda>txo_id_hex. (block_index, txo_id_hex)) (map_of unspent_key_images key_image))
           key_images
       in sthen (mark_spent spent_txos)
         (sthen (wdb (TransactionLog_update_pending_exceeding_tombstone_block_index_to_failed
            (end_block_index + 1)))
         (wdb (Account_update_next_block_index a (end_block_index + 1)))))"

definition process_chunk ::
    "externals \<Rightarrow> account \<Rightarrow> string \<Rightarrow> chunk \<Rightarrow> u64 \<Rightarrow> nat sync_action" where
  "process_chunk x a account_id_hex c end_block_index =
     (if acct_view_only a then
        sbind (sread (\<lambda>_. map_err SyncProstDecode (x_decode_view_account_key x (acct_account_key a)))) (\<lambda>vk.
        smatch (received_view_only x vk (ch_tx_outs c)) (\<lambda>received.
          sthen (write_received x account_id_hex received)
          (sthen (settle_chunk x a account_id_hex (ch_key_images c) end_block_index)
          (sreturn (length received)))))
      else
        sbind (sread (\<lambda>_. map_err SyncProstDecode (x_decode_account_key x (acct_account_key a)))) (\<lambda>k.
        smatch (received_full x k (ch_tx_outs c)) (\<lambda>received.
          sthen (write_received x account_id_hex received)
          (sthen (settle_chunk x a account_id_hex (ch_key_images c) end_block_index)
          (sreturn (length received))))))"

definition sync_account_next_chunk :: "externals \<Rightarrow> ledger_db \<Rightarrow> string \<Rightarrow> nat sync_action" where
  "sync_account_next_chunk x ledger account_id_hex = transaction
     (sbind (wdb (sread (Account_get account_id_hex))) (\<lambda>a.
       let start = acct_next_block_index a
       in sbind (sread (\<lambda>_. map_err SyncLedgerDB (scan_blocks ledger
              start (start + BLOCKS_CHUNK_SIZE)
              \<lparr>ch_end = None, ch_tx_outs = [], ch_key_images = []\<rparr>))) (\<lambda>c.
            case ch_end c of
              None \<Rightarrow> sreturn 0
            | Some end_block_index \<Rightarrow> process_chunk x a account_id_hex c end_block_index)))"

subsection \<open>All accounts\<close>

text \<open>The map of accounts with deposits that the webhook reads; \<open>True\<close> once fully synced.\<close>

type_synonym deposits = "string \<rightharpoonup> bool"

definition on_db :: "'a sync_action \<Rightarrow> (db \<times> deposits, sync_error, 'a) action" where
  "on_db m = (\<lambda>(d, dep). case m d of (r, d') \<Rightarrow> (r, d', dep))"

definition on_deposits :: "(deposits \<Rightarrow> deposits) \<Rightarrow> (db \<times> deposits, sync_error, unit) action" where
  "on_deposits f = (\<lambda>(d, dep). (Inr (), d, f dep))"

definition sync_one_account ::
    "externals \<Rightarrow> ledger_db \<Rightarrow> u64 \<Rightarrow> account \<Rightarrow> (db \<times> deposits, sync_error, unit) action" where
  "sync_one_account x ledger num_blocks a =
     (if acct_next_block_index a > num_blocks - 1 then
        sthen (on_deposits (\<lambda>dep. case dep (acct_id a) of
                 None \<Rightarrow> dep | Some _ \<Rightarrow> dep(acct_id a \<mapsto> True)))
          (if acct_resyncing a then on_db (wdb (Account_update_resyncing a False)) else sreturn ())
      else
        sbind (on_db (sync_account_next_chunk x ledger (acct_id a))) (\<lambda>found_txos.
          if found_txos > 0 \<and> \<not> acct_resyncing a
          then on_deposits (\<lambda>dep. dep(acct_id a \<mapsto> False)) else sreturn ()))"

text \<open>\<open>None\<close> is the panic when the ledger cannot tell its number of blocks.\<close>

definition sync_all_accounts ::
    "externals \<Rightarrow> ledger_db \<Rightarrow> (db \<times> deposits, sync_error, unit) action option" where
  "sync_all_accounts x ledger =
     (case l_num_blocks ledger of
       Inl _ \<Rightarrow> None
     | Inr num_blocks \<Rightarrow> Some
         (if num_blocks = 0 then sreturn ()
          else smatch (\<lambda>(d, dep). db_accounts d) (\<lambda>accounts.
            sfor accounts (sync_one_account x ledger num_blocks))))"

end
