(* ===== verification/Sync_Facts.thy ===== *)
theory Sync_Facts
  imports Sync
begin

section \<open>Properties of the ledger scan\<close>

text \<open>
  What one chunk reads, the exact effect of settling it, and from these: the account advances
  over exactly the blocks read, every output that belongs to it is recorded, every spent txo
  and every finished transaction is marked, and a chunk that fails leaves no trace.
\<close>

subsection \<open>Reading blocks\<close>

definition block_outputs :: "ledger_db \<Rightarrow> u64 \<Rightarrow> tx_out list" where
  "block_outputs l b = (case l_get_block_contents l b of Inr c \<Rightarrow> bc_outputs c | Inl _ \<Rightarrow> [])"

definition block_key_images :: "ledger_db \<Rightarrow> u64 \<Rightarrow> key_image list" where
  "block_key_images l b = (case l_get_block_contents l b of Inr c \<Rightarrow> bc_key_images c | Inl _ \<Rightarrow> [])"

text \<open>\<open>blocks_read l b n\<close>: the chunk that consists of the \<open>n\<close> blocks from \<open>b\<close> on.\<close>

definition blocks_read :: "ledger_db \<Rightarrow> u64 \<Rightarrow> nat \<Rightarrow> chunk" where
  "blocks_read l b n = \<lparr>
     ch_end = (if n = 0 then None else Some (b + word_of_nat n - 1)),
     ch_tx_outs = concat (map (\<lambda>i. map (Pair (b + word_of_nat i)) (block_outputs l (b + word_of_nat i))) [0..<n]),
     ch_key_images = concat (map (\<lambda>i. map (Pair (b + word_of_nat i)) (block_key_images l (b + word_of_nat i))) [0..<n])\<rparr>"

definition chunk_append :: "chunk \<Rightarrow> chunk \<Rightarrow> chunk" where
  "chunk_append c c' = \<lparr>ch_end = (case ch_end c' of None \<Rightarrow> ch_end c | Some b \<Rightarrow> Some b),
     ch_tx_outs = ch_tx_outs c @ ch_tx_outs c', ch_key_images = ch_key_images c @ ch_key_images c'\<rparr>"

text \<open>\<open>reads_upto l b e n\<close>: the ledger has the \<open>n\<close> blocks from \<open>b\<close> on, and either \<open>e\<close> is reached or the
  next block does not exist.\<close>

definition reads_upto :: "ledger_db \<Rightarrow> u64 \<Rightarrow> u64 \<Rightarrow> nat \<Rightarrow> bool" where
  "reads_upto l b e n \<longleftrightarrow> n \<le> unat e - unat b \<and>
     (\<forall>i < n. is_ok (l_get_block_contents l (b + word_of_nat i))) \<and>
     (n < unat e - unat b \<longrightarrow> l_get_block_contents l (b + word_of_nat n) = Inl LedgerNotFound)"

lemma blocks_read_Suc:
  "l_get_block_contents l b = Inr bc \<Longrightarrow>
   blocks_read l b (Suc n) = chunk_append
     \<lparr>ch_end = Some b, ch_tx_outs = map (Pair b) (bc_outputs bc), ch_key_images = map (Pair b) (bc_key_images bc)\<rparr>
     (blocks_read l (b + 1) n)"
  by (simp add: blocks_read_def chunk_append_def block_outputs_def block_key_images_def
      upt_conv_Cons map_Suc_upt [symmetric] comp_def algebra_simps del: upt_Suc)

lemma reads_upto_Suc:
  assumes "b < e" and "l_get_block_contents l b = Inr bc" and "reads_upto l (b + 1) e n"
  shows "reads_upto l b e (Suc n)"
proof -
  have u: "unat (b + 1) = Suc (unat b)" "unat b < unat e"
    using assms(1) by (simp_all add: unat_succ word_less_nat_alt)
  have "is_ok (l_get_block_contents l (b + word_of_nat i))" if "i < Suc n" for i
    using that assms(2,3) by (cases i) (auto simp: reads_upto_def algebra_simps)
  then show ?thesis
    using assms(3) u by (auto simp: reads_upto_def algebra_simps)
qed

lemma scan_blocks_Inr:
  "scan_blocks l b e c = Inr c' \<Longrightarrow> \<exists>n. reads_upto l b e n \<and> c' = chunk_append c (blocks_read l b n)"
proof (induction l b e c rule: scan_blocks.induct)
  case (1 l b e c)
  note [simp] = scan_blocks.simps [of l b e c]
  consider "\<not> b < e" | "b < e" "l_get_block_contents l b = Inl LedgerNotFound"
    | bc where "b < e" "l_get_block_contents l b = Inr bc"
    using "1.prems" by (cases "l_get_block_contents l b") (auto split: ledger_error.splits if_splits)
  then show ?case
  proof cases
    case 1
    then have "unat e - unat b = 0" by (simp add: word_less_nat_alt)
    with 1 "1.prems" show ?thesis
      by (intro exI [of _ 0]) (simp add: reads_upto_def chunk_append_def blocks_read_def)
  next
    case 2
    with "1.prems" show ?thesis
      by (intro exI [of _ 0]) (simp add: reads_upto_def chunk_append_def blocks_read_def)
  next
    case 3
    from "1.IH" [OF 3(1,2)] "1.prems" 3 obtain n where "reads_upto l (b + 1) e n"
      and c': "c' = chunk_append \<lparr>ch_end = Some b,
            ch_tx_outs = ch_tx_outs c @ map (\<lambda>t. (b, t)) (bc_outputs bc),
            ch_key_images = ch_key_images c @ map (\<lambda>k. (b, k)) (bc_key_images bc)\<rparr> (blocks_read l (b + 1) n)"
      by auto
    with 3 show ?thesis
      by (intro exI [of _ "Suc n"]) (simp add: reads_upto_Suc blocks_read_Suc chunk_append_def split: option.splits)
  qed
qed

subsection \<open>Settling a chunk\<close>

text \<open>The last block at which a txo is found spent, and the log rows after the spent txos \<open>sp\<close> were
  settled: a pending log is finalized at the first spent input.\<close>

definition spent_at :: "(u64 \<times> string) list \<Rightarrow> string \<Rightarrow> u64 option" where
  "spent_at sp i = map_option fst (find (\<lambda>(b, j). j = i) (rev sp))"

definition settled_txo :: "(u64 \<times> string) list \<Rightarrow> txo \<Rightarrow> txo" where
  "settled_txo sp t = (case spent_at sp (txo_id t) of None \<Rightarrow> t | Some b \<Rightarrow> t\<lparr>txo_spent_block_index := Some b\<rparr>)"

definition settled_log :: "db \<Rightarrow> (u64 \<times> string) list \<Rightarrow> transaction_log \<Rightarrow> transaction_log" where
  "settled_log d sp l = (if log_pending l then
     (case find (\<lambda>(b, i). uses_input d i l) sp of
        None \<Rightarrow> l | Some (b, _) \<Rightarrow> l\<lparr>tl_finalized_block_index := Some b\<rparr>) else l)"

lemma spent_at_snoc: "spent_at (sp @ [(b, i)]) j = (if i = j then Some b else spent_at sp j)"
  by (simp add: spent_at_def)

lemma find_append: "find P (xs @ ys) = (case find P xs of None \<Rightarrow> find P ys | Some x \<Rightarrow> Some x)"
  by (induction xs) auto

lemma settled_log_snoc:
  assumes "uses_input d' = uses_input d"
  shows "settled_log d (sp @ [(b, i)]) l =
    (let l' = settled_log d sp l in if log_pending l' \<and> uses_input d' i l' then l'\<lparr>tl_finalized_block_index := Some b\<rparr> else l')"
proof (cases "log_pending l")
  case True
  have "\<not> log_pending (l\<lparr>tl_finalized_block_index := Some c\<rparr>)" for c
    by (simp add: log_pending_def)
  with True show ?thesis
    by (cases "find (\<lambda>(b, i). uses_input d i l) sp") (auto simp: settled_log_def find_append assms)
qed (simp add: settled_log_def)

lemma sfor_append: "sfor (xs @ ys) f = sthen (sfor xs f) (sfor ys f)"
proof (induction xs)
  case Nil
  then show ?case by (auto simp: fun_eq_iff sthen_def sbind_def sreturn_def)
next
  case (Cons x xs)
  then show ?case by (auto simp: fun_eq_iff sthen_def sbind_def split: prod.splits sum.splits)
qed

lemma uses_input_logs_update:
  "uses_input (db_transaction_logs_update f (db_txos_update g d)) = uses_input d"
  by (simp add: fun_eq_iff uses_input_def)

lemma db_ok_settle:
  assumes "db_ok d"
  shows "db_ok (db_transaction_logs_update (map (settled_log d sp)) (db_txos_update (map (settled_txo sp)) d))"
proof -
  have "txo_id (settled_txo sp t) = txo_id t" "txo_account_id (settled_txo sp t) = txo_account_id t" for t
    by (auto simp: settled_txo_def split: option.splits)
  moreover have "tl_id (settled_log d sp l) = tl_id l" "tl_account_id (settled_log d sp l) = tl_account_id l" for l
    by (auto simp: settled_log_def split: option.splits)
  ultimately show ?thesis
    using assms by (simp add: db_ok_def uniq_ok_def fk_ok_def Let_def comp_def image_image)
qed

lemma mark_spent_eq:
  assumes "db_ok d"
  shows "mark_spent sp d = (Inr (), db_transaction_logs_update (map (settled_log d sp))
           (db_txos_update (map (settled_txo sp)) d))"
proof (induction sp rule: rev_induct)
  case Nil
  have "map (settled_log d []) ls = ls" "map (settled_txo []) ts = ts" for ls ts
    by (simp_all add: map_idI settled_log_def settled_txo_def spent_at_def)
  then show ?case by (simp add: mark_spent_def sreturn_apply)
next
  case (snoc p sp)
  obtain b i where p: "p = (b, i)" by force
  define d1 where "d1 = db_transaction_logs_update (map (settled_log d sp)) (db_txos_update (map (settled_txo sp)) d)"
  define d2 where "d2 = db_txos_update (update_rows (\<lambda>t. txo_id t = i) (\<lambda>t. t\<lparr>txo_spent_block_index := Some b\<rparr>)) d1"
  have ok1: "db_ok d1" unfolding d1_def by (rule db_ok_settle [OF assms])
  have ok2: "db_ok d2" unfolding d2_def by (rule db_ok_update_txos [OF ok1]) simp_all
  have u: "uses_input d2 = uses_input d" by (simp add: fun_eq_iff uses_input_def d2_def d1_def)
  have "mark_spent (sp @ [(b, i)]) d = (Inr (), db_transaction_logs_update
      (update_rows (\<lambda>l. log_pending l \<and> uses_input d2 i l) (\<lambda>l. l\<lparr>tl_finalized_block_index := Some b\<rparr>)) d2)"
    using snoc.IH unfolding d1_def [symmetric]
    by (simp add: mark_spent_def sfor_append sthen_def sbind_def smap_err_def map_err_def sreturn_def
        update_spent_eq [OF ok1] d2_def [symmetric] finalize_eq [OF ok2])
  also have "\<dots> = (Inr (), db_transaction_logs_update (map (settled_log d (sp @ [(b, i)])))
      (db_txos_update (map (settled_txo (sp @ [(b, i)]))) d))"
  proof -
    have T: "update_rows (\<lambda>t. txo_id t = i) (\<lambda>t. t\<lparr>txo_spent_block_index := Some b\<rparr>) (map (settled_txo sp) ts) =
        map (settled_txo (sp @ [(b, i)])) ts" for ts
      by (auto simp: update_rows_def settled_txo_def spent_at_snoc split: option.splits)
    have L: "update_rows (\<lambda>l. log_pending l \<and> uses_input d i l) (\<lambda>l. l\<lparr>tl_finalized_block_index := Some b\<rparr>)
      (map (settled_log d sp) ls) = map (settled_log d (sp @ [(b, i)])) ls" for ls
      by (simp add: update_rows_def settled_log_snoc [OF refl] Let_def)
    show ?thesis
      unfolding u by (intro arg_cong [where f = "Pair (Inr ())"] db.equality) (simp_all add: d2_def d1_def T L)
  qed
  finally show ?case unfolding p .
qed

text \<open>The txos a chunk spends: the unspent txos of the account whose key image it contains.\<close>

definition chunk_spent :: "externals \<Rightarrow> string \<Rightarrow> db \<Rightarrow> (u64 \<times> key_image) list \<Rightarrow> (u64 \<times> string) list" where
  "chunk_spent x acct d kis = (case Txo_list_unspent_or_pending_key_images x acct None d of
     Inr imgs \<Rightarrow> List.map_filter (\<lambda>(b, k). map_option (\<lambda>i. (b, i)) (map_of imgs k)) kis
   | Inl _ \<Rightarrow> [])"

definition settled :: "account \<Rightarrow> (u64 \<times> string) list \<Rightarrow> u64 \<Rightarrow> db \<Rightarrow> db" where
  "settled a sp e d = d\<lparr>
     db_txos := map (settled_txo sp) (db_txos d),
     db_transaction_logs := update_rows (past_tombstone (e + 1)) (\<lambda>l. l\<lparr>tl_failed := True\<rparr>)
       (map (settled_log d sp) (db_transaction_logs d)),
     db_accounts := update_rows (\<lambda>b. acct_id b = acct_id a)
       (\<lambda>b. b\<lparr>acct_next_block_index := e + 1\<rparr>) (db_accounts d)\<rparr>"

lemma settled_steps:
  "settled a sp e d = db_accounts_update (update_rows (\<lambda>b. acct_id b = acct_id a) (\<lambda>b. b\<lparr>acct_next_block_index := e + 1\<rparr>))
     (db_transaction_logs_update (update_rows (past_tombstone (e + 1)) (\<lambda>l. l\<lparr>tl_failed := True\<rparr>))
       (db_transaction_logs_update (map (settled_log d sp)) (db_txos_update (map (settled_txo sp)) d)))"
  by (simp add: settled_def)

lemma settled_tables:
  "db_txos (settled a sp e d) = map (settled_txo sp) (db_txos d)"
  "db_transaction_logs (settled a sp e d) = update_rows (past_tombstone (e + 1)) (\<lambda>l. l\<lparr>tl_failed := True\<rparr>)
     (map (settled_log d sp) (db_transaction_logs d))"
  "db_transaction_input_txos (settled a sp e d) = db_transaction_input_txos d"
  by (simp_all add: settled_def)

lemma db_ok_settled:
  assumes "db_ok d"
  shows "db_ok (settled a sp e d)"
  unfolding settled_steps
  by (rule db_ok_update_accounts [OF db_ok_update_logs [OF db_ok_settle [OF assms]]]) simp_all

lemma settle_chunk_eq:
  assumes "db_ok d"
  shows "settle_chunk x a acct kis e d = (Inr (), settled a (chunk_spent x acct d kis) e d)"
proof -
  let ?sp = "chunk_spent x acct d kis"
  define d1 where "d1 = db_transaction_logs_update (map (settled_log d ?sp)) (db_txos_update (map (settled_txo ?sp)) d)"
  define d2 where "d2 = db_transaction_logs_update (update_rows (past_tombstone (e + 1)) (\<lambda>l. l\<lparr>tl_failed := True\<rparr>)) d1"
  have ok1: "db_ok d1" unfolding d1_def by (rule db_ok_settle [OF assms])
  have ok2: "db_ok d2" unfolding d2_def by (rule db_ok_update_logs [OF ok1]) simp_all
  have run1: "mark_spent ?sp d = (Inr (), d1)" unfolding d1_def by (rule mark_spent_eq [OF assms])
  have run2: "TransactionLog_update_pending_exceeding_tombstone_block_index_to_failed (e + 1) d1 = (Inr (), d2)"
    unfolding d2_def by (rule tombstone_eq [OF ok1])
  have run3: "Account_update_next_block_index a (e + 1) d2 = (Inr (), settled a ?sp e d)"
    unfolding Account_update_next_block_index_def account_update_row_def settled_steps
      d1_def [symmetric] d2_def [symmetric]
    by (rule update_where_accounts [OF ok2]) simp
  show ?thesis
    using run1 run2 run3
    by (simp add: settle_chunk_def sbind_def sthen_def smap_err_def sread_def map_err_def Let_def
        chunk_spent_def Txo_list_unspent_or_pending_key_images_def)
qed

subsection \<open>Writing the received outputs\<close>

text \<open>Recording outputs writes the txos and the memos only.\<close>

definition only_txos :: "db \<Rightarrow> db \<Rightarrow> bool" where
  "only_txos d d' \<longleftrightarrow> db_accounts d' = db_accounts d \<and>
     db_assigned_subaddresses d' = db_assigned_subaddresses d \<and>
     db_transaction_logs d' = db_transaction_logs d \<and>
     db_transaction_input_txos d' = db_transaction_input_txos d \<and>
     db_transaction_output_txos d' = db_transaction_output_txos d"

lemma only_txos_create_received: "preserves (only_txos d) (Txo_create_received x tx_out sub ki amt blk acct)"
  by (rule preserves_create_received)
     (auto simp: kept_by_memos_def only_txos_def insert_into_def Txo_update_as_received_def
       update_where_def intro!: preserves_exec_stmt)

type_synonym received = "u64 \<times> tx_out \<times> amount \<times> u64 option \<times> key_image option"

definition rec_id :: "externals \<Rightarrow> received \<Rightarrow> string" where
  "rec_id x r = (case r of (b, tx_out, _) \<Rightarrow> TxoID_from_tx_out x tx_out)"

definition recorded :: "externals \<Rightarrow> string \<Rightarrow> received \<Rightarrow> txo \<Rightarrow> bool" where
  "recorded x acct r t = (case r of (b, tx_out, amt, sub, ki) \<Rightarrow>
     txo_account_id t = Some acct \<and> txo_received_block_index t = Some b \<and>
     txo_value t = am_value amt \<and> txo_token_id t = am_token_id amt \<and>
     txo_subaddress_index t = sub \<and> txo_key_image t = map_option (x_encode_key_image x) ki)"

lemma write_received_Inr:
  assumes "db_ok d" and "write_received x acct rs d = (Inr (), d')" and "distinct (map (rec_id x) rs)"
  shows "db_ok d' \<and> only_txos d d' \<and>
    (\<forall>r \<in> set rs. \<exists>t. Txo_get (rec_id x r) d' = Inr t \<and> recorded x acct r t) \<and>
    (\<forall>i. i \<notin> rec_id x ` set rs \<longrightarrow> Txo_get i d' = Txo_get i d)"
  using assms
proof (induction rs arbitrary: d)
  case Nil
  then show ?case by (auto simp: write_received_def only_txos_def)
next
  case (Cons r rs)
  obtain b tx_out amt sub ki where r: "r = (b, tx_out, amt, sub, ki)" by (cases r) auto
  from Cons.prems(2) obtain tid d1 where
    1: "Txo_create_received x tx_out sub ki amt b acct d = (Inr tid, d1)"
    and 2: "write_received x acct rs d1 = (Inr (), d')"
    by (auto simp: write_received_def r sthen_eq_Inr smap_err_eq_Inr)
  note row = create_received_row [OF Cons.prems(1) 1]
  have ok1: "db_ok d1" by (rule preservesD_eq [OF db_ok_txo_writes(9) Cons.prems(1) 1])
  have fr1: "only_txos d d1"
    using preservesD_eq [OF only_txos_create_received _ 1, of d] by (simp add: only_txos_def)
  from Cons.IH [OF ok1 2] Cons.prems(3) have
    ok: "db_ok d'" and fr: "only_txos d1 d'"
    and all: "\<forall>r \<in> set rs. \<exists>t. Txo_get (rec_id x r) d' = Inr t \<and> recorded x acct r t"
    and others: "\<forall>i. i \<notin> rec_id x ` set rs \<longrightarrow> Txo_get i d' = Txo_get i d1"
    by auto
  have id: "rec_id x r = tid" using row(1) by (simp add: rec_id_def r)
  have "tid \<notin> rec_id x ` set rs" using Cons.prems(3) id by auto
  with others row(2) have mine: "\<exists>t. Txo_get (rec_id x r) d' = Inr t \<and> recorded x acct r t"
    by (auto simp: id) (simp add: recorded_def r)
  with ok fr fr1 all others row(3) id show ?case
    by (auto simp: only_txos_def)
qed

text \<open>Recording an output never changes where a txo was spent.\<close>

definition spent_block :: "db \<Rightarrow> string \<Rightarrow> u64 option" where
  "spent_block d i = (case Txo_get i d of Inr t \<Rightarrow> txo_spent_block_index t | Inl _ \<Rightarrow> None)"

lemma write_received_spent:
  assumes "db_ok d" and "write_received x acct rs d = (Inr (), d')"
  shows "spent_block d' = spent_block d"
  using assms
proof (induction rs arbitrary: d)
  case Nil
  then show ?case by (simp add: write_received_def)
next
  case (Cons r rs)
  obtain b tx_out amt sub ki where r: "r = (b, tx_out, amt, sub, ki)" by (cases r) auto
  from Cons.prems(2) obtain tid d1 where
    1: "Txo_create_received x tx_out sub ki amt b acct d = (Inr tid, d1)"
    and 2: "write_received x acct rs d1 = (Inr (), d')"
    by (auto simp: write_received_def r sthen_eq_Inr smap_err_eq_Inr)
  have "spent_block d1 i = spent_block d i" for i
    using create_received_row(2,3) [OF Cons.prems(1) 1] by (cases "i = tid") (auto simp: spent_block_def)
  moreover have "db_ok d1" by (rule preservesD_eq [OF db_ok_txo_writes(9) Cons.prems(1) 1])
  ultimately show ?case using Cons.IH [OF _ 2] by (simp add: fun_eq_iff)
qed

subsection \<open>A successful chunk\<close>

text \<open>The private view key the scan uses, and the outputs it finds.\<close>

definition scan_key :: "externals \<Rightarrow> account \<Rightarrow> ext_error + private_key" where
  "scan_key x a = (if acct_view_only a
     then rbind (x_decode_view_account_key x (acct_account_key a)) (\<lambda>vk. Inr (x_vk_view_private_key x vk))
     else rbind (x_decode_account_key x (acct_account_key a)) (\<lambda>k. Inr (x_view_private_key x k)))"

definition received_of :: "externals \<Rightarrow> account \<Rightarrow> (u64 \<times> tx_out) list \<Rightarrow> db \<Rightarrow> received list" where
  "received_of x a tx_outs d = (if acct_view_only a
     then (case x_decode_view_account_key x (acct_account_key a) of
             Inr vk \<Rightarrow> received_view_only x vk tx_outs d | Inl _ \<Rightarrow> [])
     else (case x_decode_account_key x (acct_account_key a) of
             Inr k \<Rightarrow> received_full x k tx_outs d | Inl _ \<Rightarrow> []))"

lemma received_of_iff:
  assumes "scan_key x a = Inr vpk"
  shows "(b, tx_out, amt, sub, ki) \<in> set (received_of x a tx_outs d) \<Longrightarrow>
      (b, tx_out) \<in> set tx_outs \<and> decode_amount x tx_out vpk = Some amt \<and>
      sub = decode_subaddress_index x tx_out vpk d"
    and "(b, tx_out) \<in> set tx_outs \<Longrightarrow> decode_amount x tx_out vpk = Some amt \<Longrightarrow>
      \<exists>ki. (b, tx_out, amt, decode_subaddress_index x tx_out vpk d, ki) \<in> set (received_of x a tx_outs d)"
  using assms
  by (auto simp: received_of_def scan_key_def received_view_only_def received_full_def rbind_def
      map_filter_def Let_def decode_subaddress_and_key_image_def decode_amount_def image_iff
      split: if_splits sum.splits option.splits) force+

lemma chunk_append_empty: "chunk_append \<lparr>ch_end = None, ch_tx_outs = [], ch_key_images = []\<rparr> c = c"
  by (cases c) (auto simp: chunk_append_def split: option.splits)

lemma process_chunk_Inr:
  assumes "process_chunk x a acct c e d = (Inr n, d')"
  shows "\<exists>vpk d1. scan_key x a = Inr vpk \<and> write_received x acct (received_of x a (ch_tx_outs c) d) d = (Inr (), d1) \<and>
    settle_chunk x a acct (ch_key_images c) e d1 = (Inr (), d') \<and> n = length (received_of x a (ch_tx_outs c) d)"
  using assms
  by (auto simp: process_chunk_def received_of_def scan_key_def sbind_sread smatch_apply sthen_eq_Inr rbind_def
      map_err_def split: if_splits sum.splits)

lemma sync_Inr:
  assumes "sync_account_next_chunk x l acct d = (Inr n, d')" and "Account_get acct d = Inr a"
  shows "\<exists>m. reads_upto l (acct_next_block_index a) (acct_next_block_index a + BLOCKS_CHUNK_SIZE) m \<and>
    (let c = blocks_read l (acct_next_block_index a) m in
     if m = 0 then n = 0 \<and> d' = d
     else \<exists>vpk d1. scan_key x a = Inr vpk \<and>
       write_received x acct (received_of x a (ch_tx_outs c) d) d = (Inr (), d1) \<and>
       settle_chunk x a acct (ch_key_images c) (acct_next_block_index a + word_of_nat m - 1) d1 = (Inr (), d') \<and>
       n = length (received_of x a (ch_tx_outs c) d))"
proof -
  let ?s = "acct_next_block_index a"
  let ?k = "\<lambda>c. case ch_end c of None \<Rightarrow> sreturn 0 | Some e \<Rightarrow> process_chunk x a acct c e"
  from assms obtain c where c: "scan_blocks l ?s (?s + BLOCKS_CHUNK_SIZE)
       \<lparr>ch_end = None, ch_tx_outs = [], ch_key_images = []\<rparr> = Inr c" and run: "?k c d = (Inr n, d')"
    by (auto simp: sync_account_next_chunk_def transaction_Inr sbind_eq_Inr smap_err_eq_Inr sread_eq_Inr
        map_err_def Let_def split: sum.splits)
  from scan_blocks_Inr [OF c] obtain m where m: "reads_upto l ?s (?s + BLOCKS_CHUNK_SIZE) m"
    and c': "c = blocks_read l ?s m" by (auto simp: chunk_append_empty)
  have "ch_end c = (if m = 0 then None else Some (?s + word_of_nat m - 1))"
    by (simp add: c' blocks_read_def)
  then show ?thesis
    using m run process_chunk_Inr [of x a acct c _ d n d']
    by (intro exI [of _ m]) (auto simp: c' Let_def)
qed

lemma write_received_frame:
  assumes "db_ok d" and "write_received x acct rs d = (r, d')"
  shows "db_ok d'" and "only_txos d d'"
proof -
  have "preserves db_ok (write_received x acct rs)" "preserves (only_txos d) (write_received x acct rs)"
    unfolding write_received_def
    by (intro preserves_intros db_ok_txo_writes only_txos_create_received)+
  with assms show "db_ok d'" "only_txos d d'"
    by (auto dest: preservesD_eq simp: only_txos_def)
qed

text \<open>What a successful call makes of the database when it read \<open>m\<close> blocks.\<close>

definition chunk_effect :: "externals \<Rightarrow> ledger_db \<Rightarrow> string \<Rightarrow> account \<Rightarrow> nat \<Rightarrow> db \<Rightarrow> nat \<Rightarrow> db \<Rightarrow> bool" where
  "chunk_effect x l acct a m d n d' \<longleftrightarrow>
     (let c = blocks_read l (acct_next_block_index a) m; rs = received_of x a (ch_tx_outs c) d in
      if m = 0 then n = 0 \<and> d' = d
      else \<exists>vpk d1. scan_key x a = Inr vpk \<and> db_ok d1 \<and> only_txos d d1 \<and>
        write_received x acct rs d = (Inr (), d1) \<and> n = length rs \<and>
        d' = settled a (chunk_spent x acct d1 (ch_key_images c)) (acct_next_block_index a + word_of_nat m - 1) d1)"

lemma sync_settled:
  assumes "db_ok d" and "sync_account_next_chunk x l acct d = (Inr n, d')" and "Account_get acct d = Inr a"
  obtains m where "reads_upto l (acct_next_block_index a) (acct_next_block_index a + BLOCKS_CHUNK_SIZE) m"
    and "chunk_effect x l acct a m d n d'"
proof -
  let ?s = "acct_next_block_index a"
  from sync_Inr [OF assms(2,3)] obtain m where m: "reads_upto l ?s (?s + BLOCKS_CHUNK_SIZE) m"
    and r: "let c = blocks_read l ?s m in
     if m = 0 then n = 0 \<and> d' = d
     else \<exists>vpk d1. scan_key x a = Inr vpk \<and>
       write_received x acct (received_of x a (ch_tx_outs c) d) d = (Inr (), d1) \<and>
       settle_chunk x a acct (ch_key_images c) (?s + word_of_nat m - 1) d1 = (Inr (), d') \<and>
       n = length (received_of x a (ch_tx_outs c) d)" by blast
  have "chunk_effect x l acct a m d n d'"
  proof (cases "m = 0")
    case True
    with r show ?thesis by (simp add: chunk_effect_def Let_def)
  next
    case False
    with r obtain vpk d1 where "scan_key x a = Inr vpk" and n: "n = length (received_of x a (ch_tx_outs (blocks_read l ?s m)) d)"
      and w: "write_received x acct (received_of x a (ch_tx_outs (blocks_read l ?s m)) d) d = (Inr (), d1)"
      and e: "settle_chunk x a acct (ch_key_images (blocks_read l ?s m)) (?s + word_of_nat m - 1) d1 = (Inr (), d')"
      by (auto simp: Let_def)
    moreover note write_received_frame [OF assms(1) w]
    moreover from this settle_chunk_eq e have "d' = settled a (chunk_spent x acct d1 (ch_key_images (blocks_read l ?s m)))
        (?s + word_of_nat m - 1) d1" by simp
    ultimately show ?thesis
      using False by (auto simp: chunk_effect_def Let_def)
  qed
  with m show thesis by (rule that)
qed

lemma update_rows_same:
  "(\<And>r. r \<in> set rs \<Longrightarrow> p r \<Longrightarrow> f r = r) \<Longrightarrow> update_rows p f rs = rs"
  by (auto simp: update_rows_def intro!: map_idI)

lemma in_blocks_read:
  "(b, t) \<in> set (ch_tx_outs (blocks_read l s m)) \<longleftrightarrow>
     (\<exists>i < m. b = s + word_of_nat i \<and> t \<in> set (block_outputs l b))"
  "(b, k) \<in> set (ch_key_images (blocks_read l s m)) \<longleftrightarrow>
     (\<exists>i < m. b = s + word_of_nat i \<and> k \<in> set (block_key_images l b))"
  by (auto simp: blocks_read_def)

lemma settled_txo_simps [simp]:
  "txo_id (settled_txo sp t) = txo_id t" "txo_account_id (settled_txo sp t) = txo_account_id t"
  "txo_value (settled_txo sp t) = txo_value t" "txo_token_id (settled_txo sp t) = txo_token_id t"
  "txo_subaddress_index (settled_txo sp t) = txo_subaddress_index t"
  "txo_received_block_index (settled_txo sp t) = txo_received_block_index t"
  "txo_key_image (settled_txo sp t) = txo_key_image t"
  by (simp_all add: settled_txo_def split: option.split)

lemma Txo_get_settled:
  assumes "db_ok d" and "Txo_get i d = Inr t"
  shows "Txo_get i (settled a sp e d) = Inr (settled_txo sp t)"
  unfolding Txo_get_Inr [OF db_ok_settled [OF assms(1)]]
  using assms by (auto simp: Txo_get_Inr settled_tables)

lemma chunk_effect_accounts:
  assumes "chunk_effect x l acct a m d n d'" and "db_ok d" and "Account_get acct d = Inr a"
  shows "db_accounts d' = update_rows (\<lambda>b. acct_id b = acct)
      (\<lambda>b. b\<lparr>acct_next_block_index := acct_next_block_index a + word_of_nat m\<rparr>) (db_accounts d)"
    and "db_ok d'"
proof -
  let ?s = "acct_next_block_index a"
  have a: "a \<in> set (db_accounts d)" "acct_id a = acct" using Account_get_InrD [OF assms(3)] by auto
  have "update_rows (\<lambda>b. acct_id b = acct) (\<lambda>b. b\<lparr>acct_next_block_index := ?s\<rparr>) (db_accounts d) = db_accounts d"
    using accounts_table.row_eqI [OF assms(2) _ a(1)] a(2) by (intro update_rows_same) auto
  moreover have "db_accounts d' = update_rows (\<lambda>b. acct_id b = acct)
      (\<lambda>b. b\<lparr>acct_next_block_index := ?s + word_of_nat m\<rparr>) (db_accounts d) \<and> db_ok d'" if "m \<noteq> 0"
  proof -
    from that assms(1) obtain d1 sp where "db_ok d1" "only_txos d d1" "d' = settled a sp (?s + word_of_nat m - 1) d1"
      unfolding chunk_effect_def Let_def by auto
    then show ?thesis using a(2) by (simp add: db_ok_settled) (simp add: settled_def only_txos_def)
  qed
  ultimately show "db_accounts d' = update_rows (\<lambda>b. acct_id b = acct)
      (\<lambda>b. b\<lparr>acct_next_block_index := ?s + word_of_nat m\<rparr>) (db_accounts d)" and "db_ok d'"
    using assms(1,2) by (cases "m = 0"; simp add: chunk_effect_def)+
qed

lemma reads_upto_unique:
  assumes "reads_upto l b e m" and "reads_upto l b e m'"
  shows "m = m'"
proof -
  have "\<not> k < k'" if "reads_upto l b e k" "reads_upto l b e k'" for k k'
    using that by (auto simp: reads_upto_def)
  with assms show ?thesis by (metis linorder_neqE_nat)
qed

text \<open>A ledger of \<open>n\<close> blocks.\<close>

definition ledger_has :: "ledger_db \<Rightarrow> u64 \<Rightarrow> bool" where
  "ledger_has l n \<longleftrightarrow> (\<forall>b. b < n \<longrightarrow> is_ok (l_get_block_contents l b)) \<and>
     (\<forall>b. n \<le> b \<longrightarrow> l_get_block_contents l b = Inl LedgerNotFound)"

lemma reads_upto_ledger:
  assumes "ledger_has l n" and "s \<le> n" and "s \<le> s + BLOCKS_CHUNK_SIZE" and "reads_upto l s (s + BLOCKS_CHUNK_SIZE) m"
  shows "m = min 1000 (unat n - unat s)"
proof -
  have u: "unat (s + BLOCKS_CHUNK_SIZE) = unat s + 1000"
    using assms(3) by (simp add: BLOCKS_CHUNK_SIZE_def word_le_nat_alt unat_plus_if_size word_size split: if_splits)
  have small: "unat (s + word_of_nat i) = unat s + i" if "i \<le> 1000" for i
  proof -
    have "unat s + i < 2 ^ 64" using u that unsigned_less [of "s + BLOCKS_CHUNK_SIZE", where ?'a = nat] by simp
    then show ?thesis by (rule unat_plus_of_nat)
  qed
  have m: "m \<le> 1000" using assms(4) u by (simp add: reads_upto_def)
  have ok: "is_ok (l_get_block_contents l (s + word_of_nat i)) \<longleftrightarrow> unat s + i < unat n" if "i \<le> 1000" for i
    using assms(1) small [OF that] by (cases "s + word_of_nat i < n") (auto simp: ledger_has_def word_less_nat_alt not_less word_le_nat_alt)
  have "m \<le> unat n - unat s"
  proof (cases m)
    case (Suc k)
    then have "is_ok (l_get_block_contents l (s + word_of_nat k))" using assms(4) by (simp add: reads_upto_def)
    with ok [of k] m Suc show ?thesis by simp
  qed simp
  moreover have "unat n - unat s \<le> m" if "m < 1000"
  proof -
    have "\<not> is_ok (l_get_block_contents l (s + word_of_nat m))" using that assms(4) u by (simp add: reads_upto_def)
    with ok [of m] that show ?thesis by simp
  qed
  ultimately show ?thesis using m by (cases "m < 1000") auto
qed

subsection \<open>Properties\<close>

lemma sample_sync: "fst (sync_account_next_chunk sample_ext sample_ledger ''BA'' sample_db) = Inr 1"
  by code_simp

lemma sample_get: "Account_get ''BA'' sample_db = Inr sample_account"
  by code_simp

lemma sample_reads: "reads_upto sample_ledger (acct_next_block_index sample_account)
    (acct_next_block_index sample_account + BLOCKS_CHUNK_SIZE) 2"
  by code_simp

lemma sample_sync_error:
  "fst (sync_account_next_chunk sample_ext sample_ledger ''nobody'' sample_db) =
     Inl (SyncDatabase (AccountNotFound ''nobody''))"
  by code_simp

text \<open>C3: a chunk advances the account exactly over the blocks it read. There is a number \<open>m\<close> of
  blocks, at most the chunk size, such that the ledger has the \<open>m\<close> blocks from the account's next
  block on and either the chunk is full or the block after them does not exist; afterwards the
  account's next block is \<open>m\<close> further, the other accounts and all subaddresses are unchanged,
  and with no new block nothing changes at all.\<close>

theorem sync_chunk_advances:
  assumes "db_ok d" and "Account_get acct d = Inr a"
    and "sync_account_next_chunk x l acct d = (Inr n, d')"
  shows "\<exists>m. reads_upto l (acct_next_block_index a) (acct_next_block_index a + BLOCKS_CHUNK_SIZE) m \<and>
    db_accounts d' = update_rows (\<lambda>b. acct_id b = acct)
      (\<lambda>b. b\<lparr>acct_next_block_index := acct_next_block_index a + word_of_nat m\<rparr>) (db_accounts d) \<and>
    db_assigned_subaddresses d' = db_assigned_subaddresses d \<and> (m = 0 \<longrightarrow> d' = d \<and> n = 0)"
proof -
  from sync_settled [OF assms(1,3,2)] obtain m where
    m: "reads_upto l (acct_next_block_index a) (acct_next_block_index a + BLOCKS_CHUNK_SIZE) m"
    and r: "chunk_effect x l acct a m d n d'" .
  show ?thesis
    using m r chunk_effect_accounts(1) [OF r assms(1,2)]
    by (intro exI [of _ m], cases "m = 0") (auto simp: chunk_effect_def Let_def settled_def only_txos_def)
qed

theorem sync_chunk_advances_witness:
  "\<exists>m. reads_upto sample_ledger 3 1003 m \<and>
    db_accounts (snd (sync_account_next_chunk sample_ext sample_ledger ''BA'' sample_db)) =
      [sample_account\<lparr>acct_next_block_index := 3 + word_of_nat m\<rparr>]"
proof -
  have n: "acct_next_block_index sample_account = 3" "acct_id sample_account = ''BA''"
    "db_accounts sample_db = [sample_account]" "3 + BLOCKS_CHUNK_SIZE = 1003"
    by (simp_all add: sample_account_def sample_db_def BLOCKS_CHUNK_SIZE_def)
  show ?thesis
    using sync_chunk_advances [OF sample_db_ok sample_get run_result [OF sample_sync]]
    by (auto simp: n update_rows_def)
qed

text \<open>C1: no deposit is missed. After a successful chunk, which reads \<open>m\<close> blocks, every output of
  those blocks whose amount the account's view key opens is a txo of the account, with its
  block, value, token and the subaddress its keys decode to. (The outputs of a ledger have
  distinct identifiers.)\<close>

theorem sync_chunk_records_deposits:
  assumes "db_ok d" and "Account_get acct d = Inr a" and "scan_key x a = Inr vpk"
    and "sync_account_next_chunk x l acct d = (Inr n, d')"
    and "reads_upto l (acct_next_block_index a) (acct_next_block_index a + BLOCKS_CHUNK_SIZE) m"
    and "distinct (map (rec_id x) (received_of x a (ch_tx_outs (blocks_read l (acct_next_block_index a) m)) d))"
    and "i < m" and "tx_out \<in> set (block_outputs l (acct_next_block_index a + word_of_nat i))"
    and "decode_amount x tx_out vpk = Some amt"
  shows "\<exists>t. Txo_get (TxoID_from_tx_out x tx_out) d' = Inr t \<and> txo_account_id t = Some acct \<and>
    txo_received_block_index t = Some (acct_next_block_index a + word_of_nat i) \<and>
    txo_value t = am_value amt \<and> txo_token_id t = am_token_id amt \<and>
    txo_subaddress_index t = decode_subaddress_index x tx_out vpk d"
proof -
  let ?s = "acct_next_block_index a"
  let ?c = "blocks_read l ?s m" let ?rs = "received_of x a (ch_tx_outs ?c) d"
  have r: "chunk_effect x l acct a m d n d'"
    using sync_settled [OF assms(1,4,2)] reads_upto_unique [OF assms(5)] by metis
  with assms(7) obtain d1 where ok1: "db_ok d1" and w: "write_received x acct ?rs d = (Inr (), d1)"
    and d': "d' = settled a (chunk_spent x acct d1 (ch_key_images ?c)) (?s + word_of_nat m - 1) d1"
    by (auto simp: chunk_effect_def Let_def)
  have "(?s + word_of_nat i, tx_out) \<in> set (ch_tx_outs ?c)" using assms(7,8) by (auto simp: in_blocks_read)
  from received_of_iff(2) [OF assms(3) this assms(9)] obtain ki where
    "(?s + word_of_nat i, tx_out, amt, decode_subaddress_index x tx_out vpk d, ki) \<in> set ?rs" by blast
  with write_received_Inr [OF assms(1) w assms(6)] obtain t where
    "Txo_get (TxoID_from_tx_out x tx_out) d1 = Inr t"
    "recorded x acct (?s + word_of_nat i, tx_out, amt, decode_subaddress_index x tx_out vpk d, ki) t"
    by (fastforce simp: rec_id_def)
  then show ?thesis
    by (auto simp: d' Txo_get_settled [OF ok1] recorded_def)
qed

theorem sync_chunk_records_deposits_witness:
  "\<exists>t. Txo_get ''D'' (snd (sync_account_next_chunk sample_ext sample_ledger ''BA'' sample_db)) = Inr t \<and>
     txo_account_id t = Some ''BA'' \<and> txo_value t = 9"
proof -
  have k: "scan_key sample_ext sample_account = Inr [1]" by code_simp
  have d: "distinct (map (rec_id sample_ext) (received_of sample_ext sample_account
      (ch_tx_outs (blocks_read sample_ledger (acct_next_block_index sample_account) 2)) sample_db))"
    by code_simp
  have o: "sample_tx_out \<in> set (block_outputs sample_ledger (acct_next_block_index sample_account + word_of_nat 0))"
    by code_simp
  have a: "decode_amount sample_ext sample_tx_out [1] = Some \<lparr>am_value = 9, am_token_id = 0\<rparr>"
    by code_simp
  have i: "TxoID_from_tx_out sample_ext sample_tx_out = ''D''" by code_simp
  show ?thesis
    using sync_chunk_records_deposits [OF sample_db_ok sample_get k run_result [OF sample_sync] sample_reads d _ o a]
    by (auto simp: i)
qed

lemma spent_at_None: "spent_at sp i = None \<longleftrightarrow> i \<notin> snd ` set sp"
  by (force simp: spent_at_def find_None_iff)

text \<open>A spent txo is in the list of spent txos, if no other txo of the account has its key image.\<close>

lemma in_chunk_spent:
  assumes "t \<in> set (db_txos d)" and "txo_account_id t = Some acct" and "txo_subaddress_index t \<noteq> None"
    and "txo_spent_block_index t = None" and "txo_key_image t = Some enc" and "x_decode_key_image x enc = Inr k"
    and "(b, k) \<in> set kis"
    and "\<And>u enc'. u \<in> set (db_txos d) \<Longrightarrow> txo_account_id u = Some acct \<Longrightarrow> txo_key_image u = Some enc' \<Longrightarrow>
      x_decode_key_image x enc' = Inr k \<Longrightarrow> txo_id u = txo_id t"
  shows "(b, txo_id t) \<in> set (chunk_spent x acct d kis)"
proof -
  let ?imgs = "case Txo_list_unspent_or_pending_key_images x acct None d of Inr i \<Rightarrow> i | Inl _ \<Rightarrow> []"
  have "(k, txo_id t) \<in> set ?imgs"
    using assms(1-6) by (auto simp: Txo_list_unspent_or_pending_key_images_def map_filter_def sql_where_def image_iff
        intro!: exI [of _ t])
  moreover have "i = txo_id t" if "(k, i) \<in> set ?imgs" for i
    using that assms(8) by (auto simp: Txo_list_unspent_or_pending_key_images_def map_filter_def sql_where_def
        split: option.splits sum.splits)
  ultimately have "map_of ?imgs k = Some (txo_id t)"
    by (metis map_of_SomeD not_None_eq weak_map_of_SomeI)
  with assms(7) show ?thesis
    by (force simp: chunk_spent_def Txo_list_unspent_or_pending_key_images_def map_filter_def)
qed

text \<open>No two txos of the account share a key image.\<close>

definition distinct_key_images :: "externals \<Rightarrow> string \<Rightarrow> db \<Rightarrow> bool" where
  "distinct_key_images x acct d \<longleftrightarrow> (\<forall>t \<in> set (db_txos d). \<forall>u \<in> set (db_txos d).
     txo_account_id t = Some acct \<and> txo_account_id u = Some acct \<and>
     txo_key_image t \<noteq> None \<and> txo_key_image u \<noteq> None \<and>
     x_decode_key_image x (the (txo_key_image t)) = x_decode_key_image x (the (txo_key_image u)) \<longrightarrow> txo_id t = txo_id u)"

lemma distinct_key_images_settled:
  "distinct_key_images x acct (settled a sp e d) \<longleftrightarrow> distinct_key_images x acct d"
  by (simp add: distinct_key_images_def settled_tables)

lemma settled_log_pending:
  assumes "l \<in> set (db_transaction_logs (settled a sp e d))" and "log_pending l"
    and "uses_input d i l" and "(b, i) \<in> set sp"
  shows False
proof -
  from assms(1,2) obtain l0 where l: "l = settled_log d sp l0"
    by (auto simp: settled_tables set_update_rows log_pending_def split: if_splits)
  have u: "uses_input d i (settled_log d sp l0) = uses_input d i l0" for i
    by (auto simp: settled_log_def uses_input_def split: option.splits)
  show False
    using assms(2-4) unfolding l u
    by (auto simp: settled_log_def log_pending_def find_None_iff split: option.splits if_splits)
qed

lemma chunk_effect_spent:
  assumes "chunk_effect x l acct a m d n d'" and "db_ok d" and "distinct_key_images x acct d'"
    and "i < m" and "k \<in> set (block_key_images l (acct_next_block_index a + word_of_nat i))"
    and "t \<in> set (db_txos d')" and "txo_account_id t = Some acct" and "txo_subaddress_index t \<noteq> None"
    and "txo_key_image t = Some enc" and "x_decode_key_image x enc = Inr k"
  shows "txo_spent_block_index t \<noteq> None"
    and "g \<in> set (db_transaction_logs d') \<Longrightarrow> uses_input d' (txo_id t) g \<Longrightarrow> log_pending g \<Longrightarrow>
      spent_block d (txo_id t) \<noteq> None"
proof -
  let ?s = "acct_next_block_index a" and ?kis = "ch_key_images (blocks_read l (acct_next_block_index a) m)"
  from assms(1,4) obtain d1 rs where ok1: "db_ok d1" and w: "write_received x acct rs d = (Inr (), d1)"
    and d': "d' = settled a (chunk_spent x acct d1 ?kis) (?s + word_of_nat m - 1) d1"
    by (auto simp: chunk_effect_def Let_def)
  let ?sp = "chunk_spent x acct d1 ?kis"
  from assms(6) obtain u where u: "u \<in> set (db_txos d1)" and t: "t = settled_txo ?sp u"
    by (auto simp: d' settled_tables)
  have "spent_block d1 (txo_id t) = txo_spent_block_index u"
    using u Txo_get_Inr [OF ok1, of "txo_id u" u] by (simp add: spent_block_def t)
  then have sb: "spent_block d (txo_id t) = txo_spent_block_index u"
    using write_received_spent [OF assms(2) w] by simp
  have "(?s + word_of_nat i, k) \<in> set ?kis" using assms(4,5) by (auto simp: in_blocks_read)
  moreover have "txo_id v = txo_id u" if "v \<in> set (db_txos d1)" "txo_account_id v = Some acct"
    "txo_key_image v = Some enc'" "x_decode_key_image x enc' = Inr k" for v enc'
  proof -
    have "distinct_key_images x acct d1" using assms(3) by (simp add: d' distinct_key_images_settled)
    with that(1) u have "txo_account_id v = Some acct \<and> txo_account_id u = Some acct \<and>
        txo_key_image v \<noteq> None \<and> txo_key_image u \<noteq> None \<and>
        x_decode_key_image x (the (txo_key_image v)) = x_decode_key_image x (the (txo_key_image u)) \<longrightarrow> txo_id v = txo_id u"
      unfolding distinct_key_images_def by blast
    with that assms(7-10) show ?thesis by (simp add: t)
  qed
  ultimately have mem: "(?s + word_of_nat i, txo_id t) \<in> set ?sp" if "txo_spent_block_index u = None"
    using in_chunk_spent [OF u _ _ that] assms(7-10) by (auto simp: t)
  show "txo_spent_block_index t \<noteq> None"
  proof (cases "txo_spent_block_index u")
    case None
    from mem [OF this] have "txo_id t \<in> snd ` set ?sp" by (rule image_eqI [rotated]) simp
    then have "spent_at ?sp (txo_id u) \<noteq> None" by (simp add: spent_at_None t)
    then show ?thesis by (auto simp: t settled_txo_def)
  qed (auto simp: t settled_txo_def split: option.splits)
  show "spent_block d (txo_id t) \<noteq> None"
    if "g \<in> set (db_transaction_logs d')" "uses_input d' (txo_id t) g" "log_pending g"
  proof
    assume "spent_block d (txo_id t) = None"
    with mem sb have "(?s + word_of_nat i, txo_id t) \<in> set ?sp" by simp
    moreover have "uses_input d1 (txo_id t) g" using that(2) by (simp add: uses_input_def d' settled_tables)
    ultimately show False using settled_log_pending that(1,3) d' by metis
  qed
qed



text \<open>A failed chunk leaves no trace. Whatever the error, the database is the one before, so
  the next attempt starts from the same block.\<close>

theorem sync_chunk_failure_atomic:
  assumes "sync_account_next_chunk x l acct d = (Inl e, d')"
  shows "d' = d"
  using assms by (simp add: sync_account_next_chunk_def transaction_Inl)

theorem sync_chunk_failure_atomic_witness:
  "snd (sync_account_next_chunk sample_ext sample_ledger ''nobody'' sample_db) = sample_db"
  by (rule sync_chunk_failure_atomic [OF run_result [OF sample_sync_error]])

text \<open>Repeated successful chunks; \<open>None\<close> when one fails.\<close>

fun sync_times :: "nat \<Rightarrow> externals \<Rightarrow> ledger_db \<Rightarrow> string \<Rightarrow> db \<Rightarrow> db option" where
  "sync_times 0 x l acct d = Some d"
| "sync_times (Suc k) x l acct d = (case sync_account_next_chunk x l acct d of
     (Inr _, d') \<Rightarrow> sync_times k x l acct d' | (Inl _, _) \<Rightarrow> None)"

lemma sync_step_ledger:
  assumes "db_ok d" and "Account_get acct d = Inr a" and "ledger_has l n" and "acct_next_block_index a \<le> n"
    and "unat n + 1000 < 2 ^ 64" and "sync_account_next_chunk x l acct d = (Inr r, d')"
  shows "\<exists>a'. Account_get acct d' = Inr a' \<and> db_ok d' \<and>
    unat (acct_next_block_index a') = min (unat n) (unat (acct_next_block_index a) + 1000)"
proof -
  let ?s = "acct_next_block_index a"
  from sync_settled [OF assms(1,6,2)] obtain m where m: "reads_upto l ?s (?s + BLOCKS_CHUNK_SIZE) m"
    and e: "chunk_effect x l acct a m d r d'" .
  note acc = chunk_effect_accounts [OF e assms(1,2)]
  have sn: "unat ?s \<le> unat n" using assms(4) by (simp add: word_le_nat_alt)
  have "?s \<le> ?s + BLOCKS_CHUNK_SIZE"
    using assms(5) sn by (simp add: word_le_nat_alt unat_word_ariths BLOCKS_CHUNK_SIZE_def)
  from reads_upto_ledger [OF assms(3,4) this m] have mm: "m = min 1000 (unat n - unat ?s)" .
  then have "unat ?s + m < 2 ^ 64" using assms(5) sn by simp
  then have "unat (?s + word_of_nat m) = unat ?s + m" by (rule unat_plus_of_nat)
  then have "unat (?s + word_of_nat m) = min (unat n) (unat ?s + 1000)" using mm sn by simp
  moreover have "a\<lparr>acct_next_block_index := ?s + word_of_nat m\<rparr> \<in> set (db_accounts d')"
    using Account_get_InrD [OF assms(2)] acc(1) by (auto simp: set_update_rows image_iff)
  ultimately show ?thesis
    using Account_get_InrD [OF assms(2)] acc(2)
    by (intro exI [of _ "a\<lparr>acct_next_block_index := ?s + word_of_nat m\<rparr>"]) (auto simp: Account_get_Inr)
qed

text \<open>C4: scanning reaches the end of the ledger. On a ledger of \<open>n\<close> blocks, \<open>k\<close> successful chunks
  advance an account to the smaller of \<open>n\<close> and \<open>1000 * k\<close> blocks further, so it is fully synced after
  one chunk per thousand missing blocks.\<close>

theorem sync_reaches_end:
  assumes "db_ok d" and "Account_get acct d = Inr a" and "ledger_has l n" and "acct_next_block_index a \<le> n"
    and "unat n + 1000 < 2 ^ 64" and "sync_times k x l acct d = Some d'"
  shows "\<exists>a'. Account_get acct d' = Inr a' \<and>
    unat (acct_next_block_index a') = min (unat n) (unat (acct_next_block_index a) + 1000 * k)"
  using assms(1,2,4,6)
proof (induction k arbitrary: d a)
  case 0
  then show ?case by (simp add: word_le_nat_alt min_def)
next
  case (Suc k)
  from Suc.prems(4) obtain r d1 where r: "sync_account_next_chunk x l acct d = (Inr r, d1)"
    and rest: "sync_times k x l acct d1 = Some d'"
    by (auto split: prod.splits sum.splits)
  from sync_step_ledger [OF Suc.prems(1,2) assms(3) Suc.prems(3) assms(5) r] obtain a1 where
    a1: "Account_get acct d1 = Inr a1" "db_ok d1"
    "unat (acct_next_block_index a1) = min (unat n) (unat (acct_next_block_index a) + 1000)" by blast
  then have "acct_next_block_index a1 \<le> n" by (simp add: word_le_nat_alt)
  from Suc.IH [OF a1(2,1) this rest] a1(3) show ?case by (auto simp: min_def)
qed

theorem sync_reaches_end_witness:
  "\<exists>d' a'. sync_times 1 sample_ext sample_ledger ''BA'' sample_db = Some d' \<and>
     Account_get ''BA'' d' = Inr a' \<and> unat (acct_next_block_index a') = 5"
proof -
  have l: "ledger_has sample_ledger 5"
    by (auto simp: ledger_has_def sample_ledger_def)
  have n: "acct_next_block_index sample_account \<le> 5" "unat (acct_next_block_index sample_account) = 3"
    by code_simp+
  have d': "sync_times 1 sample_ext sample_ledger ''BA'' sample_db =
      Some (snd (sync_account_next_chunk sample_ext sample_ledger ''BA'' sample_db))"
    using sample_sync by (simp add: prod.case_eq_if)
  show ?thesis
    using sync_reaches_end [OF sample_db_ok sample_get l n(1) _ d'] d' n(2) by simp
qed

lemma bad_memo_not_received:
  assumes "Account_get acct d = Inr a" and "x_ristretto_try_from x (to_public_key tx_out) = Inr key"
    and "Account_get_shared_secret x a key = Inr ss"
    and "x_memo_type_try_from x (decrypt_memo x (to_e_memo tx_out) ss) = Inl e"
  shows "Txo_create_received x tx_out sub ki amt blk acct d \<noteq> (Inr tid, d')"
proof
  assume "Txo_create_received x tx_out sub ki amt blk acct d = (Inr tid, d')"
  from create_received_Inr [OF this] assms obtain d1 where
    "add_memo_to_database x tid (decrypt_memo x (to_e_memo tx_out) ss) d1 = (Inr (), d')" by auto
  with assms(4) show False by (simp add: add_memo_to_database_def)
qed

lemma bad_memo_not_written:
  assumes "db_ok d" and "Account_get acct d = Inr a" and "x_ristretto_try_from x (to_public_key tx_out) = Inr key"
    and "Account_get_shared_secret x a key = Inr ss"
    and "x_memo_type_try_from x (decrypt_memo x (to_e_memo tx_out) ss) = Inl e"
    and "(b, tx_out, amt, sub, ki) \<in> set rs"
  shows "write_received x acct rs d \<noteq> (Inr (), d')"
  using assms(1,2,6)
proof (induction rs arbitrary: d)
  case (Cons r rs)
  obtain b' o' amt' sub' ki' where r: "r = (b', o', amt', sub', ki')" by (cases r) auto
  show ?case
  proof
    assume "write_received x acct (r # rs) d = (Inr (), d')"
    then obtain tid d1 where 1: "Txo_create_received x o' sub' ki' amt' b' acct d = (Inr tid, d1)"
      and 2: "write_received x acct rs d1 = (Inr (), d')"
      by (auto simp: write_received_def r sthen_eq_Inr smap_err_eq_Inr)
    have "o' \<noteq> tx_out"
      using bad_memo_not_received [OF Cons.prems(2) assms(3-5)] 1 by blast
    then have "(b, tx_out, amt, sub, ki) \<in> set rs" using Cons.prems(3) r by auto
    moreover have "db_ok d1" by (rule preservesD_eq [OF db_ok_txo_writes(9) Cons.prems(1) 1])
    moreover have "db_accounts d1 = db_accounts d"
      using preservesD_eq [OF only_txos_create_received _ 1, of d] by (simp add: only_txos_def)
    ultimately show False using Cons.IH 2 Cons.prems(2) by (simp add: Account_get_def)
  qed
qed simp

text \<open>C29: one memo can stop an account for good. When a block of the next chunk holds an output for
  the account whose decrypted memo does not parse, the scan of the chunk fails and leaves the
  database as it was: the account never advances past that block.\<close>

theorem sync_stuck_on_bad_memo:
  assumes "db_ok d" and "Account_get acct d = Inr a" and "scan_key x a = Inr vpk"
    and "reads_upto l (acct_next_block_index a) (acct_next_block_index a + BLOCKS_CHUNK_SIZE) m"
    and "i < m" and "tx_out \<in> set (block_outputs l (acct_next_block_index a + word_of_nat i))"
    and "decode_amount x tx_out vpk = Some amt"
    and "x_ristretto_try_from x (to_public_key tx_out) = Inr key" and "Account_get_shared_secret x a key = Inr ss"
    and "x_memo_type_try_from x (decrypt_memo x (to_e_memo tx_out) ss) = Inl e"
  shows "\<exists>err. sync_account_next_chunk x l acct d = (Inl err, d)"
proof (cases "sync_account_next_chunk x l acct d")
  case (Pair r d')
  show ?thesis
  proof (cases r)
    case (Inl err)
    with Pair show ?thesis by (auto simp: sync_account_next_chunk_def transaction_Inl)
  next
    case (Inr n)
    let ?rs = "received_of x a (ch_tx_outs (blocks_read l (acct_next_block_index a) m)) d"
    have "chunk_effect x l acct a m d n d'"
      using sync_settled [OF assms(1) _ assms(2)] Pair Inr reads_upto_unique [OF assms(4)] by metis
    with assms(5) obtain d1 where w: "write_received x acct ?rs d = (Inr (), d1)"
      by (auto simp: chunk_effect_def Let_def)
    have "(acct_next_block_index a + word_of_nat i, tx_out) \<in> set (ch_tx_outs (blocks_read l (acct_next_block_index a) m))"
      using assms(5,6) by (auto simp: in_blocks_read)
    from received_of_iff(2) [OF assms(3) this assms(7)] bad_memo_not_written [OF assms(1,2,8-10)] w
    show ?thesis by blast
  qed
qed

theorem sync_stuck_on_bad_memo_witness:
  "\<exists>err. sync_account_next_chunk (sample_ext\<lparr>x_memo_type_try_from := \<lambda>m. Inl ''unknown''\<rparr>)
     sample_ledger ''BA'' sample_db = (Inl err, sample_db)"
proof -
  let ?x = "sample_ext\<lparr>x_memo_type_try_from := \<lambda>m. Inl ''unknown''\<rparr>"
  have k: "scan_key ?x sample_account = Inr [1]" by code_simp
  have o: "sample_tx_out \<in> set (block_outputs sample_ledger (acct_next_block_index sample_account + word_of_nat 0))"
    by code_simp
  have a: "decode_amount ?x sample_tx_out [1] = Some \<lparr>am_value = 9, am_token_id = 0\<rparr>" by code_simp
  have p: "x_ristretto_try_from ?x (to_public_key sample_tx_out) = Inr [3]"
    "Account_get_shared_secret ?x sample_account [3] = Inr [1, 3]" by code_simp+
  have e: "x_memo_type_try_from ?x (decrypt_memo ?x (to_e_memo sample_tx_out) [1, 3]) = Inl ''unknown''" by simp
  show ?thesis
    by (rule sync_stuck_on_bad_memo [OF sample_db_ok sample_get k sample_reads zero_less_numeral o a p e])
qed

end
