(* ===== verification/Ledger_Service.thy ===== *)
theory Ledger_Service
  imports Transaction_Log Samples
begin

section \<open>The ledger service\<close>

text \<open>
  \<open>service/ledger.rs\<close> and \<open>service/watcher.rs\<close>: reading blocks, asking the consensus nodes for
  the latest block and fees, sampling mixins, and searching the ledger. The record \<open>node\<close> holds
  what the service object knows of the outside: the ledger, the answers of the consensus nodes
  and of the watcher.
\<close>

type_synonym u32 = "32 word"

record block =
  blk_index :: u64
  blk_version :: u32

record block_info =
  bi_block_index :: u64
  bi_network_block_version :: u32
  bi_minimum_fees :: "(u64 \<times> u64) list"

record watcher_block_info =
  wbi_timestamp :: u64
  wbi_timestamp_result_code :: nat
  wbi_signatures :: "bytes list"

record watcher_db =
  w_get_block_timestamp :: "u64 \<Rightarrow> ext_error + u64 \<times> nat"
  w_get_block_signatures :: "u64 \<Rightarrow> ext_error + bytes list"

text \<open>A \<open>FeeMap\<close> is read only through \<open>get_fee_for_token\<close>.\<close>

type_synonym fee_map = "u64 \<Rightarrow> u64 option"

record network_config =
  nc_offline :: bool
  nc_chain_id :: string
  nc_peers :: "string list option"
  nc_tx_sources :: "string list option"

record node =
  n_offline :: bool
  n_ledger :: ledger_db
  n_get_block :: "u64 \<Rightarrow> ledger_error + block"
  n_peer_block_infos :: "block_info option list"
  n_highest_block_index :: "u64 option"
  n_watcher :: "watcher_db option"
  n_network_setup_config :: network_config
  n_fee_map_try_from :: "(u64 \<times> u64) list \<Rightarrow> ext_error + fee_map"
  n_block_version_try_from :: "u32 \<Rightarrow> ext_error + u32"
  n_BLOCK_VERSION_MAX :: u32
  n_hex_decode :: "string \<Rightarrow> ext_error + bytes"
  n_public_key_from_slice :: "bytes \<Rightarrow> ext_error + compressed_public"
  n_key_image_from_slice :: "bytes \<Rightarrow> ext_error + key_image"

datatype ledger_service_error =
    LS_Database wallet_db_error
  | LS_LedgerDB ledger_error
  | LS_ProstDecode ext_error
  | LS_NoTxInTransaction
  | LS_FromHex ext_error
  | LS_Key ext_error
  | LS_InvalidArgument string
  | LS_InsufficientTxOuts
  | LS_NoLastBlockInfo
  | LS_InconsistentLastBlockInfo
  | LS_BlockVersion ext_error
  | LS_LedgerInconsistent
  | LS_FeeMap ext_error
  | LS_WatcherDb ext_error

subsection \<open>Blocks\<close>

definition get_network_block_height :: "node \<Rightarrow> ledger_service_error + u64" where
  "get_network_block_height n =
     (case n_highest_block_index n of Some index \<Rightarrow> Inr (index + 1) | None \<Rightarrow> Inr 0)"

definition get_transaction_object ::
    "(bytes \<Rightarrow> ext_error + 'tx) \<Rightarrow> string \<Rightarrow> db \<Rightarrow> ledger_service_error + 'tx" where
  "get_transaction_object decode_tx transaction_id_hex d =
     rbind (map_err LS_Database (TransactionLog_get transaction_id_hex d)) (\<lambda>l.
       map_err LS_ProstDecode (decode_tx (tl_tx l)))"

definition get_txo_object :: "externals \<Rightarrow> node \<Rightarrow> string \<Rightarrow> db \<Rightarrow> ledger_service_error + tx_out" where
  "get_txo_object x n txo_id_hex d =
     rbind (map_err LS_Database (Txo_get txo_id_hex d)) (\<lambda>t.
     rbind (map_err LS_ProstDecode (Txo_public_key x t)) (\<lambda>k.
     rbind (map_err LS_LedgerDB (l_get_tx_out_index_by_public_key (n_ledger n) k)) (\<lambda>i.
       map_err LS_LedgerDB (l_get_tx_out_by_index (n_ledger n) i))))"

definition get_block_object :: "node \<Rightarrow> u64 \<Rightarrow> ledger_service_error + block \<times> block_contents" where
  "get_block_object n block_index =
     rbind (map_err LS_LedgerDB (n_get_block n block_index)) (\<lambda>b.
     rbind (map_err LS_LedgerDB (l_get_block_contents (n_ledger n) block_index)) (\<lambda>c.
       Inr (b, c)))"

definition saturating_add :: "u64 \<Rightarrow> u64 \<Rightarrow> u64" where
  "saturating_add a b = (if a + b < a then - 1 else a + b)"

function block_objects_loop ::
    "node \<Rightarrow> u64 \<Rightarrow> u64 \<Rightarrow> (block \<times> block_contents) list
      \<Rightarrow> ledger_service_error + (block \<times> block_contents) list" where
  "block_objects_loop n block_index last_block_index results =
     (if block_index < last_block_index then
        (case n_get_block n block_index of
          Inl LedgerNotFound \<Rightarrow> Inr results
        | Inl err \<Rightarrow> Inl (LS_LedgerDB err)
        | Inr b \<Rightarrow>
            (case l_get_block_contents (n_ledger n) block_index of
              Inl err \<Rightarrow> Inl (LS_LedgerDB err)
            | Inr c \<Rightarrow> block_objects_loop n (block_index + 1) last_block_index (results @ [(b, c)])))
      else Inr results)"
  by pat_completeness auto
termination
  by (relation "measure (\<lambda>(_, b, e, _). unat e - unat b)")
     (auto simp: unat_succ word_less_nat_alt)

declare block_objects_loop.simps [simp del]

definition get_block_objects ::
    "node \<Rightarrow> u64 \<Rightarrow> u64 \<Rightarrow> ledger_service_error + (block \<times> block_contents) list" where
  "get_block_objects n first_block_index limit =
     block_objects_loop n first_block_index (saturating_add first_block_index limit) []"

text \<open>The \<open>loop\<close> of \<open>get_recent_block_objects\<close>; it counts \<open>block_index\<close> down.\<close>

function recent_blocks_loop ::
    "node \<Rightarrow> u64 \<Rightarrow> u64 \<Rightarrow> (block \<times> block_contents) list
      \<Rightarrow> ledger_service_error + (block \<times> block_contents) list" where
  "recent_blocks_loop n limit block_index results =
     (if length results \<ge> unat limit then Inr results
      else
        (case n_get_block n block_index of
          Inl err \<Rightarrow> Inl (LS_LedgerDB err)
        | Inr b \<Rightarrow>
            (case l_get_block_contents (n_ledger n) block_index of
              Inl err \<Rightarrow> Inl (LS_LedgerDB err)
            | Inr c \<Rightarrow>
                (if block_index = 0 then Inr (results @ [(b, c)])
                 else recent_blocks_loop n limit (block_index - 1) (results @ [(b, c)])))))"
  by pat_completeness auto
termination
  by (relation "measure (\<lambda>(_, limit, _, results). unat limit - length results)") auto

declare recent_blocks_loop.simps [simp del]

definition get_recent_block_objects ::
    "node \<Rightarrow> u64 \<Rightarrow> ledger_service_error + (block \<times> block_contents) list" where
  "get_recent_block_objects n limit =
     rbind (map_err LS_LedgerDB (l_num_blocks (n_ledger n))) (\<lambda>num_blocks.
       if num_blocks = 0 then Inl (LS_InvalidArgument ''No blocks in ledger'')
       else recent_blocks_loop n limit (num_blocks - 1) [])"

definition contains_key_image :: "node \<Rightarrow> key_image \<Rightarrow> ledger_service_error + bool" where
  "contains_key_image n k = map_err LS_LedgerDB (l_contains_key_image (n_ledger n) k)"

subsection \<open>The network\<close>

text \<open>\<open>windows(2).any\<close>: two neighbours that differ in version or fees.\<close>

fun any_window :: "('a \<Rightarrow> 'a \<Rightarrow> bool) \<Rightarrow> 'a list \<Rightarrow> bool" where
  "any_window p (a # b # r) = (p a b \<or> any_window p (b # r))"
| "any_window p _ = False"

definition get_latest_block_info :: "node \<Rightarrow> ledger_service_error + block_info" where
  "get_latest_block_info n =
     (let last_block_infos = List.map_filter (\<lambda>r. r) (n_peer_block_infos n)
      in if any_window (\<lambda>a b. bi_network_block_version a \<noteq> bi_network_block_version b \<or>
              bi_minimum_fees a \<noteq> bi_minimum_fees b) last_block_infos
         then Inl LS_InconsistentLastBlockInfo
         else (case last_block_infos of [] \<Rightarrow> Inl LS_NoLastBlockInfo | i # _ \<Rightarrow> Inr i))"

definition get_network_fees :: "node \<Rightarrow> ledger_service_error + fee_map" where
  "get_network_fees n =
     rbind (get_latest_block_info n) (\<lambda>i. map_err LS_FeeMap (n_fee_map_try_from n (bi_minimum_fees i)))"

definition get_network_block_version :: "node \<Rightarrow> ledger_service_error + u32" where
  "get_network_block_version n =
     (if n_offline n then
        rbind (map_err LS_LedgerDB (l_num_blocks (n_ledger n))) (\<lambda>num_blocks.
          if num_blocks < 1 then Inl LS_NoLastBlockInfo
          else rbind (map_err LS_LedgerDB (n_get_block n (num_blocks - 1))) (\<lambda>b.
            map_err LS_BlockVersion (n_block_version_try_from n (blk_version b))))
      else rbind (get_latest_block_info n) (\<lambda>i.
        map_err LS_BlockVersion (n_block_version_try_from n (bi_network_block_version i))))"

subsection \<open>Outputs of the ledger\<close>

definition get_tx_out_proof_of_memberships ::
    "node \<Rightarrow> u64 list \<Rightarrow> ledger_service_error + membership_proof list" where
  "get_tx_out_proof_of_memberships n indices =
     map_err LS_LedgerDB (l_get_tx_out_proof_of_memberships (n_ledger n) indices)"

definition get_indices_from_txo_public_keys ::
    "node \<Rightarrow> compressed_public list \<Rightarrow> ledger_service_error + u64 list" where
  "get_indices_from_txo_public_keys n public_keys =
     map_err LS_LedgerDB
       (collect_results (l_get_tx_out_index_by_public_key (n_ledger n)) public_keys)"

text \<open>
  The random draws are a stream \<open>rng\<close>, already reduced to the range \<open>0..num_txos\<close>. The set of
  sampled indices is kept in the order of insertion; \<open>hash_order\<close> is the order in which the
  \<open>HashSet\<close> is read out. The loop need not end, hence an option: \<open>None\<close> is no result.
\<close>

partial_function (option) sample_loop ::
    "(nat \<Rightarrow> u64) \<Rightarrow> nat \<Rightarrow> u64 list \<Rightarrow> nat \<Rightarrow> u64 list \<Rightarrow> u64 list option" where
  [code]: "sample_loop rng num_mixins excluded i sampled =
     (if length sampled < num_mixins then
        (let index = rng i
         in if index \<in> set excluded then sample_loop rng num_mixins excluded (Suc i) sampled
            else sample_loop rng num_mixins excluded (Suc i)
              (if index \<in> set sampled then sampled else sampled @ [index]))
      else Some sampled)"

definition sample_mixins ::
    "node \<Rightarrow> (u64 \<Rightarrow> nat \<Rightarrow> u64) \<Rightarrow> (u64 list \<Rightarrow> u64 list) \<Rightarrow> nat \<Rightarrow> u64 list
      \<Rightarrow> (ledger_service_error + tx_out list \<times> membership_proof list) option" where
  "sample_mixins n rng hash_order num_mixins excluded_indices =
     (case l_num_txos (n_ledger n) of
       Inl e \<Rightarrow> Some (Inl (LS_LedgerDB e))
     | Inr num_txos \<Rightarrow>
         (if length excluded_indices > unat num_txos then
            Some (Inl (LS_InvalidArgument ''excluded_tx_out_indices exceeds amount of tx outs in ledger''))
          else if num_mixins > unat num_txos - length excluded_indices then
            Some (Inl LS_InsufficientTxOuts)
          else
            map_option (\<lambda>sampled.
              let sampled_indices_vec = hash_order sampled
              in rbind (map_err LS_LedgerDB
                   (l_get_tx_out_proof_of_memberships (n_ledger n) sampled_indices_vec)) (\<lambda>proofs.
                 rbind (map_err LS_LedgerDB
                   (collect_results (l_get_tx_out_by_index (n_ledger n)) sampled_indices_vec)) (\<lambda>tx_outs.
                   Inr (tx_outs, proofs))))
              (sample_loop (rng num_txos) num_mixins excluded_indices 0 [])))"

definition get_block_index_from_txo_public_key ::
    "node \<Rightarrow> compressed_public \<Rightarrow> ledger_service_error + u64" where
  "get_block_index_from_txo_public_key n public_key =
     rbind (map_err LS_LedgerDB (l_get_tx_out_index_by_public_key (n_ledger n) public_key)) (\<lambda>i.
       map_err LS_LedgerDB (l_get_block_index_by_tx_out_index (n_ledger n) i))"

definition get_tx_out_by_public_key ::
    "ledger_db \<Rightarrow> compressed_public \<Rightarrow> ledger_service_error + tx_out" where
  "get_tx_out_by_public_key l public_key =
     rbind (map_err LS_LedgerDB (l_get_tx_out_index_by_public_key l public_key)) (\<lambda>i.
       map_err LS_LedgerDB (l_get_tx_out_by_index l i))"

subsection \<open>Search\<close>

definition get_watcher_block_info :: "node \<Rightarrow> u64 \<Rightarrow> ext_error + watcher_block_info option" where
  "get_watcher_block_info n block_index =
     (case n_watcher n of
       Some w \<Rightarrow>
         rbind (w_get_block_timestamp w block_index) (\<lambda>(ts, code).
         rbind (w_get_block_signatures w block_index) (\<lambda>sigs.
           Inr (Some \<lparr>wbi_timestamp = ts, wbi_timestamp_result_code = code, wbi_signatures = sigs\<rparr>)))
     | None \<Rightarrow> Inr None)"

datatype ledger_search_result =
    SR_TxOut block block_contents u64 u64 "watcher_block_info option"
  | SR_KeyImage block block_contents u64 "watcher_block_info option"

text \<open>\<open>iter().position()\<close>.\<close>

fun position :: "('a \<Rightarrow> bool) \<Rightarrow> 'a list \<Rightarrow> nat option" where
  "position p [] = None"
| "position p (a # r) = (if p a then Some 0 else map_option Suc (position p r))"

definition search_ledger_by_tx_out_pub_key ::
    "node \<Rightarrow> bytes \<Rightarrow> ledger_service_error + ledger_search_result option" where
  "search_ledger_by_tx_out_pub_key n query_bytes =
     (case n_public_key_from_slice n query_bytes of
       Inl _ \<Rightarrow> Inr None
     | Inr public_key \<Rightarrow>
         (case l_get_tx_out_index_by_public_key (n_ledger n) public_key of
           Inl LedgerNotFound \<Rightarrow> Inr None
         | Inl e \<Rightarrow> Inl (LS_LedgerDB e)
         | Inr tx_out_global_index \<Rightarrow>
             rbind (map_err LS_LedgerDB
               (l_get_block_index_by_tx_out_index (n_ledger n) tx_out_global_index)) (\<lambda>block_index.
             rbind (map_err LS_LedgerDB (n_get_block n block_index)) (\<lambda>b.
             rbind (map_err LS_LedgerDB (l_get_block_contents (n_ledger n) block_index)) (\<lambda>c.
             rbind (ok_or LS_LedgerInconsistent
               (position (\<lambda>t. to_public_key t = public_key) (bc_outputs c))) (\<lambda>i.
             rbind (map_err LS_WatcherDb (get_watcher_block_info n block_index)) (\<lambda>w.
               Inr (Some (SR_TxOut b c (word_of_nat i) tx_out_global_index w)))))))))"

definition search_ledger_by_key_image ::
    "node \<Rightarrow> bytes \<Rightarrow> ledger_service_error + ledger_search_result option" where
  "search_ledger_by_key_image n query_bytes =
     (case n_key_image_from_slice n query_bytes of
       Inl _ \<Rightarrow> Inr None
     | Inr key_image \<Rightarrow>
         rbind (map_err LS_LedgerDB (l_check_key_image (n_ledger n) key_image)) (\<lambda>found.
           case found of
             None \<Rightarrow> Inr None
           | Some block_index \<Rightarrow>
               rbind (map_err LS_LedgerDB (n_get_block n block_index)) (\<lambda>b.
               rbind (map_err LS_LedgerDB (l_get_block_contents (n_ledger n) block_index)) (\<lambda>c.
               rbind (ok_or LS_LedgerInconsistent
                 (position (\<lambda>k. k = key_image) (bc_key_images c))) (\<lambda>i.
               rbind (map_err LS_WatcherDb (get_watcher_block_info n block_index)) (\<lambda>w.
                 Inr (Some (SR_KeyImage b c (word_of_nat i) w))))))))"

text \<open>The two header bytes of a protobuf-encoded key are stripped.\<close>

definition strip_proto_header :: "bytes \<Rightarrow> bytes" where
  "strip_proto_header query_bytes =
     (if length query_bytes = 34 \<and> query_bytes ! 0 = 0x0a \<and> query_bytes ! 1 = 0x20
      then drop 2 query_bytes else query_bytes)"

definition search_ledger :: "node \<Rightarrow> string \<Rightarrow> ledger_service_error + ledger_search_result list" where
  "search_ledger n query =
     (case n_hex_decode n query of
       Inl _ \<Rightarrow> Inr []
     | Inr bytes \<Rightarrow>
         (let query_bytes = strip_proto_header bytes
          in rbind (search_ledger_by_tx_out_pub_key n query_bytes) (\<lambda>r1.
             rbind (search_ledger_by_key_image n query_bytes) (\<lambda>r2.
               Inr ((case r1 of Some r \<Rightarrow> [r] | None \<Rightarrow> []) @ (case r2 of Some r \<Rightarrow> [r] | None \<Rightarrow> []))))))"

section \<open>Facts\<close>

text \<open>A node with the ledger of five blocks, two of whose three peers answer.\<close>

definition sample_block_info :: block_info where
  "sample_block_info = \<lparr>bi_block_index = 4, bi_network_block_version = 3, bi_minimum_fees = [(0, 400)]\<rparr>"

definition sample_node :: node where
  "sample_node = \<lparr>
     n_offline = False, n_ledger = sample_ledger,
     n_get_block = (\<lambda>i. if i < 5 then Inr \<lparr>blk_index = i, blk_version = 3\<rparr> else Inl LedgerNotFound),
     n_peer_block_infos = [Some sample_block_info, None, Some (sample_block_info\<lparr>bi_block_index := 3\<rparr>)],
     n_highest_block_index = Some 4, n_watcher = None,
     n_network_setup_config = \<lparr>nc_offline = False, nc_chain_id = ''test'', nc_peers = None, nc_tx_sources = None\<rparr>,
     n_fee_map_try_from = (\<lambda>fees. Inr (map_of fees)),
     n_block_version_try_from = (\<lambda>v. if v \<le> 3 then Inr v else Inl ''block version''),
     n_BLOCK_VERSION_MAX = 3,
     n_hex_decode = (\<lambda>s. Inr (map (\<lambda>c. of_nat (of_char c)) s)),
     n_public_key_from_slice = (\<lambda>b. Inr b), n_key_image_from_slice = (\<lambda>b. Inr b)\<rparr>"

lemma sample_node_ledger:
  "l_num_blocks (n_ledger sample_node) = Inr 5" "l_num_txos (n_ledger sample_node) = Inr 40"
  "l_get_tx_out_by_index (n_ledger sample_node) = (\<lambda>i. Inr sample_tx_out)"
  "l_get_tx_out_proof_of_memberships (n_ledger sample_node) = (\<lambda>is. Inr (map (\<lambda>i. [ucast i]) is))"
  by (simp_all add: sample_node_def sample_ledger_def)

subsection \<open>Ranges of blocks\<close>

text \<open>The block and the contents the ledger has at an index.\<close>

definition block_at :: "node \<Rightarrow> u64 \<Rightarrow> block \<times> block_contents \<Rightarrow> bool" where
  "block_at n i bc \<longleftrightarrow> n_get_block n i = Inr (fst bc) \<and> l_get_block_contents (n_ledger n) i = Inr (snd bc)"

lemma unat_saturating_add:
  "unat (saturating_add a b) = min (unat a + unat b) (2 ^ 64 - 1)"
proof (cases "unat a + unat b < 2 ^ 64")
  case True
  then have "unat (a + b) = unat a + unat b"
    by (simp add: unat_word_ariths)
  with True show ?thesis
    by (simp add: saturating_add_def word_less_nat_alt)
next
  case False
  have lt: "unat a < 2 ^ 64" "unat b < 2 ^ 64"
    using unsigned_less [where 'a = nat, of a] unsigned_less [where 'a = nat, of b] by simp_all
  have "unat (a + b) = (unat a + unat b) mod 2 ^ 64"
    by (simp add: unat_word_ariths)
  also have "\<dots> = unat a + unat b - 2 ^ 64"
    using False lt by (simp add: mod_if)
  finally have "a + b < a"
    using False lt by (simp add: word_less_nat_alt)
  with False show ?thesis
    by (simp add: saturating_add_def unsigned_minus_1_eq_mask mask_eq_exp_minus_1)
qed

lemma block_objects_loop_Inr:
  assumes "block_objects_loop n b e acc = Inr r" "unat b \<le> unat e"
  shows "\<exists>bs. r = acc @ bs \<and> length bs \<le> unat e - unat b \<and>
           (\<forall>i < length bs. block_at n (b + of_nat i) (bs ! i)) \<and>
           (length bs < unat e - unat b \<longrightarrow> n_get_block n (b + of_nat (length bs)) = Inl LedgerNotFound)"
  using assms
proof (induction n b e acc rule: block_objects_loop.induct)
  case (1 n b e acc)
  show ?case
  proof (cases "b < e")
    case False
    with 1 show ?thesis
      by (auto simp: block_objects_loop.simps [of n b e acc] word_less_nat_alt)
  next
    case less: True
    then have suc: "unat (b + 1) = Suc (unat b)" "unat b < unat e"
      by (auto simp: unat_succ word_less_nat_alt)
    show ?thesis
    proof (cases "n_get_block n b")
      case (Inl err)
      with 1(2) less show ?thesis
        by (cases err) (auto simp: block_objects_loop.simps [of n b e acc])
    next
      case blk: (Inr k)
      then obtain c where c: "l_get_block_contents (n_ledger n) b = Inr c"
          and rec: "block_objects_loop n (b + 1) e (acc @ [(k, c)]) = Inr r"
        using 1(2) less by (auto simp: block_objects_loop.simps [of n b e acc] split: sum.splits)
      obtain bs where bs: "r = acc @ (k, c) # bs" "length bs \<le> unat e - unat (b + 1)"
          "\<forall>i < length bs. block_at n (b + 1 + of_nat i) (bs ! i)"
          "length bs < unat e - unat (b + 1) \<longrightarrow> n_get_block n (b + 1 + of_nat (length bs)) = Inl LedgerNotFound"
        using 1(1) [OF less blk c rec] suc by auto
      have "\<forall>i < length ((k, c) # bs). block_at n (b + of_nat i) (((k, c) # bs) ! i)"
        using bs(3) blk c by (auto simp: block_at_def nth_Cons' less_Suc_eq_0_disj add.assoc)
      with bs suc show ?thesis
        by (intro exI [of _ "(k, c) # bs"]) (auto simp: add.assoc)
    qed
  qed
qed

text \<open>C40: a range of blocks. A successful request returns consecutive blocks with their contents,
  in order, from the first index asked for: never more than the limit (also when the end of the
  range saturates), and fewer only when the ledger has no block at the next index.\<close>

theorem get_block_objects_range:
  assumes "get_block_objects n first limit = Inr bs"
  shows "length bs \<le> unat limit \<and>
         (\<forall>i < length bs. block_at n (first + of_nat i) (bs ! i)) \<and>
         (length bs < min (unat limit) (2 ^ 64 - 1 - unat first)
           \<longrightarrow> n_get_block n (first + of_nat (length bs)) = Inl LedgerNotFound)"
proof -
  have "unat first \<le> 2 ^ 64 - 1"
    using unsigned_less [where 'a = nat, of first] by simp
  then show ?thesis
    using block_objects_loop_Inr [OF assms [unfolded get_block_objects_def]]
    by (auto simp: unat_saturating_add)
qed

theorem get_block_objects_range_witness:
  "\<exists>bs. get_block_objects sample_node 3 10 = Inr bs \<and> length bs = 2 \<and> length bs \<le> unat (10 :: u64) \<and>
        block_at sample_node 4 (bs ! 1) \<and> n_get_block sample_node 5 = Inl LedgerNotFound"
proof -
  have "is_ok (get_block_objects sample_node 3 10)"
       "map_sum id length (get_block_objects sample_node 3 10) = Inr 2"
    by code_simp+
  then obtain bs where bs: "get_block_objects sample_node 3 10 = Inr bs" "length bs = 2"
    by (cases "get_block_objects sample_node 3 10") auto
  have "length bs \<le> unat (10 :: u64) \<and> block_at sample_node (3 + of_nat 1) (bs ! 1) \<and>
        n_get_block sample_node (3 + of_nat (length bs)) = Inl LedgerNotFound"
    using get_block_objects_range [OF bs(1)] bs(2) by (auto elim: allE [of _ 1])
  with bs show ?thesis
    by simp
qed

lemma recent_blocks_loop_Inr:
  assumes "recent_blocks_loop n limit b acc = Inr r" "length acc \<le> unat limit"
  shows "\<exists>bs. r = acc @ bs \<and> length bs = min (unat limit - length acc) (Suc (unat b)) \<and>
           (\<forall>i < length bs. block_at n (b - of_nat i) (bs ! i))"
  using assms
proof (induction n limit b acc rule: recent_blocks_loop.induct)
  case (1 n limit b acc)
  show ?case
  proof (cases "length acc \<ge> unat limit")
    case True
    with 1 show ?thesis
      by (auto simp: recent_blocks_loop.simps [of n limit b acc])
  next
    case False
    then obtain k c where kc: "n_get_block n b = Inr k" "l_get_block_contents (n_ledger n) b = Inr c"
        and rec: "(if b = 0 then Inr (acc @ [(k, c)])
                   else recent_blocks_loop n limit (b - 1) (acc @ [(k, c)])) = Inr r"
      using 1(2) by (auto simp: recent_blocks_loop.simps [of n limit b acc] split: sum.splits)
    show ?thesis
    proof (cases "b = 0")
      case True
      with rec kc False show ?thesis
        by (intro exI [of _ "[(k, c)]"]) (auto simp: block_at_def)
    next
      case pos: False
      then have pred: "unat (b - 1) = unat b - 1" "0 < unat b"
        by (simp_all add: unat_minus_one unat_gt_0)
      obtain bs where bs: "r = acc @ (k, c) # bs"
          "length bs = min (unat limit - Suc (length acc)) (Suc (unat (b - 1)))"
          "\<forall>i < length bs. block_at n (b - 1 - of_nat i) (bs ! i)"
        using 1(1) [OF False kc pos] rec pos False by auto
      have "\<forall>i < length ((k, c) # bs). block_at n (b - of_nat i) (((k, c) # bs) ! i)"
        using bs(3) kc by (auto simp: block_at_def nth_Cons' less_Suc_eq_0_disj algebra_simps)
      with bs pred False show ?thesis
        by (intro exI [of _ "(k, c) # bs"]) auto
    qed
  qed
qed

text \<open>The most recent blocks. On a ledger with blocks, a successful request for \<open>limit\<close> blocks
  returns exactly the last \<open>limit\<close> blocks, or all of them when there are fewer, newest first; the
  downward counter never passes block 0.\<close>

theorem get_recent_block_objects_newest_first:
  assumes "l_num_blocks (n_ledger n) = Inr num" "get_recent_block_objects n limit = Inr bs"
  shows "length bs = min (unat limit) (unat num) \<and>
         (\<forall>i < length bs. block_at n (num - 1 - of_nat i) (bs ! i))"
proof -
  have "num \<noteq> 0" and run: "recent_blocks_loop n limit (num - 1) [] = Inr bs"
    using assms by (auto simp: get_recent_block_objects_def split: if_splits)
  then have "Suc (unat (num - 1)) = unat num"
    by (simp add: unat_minus_one unat_gt_0)
  then show ?thesis
    using recent_blocks_loop_Inr [OF run] by auto
qed

theorem get_recent_block_objects_newest_first_witness:
  "\<exists>bs. get_recent_block_objects sample_node 2 = Inr bs \<and> length bs = 2 \<and>
        block_at sample_node 4 (bs ! 0) \<and> block_at sample_node 3 (bs ! 1)"
proof -
  have "is_ok (get_recent_block_objects sample_node 2)"
    by code_simp
  then obtain bs where bs: "get_recent_block_objects sample_node 2 = Inr bs"
    by (cases "get_recent_block_objects sample_node 2") auto
  from get_recent_block_objects_newest_first [OF sample_node_ledger(1) bs] bs show ?thesis
    by (auto dest: spec [of _ 0] spec [of _ 1])
qed

subsection \<open>The network's block information\<close>

definition agree :: "block_info \<Rightarrow> block_info \<Rightarrow> bool" where
  "agree a b \<longleftrightarrow> bi_network_block_version a = bi_network_block_version b \<and> bi_minimum_fees a = bi_minimum_fees b"

lemma any_window_agree:
  "\<not> any_window (\<lambda>a b. \<not> agree a b) (a # r) \<longleftrightarrow> (\<forall>b \<in> set r. agree a b)"
proof (induction r arbitrary: a)
  case (Cons b r)
  then show ?case
    by (auto simp: agree_def)
qed simp

lemma set_map_filter_id: "set (List.map_filter (\<lambda>r. r) rs) = {i. Some i \<in> set rs}"
  by (induction rs) (auto simp: List.map_filter_simps split: option.splits)

text \<open>C39: agreement of the consensus nodes. Comparing neighbours only is enough: the service
  returns block information exactly when some node answered and all answers have the same block
  version and minimum fees; no answer gives \<open>NoLastBlockInfo\<close>, any disagreement
  \<open>InconsistentLastBlockInfo\<close>.\<close>

theorem get_latest_block_info_agreement:
  "(case get_latest_block_info n of
      Inr i \<Rightarrow> Some i \<in> set (n_peer_block_infos n) \<and>
               list_all (\<lambda>r. case r of None \<Rightarrow> True | Some j \<Rightarrow> agree i j) (n_peer_block_infos n)
    | Inl e \<Rightarrow>
        (if list_all (\<lambda>r. r = None) (n_peer_block_infos n) then e = LS_NoLastBlockInfo
         else e = LS_InconsistentLastBlockInfo \<and>
              (\<exists>i j. Some i \<in> set (n_peer_block_infos n) \<and> Some j \<in> set (n_peer_block_infos n) \<and> \<not> agree i j)))"
proof -
  define js where "js = List.map_filter (\<lambda>r. r) (n_peer_block_infos n)"
  have mem: "Some i \<in> set (n_peer_block_infos n) \<longleftrightarrow> i \<in> set js" for i
    by (simp add: js_def set_map_filter_id)
  have all: "list_all (\<lambda>r. case r of None \<Rightarrow> True | Some j \<Rightarrow> P j) (n_peer_block_infos n) \<longleftrightarrow> (\<forall>j \<in> set js. P j)" for P
    using mem by (fastforce simp: list_all_iff split: option.splits)
  have none: "list_all (\<lambda>r. r = None) (n_peer_block_infos n) \<longleftrightarrow> js = []"
    using all [of "\<lambda>_. False"] by (auto simp: list_all_iff split: option.splits)
  have eq: "get_latest_block_info n =
      (if any_window (\<lambda>a b. \<not> agree a b) js then Inl LS_InconsistentLastBlockInfo
       else case js of [] \<Rightarrow> Inl LS_NoLastBlockInfo | i # _ \<Rightarrow> Inr i)"
    by (simp add: get_latest_block_info_def js_def Let_def agree_def)
  show ?thesis
  proof (cases js)
    case Nil
    then show ?thesis
      by (simp add: eq none)
  next
    case (Cons a r)
    then show ?thesis
      using any_window_agree [of a r] by (auto simp: eq none all mem agree_def)
  qed
qed

subsection \<open>Mixins\<close>

lemma card_lessThan_word: "card {..<w :: u64} = unat w"
proof -
  have "unat ` {..<w} = {..<unat w}"
  proof (intro set_eqI iffI)
    fix m assume "m \<in> {..<unat w}"
    then have "unat (of_nat m :: u64) = m"
      using unsigned_less [where 'a = nat, of w] by (simp add: unat_of_nat take_bit_nat_eq_self)
    with \<open>m \<in> {..<unat w}\<close> show "m \<in> unat ` {..<w}"
      by (intro image_eqI [of _ _ "of_nat m"]) (simp_all add: word_less_nat_alt)
  qed (auto simp: word_less_nat_alt)
  then show ?thesis
    by (metis card_image card_lessThan inj_onI unsigned_word_eqI word_unat_eq_iff)
qed

lemma sample_loop_returns:
  fixes num :: u64
  assumes fair: "\<And>i. rng i < num" "\<And>j idx. idx < num \<Longrightarrow> \<exists>i \<ge> j. rng i = idx"
    and room: "length ex + k \<le> unat num"
    and acc: "length acc \<le> k" "distinct acc" "set acc \<subseteq> {..<num} - set ex"
  shows "\<exists>r. sample_loop rng k ex i acc = Some r \<and> length r = k \<and> distinct r \<and>
           set r \<subseteq> {..<num} - set ex"
  using acc
proof (induction "k - length acc" arbitrary: acc i rule: less_induct)
  case less
  show ?case
  proof (cases "length acc < k")
    case False
    with less.prems show ?thesis
      by (simp add: sample_loop.simps [of rng k ex i acc])
  next
    case short: True
    have "card (set ex \<union> set acc) < card {..<num}"
    proof -
      have "card (set ex \<union> set acc) \<le> length ex + length acc"
        by (meson add_mono card_Un_le card_length le_trans)
      also have "\<dots> < unat num"
        using short room by simp
      also have "unat num = card {..<num}"
        by (simp add: card_lessThan_word)
      finally show ?thesis .
    qed
    then obtain idx where idx: "idx < num" "idx \<notin> set ex \<union> set acc"
      by (metis card_mono finite_set finite_Un lessThan_iff not_le subsetI)
    obtain j where "j \<ge> i" "rng j = idx"
      using fair(2) idx(1) by blast
    then show ?thesis
    proof (induction "j - i" arbitrary: i)
      case 0
      with idx have "sample_loop rng k ex i acc = sample_loop rng k ex (Suc i) (acc @ [idx])"
        using short by (simp add: sample_loop.simps [of rng k ex i acc])
      with less.hyps [of "acc @ [idx]" "Suc i"] less.prems idx short show ?case
        by auto
    next
      case (Suc m)
      show ?case
      proof (cases "rng i \<in> set ex \<or> rng i \<in> set acc")
        case True
        then have "sample_loop rng k ex i acc = sample_loop rng k ex (Suc i) acc"
          using short by (auto simp: sample_loop.simps [of rng k ex i acc] Let_def)
        with Suc show ?thesis
          by simp
      next
        case False
        then have "sample_loop rng k ex i acc = sample_loop rng k ex (Suc i) (acc @ [rng i])"
          using short by (simp add: sample_loop.simps [of rng k ex i acc])
        with less.hyps [of "acc @ [rng i]" "Suc i"] less.prems False short fair(1) [of i] show ?thesis
          by auto
      qed
    qed
  qed
qed

lemma collect_results_map:
  "(\<And>a. a \<in> set xs \<Longrightarrow> f a = Inr (g a)) \<Longrightarrow> collect_results f xs = Inr (map g xs)"
  by (induction xs) auto

text \<open>Sampling mixins. When the ledger has enough outputs outside the excluded ones and the
  random generator draws every index again and again, sampling ends, and it returns the outputs and
  proofs of exactly \<open>num_mixins\<close> different indices of the ledger, none of them excluded, outputs and
  proofs in the same order.\<close>

theorem sample_mixins_returns:
  fixes num :: u64
  assumes num: "l_num_txos (n_ledger n) = Inr num"
    and room: "length excluded + num_mixins \<le> unat num"
    and range: "\<And>i. rng num i < num"
    and fair: "\<And>j idx. idx < num \<Longrightarrow> \<exists>i \<ge> j. rng num i = idx"
    and hash_order: "\<And>js. distinct js \<Longrightarrow> mset (hash_order js) = mset js"
    and outs: "\<And>idx. idx < num \<Longrightarrow> l_get_tx_out_by_index (n_ledger n) idx = Inr (out idx)"
    and proofs: "\<And>js. set js \<subseteq> {..<num} \<Longrightarrow>
                   l_get_tx_out_proof_of_memberships (n_ledger n) js = Inr (map prf js)"
  shows "\<exists>js. length js = num_mixins \<and> distinct js \<and> set js \<subseteq> {..<num} - set excluded \<and>
           sample_mixins n rng hash_order num_mixins excluded = Some (Inr (map out js, map prf js))"
proof -
  obtain r where r: "sample_loop (rng num) num_mixins excluded 0 [] = Some r"
      "length r = num_mixins" "distinct r" "set r \<subseteq> {..<num} - set excluded"
    using sample_loop_returns [of "rng num" num excluded num_mixins "[]" 0] range fair room by auto
  define js where "js = hash_order r"
  have "mset js = mset r"
    using hash_order r(3) by (simp add: js_def)
  then have js: "length js = num_mixins" "distinct js" "set js \<subseteq> {..<num} - set excluded"
    using mset_eq_length [of js r] mset_eq_imp_distinct_iff [of js r] mset_eq_setD [of js r] r by auto
  have "collect_results (l_get_tx_out_by_index (n_ledger n)) js = Inr (map out js)"
    using js(3) outs by (intro collect_results_map) auto
  moreover have "l_get_tx_out_proof_of_memberships (n_ledger n) js = Inr (map prf js)"
    using js(3) proofs by blast
  ultimately have "sample_mixins n rng hash_order num_mixins excluded = Some (Inr (map out js, map prf js))"
    using num room r(1) by (simp add: sample_mixins_def js_def [symmetric] Let_def)
  with js show ?thesis
    by blast
qed

theorem sample_mixins_returns_witness:
  "\<exists>js :: u64 list. length js = 3 \<and> distinct js \<and> set js \<subseteq> {..<40} - {0, 2} \<and>
        sample_mixins sample_node (\<lambda>num i. of_nat (i mod unat num)) rev 3 [0, 2]
          = Some (Inr (map (\<lambda>_. sample_tx_out) js, map (\<lambda>i. [ucast i]) js))"
proof -
  have draw: "unat (of_nat (i mod 40) :: u64) = i mod 40" for i
    by (simp add: unat_of_nat take_bit_nat_eq_self)
  have again: "\<exists>i \<ge> j. (of_nat (i mod 40) :: u64) = idx" if "idx < 40" for j idx
    using that by (intro exI [of _ "j * 40 + unat idx"])
      (simp add: word_unat_eq_iff draw word_less_nat_alt)
  have bound: "of_nat (i mod unat (40 :: u64)) < (40 :: u64)" for i
    by (simp add: word_less_nat_alt draw)
  have "\<exists>js :: u64 list. length js = 3 \<and> distinct js \<and> set js \<subseteq> {..<40} - set [0, 2] \<and>
        sample_mixins sample_node (\<lambda>num i. of_nat (i mod unat num)) rev 3 [0, 2]
          = Some (Inr (map (\<lambda>_. sample_tx_out) js, map (\<lambda>i. [ucast i]) js))"
  proof (rule sample_mixins_returns [OF sample_node_ledger(2)])
    show "of_nat (i mod unat (40 :: u64)) < (40 :: u64)" for i
      by (rule bound)
    show "\<exists>i \<ge> j. (of_nat (i mod unat (40 :: u64)) :: u64) = idx" if "idx < 40" for j idx
      using again [OF that, of j] by simp
  qed (simp_all add: sample_node_ledger)
  then show ?thesis
    by simp
qed

end
