(* ===== verification/Hardware_Wallet.thy ===== *)
theory Hardware_Wallet
  imports Tx_Proposal
begin

section \<open>Hardware wallets\<close>

text \<open>
  \<open>service/hardware_wallet.rs\<close>: reading keys and key images from a hardware wallet and signing a
  proposal with it. The devices and their answers come from the \<open>ledger_mob\<close> crate and are the
  record \<open>hardware\<close>.
\<close>

record view_subaddress =
  vs_view_private :: private_key
  vs_view_public :: ristretto_public
  vs_spend_public :: ristretto_public

record view_account =
  va_view_private :: private_key
  va_spend_public :: ristretto_public

record txo_synced =
  ts_tx_out_public_key :: ristretto_public
  ts_key_image :: key_image

record device =
  dv_account_keys :: "ext_error + view_account"
  dv_subaddress_keys :: "u64 \<Rightarrow> ext_error + view_subaddress"
  dv_key_image :: "u64 \<Rightarrow> ristretto_public \<Rightarrow> ext_error + key_image"
  dv_transaction :: "unsigned_tx \<Rightarrow> ext_error + tx \<times> txo_synced list"

record hardware =
  hw_list :: "ext_error + bytes list"
  hw_connect :: "bytes \<Rightarrow> ext_error + device"
  hw_vk_spend_public_key :: "view_account_key \<Rightarrow> ristretto_public"

datatype hardware_error =
    HW_NoHardwareWalletsFound
  | HW_LedgerMob ext_error
  | HW_PresignedRingsNotSupported
  | HW_KeyImageNotFoundForSignedInput
  | HW_RingCT ext_error
  | HW_CryptoKeys ext_error
  | HW_CredentialMismatch

definition get_device_handle :: "hardware \<Rightarrow> hardware_error + device" where
  "get_device_handle hw =
     rbind (map_err HW_LedgerMob (hw_list hw)) (\<lambda>devices.
     rbind (case devices of [] \<Rightarrow> Inl HW_NoHardwareWalletsFound | d # _ \<Rightarrow> Inr d) (\<lambda>d.
       map_err HW_LedgerMob (hw_connect hw d)))"

definition credentials_match :: "externals \<Rightarrow> hardware \<Rightarrow> view_account \<Rightarrow> view_account_key \<Rightarrow> bool" where
  "credentials_match x hw device_keys view_account \<longleftrightarrow>
     va_view_private device_keys = x_vk_view_private_key x view_account \<and>
     va_spend_public device_keys = hw_vk_spend_public_key hw view_account"

definition sync_txos ::
    "externals \<Rightarrow> hardware \<Rightarrow> (tx_out \<times> u64) list \<Rightarrow> view_account_key \<Rightarrow> hardware_error + txo_synced list" where
  "sync_txos x hw unsynced_txos view_account =
     rbind (get_device_handle hw) (\<lambda>handle.
     rbind (map_err HW_LedgerMob (dv_account_keys handle)) (\<lambda>device_keys.
       if \<not> credentials_match x hw device_keys view_account then Inl HW_CredentialMismatch
       else
         collect_results (\<lambda>(t, subaddress_index).
           rbind (map_err HW_CryptoKeys (x_ristretto_try_from x (to_public_key t))) (\<lambda>tx_public_key.
           rbind (map_err HW_LedgerMob (dv_key_image handle subaddress_index tx_public_key)) (\<lambda>key_image.
             Inr \<lparr>ts_tx_out_public_key = tx_public_key, ts_key_image = key_image\<rparr>))) unsynced_txos))"

definition get_view_only_account_keys :: "hardware \<Rightarrow> hardware_error + view_account" where
  "get_view_only_account_keys hw =
     rbind (get_device_handle hw) (\<lambda>handle. map_err HW_LedgerMob (dv_account_keys handle))"

definition get_view_only_subaddress_keys :: "hardware \<Rightarrow> u64 \<Rightarrow> hardware_error + view_subaddress" where
  "get_view_only_subaddress_keys hw subaddress_index =
     rbind (get_device_handle hw) (\<lambda>handle.
       map_err HW_LedgerMob (dv_subaddress_keys handle subaddress_index))"

definition signed_input ::
    "externals \<Rightarrow> txo_synced list \<Rightarrow> unsigned_input_txo \<Rightarrow> hardware_error + input_txo" where
  "signed_input x txos_synced txo =
     rbind (map_err HW_CryptoKeys (x_ristretto_try_from x (to_public_key (uin_tx_out txo)))) (\<lambda>k.
     rbind (ok_or HW_KeyImageNotFoundForSignedInput
        (find (\<lambda>t. ts_tx_out_public_key t = k) txos_synced)) (\<lambda>synced.
       Inr \<lparr>in_tx_out = uin_tx_out txo, in_subaddress_index = uin_subaddress_index txo,
            in_key_image = ts_key_image synced, in_amount = uin_amount txo\<rparr>))"

definition sign_tx_proposal ::
    "externals \<Rightarrow> hardware \<Rightarrow> unsigned_tx_proposal \<Rightarrow> view_account_key \<Rightarrow> hardware_error + tx_proposal" where
  "sign_tx_proposal x hw p view_account =
     rbind (get_device_handle hw) (\<lambda>handle.
     rbind (map_err HW_LedgerMob (dv_account_keys handle)) (\<lambda>device_keys.
       if \<not> credentials_match x hw device_keys view_account then Inl HW_CredentialMismatch
       else
         rbind (map_err HW_LedgerMob (dv_transaction handle (utp_unsigned_tx p))) (\<lambda>(t, txos_synced).
         rbind (collect_results (signed_input x txos_synced) (utp_unsigned_input_txos p)) (\<lambda>input_txos.
           Inr \<lparr>tp_tx = t, tp_input_txos = input_txos, tp_payload_txos = utp_payload_txos p,
                tp_change_txos = utp_change_txos p\<rparr>))))"

subsection \<open>Lemmas\<close>

lemma signed_input_Inr: "signed_input x synced u = Inr i \<Longrightarrow> same_input u i"
  by (auto simp: signed_input_def rbind_eq_Inr)

end
