(* ===== verification/Account_Service.thy ===== *)
theory Account_Service
  imports Account_Facts Wallet_Db Ledger_Service Hardware_Wallet
begin

section \<open>The account service\<close>

text \<open>
  \<open>service/account.rs\<close>. Every operation is an action on the wallet database; what it takes from
  the running service (the ledger, the network, whether the service is offline) is the record
  \<open>node\<close>. An \<open>exclusive_transaction\<close> is modelled by the attempt that gets the lock,
  \<open>transaction\<close>. Functions of the key crates that only this service uses are the record
  \<open>account_ext\<close>.
\<close>

record account_ext =
  ax_mnemonic_from_phrase :: "string \<Rightarrow> ext_error + bytes"
  ax_hex_decode_32 :: "string \<Rightarrow> ext_error + bytes"
  ax_view_account_key_new :: "private_key \<Rightarrow> ristretto_public \<Rightarrow> view_account_key"
  ax_spend_private_key :: "account_key \<Rightarrow> private_key"
  ax_public_from_private :: "private_key \<Rightarrow> ristretto_public"
  ax_private_bytes :: "private_key \<Rightarrow> bytes"
  ax_sign_authority :: "private_key \<Rightarrow> bytes \<Rightarrow> ext_error + bytes"
  ax_public_address_new_with_fog ::
    "ristretto_public \<Rightarrow> ristretto_public \<Rightarrow> string \<Rightarrow> string \<Rightarrow> bytes \<Rightarrow> public_address"

datatype account_service_error =
    AS_Database wallet_db_error
  | AS_LedgerDB ledger_error
  | AS_HexDecode ext_error
  | AS_Diesel diesel_error
  | AS_LedgerService ledger_service_error
  | AS_UnknownKeyDerivation u8
  | AS_InvalidMnemonic string
  | AS_Base64DecodeError string
  | AS_DecodePrivateKeyError string
  | AS_AccountIsViewOnly string
  | AS_AccountIsNotViewOnly string
  | AS_InvalidJsonRPCRequest
  | AS_Key ext_error
  | AS_HardwareWalletService hardware_error
  | AS_Panic

type_synonym 'a account_action = "(db, account_service_error, 'a) action"

abbreviation adb :: "'a db_action \<Rightarrow> 'a account_action" where
  "adb \<equiv> smap_err AS_Database"

abbreviation apure :: "account_service_error + 'a \<Rightarrow> 'a account_action" where
  "apure r \<equiv> sread (\<lambda>_. r)"

subsection \<open>Creating and importing\<close>

definition create_account ::
    "externals \<Rightarrow> node \<Rightarrow> bytes \<Rightarrow> string option \<Rightarrow> string \<Rightarrow> string \<Rightarrow> bool \<Rightarrow> account account_action" where
  "create_account x n mnemonic name fog_report_url fog_authority_spki require_spend_subaddress =
     sbind (apure (map_err AS_LedgerDB (l_num_blocks (n_ledger n)))) (\<lambda>local_block_height.
     sbind (if n_offline n then sreturn local_block_height
            else apure (map_err AS_LedgerService (get_network_block_height n))) (\<lambda>network_block_height.
       transaction (adb
         (sbind (Account_create_from_mnemonic x mnemonic (Some network_block_height)
            (Some local_block_height) None (case name of None \<Rightarrow> [] | Some s \<Rightarrow> s) fog_report_url
            fog_authority_spki require_spend_subaddress) (\<lambda>(account_id, _).
          sread (Account_get account_id))))))"

definition import_account ::
    "externals \<Rightarrow> account_ext \<Rightarrow> node \<Rightarrow> string \<Rightarrow> string option \<Rightarrow> u64 option \<Rightarrow> u64 option \<Rightarrow> string
      \<Rightarrow> string \<Rightarrow> bool \<Rightarrow> account account_action" where
  "import_account x ax n mnemonic_phrase name first_block_index next_subaddress_index fog_report_url
      fog_authority_spki require_spend_subaddress =
     (case ax_mnemonic_from_phrase ax mnemonic_phrase of
       Inl _ \<Rightarrow> sraise (AS_InvalidMnemonic mnemonic_phrase)
     | Inr mnemonic \<Rightarrow>
         sbind (apure (map_err AS_LedgerDB (l_num_blocks (n_ledger n)))) (\<lambda>num_blocks.
           transaction (adb
             (Account_import x mnemonic name (num_blocks - 1) first_block_index next_subaddress_index
                fog_report_url fog_authority_spki require_spend_subaddress))))"

definition import_account_from_legacy_root_entropy ::
    "externals \<Rightarrow> account_ext \<Rightarrow> node \<Rightarrow> string \<Rightarrow> string option \<Rightarrow> u64 option \<Rightarrow> u64 option \<Rightarrow> string
      \<Rightarrow> string \<Rightarrow> bool \<Rightarrow> account account_action" where
  "import_account_from_legacy_root_entropy x ax n entropy name first_block_index
      next_subaddress_index fog_report_url fog_authority_spki require_spend_subaddress =
     sbind (apure (map_err AS_HexDecode (ax_hex_decode_32 ax entropy))) (\<lambda>entropy_bytes.
     sbind (apure (map_err AS_LedgerDB (l_num_blocks (n_ledger n)))) (\<lambda>num_blocks.
       transaction (adb
         (Account_import_legacy x entropy_bytes name (num_blocks - 1) first_block_index
            next_subaddress_index fog_report_url fog_authority_spki require_spend_subaddress))))"

definition import_view_only_account ::
    "externals \<Rightarrow> account_ext \<Rightarrow> node \<Rightarrow> private_key \<Rightarrow> ristretto_public \<Rightarrow> string option \<Rightarrow> u64 option
      \<Rightarrow> u64 option \<Rightarrow> bool \<Rightarrow> account account_action" where
  "import_view_only_account x ax n view_private_key spend_public_key name first_block_index
      next_subaddress_index require_spend_subaddress =
     sbind (apure (map_err AS_LedgerDB (l_num_blocks (n_ledger n)))) (\<lambda>num_blocks.
       transaction (adb
         (Account_import_view_only x (ax_view_account_key_new ax view_private_key spend_public_key) name
            (num_blocks - 1) first_block_index next_subaddress_index False require_spend_subaddress)))"

text \<open>\<open>get_public_fog_address\<close> unwraps the signature; a failure is a panic.\<close>

definition get_public_fog_address ::
    "account_ext \<Rightarrow> view_subaddress \<Rightarrow> string \<Rightarrow> bytes \<Rightarrow> account_service_error + public_address" where
  "get_public_fog_address ax subaddress_keys fog_report_url fog_authority_spki_bytes =
     (case ax_sign_authority ax (vs_view_private subaddress_keys) fog_authority_spki_bytes of
       Inl _ \<Rightarrow> Inl AS_Panic
     | Inr sig \<Rightarrow> Inr (ax_public_address_new_with_fog ax (vs_spend_public subaddress_keys)
         (vs_view_public subaddress_keys) fog_report_url [] sig))"

definition import_view_only_account_from_hardware_wallet ::
    "externals \<Rightarrow> account_ext \<Rightarrow> hardware \<Rightarrow> node \<Rightarrow> string option \<Rightarrow> u64 option
      \<Rightarrow> (string \<times> string) option \<Rightarrow> bool \<Rightarrow> account account_action" where
  "import_view_only_account_from_hardware_wallet x ax hw n name first_block_index fog_info
      require_spend_subaddress =
     sbind (apure (map_err AS_HardwareWalletService (get_view_only_account_keys hw))) (\<lambda>view_account.
     sbind (apure (map_err AS_LedgerDB (l_num_blocks (n_ledger n)))) (\<lambda>num_blocks.
       (let view_account_keys = ax_view_account_key_new ax (va_view_private view_account)
              (va_spend_public view_account)
        in case fog_info of
          Some (report_url, authority_spki) \<Rightarrow>
            sbind (apure (map_err AS_Base64DecodeError (x_base64_decode x authority_spki))) (\<lambda>spki.
            sbind (apure (map_err AS_HardwareWalletService
              (get_view_only_subaddress_keys hw (x_DEFAULT_SUBADDRESS_INDEX x)))) (\<lambda>default_subaddress_keys.
            sbind (apure (get_public_fog_address ax default_subaddress_keys report_url spki))
              (\<lambda>default_public_address.
                transaction (adb
                  (Account_import_view_only_from_hardware_wallet_with_fog x view_account_keys name
                     (num_blocks - 1) first_block_index default_public_address
                     require_spend_subaddress)))))
        | None \<Rightarrow>
            transaction (adb
              (Account_import_view_only x view_account_keys name (num_blocks - 1) first_block_index
                 None True False)))))"

subsection \<open>Reading and updating\<close>

definition resync_account :: "string \<Rightarrow> unit account_action" where
  "resync_account account_id =
     adb (sbind (sread (Account_get account_id)) (\<lambda>a.
       Account_update_next_block_index a (acct_first_block_index a)))"

text \<open>The request \<open>import_view_only_account\<close>; the numbers are written in decimal, the first block
  index as a signed number.\<close>

record import_view_only_request =
  ir_view_private_key :: string
  ir_spend_public_key :: string
  ir_name :: "string option"
  ir_first_block_index :: "string option"
  ir_next_subaddress_index :: "string option"
  ir_require_spend_subaddress :: bool

definition show_i64 :: "i64 \<Rightarrow> string" where
  "show_i64 w = (if sint w < 0 then CHR 0x2D # show_nat (nat (- sint w)) else show_nat (nat (sint w)))"

definition get_view_only_account_import_request ::
    "externals \<Rightarrow> account_ext \<Rightarrow> string \<Rightarrow> db \<Rightarrow> account_service_error + import_view_only_request" where
  "get_view_only_account_import_request x ax account_id d =
     rbind (map_err AS_Database (Account_get account_id d)) (\<lambda>a.
       if acct_view_only a then Inl (AS_AccountIsViewOnly account_id)
       else
         rbind (map_err AS_DecodePrivateKeyError (x_decode_account_key x (acct_account_key a))) (\<lambda>k.
         rbind (map_err AS_Database (Account_next_subaddress_index a d)) (\<lambda>next.
           Inr \<lparr>ir_view_private_key = x_hex_encode x (ax_private_bytes ax (x_view_private_key x k)),
                ir_spend_public_key = x_hex_encode x (x_ristretto_bytes x
                  (ax_public_from_private ax (ax_spend_private_key ax k))),
                ir_name = Some (acct_name a),
                ir_first_block_index = Some (show_i64 (acct_first_block_index a)),
                ir_next_subaddress_index = Some (show_u64 next),
                ir_require_spend_subaddress = acct_require_spend_subaddress a\<rparr>)))"

definition list_accounts :: "u64 option \<Rightarrow> u64 option \<Rightarrow> db \<Rightarrow> account_service_error + account list" where
  "list_accounts offset limit d = map_err AS_Database (Account_list_all offset limit d)"

definition get_account :: "string \<Rightarrow> db \<Rightarrow> account_service_error + account" where
  "get_account account_id d = map_err AS_Database (Account_get account_id d)"

definition get_next_subaddress_index_for_account :: "string \<Rightarrow> db \<Rightarrow> account_service_error + u64" where
  "get_next_subaddress_index_for_account account_id d =
     rbind (map_err AS_Database (Account_get account_id d)) (\<lambda>a.
       map_err AS_Database (Account_next_subaddress_index a d))"

definition update_account_name :: "string \<Rightarrow> string \<Rightarrow> account account_action" where
  "update_account_name account_id name =
     adb (sbind (sread (Account_get account_id)) (\<lambda>a.
       sthen (Account_update_name a name) (sread (Account_get account_id))))"

definition update_require_spend_subaddress :: "string \<Rightarrow> bool \<Rightarrow> account account_action" where
  "update_require_spend_subaddress account_id b =
     adb (sbind (sread (Account_get account_id)) (\<lambda>a.
       sthen (Account_update_require_spend_subaddress a b) (sread (Account_get account_id))))"

definition sync_txo :: "externals \<Rightarrow> node \<Rightarrow> txo_synced \<Rightarrow> unit account_action" where
  "sync_txo x n synced_txo =
     sbind (apure (map_err AS_LedgerDB (l_check_key_image (n_ledger n) (ts_key_image synced_txo))))
       (\<lambda>spent_block_index.
         adb (Txo_update_key_image_by_pubkey x (x_compressed_from x (ts_tx_out_public_key synced_txo))
           (ts_key_image synced_txo) spent_block_index))"

definition sync_account :: "externals \<Rightarrow> node \<Rightarrow> string \<Rightarrow> txo_synced list \<Rightarrow> unit account_action" where
  "sync_account x n account_id synced_txos =
     sbind (adb (sread (Account_get account_id))) (\<lambda>a.
       if \<not> acct_view_only a then sraise (AS_AccountIsNotViewOnly account_id)
       else sfor synced_txos (sync_txo x n))"

definition remove_account :: "string \<Rightarrow> bool account_action" where
  "remove_account account_id =
     transaction (adb (sbind (sread (Account_get account_id)) (\<lambda>a.
       sthen (Account_delete a) (sreturn True))))"

text \<open>The wallet database is absent when the service runs without wallet functions.\<close>

definition get_pooled_conn :: "db option \<Rightarrow> wallet_db_error + db" where
  "get_pooled_conn wallet_db = ok_or WalletFunctionsDisabled wallet_db"

definition resync_in_progress :: "db option \<Rightarrow> account_service_error + bool" where
  "resync_in_progress wallet_db =
     (case get_pooled_conn wallet_db of
       Inl WalletFunctionsDisabled \<Rightarrow> Inr False
     | Inl err \<Rightarrow> Inl (AS_Database err)
     | Inr d \<Rightarrow> map_err AS_Database (Account_resync_in_progress d))"

end
