(* ===== verification/Txo_Select.thy ===== *)
theory Txo_Select
  imports Txo_Facts Samples
begin

section \<open>Input selection\<close>

text \<open>
  \<open>list_spendable\<close> and \<open>select_spendable_txos_for_value\<close> of \<open>db/txo.rs\<close>: the candidates for
  the inputs of a transaction, and the sliding window of at most \<open>MAX_INPUTS\<close> txos, from the
  smallest up, whose sum first reaches the target. The \<open>u128\<close> sums are natural numbers; the
  one addition that can leave that range has its wrap-around written out.
\<close>

record spendable_txos_result =
  str_spendable_txos :: "txo list"
  str_max_spendable_in_wallet :: nat

definition txo_val :: "txo \<Rightarrow> nat" where
  "txo_val t = unat (txo_value t)"

definition vsum :: "txo list \<Rightarrow> nat" where
  "vsum ts = sum_list (map txo_val ts)"

definition Txo_list_spendable ::
    "externals \<Rightarrow> string option \<Rightarrow> u64 option \<Rightarrow> string option \<Rightarrow> u64 \<Rightarrow> u64
      \<Rightarrow> spendable_txos_result db_read" where
  "Txo_list_spendable x account_id_hex max_spendable_value subaddress_b58 token_id default_token_fee d =
     rbind (resolve_subaddress subaddress_b58 d) (\<lambda>subaddress.
       let rows = sql_distinct (map (fst \<circ> fst)
             (sql_where (\<lambda>((t, i), l). sql_all
                [no_live_log l,
                 is_not_null (txo_received_block_index t),
                 is_null (txo_spent_block_index t),
                 is_not_null (txo_subaddress_index t),
                 sql_eq (Some (txo_token_id t)) (Some token_id),
                 Txo_arg_conds account_id_hex subaddress None None None t])
              (txos_input_logs d)));
           kept = filter (\<lambda>t. txo_value t \<le>
             (case max_spendable_value of None \<Rightarrow> - 1 | Some m \<Rightarrow> m)) rows;
           spendable_txos = sort_key (\<lambda>t. - uint (txo_value t)) kept;
           tot = vsum (take (unat (x_MAX_INPUTS x)) spendable_txos)
       in Inr \<lparr>str_spendable_txos = spendable_txos,
               str_max_spendable_in_wallet =
                 (if tot > unat default_token_fee then tot - unat default_token_fee else 0)\<rparr>)"

text \<open>The selection loop: \<open>pop\<close> takes the last (smallest) candidate, \<open>push\<close> appends it, and past
  \<open>MAX_INPUTS\<close> the first (smallest) selected txo is removed.\<close>

function select_loop :: "nat \<Rightarrow> nat \<Rightarrow> txo list \<Rightarrow> txo list \<Rightarrow> nat \<Rightarrow> wallet_db_error + txo list" where
  "select_loop max_inputs target spendable selected tot =
     (if tot \<ge> target then Inr selected
      else if spendable = [] then
        Inl (InsufficientFunds (''Not enough Txos to sum to target value: '' @ show_nat target))
      else
        (let next_utxo = last spendable;
             selected' = selected @ [next_utxo];
             tot' = tot + txo_val next_utxo
         in if length selected' > max_inputs then
              select_loop max_inputs target (butlast spendable) (tl selected')
                (tot' - txo_val (hd selected'))
            else select_loop max_inputs target (butlast spendable) selected' tot'))"
  by pat_completeness auto

termination select_loop
  by (relation "measure (\<lambda>(_, _, spendable, _, _). length spendable)") auto

declare select_loop.simps [simp del]

definition Txo_select_spendable_txos_for_value ::
    "externals \<Rightarrow> string \<Rightarrow> nat \<Rightarrow> u64 option \<Rightarrow> string option \<Rightarrow> u64 \<Rightarrow> u64 \<Rightarrow> txo list db_read" where
  "Txo_select_spendable_txos_for_value x account_id_hex target_value max_spendable_value
      subaddress_b58 token_id default_token_fee d =
     rbind (Txo_list_spendable x (Some account_id_hex) max_spendable_value subaddress_b58
              token_id default_token_fee d) (\<lambda>res.
       let spendable_txos = str_spendable_txos res;
           max_spendable = str_max_spendable_in_wallet res
       in if spendable_txos = [] then Inl (NoSpendableTxos (show_u64 token_id))
          else if target_value > max_spendable + unat default_token_fee then
            (if vsum spendable_txos \<ge> (target_value + unat default_token_fee) mod 2 ^ 128 then
               Inl InsufficientFundsFragmentedTxos
             else Inl (InsufficientFundsUnderMaxSpendable
               (''Max spendable value in wallet: '' @ show_nat max_spendable @
                '', but target value: '' @ show_nat target_value)))
          else
            rbind (select_loop (unat (x_MAX_INPUTS x)) target_value spendable_txos [] 0) (\<lambda>selected.
              if selected = [] \<or> length selected > unat (x_MAX_INPUTS x) then
                Inl (InsufficientFunds
                  ''Logic error. Could not select Txos despite having sufficient funds'')
              else Inr selected))"

subsection \<open>The candidates\<close>

definition eligible ::
    "db \<Rightarrow> string option \<Rightarrow> assigned_subaddress option \<Rightarrow> u64 option \<Rightarrow> u64 \<Rightarrow> txo \<Rightarrow> bool" where
  "eligible d acct sub cap token t \<longleftrightarrow>
     t \<in> set (db_txos d) \<and> logs_allow_spend d t \<and> txo_received_block_index t \<noteq> None \<and>
     txo_spent_block_index t = None \<and> txo_subaddress_index t \<noteq> None \<and> txo_token_id t = token \<and>
     txo_matches acct sub None None None t \<and> (\<forall>m. cap = Some m \<longrightarrow> txo_value t \<le> m)"

lemma eligible_code [code]:
  "eligible d acct sub cap token t \<longleftrightarrow>
     t \<in> set (db_txos d) \<and> logs_allow_spend d t \<and> txo_received_block_index t \<noteq> None \<and>
     txo_spent_block_index t = None \<and> txo_subaddress_index t \<noteq> None \<and> txo_token_id t = token \<and>
     txo_matches acct sub None None None t \<and> (case cap of None \<Rightarrow> True | Some m \<Rightarrow> txo_value t \<le> m)"
  by (cases cap) (simp_all add: eligible_def)

definition spendable_list ::
    "db \<Rightarrow> string option \<Rightarrow> assigned_subaddress option \<Rightarrow> u64 option \<Rightarrow> u64 \<Rightarrow> txo list" where
  "spendable_list d acct sub cap token =
     sort_key (\<lambda>t. - uint (txo_value t)) (filter (eligible d acct sub cap token) (db_txos d))"

lemma list_spendable_eq:
  assumes "db_ok d" and "resolve_subaddress b58 d = Inr sub"
  shows "Txo_list_spendable x acct cap b58 token fee d =
     (let ts = spendable_list d acct sub cap token;
          tot = vsum (take (unat (x_MAX_INPUTS x)) ts)
      in Inr \<lparr>str_spendable_txos = ts, str_max_spendable_in_wallet = tot - unat fee\<rparr>)"
proof -
  have "filter (\<lambda>t. txo_value t \<le> (case cap of None \<Rightarrow> - 1 | Some m \<Rightarrow> m))
          (filter (\<lambda>t. logs_allow_spend d t \<and> (\<forall>c \<in> set
             [is_not_null (txo_received_block_index t), is_null (txo_spent_block_index t),
              is_not_null (txo_subaddress_index t), sql_eq (Some (txo_token_id t)) (Some token),
              Txo_arg_conds acct sub None None None t]. sql_holds c)) (db_txos d))
        = filter (eligible d acct sub cap token) (db_txos d)"
    by (auto simp: eligible_def filter_filter intro!: filter_cong split: option.splits)
  then show ?thesis
    using assms(2) select_txos_input_logs [OF assms(1), where C = "\<lambda>t.
             [is_not_null (txo_received_block_index t), is_null (txo_spent_block_index t),
              is_not_null (txo_subaddress_index t), sql_eq (Some (txo_token_id t)) (Some token),
              Txo_arg_conds acct sub None None None t]"]
    by (simp add: Txo_list_spendable_def spendable_list_def Let_def)
qed

lemma set_spendable_list: "set (spendable_list d acct sub cap token) = {t. eligible d acct sub cap token t}"
  by (auto simp: spendable_list_def eligible_def)

lemma distinct_spendable_list: "db_ok d \<Longrightarrow> distinct (spendable_list d acct sub cap token)"
  by (simp add: spendable_list_def txos_table.distinct_rows)

lemma txo_val_le_iff: "txo_val a \<le> txo_val b \<longleftrightarrow> - uint (txo_value b) \<le> - uint (txo_value a)"
  by (simp add: txo_val_def word_le_nat_alt [symmetric] word_le_def)

lemma sorted_rev_spendable_list: "sorted (map txo_val (rev (spendable_list d acct sub cap token)))"
proof -
  have "sorted (map (\<lambda>t. - uint (txo_value t)) (spendable_list d acct sub cap token))"
    unfolding spendable_list_def by (rule sorted_sort_key)
  then show ?thesis
    by (simp only: sorted_map sorted_wrt_rev txo_val_le_iff)
qed

subsection \<open>The loop as a search for the first window\<close>

text \<open>\<open>window m k xs\<close>: the last \<open>m\<close> of the first \<open>k\<close> elements.\<close>

definition window :: "nat \<Rightarrow> nat \<Rightarrow> 'a list \<Rightarrow> 'a list" where
  "window m k xs = drop (k - m) (take k xs)"

definition windows :: "nat \<Rightarrow> 'a list \<Rightarrow> 'a list list" where
  "windows m xs = map (\<lambda>k. window m k xs) [0..<Suc (length xs)]"

lemma vsum_simps [simp]:
  "vsum [] = 0" "vsum (t # ts) = txo_val t + vsum ts" "vsum (ts @ us) = vsum ts + vsum us"
  "vsum (rev ts) = vsum ts"
  by (simp_all add: vsum_def rev_map [symmetric])

lemma window_Suc:
  assumes "k < length xs"
  shows "window m (Suc k) xs =
           (let w = window m k xs @ [xs ! k] in if length w > m then tl w else w)"
proof -
  have w: "window m k xs @ [xs ! k] = drop (k - m) (take (Suc k) xs)"
    using assms by (simp add: window_def take_Suc_conv_app_nth)
  have len: "length (drop (k - m) (take (Suc k) xs)) = Suc k - (k - m)"
    using assms by simp
  show ?thesis
  proof (cases "m \<le> k")
    case True
    then have "Suc k - m = Suc (k - m)" by simp
    with True show ?thesis
      unfolding w Let_def len by (simp add: window_def drop_Suc tl_drop)
  next
    case False
    then show ?thesis
      unfolding w Let_def len by (simp add: window_def)
  qed
qed

lemma vsum_tl: "ts \<noteq> [] \<Longrightarrow> vsum (tl ts) = vsum ts - txo_val (hd ts)"
  by (cases ts) auto

lemma select_loop_from:
  assumes "k \<le> length xs"
  shows "select_loop m target (rev (drop k xs)) (window m k xs) (vsum (window m k xs)) =
    ok_or (InsufficientFunds (''Not enough Txos to sum to target value: '' @ show_nat target))
      (find (\<lambda>w. target \<le> vsum w) (map (\<lambda>j. window m j xs) [k..<Suc (length xs)]))"
  using assms
proof (induction "length xs - k" arbitrary: k)
  case 0
  then show ?case by (subst select_loop.simps) simp
next
  case (Suc n)
  then have k: "k < length xs" by simp
  have drop: "drop k xs = xs ! k # drop (Suc k) xs"
    using k by (simp add: Cons_nth_drop_Suc)
  have upt: "[k..<Suc (length xs)] = k # [Suc k..<Suc (length xs)]"
    using k by (simp add: upt_conv_Cons)
  have IH: "select_loop m target (rev (drop (Suc k) xs)) (window m (Suc k) xs) (vsum (window m (Suc k) xs)) =
    ok_or (InsufficientFunds (''Not enough Txos to sum to target value: '' @ show_nat target))
      (find (\<lambda>w. target \<le> vsum w) (map (\<lambda>j. window m j xs) [Suc k..<Suc (length xs)]))"
    using Suc.hyps(2) k by (intro Suc.hyps(1)) auto
  show ?case
  proof (cases "target \<le> vsum (window m k xs)")
    case True
    then show ?thesis unfolding upt by (subst select_loop.simps) simp
  next
    case False
    have "select_loop m target (rev (drop k xs)) (window m k xs) (vsum (window m k xs)) =
        select_loop m target (rev (drop (Suc k) xs)) (window m (Suc k) xs) (vsum (window m (Suc k) xs))"
      using False unfolding drop window_Suc [OF k]
      by (subst select_loop.simps) (simp add: Let_def vsum_tl)
    with IH False show ?thesis unfolding upt by simp
  qed
qed

lemma select_loop_eq:
  "select_loop m target spendable [] 0 =
    ok_or (InsufficientFunds (''Not enough Txos to sum to target value: '' @ show_nat target))
      (find (\<lambda>w. target \<le> vsum w) (windows m (rev spendable)))"
  using select_loop_from [of 0 "rev spendable" m target] by (simp add: window_def windows_def)

subsection \<open>The best window\<close>

text \<open>In an ascending list, the last \<open>m\<close> elements have the largest sum of any \<open>m\<close> of them.\<close>

lemma top_sum:
  fixes xs :: "nat list"
  assumes "sorted xs" and "M \<subseteq># mset xs" and "size M \<le> m"
  shows "sum_mset M \<le> sum_list (drop (length xs - m) xs)"
  using assms
proof (induction xs arbitrary: M m rule: rev_induct)
  case (snoc y ys)
  show ?case
  proof (cases "M = {#}")
    case False
    with snoc.prems(3) obtain m' where m: "m = Suc m'" by (cases m) auto
    have drop: "drop (length (ys @ [y]) - m) (ys @ [y]) = drop (length ys - m') ys @ [y]"
      by (simp add: m)
    have diff: "M - {#y#} \<subseteq># mset ys"
      using snoc.prems(2) by (simp add: subset_eq_diff_conv)
    obtain z where z: "z \<in># M" "z \<le> y" and sub: "M - {#z#} \<subseteq># mset ys"
    proof (cases "y \<in># M")
      case True
      with diff that [of y] show ?thesis by simp
    next
      case no: False
      from False obtain z where zM: "z \<in># M" by blast
      have Mys: "M \<subseteq># mset ys"
        using diff no by (simp add: diff_single_trivial)
      have "M - {#z#} \<subseteq># mset ys"
        by (rule subset_mset.order_trans [OF diff_subset_eq_self Mys])
      moreover have "z \<le> y"
        using snoc.prems(1) mset_subset_eqD [OF Mys zM] by (auto simp: sorted_append)
      ultimately show ?thesis
        using that [of z] zM by simp
    qed
    have "sum_mset (M - {#z#}) \<le> sum_list (drop (length ys - m') ys)"
    proof (rule snoc.IH)
      show "sorted ys" using snoc.prems(1) by (simp add: sorted_append)
      show "size (M - {#z#}) \<le> m'" using snoc.prems(3) m z(1) by (simp add: size_Diff_singleton)
    qed (rule sub)
    moreover have "sum_mset M = z + sum_mset (M - {#z#})"
      using z(1) by (simp add: sum_mset.remove)
    ultimately show ?thesis
      using z(2) unfolding drop by simp
  qed simp
qed simp

text \<open>A set of eligible txos is a sub-multiset of the candidates.\<close>

lemma sum_eligible_le:
  assumes "distinct xs" and "sorted (map txo_val xs)" and "S \<subseteq> set xs" and "card S \<le> m"
  shows "sum txo_val S \<le> vsum (window m (length xs) xs)"
proof -
  have fin: "finite S" using assms(3) finite_subset by blast
  have "mset_set S \<subseteq># mset_set (set xs)"
    using fin assms(3) by (simp add: subset_imp_msubset_mset_set)
  then have "image_mset txo_val (mset_set S) \<subseteq># mset (map txo_val xs)"
    using assms(1) by (simp add: mset_set_set image_mset_subseteq_mono)
  then have "sum_mset (image_mset txo_val (mset_set S)) \<le>
      sum_list (drop (length (map txo_val xs) - m) (map txo_val xs))"
    by (rule top_sum [OF assms(2)]) (simp add: assms(4))
  then show ?thesis
    by (simp add: sum_unfold_sum_mset vsum_def window_def drop_map)
qed

lemma window_subset: "set (window m k xs) \<subseteq> set xs"
  by (auto simp: window_def dest: in_set_dropD in_set_takeD)

lemma length_window: "length (window m k xs) \<le> m"
  by (simp add: window_def)

lemma distinct_window: "distinct xs \<Longrightarrow> distinct (window m k xs)"
  by (simp add: window_def)

lemma sum_set_window: "distinct xs \<Longrightarrow> sum txo_val (set (window m k xs)) = vsum (window m k xs)"
  by (simp add: vsum_def distinct_window sum_list_distinct_conv_sum_set)

lemma vsum_window_le:
  assumes "distinct xs" and "sorted (map txo_val xs)"
  shows "vsum (window m k xs) \<le> vsum (window m (length xs) xs)"
proof -
  have "card (set (window m k xs)) \<le> m"
    using card_length length_window le_trans by blast
  from sum_eligible_le [OF assms window_subset this] show ?thesis
    by (simp add: sum_set_window [OF assms(1)])
qed

lemma window_top: "window m (length xs) (rev xs) = rev (take m xs)"
  by (simp add: window_def rev_take)

text \<open>The search for the first window, on candidates in descending order.\<close>

lemma find_windows_None:
  assumes "distinct xs" and "sorted (map txo_val (rev xs))"
  shows "find (\<lambda>w. target \<le> vsum w) (windows m (rev xs)) = None \<longleftrightarrow> vsum (take m xs) < target"
proof -
  have top: "vsum (window m k (rev xs)) \<le> vsum (take m xs)" for k
    using vsum_window_le [of "rev xs" m k] assms window_top [of m xs] by simp
  have mem: "w \<in> set (windows m (rev xs)) \<longleftrightarrow> (\<exists>k \<le> length xs. w = window m k (rev xs))" for w
    unfolding windows_def set_map set_upt by (auto simp: less_Suc_eq_le)
  show ?thesis
  proof
    assume "find (\<lambda>w. target \<le> vsum w) (windows m (rev xs)) = None"
    then have "\<not> target \<le> vsum (window m (length xs) (rev xs))"
      by (auto simp: find_None_iff mem)
    then show "vsum (take m xs) < target" by (simp add: window_top)
  next
    assume "vsum (take m xs) < target"
    with top show "find (\<lambda>w. target \<le> vsum w) (windows m (rev xs)) = None"
      by (auto simp: find_None_iff mem) (meson le_trans not_less)
  qed
qed

lemma find_windows_Some:
  assumes "find (\<lambda>w. target \<le> vsum w) (windows m xs) = Some w"
  obtains k where "k \<le> length xs" and "w = window m k xs" and "target \<le> vsum w"
    and "\<And>j. j < k \<Longrightarrow> vsum (window m j xs) < target"
proof -
  from assms obtain i where "i < Suc (length xs)" "target \<le> vsum (window m i xs)"
      "w = window m i xs" "\<And>j. j < i \<Longrightarrow> \<not> target \<le> vsum (window m j xs)"
    by (auto simp: find_Some_iff windows_def simp del: upt_Suc)
  with that [of i] show ?thesis by (simp add: not_le)
qed

text \<open>Below the largest element of the chosen window nothing reaches the target.\<close>

lemma first_window_least:
  assumes xs: "distinct xs" "sorted (map txo_val xs)"
    and k: "k \<le> length xs" and w: "w = window m k xs" "w \<noteq> []"
    and less: "\<And>j. j < k \<Longrightarrow> vsum (window m j xs) < target"
    and S: "S \<subseteq> set xs" "card S \<le> m" "target \<le> sum txo_val S"
  shows "\<exists>s \<in> S. \<forall>t \<in> set w. txo_val t \<le> txo_val s"
proof (rule ccontr)
  assume "\<not> ?thesis"
  then have small: "\<exists>t \<in> set w. txo_val s < txo_val t" if "s \<in> S" for s
    using that by (auto simp: not_le)
  from w have "k \<noteq> 0" by (auto simp: window_def)
  then obtain j where j: "k = Suc j" by (cases k) auto
  have nth_le: "txo_val (xs ! a) \<le> txo_val (xs ! b)" if "a \<le> b" "b < length xs" for a b
    using sorted_nth_mono [OF xs(2), of a b] that by simp
  have "s \<in> set (take j xs)" if sS: "s \<in> S" for s
  proof -
    obtain t where "t \<in> set (take k xs)" and st: "txo_val s < txo_val t"
      using small [OF sS] w(1) by (auto simp: window_def dest: in_set_dropD)
    then obtain b where b: "b < k" "t = xs ! b"
      using k by (auto simp: in_set_conv_nth)
    obtain a where a: "a < length xs" "s = xs ! a"
      using sS S(1) by (metis in_set_conv_nth subsetD)
    have "a < b"
      using st nth_le [of b a] a b by (meson leD leI)
    with a b j show ?thesis
      by (auto simp: in_set_conv_nth intro!: exI [of _ a])
  qed
  then have "sum txo_val S \<le> vsum (window m (length (take j xs)) (take j xs))"
    using xs S(2) by (intro sum_eligible_le) (auto simp: take_map [symmetric] sorted_wrt_take)
  also have "\<dots> = vsum (window m j xs)"
    using k j by (simp add: window_def)
  finally show False
    using less [of j] j S(3) by simp
qed

text \<open>The whole selection, with the loop replaced by the search.\<close>

lemma select_eq:
  fixes acct :: string and token :: u64 and cap :: "u64 option" and x :: externals
  assumes "db_ok d" and "resolve_subaddress b58 d = Inr sub"
  defines "ts \<equiv> spendable_list d (Some acct) sub cap token"
    and "m \<equiv> unat (x_MAX_INPUTS x)"
  shows "Txo_select_spendable_txos_for_value x acct target cap b58 token fee d =
    (if ts = [] then Inl (NoSpendableTxos (show_u64 token))
     else if target > max (vsum (take m ts)) (unat fee) then
       (if vsum ts \<ge> (target + unat fee) mod 2 ^ 128 then Inl InsufficientFundsFragmentedTxos
        else Inl (InsufficientFundsUnderMaxSpendable
          (''Max spendable value in wallet: '' @ show_nat (vsum (take m ts) - unat fee) @
           '', but target value: '' @ show_nat target)))
     else case find (\<lambda>w. target \<le> vsum w) (windows m (rev ts)) of
       None \<Rightarrow> Inl (InsufficientFunds (''Not enough Txos to sum to target value: '' @ show_nat target))
     | Some w \<Rightarrow> if w = [] then Inl (InsufficientFunds
           ''Logic error. Could not select Txos despite having sufficient funds'') else Inr w)"
proof -
  have max: "vsum (take m ts) - unat fee + unat fee = max (vsum (take m ts)) (unat fee)"
    by simp
  have len: "length w \<le> m" if "find (\<lambda>w. target \<le> vsum w) (windows m (rev ts)) = Some w" for w
    using find_windows_Some [OF that] length_window by metis
  show ?thesis
    unfolding Txo_select_spendable_txos_for_value_def list_spendable_eq [OF assms(1,2)]
      select_loop_eq
    unfolding ts_def [symmetric] m_def [symmetric] Let_def rbind_simps
      spendable_txos_result.simps max
    using len by (auto split: option.splits)
qed

lemma select_Inr:
  assumes "db_ok d" and "Txo_select_spendable_txos_for_value x acct target cap b58 token fee d = Inr sel"
  obtains sub k where "resolve_subaddress b58 d = Inr sub"
    and "k \<le> length (spendable_list d (Some acct) sub cap token)"
    and "sel = window (unat (x_MAX_INPUTS x)) k (rev (spendable_list d (Some acct) sub cap token))"
    and "sel \<noteq> []" and "target \<le> vsum sel"
    and "\<And>j. j < k \<Longrightarrow>
           vsum (window (unat (x_MAX_INPUTS x)) j (rev (spendable_list d (Some acct) sub cap token))) < target"
proof -
  from assms(2) obtain sub where sub: "resolve_subaddress b58 d = Inr sub"
    by (cases "resolve_subaddress b58 d")
       (auto simp: Txo_select_spendable_txos_for_value_def Txo_list_spendable_def)
  have "find (\<lambda>w. target \<le> vsum w) (windows (unat (x_MAX_INPUTS x))
          (rev (spendable_list d (Some acct) sub cap token))) = Some sel" and ne: "sel \<noteq> []"
    using assms(2) unfolding select_eq [OF assms(1) sub]
    by (auto split: if_splits option.splits)
  from find_windows_Some [OF this(1)] ne sub that show ?thesis
    by (metis length_rev)
qed

subsection \<open>Properties\<close>

text \<open>A selection in the sample wallet, for the examples below.\<close>

lemma sample_selection:
  "Txo_select_spendable_txos_for_value sample_ext ''BA'' 6 None None 0 4 sample_db =
     Inr [sample_txo ''A'' 0 5 1, sample_txo ''B'' 1 7 1]"
  by code_simp

lemma sample_eligible:
  "\<forall>t \<in> set [sample_txo ''B'' 1 7 1]. eligible sample_db (Some ''BA'') None None 0 t"
  by code_simp

text \<open>C5: what a successful selection returns. Every selected txo is spendable (received, unspent,
  at a known subaddress of the account, of the requested token, allowed by its transaction
  logs, and no larger than the cap), none is selected twice, there is at least one and at most
  \<open>MAX_INPUTS\<close>, and together they cover the target.\<close>

theorem select_sound:
  assumes "db_ok d"
    and "Txo_select_spendable_txos_for_value x acct target cap b58 token fee d = Inr sel"
  shows "\<exists>sub. resolve_subaddress b58 d = Inr sub \<and>
           (\<forall>t \<in> set sel. eligible d (Some acct) sub cap token t) \<and>
           distinct sel \<and> sel \<noteq> [] \<and> length sel \<le> unat (x_MAX_INPUTS x) \<and> target \<le> vsum sel"
  using assms(2)
proof (rule select_Inr [OF assms(1)], goal_cases)
  case (1 sub k)
  then show ?case
    using window_subset [of _ k "rev (spendable_list d (Some acct) sub cap token)"]
      distinct_spendable_list [OF assms(1)]
    by (auto simp: length_window distinct_window set_spendable_list)
qed

theorem select_sound_witness:
  "Txo_select_spendable_txos_for_value sample_ext ''BA'' 6 None None 0 4 sample_db =
     Inr [sample_txo ''A'' 0 5 1, sample_txo ''B'' 1 7 1] \<and>
   6 \<le> vsum [sample_txo ''A'' 0 5 1, sample_txo ''B'' 1 7 1] \<and>
   eligible sample_db (Some ''BA'') None None 0 (sample_txo ''A'' 0 5 1)"
  using select_sound [OF sample_db_ok sample_selection] sample_selection
  by (simp add: resolve_subaddress_def)

text \<open>C6: the selection is complete. Whenever some set of at most \<open>MAX_INPUTS\<close> spendable txos
  covers a positive target, the selection succeeds: it never reports missing or fragmented
  funds in that case.\<close>

theorem select_complete:
  assumes "db_ok d" and "resolve_subaddress b58 d = Inr sub"
    and "\<forall>t \<in> S. eligible d (Some acct) sub cap token t"
    and "card S \<le> unat (x_MAX_INPUTS x)" and "target \<le> sum txo_val S" and "0 < target"
  shows "\<exists>sel. Txo_select_spendable_txos_for_value x acct target cap b58 token fee d = Inr sel"
proof -
  let ?ts = "spendable_list d (Some acct) sub cap token" and ?m = "unat (x_MAX_INPUTS x)"
  have S: "S \<subseteq> set (rev ?ts)"
    using assms(3) by (auto simp: set_spendable_list)
  have ts: "distinct (rev ?ts)" "sorted (map txo_val (rev ?ts))"
    using distinct_spendable_list [OF assms(1)] sorted_rev_spendable_list by auto
  have top: "target \<le> vsum (take ?m ?ts)"
    using sum_eligible_le [OF ts S assms(4)] assms(5) window_top [of ?m ?ts] by simp
  have "?ts \<noteq> []"
    using top assms(6) by auto
  moreover have "find (\<lambda>w. target \<le> vsum w) (windows ?m (rev ?ts)) \<noteq> None"
    using find_windows_None [of ?ts target ?m] ts top by simp
  moreover have "w \<noteq> []" if "find (\<lambda>w. target \<le> vsum w) (windows ?m (rev ?ts)) = Some w" for w
    using that assms(6) by (auto elim!: find_windows_Some)
  ultimately show ?thesis
    unfolding select_eq [OF assms(1,2)] using top by auto
qed

theorem select_complete_witness:
  "\<exists>sel. Txo_select_spendable_txos_for_value sample_ext ''BA'' 6 None None 0 4 sample_db = Inr sel"
proof (rule select_complete [OF sample_db_ok _ sample_eligible])
  show "resolve_subaddress None sample_db = Inr None" by code_simp
  show "card (set [sample_txo ''B'' 1 7 1]) \<le> unat (x_MAX_INPUTS sample_ext)"
    by code_simp
  show "6 \<le> sum txo_val (set [sample_txo ''B'' 1 7 1])" by code_simp
qed simp



lemma select_errors_aux:
  fixes acct :: string and token :: u64 and cap :: "u64 option" and x :: externals
    and target :: nat and fee :: u64 and b58 :: "string option"
  assumes "db_ok d" and "resolve_subaddress b58 d = Inr sub"
  defines "ts \<equiv> spendable_list d (Some acct) sub cap token"
    and "best \<equiv> vsum (take (unat (x_MAX_INPUTS x)) (spendable_list d (Some acct) sub cap token))"
    and "r \<equiv> Txo_select_spendable_txos_for_value x acct target cap b58 token fee d"
  shows "is_ok r \<longleftrightarrow> 0 < target \<and> target \<le> best"
    and "(\<exists>s. r = Inl (NoSpendableTxos s)) \<longleftrightarrow> ts = []"
    and "r = Inl InsufficientFundsFragmentedTxos \<longleftrightarrow>
           ts \<noteq> [] \<and> max best (unat fee) < target \<and> (target + unat fee) mod 2 ^ 128 \<le> vsum ts"
    and "(\<exists>s. r = Inl (InsufficientFundsUnderMaxSpendable s)) \<longleftrightarrow>
           ts \<noteq> [] \<and> max best (unat fee) < target \<and> vsum ts < (target + unat fee) mod 2 ^ 128"
    and "(\<exists>s. r = Inl (InsufficientFunds s)) \<longleftrightarrow>
           ts \<noteq> [] \<and> (target = 0 \<or> best < target \<and> target \<le> unat fee)"
proof -
  let ?m = "unat (x_MAX_INPUTS x)"
  have ts: "distinct ts" "sorted (map txo_val (rev ts))"
    using distinct_spendable_list [OF assms(1)] sorted_rev_spendable_list by (auto simp: ts_def)
  have best: "best = vsum (take ?m ts)" by (simp add: best_def ts_def)
  have zero: "find (\<lambda>w. 0 \<le> vsum w) (windows ?m (rev ts)) = Some []"
    by (simp add: windows_def window_def upt_rec [of 0])
  have ne: "w = [] \<longleftrightarrow> target = 0"
    if f: "find (\<lambda>w. target \<le> vsum w) (windows ?m (rev ts)) = Some w" for w
    using f zero by (cases "target = 0") (auto elim!: find_windows_Some)
  note r = select_eq [OF assms(1,2), of x acct target cap token fee, folded ts_def r_def]
  consider (none) "find (\<lambda>w. target \<le> vsum w) (windows ?m (rev ts)) = None" "best < target"
    | (some) w where "find (\<lambda>w. target \<le> vsum w) (windows ?m (rev ts)) = Some w"
        "target \<le> best" "w = [] \<longleftrightarrow> target = 0"
    using find_windows_None [OF ts, of target ?m] ne best by fastforce
  note cases = this
  have empty: "ts = [] \<Longrightarrow> best = 0" by (simp add: best)
  show "is_ok r \<longleftrightarrow> 0 < target \<and> target \<le> best"
    by (rule cases; cases "ts = []") (simp_all add: r best [symmetric] empty)
  show "(\<exists>s. r = Inl (NoSpendableTxos s)) \<longleftrightarrow> ts = []"
    by (rule cases) (simp_all add: r best [symmetric])
  show "r = Inl InsufficientFundsFragmentedTxos \<longleftrightarrow>
           ts \<noteq> [] \<and> max best (unat fee) < target \<and> (target + unat fee) mod 2 ^ 128 \<le> vsum ts"
    by (rule cases) (simp_all add: r best [symmetric])
  show "(\<exists>s. r = Inl (InsufficientFundsUnderMaxSpendable s)) \<longleftrightarrow>
           ts \<noteq> [] \<and> max best (unat fee) < target \<and> vsum ts < (target + unat fee) mod 2 ^ 128"
    by (rule cases) (simp_all add: r best [symmetric] not_le)
  show "(\<exists>s. r = Inl (InsufficientFunds s)) \<longleftrightarrow>
           ts \<noteq> [] \<and> (target = 0 \<or> best < target \<and> target \<le> unat fee)"
    by (rule cases) (simp_all add: r best [symmetric])
qed

text \<open>C8: when the selection fails. With at least one input allowed, it succeeds exactly for the
  targets from one up to the sum of the \<open>MAX_INPUTS\<close> largest spendable values, and the error
  tells the case: no candidate at all; more than the largest transaction (and more than the
  fee) with enough or not enough in the wallet to cover target and fee after defragmenting;
  or a target of zero or between the funds and the fee.\<close>

theorem select_errors:
  assumes "db_ok d" and "resolve_subaddress b58 d = Inr sub"
    and "ts = spendable_list d (Some acct) sub cap token"
    and "best = vsum (take (unat (x_MAX_INPUTS x)) ts)"
    and "r = Txo_select_spendable_txos_for_value x acct target cap b58 token fee d"
  shows "(is_ok r \<longleftrightarrow> 0 < target \<and> target \<le> best) \<and>
    ((\<exists>s. r = Inl (NoSpendableTxos s)) \<longleftrightarrow> ts = []) \<and>
    (r = Inl InsufficientFundsFragmentedTxos \<longleftrightarrow>
       ts \<noteq> [] \<and> max best (unat fee) < target \<and> (target + unat fee) mod 2 ^ 128 \<le> vsum ts) \<and>
    ((\<exists>s. r = Inl (InsufficientFundsUnderMaxSpendable s)) \<longleftrightarrow>
       ts \<noteq> [] \<and> max best (unat fee) < target \<and> vsum ts < (target + unat fee) mod 2 ^ 128) \<and>
    ((\<exists>s. r = Inl (InsufficientFunds s)) \<longleftrightarrow>
       ts \<noteq> [] \<and> (target = 0 \<or> best < target \<and> target \<le> unat fee))"
  unfolding assms(3-5) by (intro conjI) (rule select_errors_aux [OF assms(1,2)])+

theorem select_errors_witness:
  "(\<exists>s. Txo_select_spendable_txos_for_value sample_ext ''BA'' 500 None None 0 4 sample_db =
      Inl (InsufficientFundsUnderMaxSpendable s)) \<and>
   Txo_select_spendable_txos_for_value sample_ext ''BA'' 0 None None 0 4 sample_db \<noteq>
      Inl InsufficientFundsFragmentedTxos"
proof -
  let ?ts = "spendable_list sample_db (Some ''BA'') None None 0"
  have r: "resolve_subaddress None sample_db = Inr None"
    and ts: "?ts = [sample_txo ''B'' 1 7 1, sample_txo ''A'' 0 5 1]"
    and best: "vsum (take (unat (x_MAX_INPUTS sample_ext)) [sample_txo ''B'' 1 7 1, sample_txo ''A'' 0 5 1]) = 12"
    and all: "vsum [sample_txo ''B'' 1 7 1, sample_txo ''A'' 0 5 1] = 12"
    by code_simp+
  show ?thesis
    using select_errors [where x = sample_ext and acct = "''BA''" and cap = None and token = 0 and target = 500 and fee = 4, OF sample_db_ok r refl refl refl]
      select_errors [where x = sample_ext and acct = "''BA''" and cap = None and token = 0 and target = 0 and fee = 4, OF sample_db_ok r refl refl refl]
    unfolding best all ts by simp
qed

end
