(* ===== verification/Balance.thy ===== *)
theory Balance
  imports Account_Service Txo_Select
begin

section \<open>The balance service\<close>

text \<open>
  \<open>service/balance.rs\<close>: the balance of an account, of an address and of the wallet, and the
  status of the network. The \<open>u128\<close> sums are natural numbers: a table has fewer than \<open>2 ^ 64\<close>
  rows of at most \<open>2 ^ 64 - 1\<close> each. A \<open>BTreeMap\<close> is an association list in the order of its keys.
\<close>

record balance =
  bal_max_spendable :: nat
  bal_unverified :: nat
  bal_unspent :: nat
  bal_pending :: nat
  bal_spent :: nat
  bal_secreted :: nat
  bal_orphaned :: nat

datatype balance_service_error =
    BS_Database wallet_db_error
  | BS_Diesel diesel_error
  | BS_LedgerDB ledger_error
  | BS_NetworkBlockHeight ledger_service_error
  | BS_UnexpectedAccountTxoStatus string
  | BS_AccountServiceError account_service_error
  | BS_FeeMap ext_error

definition sum_query_result :: "txo list \<Rightarrow> nat" where
  "sum_query_result txos = sum_list (map (\<lambda>t. unat (txo_value t)) txos)"

definition get_balance_inner ::
    "externals \<Rightarrow> string option \<Rightarrow> string option \<Rightarrow> u64 \<Rightarrow> u64 \<Rightarrow> db \<Rightarrow> balance_service_error + balance" where
  "get_balance_inner x account_id_hex public_address_b58 token_id default_token_fee d =
     rbind (map_err BS_Database
       (Txo_list_unspent account_id_hex public_address_b58 (Some token_id) None None None None d)) (\<lambda>unspent.
     rbind (map_err BS_Database
       (Txo_list_spent account_id_hex public_address_b58 (Some token_id) None None None None d)) (\<lambda>spent.
     rbind (map_err BS_Database
       (Txo_list_pending account_id_hex public_address_b58 (Some token_id) None None None None d)) (\<lambda>pending.
     rbind (map_err BS_Database
       (Txo_list_unverified account_id_hex public_address_b58 (Some token_id) None None None None d)) (\<lambda>unverified.
     rbind (map_err BS_Database (Txo_list_secreted account_id_hex d)) (\<lambda>secreted.
     rbind (if public_address_b58 \<noteq> None then Inr []
            else map_err BS_Database
              (Txo_list_orphaned account_id_hex (Some token_id) None None None None d)) (\<lambda>orphaned.
     rbind (map_err BS_Database
       (Txo_list_spendable x account_id_hex None public_address_b58 token_id default_token_fee d)) (\<lambda>spendable.
       Inr \<lparr>bal_max_spendable = str_max_spendable_in_wallet spendable,
            bal_unverified = sum_query_result unverified, bal_unspent = sum_query_result unspent,
            bal_pending = sum_query_result pending, bal_spent = sum_query_result spent,
            bal_secreted = sum_query_result secreted, bal_orphaned = sum_query_result orphaned\<rparr>)))))))"

subsection \<open>The network\<close>

record network_status =
  ns_network_block_height :: u64
  ns_local_block_height :: u64
  ns_local_num_txos :: u64
  ns_fees :: fee_map
  ns_block_version :: u32
  ns_network_info :: network_config

definition get_network_status :: "externals \<Rightarrow> node \<Rightarrow> balance_service_error + network_status" where
  "get_network_status x n =
     rbind (if n_offline n then
              rbind (map_err BS_FeeMap
                (n_fee_map_try_from n [(x_MOB_ID x, x_MOB_MINIMUM_FEE x), (1, 2560)])) (\<lambda>fee_map.
                Inr (0, fee_map, n_BLOCK_VERSION_MAX n))
            else
              rbind (map_err BS_NetworkBlockHeight (get_latest_block_info n)) (\<lambda>info.
              rbind (map_err BS_FeeMap (n_fee_map_try_from n (bi_minimum_fees info))) (\<lambda>fee_map.
                Inr (bi_block_index info + 1, fee_map, bi_network_block_version info))))
       (\<lambda>(network_block_height, fee_map, block_version).
     rbind (map_err BS_LedgerDB (l_num_blocks (n_ledger n))) (\<lambda>num_blocks.
     rbind (map_err BS_LedgerDB (l_num_txos (n_ledger n))) (\<lambda>num_txos.
       Inr \<lparr>ns_network_block_height = network_block_height, ns_local_block_height = num_blocks,
            ns_local_num_txos = num_txos, ns_fees = fee_map, ns_block_version = block_version,
            ns_network_info = n_network_setup_config n\<rparr>)))"

subsection \<open>Balances\<close>

fun btree_upsert :: "'k :: linorder \<Rightarrow> ('v \<Rightarrow> 'v) \<Rightarrow> 'v \<Rightarrow> ('k \<times> 'v) list \<Rightarrow> ('k \<times> 'v) list" where
  "btree_upsert k f v [] = [(k, v)]"
| "btree_upsert k f v ((k', v') # m) =
     (if k < k' then (k, v) # (k', v') # m
      else if k = k' then (k', f v') # m
      else (k', v') # btree_upsert k f v m)"

definition btree_collect :: "('k :: linorder \<times> 'v) list \<Rightarrow> ('k \<times> 'v) list" where
  "btree_collect ps = fold (\<lambda>(k, v). btree_upsert k (\<lambda>_. v) v) ps []"

definition token_fee :: "network_status \<Rightarrow> u64 \<Rightarrow> u64" where
  "token_fee status token_id = (case ns_fees status token_id of None \<Rightarrow> 0 | Some fee \<Rightarrow> fee)"

definition get_balance_for_account ::
    "externals \<Rightarrow> node \<Rightarrow> string \<Rightarrow> db \<Rightarrow> balance_service_error + (u64 \<times> balance) list" where
  "get_balance_for_account x n account_id d =
     rbind (map_err BS_AccountServiceError (get_account account_id d)) (\<lambda>a.
     rbind (map_err BS_Database (Account_get_token_ids a d)) (\<lambda>distinct_token_ids.
     rbind (get_network_status x n) (\<lambda>status.
     rbind (collect_results (\<lambda>token_id.
         rbind (get_balance_inner x (Some account_id) None token_id (token_fee status token_id) d) (\<lambda>b.
           Inr (token_id, b))) distinct_token_ids) (\<lambda>balances.
       Inr (btree_collect balances)))))"

definition get_balance_for_address ::
    "externals \<Rightarrow> node \<Rightarrow> string \<Rightarrow> db \<Rightarrow> balance_service_error + (u64 \<times> balance) list" where
  "get_balance_for_address x n address d =
     rbind (map_err BS_Database (AssignedSubaddress_get address d)) (\<lambda>s.
     rbind (map_err BS_AccountServiceError (get_account (asub_account_id s) d)) (\<lambda>a.
     rbind (map_err BS_Database (Account_get_token_ids a d)) (\<lambda>distinct_token_ids.
     rbind (get_network_status x n) (\<lambda>status.
     rbind (collect_results (\<lambda>token_id.
         rbind (get_balance_inner x None (Some address) token_id (token_fee status token_id) d) (\<lambda>b.
           Inr (token_id, b))) distinct_token_ids) (\<lambda>balances.
       Inr (btree_collect balances))))))"

subsection \<open>The status of the wallet\<close>

record wallet_status =
  ws_balance_per_token :: "(u64 \<times> balance) list"
  ws_network_block_height :: u64
  ws_local_block_height :: u64
  ws_min_synced_block_index :: u64
  ws_account_ids :: "string list"
  ws_account_map :: "(string \<times> account) list"

definition saturating_sub :: "u64 \<Rightarrow> u64 \<Rightarrow> u64" where
  "saturating_sub a b = (if a < b then 0 else a - b)"

text \<open>The closure given to \<open>and_modify\<close>, which leaves \<open>max_spendable\<close> as it was.\<close>

definition add_balance :: "balance \<Rightarrow> balance \<Rightarrow> balance" where
  "add_balance balance b = b\<lparr>bal_unverified := bal_unverified b + bal_unverified balance,
     bal_unspent := bal_unspent b + bal_unspent balance,
     bal_pending := bal_pending b + bal_pending balance,
     bal_spent := bal_spent b + bal_spent balance,
     bal_secreted := bal_secreted b + bal_secreted balance,
     bal_orphaned := bal_orphaned b + bal_orphaned balance\<rparr>"

fun add_token_balances ::
    "externals \<Rightarrow> network_status \<Rightarrow> string \<Rightarrow> u64 list \<Rightarrow> (u64 \<times> balance) list \<Rightarrow> db
      \<Rightarrow> balance_service_error + (u64 \<times> balance) list" where
  "add_token_balances x status account_id [] m d = Inr m"
| "add_token_balances x status account_id (token_id # ts) m d =
     rbind (get_balance_inner x (Some account_id) None token_id (token_fee status token_id) d) (\<lambda>balance.
       add_token_balances x status account_id ts
         (btree_upsert token_id (add_balance balance) balance m) d)"

fun add_accounts ::
    "externals \<Rightarrow> network_status \<Rightarrow> account list \<Rightarrow> (u64 \<times> balance) list \<Rightarrow> u64 \<Rightarrow> db
      \<Rightarrow> balance_service_error + (u64 \<times> balance) list \<times> u64" where
  "add_accounts x status [] m synced d = Inr (m, synced)"
| "add_accounts x status (a # as) m synced d =
     rbind (map_err BS_Database (Account_get_token_ids a d)) (\<lambda>token_ids.
     rbind (add_token_balances x status (acct_id a) token_ids m d) (\<lambda>m'.
       add_accounts x status as m' (min synced (saturating_sub (acct_next_block_index a) 1)) d))"

definition get_wallet_status :: "externals \<Rightarrow> node \<Rightarrow> db \<Rightarrow> balance_service_error + wallet_status" where
  "get_wallet_status x n d =
     rbind (get_network_status x n) (\<lambda>status.
     rbind (map_err BS_Database (Account_list_all None None d)) (\<lambda>accounts.
     rbind (add_accounts x status accounts [] (saturating_sub (ns_network_block_height status) 1) d)
       (\<lambda>(balance_per_token, min_synced_block_index).
     rbind (map_err BS_LedgerDB (l_num_blocks (n_ledger n))) (\<lambda>num_blocks.
       Inr \<lparr>ws_balance_per_token = balance_per_token,
            ws_network_block_height = ns_network_block_height status,
            ws_local_block_height = num_blocks,
            ws_min_synced_block_index = min_synced_block_index,
            ws_account_ids = map acct_id accounts,
            ws_account_map = map (\<lambda>a. (acct_id a, a)) accounts\<rparr>))))"

text \<open>\<open>None\<close> is the panic of a division by zero; the product wraps.\<close>

definition percent_synced :: "wallet_status \<Rightarrow> u64 option" where
  "percent_synced status =
     (if ws_local_block_height status = 0 then None
      else Some (ws_min_synced_block_index status * 100 div ws_local_block_height status))"

section \<open>Facts\<close>

lemma sum_query_result_eq: "sum_query_result = vsum"
  by (rule ext) (simp add: sum_query_result_def vsum_def txo_val_def [abs_def])

lemma vsum_load_ordered [simp]: "vsum (load_ordered None None ts) = vsum ts"
proof -
  have "mset (load_ordered None None ts) = mset ts"
    by (simp add: load_ordered_def paginate_def order_desc_def)
  then show ?thesis
    by (metis mset_map sum_mset_sum_list vsum_def)
qed

lemma vsum_filter: "vsum (filter P ts) = sum_list (map (\<lambda>t. if P t then txo_val t else 0) ts)"
  by (induction ts) auto

subsection \<open>The parts of a balance\<close>

text \<open>A txo of an account is coherent when a key image comes with a subaddress, a spent txo has a
  key image, and the transactions that use an unspent txo are either all dead or all pending.\<close>

definition coherent :: "db \<Rightarrow> txo \<Rightarrow> bool" where
  "coherent d t \<longleftrightarrow>
     (txo_key_image t = None \<or> txo_subaddress_index t \<noteq> None) \<and>
     (if txo_spent_block_index t \<noteq> None then txo_key_image t \<noteq> None
      else list_all log_dead (input_logs d t) \<or>
           txo_subaddress_index t \<noteq> None \<and> list_all log_pending (input_logs d t))"

lemma balance_inner_account:
  assumes "db_ok d"
  shows "get_balance_inner x (Some a) None k fee d = Inr
    (let own = filter (\<lambda>t. txo_account_id t = Some a \<and> txo_token_id t = k) (db_txos d);
         tot = vsum (take (unat (x_MAX_INPUTS x)) (spendable_list d (Some a) None None k))
     in \<lparr>bal_max_spendable = tot - unat fee,
         bal_unverified = vsum (filter (\<lambda>t. logs_allow_spend d t \<and> txo_received_block_index t \<noteq> None \<and>
           txo_subaddress_index t \<noteq> None \<and> txo_key_image t = None) own),
         bal_unspent = vsum (filter (\<lambda>t. logs_allow_spend d t \<and> txo_received_block_index t \<noteq> None \<and>
           txo_key_image t \<noteq> None \<and> txo_spent_block_index t = None) own),
         bal_pending = vsum (filter (\<lambda>t. (\<exists>l \<in> set (input_logs d t). log_pending l) \<and>
           txo_subaddress_index t \<noteq> None \<and> txo_spent_block_index t = None) own),
         bal_spent = vsum (filter (\<lambda>t. txo_spent_block_index t \<noteq> None) own),
         bal_secreted = (case Txo_list_secreted (Some a) d of Inr ts \<Rightarrow> vsum ts | Inl _ \<Rightarrow> 0),
         bal_orphaned = vsum (filter (\<lambda>t. txo_subaddress_index t = None \<and> txo_key_image t = None) own)\<rparr>)"
proof -
  have res: "resolve_subaddress None d = Inr None"
    by (simp add: resolve_subaddress_def)
  have m: "txo_matches (Some a) None (Some k) None None t \<longleftrightarrow> txo_account_id t = Some a \<and> txo_token_id t = k" for t
    by (simp add: txo_matches_def)
  show ?thesis
    unfolding get_balance_inner_def
    by (simp add: list_unspent_eq [OF assms res] list_unverified_eq [OF assms res]
        list_pending_eq [OF assms res] list_spendable_eq [OF assms res] Txo_list_spent_def
        Txo_list_orphaned_def res m sum_query_result_eq sql_where_def Txo_list_secreted_def Let_def
        conj_ac)
qed

text \<open>A coherent txo counts in exactly one of the parts.\<close>

lemma coherent_one_part:
  fixes v :: nat
  assumes "coherent d t" "txo_received_block_index t \<noteq> None"
  shows "(if txo_spent_block_index t \<noteq> None then v else 0)
      + (if (\<exists>l \<in> set (input_logs d t). log_pending l) \<and> txo_subaddress_index t \<noteq> None \<and>
           txo_spent_block_index t = None then v else 0)
      + (if logs_allow_spend d t \<and> txo_received_block_index t \<noteq> None \<and> txo_key_image t \<noteq> None \<and>
           txo_spent_block_index t = None then v else 0)
      + (if logs_allow_spend d t \<and> txo_received_block_index t \<noteq> None \<and> txo_subaddress_index t \<noteq> None \<and>
           txo_key_image t = None then v else 0)
      + (if txo_subaddress_index t = None \<and> txo_key_image t = None then v else 0) = v"
proof (cases "txo_spent_block_index t")
  case (Some i)
  with assms(1) show ?thesis
    by (auto simp: coherent_def)
next
  case None
  have dead: "\<not> log_dead l" if "log_pending l" for l
    using that by (simp add: log_dead_def log_pending_def)
  show ?thesis
  proof (cases "list_all log_dead (input_logs d t)")
    case True
    then have "\<not> (\<exists>l \<in> set (input_logs d t). log_pending l)"
      using dead by (auto simp: list_all_iff)
    moreover have "logs_allow_spend d t"
      using True by (cases "input_logs d t") (auto simp: logs_allow_spend_def)
    ultimately show ?thesis
      using None assms by (auto simp: coherent_def)
  next
    case False
    with None assms(1) have p: "list_all log_pending (input_logs d t)" "txo_subaddress_index t \<noteq> None"
      by (auto simp: coherent_def)
    with False have "\<not> logs_allow_spend d t" "\<exists>l \<in> set (input_logs d t). log_pending l"
      using dead by (auto simp: logs_allow_spend_def list_all_iff)
    with None p show ?thesis
      by auto
  qed
qed

text \<open>C35: the parts of a balance. In a well-formed database whose txos of the account are coherent,
  every txo of the account and token counts in exactly one of the parts spent, pending, unspent,
  unverified and orphaned: together they are the value of all of them.\<close>

theorem balance_partition:
  assumes "db_wf d"
    and "list_all (\<lambda>t. txo_account_id t = Some a \<longrightarrow> coherent d t) (db_txos d)"
    and "get_balance_inner x (Some a) None k fee d = Inr b"
  shows "bal_spent b + bal_pending b + bal_unspent b + bal_unverified b + bal_orphaned b =
         vsum (filter (\<lambda>t. txo_account_id t = Some a \<and> txo_token_id t = k) (db_txos d))"
proof -
  define own where "own = filter (\<lambda>t. txo_account_id t = Some a \<and> txo_token_id t = k) (db_txos d)"
  have ok: "db_ok d"
    using assms(1) by (simp add: db_wf_def)
  have rec: "txo_received_block_index t \<noteq> None" and coh: "coherent d t" if "t \<in> set own" for t
    using that assms(1,2) by (auto simp: own_def db_wf_def rows_ok_def list_all_iff txo_row_ok_def)
  note one = coherent_one_part [OF coh rec]
  show ?thesis
    using assms(3) unfolding balance_inner_account [OF ok] Let_def own_def [symmetric] sum.inject
    by (auto simp only: balance.simps vsum_filter sum_list_addf [symmetric] vsum_def [of own] one
        intro!: arg_cong [where f = sum_list] map_cong)
qed

lemma spendable_le_unspent:
  assumes "db_ok d" "get_balance_inner x (Some a) None k fee d = Inr b"
  shows "vsum (spendable_list d (Some a) None None k) \<le> bal_unspent b + bal_unverified b"
proof -
  let ?own = "\<lambda>t. txo_account_id t = Some a \<and> txo_token_id t = k"
  let ?P = "\<lambda>t. ?own t \<and> logs_allow_spend d t \<and> txo_received_block_index t \<noteq> None \<and>
           txo_key_image t \<noteq> None \<and> txo_spent_block_index t = None"
  let ?Q = "\<lambda>t. ?own t \<and> logs_allow_spend d t \<and> txo_received_block_index t \<noteq> None \<and>
           txo_subaddress_index t \<noteq> None \<and> txo_key_image t = None"
  have "mset (spendable_list d (Some a) None None k) = mset (filter (eligible d (Some a) None None k) (db_txos d))"
    by (simp add: spendable_list_def)
  then have "vsum (spendable_list d (Some a) None None k) = vsum (filter (eligible d (Some a) None None k) (db_txos d))"
    by (metis mset_map sum_mset_sum_list vsum_def)
  also have "\<dots> \<le> vsum (filter ?P (db_txos d)) + vsum (filter ?Q (db_txos d))"
    unfolding vsum_filter sum_list_addf [symmetric]
    by (rule sum_list_mono) (auto simp: eligible_def txo_matches_def)
  also have "\<dots> = bal_unspent b + bal_unverified b"
    using assms(2) by (auto simp: balance_inner_account [OF assms(1)] Let_def)
  finally show ?thesis .
qed

text \<open>C36: the spendable balance can be spent. When the balance of an account shows a positive
  \<open>max_spendable\<close>, then for every value up to it the selection of inputs for that value plus the fee
  succeeds with txos that cover it, and \<open>max_spendable\<close> plus the fee is at most what the balance
  shows as unspent and unverified.\<close>

theorem max_spendable_can_be_spent:
  assumes "db_ok d" "get_balance_inner x (Some a) None k fee d = Inr b"
    and "0 < v" "v \<le> bal_max_spendable b"
  shows "(\<exists>sel. Txo_select_spendable_txos_for_value x a (v + unat fee) None None k fee d = Inr sel \<and>
            v + unat fee \<le> vsum sel) \<and>
         bal_max_spendable b + unat fee \<le> bal_unspent b + bal_unverified b"
proof -
  have res: "resolve_subaddress None d = Inr None"
    by (simp add: resolve_subaddress_def)
  define ts where "ts = spendable_list d (Some a) None None k"
  define m where "m = unat (x_MAX_INPUTS x)"
  define own where "own = filter (\<lambda>t. txo_account_id t = Some a \<and> txo_token_id t = k) (db_txos d)"
  have b: "bal_max_spendable b = vsum (take m ts) - unat fee"
    using assms(2) by (auto simp: balance_inner_account [OF assms(1)] ts_def m_def Let_def)
  then have le: "v + unat fee \<le> vsum (take m ts)" "0 < vsum (take m ts)" "ts \<noteq> []"
    using assms(3,4) by auto
  have "find (\<lambda>w. v + unat fee \<le> vsum w) (windows m (rev ts)) \<noteq> None"
    using find_windows_None [of ts "v + unat fee" m] le distinct_spendable_list [OF assms(1)]
      sorted_rev_spendable_list by (simp add: ts_def)
  then obtain w where w: "find (\<lambda>w. v + unat fee \<le> vsum w) (windows m (rev ts)) = Some w"
    by auto
  have cover: "v + unat fee \<le> vsum w"
    by (rule find_windows_Some [OF w])
  with assms(3) have "w \<noteq> []"
    by auto
  with w le cover have "Txo_select_spendable_txos_for_value x a (v + unat fee) None None k fee d = Inr w"
    unfolding select_eq [OF assms(1) res] ts_def [symmetric] m_def [symmetric] by auto
  moreover have "vsum ts \<le> bal_unspent b + bal_unverified b"
    unfolding ts_def by (rule spendable_le_unspent [OF assms(1,2)])
  moreover have "vsum (take m ts) \<le> vsum ts"
    by (metis append_take_drop_id le_add1 vsum_simps(3))
  moreover have "bal_max_spendable b + unat fee = vsum (take m ts)"
    using b le by simp
  ultimately show ?thesis
    using cover by (metis le_trans)
qed

text \<open>C37: a txo that is used again after a failed transaction. When an unspent txo of an account is an
  input both of a failed (or never submitted) and of a pending transaction, it is listed as
  pending and as unspent at once, and it is among the candidates for new inputs although a
  submitted transaction already spends it.\<close>

theorem reused_txo_counts_twice:
  assumes "db_ok d" "t \<in> set (db_txos d)"
    and "l1 \<in> set (input_logs d t)" "log_dead l1" "l2 \<in> set (input_logs d t)" "log_pending l2"
    and "txo_account_id t = Some a" "txo_received_block_index t \<noteq> None" "txo_spent_block_index t = None"
    and "txo_subaddress_index t \<noteq> None" "txo_key_image t \<noteq> None"
  shows "\<exists>unspent pending spendable.
      Txo_list_unspent (Some a) None (Some (txo_token_id t)) None None None None d = Inr unspent \<and>
      Txo_list_pending (Some a) None (Some (txo_token_id t)) None None None None d = Inr pending \<and>
      Txo_list_spendable x (Some a) None None (txo_token_id t) fee d = Inr spendable \<and>
      t \<in> set unspent \<and> t \<in> set pending \<and> t \<in> set (str_spendable_txos spendable)"
proof -
  have res: "resolve_subaddress None d = Inr None"
    by (simp add: resolve_subaddress_def)
  have allow: "logs_allow_spend d t"
    using assms(3,4) by (auto simp: logs_allow_spend_def)
  have "set (load_ordered None None ts) = set ts" for ts
    by (simp add: load_ordered_def paginate_def order_desc_def)
  then show ?thesis
    using assms(2,5-) allow
    unfolding list_unspent_eq [OF assms(1) res] list_pending_eq [OF assms(1) res]
      list_spendable_eq [OF assms(1) res] Let_def
    by (auto simp: txo_matches_def set_spendable_list eligible_def)
qed

subsection \<open>The status of the wallet\<close>

lemma map_of_btree_upsert:
  assumes "sorted_wrt (<) (map fst m)"
  shows "map_of (btree_upsert k f v m) k' =
           (if k' = k then Some (case map_of m k of None \<Rightarrow> v | Some w \<Rightarrow> f w) else map_of m k')"
  using assms
proof (induction m)
  case (Cons p m)
  have "map_of m k = None" if "k < fst p"
    using Cons.prems that by (fastforce simp: map_of_eq_None_iff)
  moreover have "map_of m k = None" if "k = fst p"
    using Cons.prems that by (fastforce simp: map_of_eq_None_iff)
  ultimately show ?case
    using Cons by (cases p) auto
qed simp

lemma keys_btree_upsert: "fst ` set (btree_upsert k f v m) = insert k (fst ` set m)"
proof (induction m)
  case (Cons p m)
  then show ?case
    by (cases p) (simp add: insert_commute)
qed simp

lemma sorted_btree_upsert:
  "sorted_wrt (<) (map fst m) \<Longrightarrow> sorted_wrt (<) (map fst (btree_upsert k f v m))"
proof (induction m)
  case (Cons p m)
  have "fst p < y" if "y \<in> fst ` set (btree_upsert k f v m)" "\<not> k < fst p" "k \<noteq> fst p" for y
    using that Cons.prems by (auto simp: keys_btree_upsert)
  with Cons show ?case
    by (cases p) (auto intro: less_trans)
qed simp

lemma add_token_balances_Inr:
  assumes "add_token_balances x status a ts m d = Inr m'" "distinct ts" "sorted_wrt (<) (map fst m)"
  shows "sorted_wrt (<) (map fst m') \<and>
    map_of m' k = (if k \<in> set ts then
       (case get_balance_inner x (Some a) None k (token_fee status k) d of
          Inr b \<Rightarrow> Some (case map_of m k of None \<Rightarrow> b | Some w \<Rightarrow> add_balance b w) | Inl _ \<Rightarrow> None)
     else map_of m k)"
  using assms
proof (induction ts arbitrary: m)
  case (Cons t ts)
  then obtain b where b: "get_balance_inner x (Some a) None t (token_fee status t) d = Inr b"
      and rec: "add_token_balances x status a ts (btree_upsert t (add_balance b) b m) d = Inr m'"
    by (auto simp: rbind_eq_Inr)
  from Cons.IH [OF rec] Cons.prems sorted_btree_upsert [OF Cons.prems(3)] b show ?case
    by (auto simp: map_of_btree_upsert split: sum.splits)
qed simp

text \<open>The balances of a token, one for each account that has a txo of it.\<close>

definition token_balances ::
    "externals \<Rightarrow> network_status \<Rightarrow> db \<Rightarrow> u64 \<Rightarrow> account list \<Rightarrow> balance list" where
  "token_balances x status d k as = List.map_filter (\<lambda>a.
     if \<exists>t \<in> set (db_txos d). txo_account_id t = Some (acct_id a) \<and> txo_token_id t = k then
       (case get_balance_inner x (Some (acct_id a)) None k (token_fee status k) d of
          Inr b \<Rightarrow> Some b | Inl _ \<Rightarrow> None)
     else None) as"

lemma token_ids_eq:
  "Account_get_token_ids a d = Inr ts \<Longrightarrow> distinct ts \<and>
     (k \<in> set ts \<longleftrightarrow> (\<exists>t \<in> set (db_txos d). txo_account_id t = Some (acct_id a) \<and> txo_token_id t = k))"
  by (auto simp: Account_get_token_ids_def sql_where_def)

lemma add_accounts_Inr:
  assumes "add_accounts x status as m synced d = Inr (m', synced')" "sorted_wrt (<) (map fst m)"
  shows "synced' = fold (\<lambda>a s. min s (saturating_sub (acct_next_block_index a) 1)) as synced \<and>
    map_of m' k = fold (\<lambda>b r. Some (case r of None \<Rightarrow> b | Some w \<Rightarrow> add_balance b w))
                    (token_balances x status d k as) (map_of m k)"
  using assms
proof (induction as arbitrary: m synced)
  case (Cons a as)
  then obtain ts m1 where ts: "Account_get_token_ids a d = Inr ts"
      and m1: "add_token_balances x status (acct_id a) ts m d = Inr m1"
      and rec: "add_accounts x status as m1 (min synced (saturating_sub (acct_next_block_index a) 1)) d = Inr (m', synced')"
    by (auto simp: rbind_eq_Inr map_err_eq_Inr)
  note step = add_token_balances_Inr [OF m1 conjunct1 [OF token_ids_eq [OF ts]] Cons.prems(2)]
  have mem: "k \<in> set ts \<longleftrightarrow> (\<exists>t \<in> set (db_txos d). txo_account_id t = Some (acct_id a) \<and> txo_token_id t = k)"
    using token_ids_eq [OF ts] by blast
  have "\<exists>b. get_balance_inner x (Some (acct_id a)) None k (token_fee status k) d = Inr b" if "k \<in> set ts"
    using m1 that by (induction ts arbitrary: m) (auto simp: rbind_eq_Inr)
  with step Cons.IH [OF rec conjunct1 [OF step]] mem show ?case
    by (auto simp: token_balances_def List.map_filter_simps split: sum.splits)
qed (simp add: token_balances_def List.map_filter_simps)

lemma fold_add_balance:
  "fold (\<lambda>b r. Some (case r of None \<Rightarrow> b | Some w \<Rightarrow> add_balance b w)) bs (Some w) = Some
     \<lparr>bal_max_spendable = bal_max_spendable w,
      bal_unverified = bal_unverified w + sum_list (map bal_unverified bs),
      bal_unspent = bal_unspent w + sum_list (map bal_unspent bs),
      bal_pending = bal_pending w + sum_list (map bal_pending bs),
      bal_spent = bal_spent w + sum_list (map bal_spent bs),
      bal_secreted = bal_secreted w + sum_list (map bal_secreted bs),
      bal_orphaned = bal_orphaned w + sum_list (map bal_orphaned bs)\<rparr>"
  by (induction bs arbitrary: w) (simp_all add: add_balance_def algebra_simps)


text \<open>How far the wallet is synced. The reported index is that of the account furthest behind,
  and never past the last block of the network: no account has scanned fewer blocks.\<close>

theorem wallet_status_min_synced:
  assumes "get_network_status x n = Inr status" "get_wallet_status x n d = Inr s"
  shows "ws_min_synced_block_index s =
     Min (insert (saturating_sub (ns_network_block_height status) 1)
        ((\<lambda>a. saturating_sub (acct_next_block_index a) 1) ` set (db_accounts d)))"
proof -
  have fold_min: "fold (\<lambda>a s. min s (f a)) as v = Min (insert v (f ` set as))"
    for f :: "account \<Rightarrow> u64" and as v
  proof (induction as arbitrary: v)
    case (Cons a as)
    have "Min (insert v (insert w S)) = Min (insert (min v w) S)" if "finite S" for w :: u64 and S
      using that by (cases "S = {}") (simp_all add: min.assoc)
    with Cons show ?case
      by simp
  qed simp
  obtain m where "add_accounts x status (db_accounts d) []
        (saturating_sub (ns_network_block_height status) 1) d = Inr (m, ws_min_synced_block_index s)"
    using assms by (auto simp: get_wallet_status_def rbind_eq_Inr Account_list_all_def paginate_def)
  from add_accounts_Inr [OF this] show ?thesis
    by (simp add: fold_min)
qed

text \<open>The sample wallet, with a failed transaction that used the txo \<open>C\<close> before.\<close>

definition sample_failed_log :: transaction_log where
  "sample_failed_log = sample_log\<lparr>tl_id := ''L0'', tl_failed := True\<rparr>"

definition sample_reused_db :: db where
  "sample_reused_db = sample_db\<lparr>
     db_transaction_logs := [sample_failed_log, sample_log],
     db_transaction_input_txos := [\<lparr>tin_transaction_log_id = ''L0'', tin_txo_id = ''C''\<rparr>,
       \<lparr>tin_transaction_log_id = ''L1'', tin_txo_id = ''C''\<rparr>]\<rparr>"

lemma sample_reused_db_ok: "db_ok sample_reused_db"
  by code_simp

lemma sample_db_wf: "db_wf sample_db"
  by (simp add: db_wf_def sample_db_ok) code_simp

lemma sample_own:
  "filter (\<lambda>t. txo_account_id t = Some ''BA'' \<and> txo_token_id t = 0) (db_txos sample_db) =
     [sample_txo ''A'' 0 5 1, sample_txo ''B'' 1 7 1, sample_txo ''C'' 2 100 2]"
  by (simp add: sample_db_def sample_txo_def)

lemma sample_input_logs:
  "input_logs sample_db (sample_txo ''A'' 0 5 1) = []" "input_logs sample_db (sample_txo ''B'' 1 7 1) = []"
  "input_logs sample_db (sample_txo ''C'' 2 100 2) = [sample_log]"
  by (simp_all add: input_logs_def sample_db_def sample_txo_def sample_log_def)

lemma sample_txo_sel:
  "txo_value (sample_txo i k v b) = v" "txo_received_block_index (sample_txo i k v b) = Some b"
  "txo_spent_block_index (sample_txo i k v b) = None" "txo_subaddress_index (sample_txo i k v b) = Some 0"
  "txo_key_image (sample_txo i k v b) = Some [k, 1, 0]"
  by (simp_all add: sample_txo_def)

lemma sample_spendable:
  "spendable_list sample_db (Some ''BA'') None None 0 = [sample_txo ''B'' 1 7 1, sample_txo ''A'' 0 5 1]"
  by code_simp

lemma sample_balance:
  "get_balance_inner sample_ext (Some ''BA'') None 0 fee sample_db = Inr
     \<lparr>bal_max_spendable = 12 - unat fee, bal_unverified = 0, bal_unspent = 12, bal_pending = 100,
      bal_spent = 0, bal_secreted = 0, bal_orphaned = 0\<rparr>"
proof -
  have "Txo_list_secreted (Some ''BA'') sample_db = Inr []"
    by code_simp
  then show ?thesis
    unfolding balance_inner_account [OF sample_db_ok] Let_def sample_own sample_spendable
    by (simp add: logs_allow_spend_def sample_input_logs log_dead_def log_pending_def sample_log_def
        sample_txo_sel txo_val_def sample_ext_def)
qed

theorem balance_partition_witness:
  "\<exists>b. get_balance_inner sample_ext (Some ''BA'') None 0 4 sample_db = Inr b \<and> bal_pending b = 100 \<and>
       bal_spent b + bal_pending b + bal_unspent b + bal_unverified b + bal_orphaned b = 112"
proof -
  have "list_all (\<lambda>t. txo_account_id t = Some ''BA'' \<longrightarrow> coherent sample_db t) (db_txos sample_db)"
    by code_simp
  from balance_partition [OF sample_db_wf this sample_balance [of 4]] show ?thesis
    by (simp add: sample_own sample_balance)
qed

theorem max_spendable_can_be_spent_witness:
  "\<exists>b sel. get_balance_inner sample_ext (Some ''BA'') None 0 4 sample_db = Inr b \<and>
      8 \<le> bal_max_spendable b \<and>
      Txo_select_spendable_txos_for_value sample_ext ''BA'' (8 + unat (4 :: u64)) None None 0 4 sample_db = Inr sel"
  using max_spendable_can_be_spent [OF sample_db_ok sample_balance [of 4], of 8]
  by (auto simp: sample_balance)

theorem reused_txo_counts_twice_witness:
  "\<exists>unspent pending.
      Txo_list_unspent (Some ''BA'') None (Some 0) None None None None sample_reused_db = Inr unspent \<and>
      Txo_list_pending (Some ''BA'') None (Some 0) None None None None sample_reused_db = Inr pending \<and>
      sample_txo ''C'' 2 100 2 \<in> set unspent \<and> sample_txo ''C'' 2 100 2 \<in> set pending"
proof -
  have c: "sample_txo ''C'' 2 100 2 \<in> set (db_txos sample_reused_db)"
    by code_simp
  have l: "sample_failed_log \<in> set (input_logs sample_reused_db (sample_txo ''C'' 2 100 2))"
       "log_dead sample_failed_log"
       "sample_log \<in> set (input_logs sample_reused_db (sample_txo ''C'' 2 100 2))"
       "log_pending sample_log"
    by code_simp+
  show ?thesis
    using reused_txo_counts_twice [OF sample_reused_db_ok c l, of "''BA''" sample_ext 4]
    by (auto simp: sample_txo_def)
qed

lemma sample_network_status:
  obtains status where "get_network_status sample_ext sample_node = Inr status"
    "ns_network_block_height status = 5"
proof -
  have "map_sum id ns_network_block_height (get_network_status sample_ext sample_node) = Inr 5"
    by code_simp
  then show ?thesis
    using that by (cases "get_network_status sample_ext sample_node") auto
qed

lemma sample_token_ids: "Account_get_token_ids sample_account sample_db = Inr [0]"
  by code_simp

lemma sample_wallet_status:
  obtains s where "get_wallet_status sample_ext sample_node sample_db = Inr s"
proof -
  obtain status where st: "get_network_status sample_ext sample_node = Inr status"
    using sample_network_status .
  have "db_accounts sample_db = [sample_account]" "acct_id sample_account = ''BA''"
    by (simp_all add: sample_db_def sample_account_def)
  with st have "\<exists>s. get_wallet_status sample_ext sample_node sample_db = Inr s"
    by (simp add: get_wallet_status_def Account_list_all_def paginate_def sample_token_ids
        sample_balance sample_node_ledger)
  with that show ?thesis
    by blast
qed


theorem wallet_status_min_synced_witness:
  "\<exists>s. get_wallet_status sample_ext sample_node sample_db = Inr s \<and> ws_min_synced_block_index s = 2"
proof -
  obtain s where s: "get_wallet_status sample_ext sample_node sample_db = Inr s"
    using sample_wallet_status .
  obtain status where st: "get_network_status sample_ext sample_node = Inr status"
      "ns_network_block_height status = 5"
    using sample_network_status .
  have "db_accounts sample_db = [sample_account]" "acct_next_block_index sample_account = 3"
    by (simp_all add: sample_db_def sample_account_def)
  with wallet_status_min_synced [OF st(1) s] st(2) s show ?thesis
    by (simp add: saturating_sub_def)
qed

end
