(* ===== verification/Tx_Builder.thy ===== *)
theory Tx_Builder
  imports Balance Tx_Proposal
begin

section \<open>The transaction builder\<close>

text \<open>
  \<open>service/transaction_builder.rs\<close>: choosing the inputs of a transaction, sampling the rings that
  hide them, and building the outputs with the change. The builder of the MobileCoin crate that
  produces the unsigned transaction is a parameter, the record \<open>crate_builder\<close> over a type \<open>'b\<close> of
  its states; so are the memo credentials and the parsing of fog addresses.
\<close>

definition DEFAULT_NEW_TX_BLOCK_ATTEMPTS :: u64 where
  "DEFAULT_NEW_TX_BLOCK_ATTEMPTS = 10"

datatype (plugins only: code size) wtb_error =
    WTB_InsufficientFunds string
  | WTB_InsufficientInputFunds string
  | WTB_InsufficientTxOuts
  | WTB_RingSizeMismatch
  | WTB_NoRecipient
  | WTB_RingsAndProofsEmpty
  | WTB_LedgerDB ledger_error
  | WTB_TxBuilder ext_error
  | WTB_InvalidArgument string
  | WTB_ProstDecode ext_error
  | WTB_WalletDb wallet_db_error
  | WTB_FogError string
  | WTB_NullSubaddress string
  | WTB_Diesel diesel_error
  | WTB_NoInputs
  | WTB_OutboundValueTooLarge
  | WTB_TombstoneNotSet
  | WTB_InsufficientFee string
  | WTB_UriParse ext_error
  | WTB_FogPubkeyResolver string
  | WTB_B58 b58_error
  | WTB_AmountError ext_error
  | WTB_KeyError ext_error
  | WTB_MissingInputsForTokenId string
  | WTB_FromHexError ext_error
  | WTB_InvalidBurnRedemptionMemo string
  | WTB_TxOutConversion ext_error
  | WTB_RTHUnavailableForViewOnlyAccounts
  | WTB_CannotUseOrphanedTxoAsInput string
  | WTB_ChangeLargerThanMaxValue nat
  | WTB_Panic

subsection \<open>Memos\<close>

datatype transaction_memo =
    Memo_Empty
  | Memo_RTH "u64 option"
  | Memo_RTHWithPaymentIntentId "u64 option" u64
  | Memo_RTHWithPaymentRequestId "u64 option" u64
  | Memo_BurnRedemption bytes

text \<open>What a memo builder has been told: the sender's credential, whether destination memos are
  enabled, and the payment ids.\<close>

record rth_memo_builder =
  rth_sender_credential :: bytes
  rth_destination_memo :: bool
  rth_payment_intent_id :: "u64 option"
  rth_payment_request_id :: "u64 option"

datatype memo_builder =
    MB_Empty
  | MB_RTH rth_memo_builder
  | MB_BurnRedemption bytes bool

record tx_out_context =
  toc_tx_out :: tx_out
  toc_confirmation :: confirmation_number
  toc_shared_secret :: ristretto_public

record reserved_subaddresses =
  rs_keys :: bytes
  rs_change_subaddress :: public_address

record input_credentials =
  ic_ring :: "tx_out list"
  ic_membership_proofs :: "membership_proof list"
  ic_real_index :: nat
  ic_subaddress_index :: u64
  ic_view_private_key :: private_key

record 'b crate_builder =
  cb_BLOCK_VERSION_MAX :: u32
  cb_new :: "u32 \<Rightarrow> amount \<Rightarrow> bytes \<Rightarrow> memo_builder \<Rightarrow> ext_error + 'b"
  cb_set_tombstone_block :: "u64 \<Rightarrow> 'b \<Rightarrow> 'b"
  cb_input_credentials_new :: "input_credentials \<Rightarrow> ext_error + input_credentials"
  cb_add_input :: "input_credentials \<Rightarrow> 'b \<Rightarrow> 'b"
  cb_add_output :: "amount \<Rightarrow> public_address \<Rightarrow> 'b \<Rightarrow> ext_error + tx_out_context \<times> 'b"
  cb_add_change_output :: "amount \<Rightarrow> reserved_subaddresses \<Rightarrow> 'b \<Rightarrow> ext_error + tx_out_context \<times> 'b"
  cb_build_unsigned :: "'b \<Rightarrow> ext_error + unsigned_tx"
  cb_reserved_from_view_key :: "view_account_key \<Rightarrow> reserved_subaddresses"
  cb_reserved_from_index :: "account_key \<Rightarrow> u64 \<Rightarrow> reserved_subaddresses"
  cb_credential_from :: "account_key \<Rightarrow> bytes"
  cb_credential_new :: "public_address \<Rightarrow> private_key \<Rightarrow> bytes"
  cb_fog_report_url :: "public_address \<Rightarrow> string option"
  cb_fog_uri_from_str :: "string \<Rightarrow> ext_error + string"
  cb_fog_resolver_factory :: "string list \<Rightarrow> string + bytes"

definition generate_rth_memo_builder ::
    "externals \<Rightarrow> 'b crate_builder \<Rightarrow> u64 option \<Rightarrow> account_key \<Rightarrow> rth_memo_builder" where
  "generate_rth_memo_builder x cb subaddress_index account_key =
     \<lparr>rth_sender_credential =
        (case subaddress_index of
          Some i \<Rightarrow> cb_credential_new cb (x_subaddress x account_key i) (x_subaddress_spend_private x account_key i)
        | None \<Rightarrow> cb_credential_from cb account_key),
      rth_destination_memo = True, rth_payment_intent_id = None, rth_payment_request_id = None\<rparr>"

definition TransactionMemo_memo_builder ::
    "externals \<Rightarrow> 'b crate_builder \<Rightarrow> transaction_memo \<Rightarrow> account_key \<Rightarrow> memo_builder" where
  "TransactionMemo_memo_builder x cb self account_key =
     (case self of
       Memo_Empty \<Rightarrow> MB_Empty
     | Memo_RTH i \<Rightarrow> MB_RTH (generate_rth_memo_builder x cb i account_key)
     | Memo_RTHWithPaymentIntentId i payment_intent_id \<Rightarrow>
         MB_RTH ((generate_rth_memo_builder x cb i account_key)\<lparr>rth_payment_intent_id := Some payment_intent_id\<rparr>)
     | Memo_RTHWithPaymentRequestId i payment_request_id \<Rightarrow>
         MB_RTH ((generate_rth_memo_builder x cb i account_key)\<lparr>rth_payment_request_id := Some payment_request_id\<rparr>)
     | Memo_BurnRedemption memo_data \<Rightarrow> MB_BurnRedemption memo_data True)"

subsection \<open>The builder and its setters\<close>

text \<open>The ledger and the fog resolver factory are arguments of the operations instead of fields.\<close>

record wallet_tx_builder =
  wtb_account_id_hex :: string
  wtb_inputs :: "txo list"
  wtb_outlays :: "(public_address \<times> u64 \<times> u64) list"
  wtb_tombstone :: u64
  wtb_fee :: "(u64 \<times> u64) option"
  wtb_block_version :: "u32 option"
  wtb_subaddress_index_to_spend_from :: "u64 option"

definition wtb_new :: "string \<Rightarrow> wallet_tx_builder" where
  "wtb_new account_id_hex =
     \<lparr>wtb_account_id_hex = account_id_hex, wtb_inputs = [], wtb_outlays = [], wtb_tombstone = 0,
      wtb_fee = None, wtb_block_version = None, wtb_subaddress_index_to_spend_from = None\<rparr>"

definition set_spend_subaddress :: "u64 \<Rightarrow> wallet_tx_builder \<Rightarrow> wallet_tx_builder" where
  "set_spend_subaddress subaddress_index b = b\<lparr>wtb_subaddress_index_to_spend_from := Some subaddress_index\<rparr>"

definition set_txos :: "string list \<Rightarrow> db \<Rightarrow> wallet_tx_builder \<Rightarrow> wtb_error + wallet_tx_builder" where
  "set_txos input_txo_ids d b =
     rbind (map_err WTB_WalletDb (Txo_select_by_id input_txo_ids d)) (\<lambda>txos.
       Inr (b\<lparr>wtb_inputs := filter (\<lambda>t. txo_spent_block_index t = None) txos\<rparr>))"

definition fee_or_default :: "externals \<Rightarrow> wallet_tx_builder \<Rightarrow> u64 \<times> u64" where
  "fee_or_default x b = (case wtb_fee b of None \<Rightarrow> (x_MOB_MINIMUM_FEE x, x_MOB_ID x) | Some f \<Rightarrow> f)"

definition outlay_value_sum_map :: "(public_address \<times> u64 \<times> u64) list \<Rightarrow> (u64 \<times> nat) list" where
  "outlay_value_sum_map outlays =
     fold (\<lambda>(_, value, token_id). btree_upsert token_id (\<lambda>v. v + unat value) (unat value)) outlays []"

fun select_for_tokens ::
    "externals \<Rightarrow> u64 \<times> u64 \<Rightarrow> u64 option \<Rightarrow> (u64 \<times> nat) list \<Rightarrow> db \<Rightarrow> wallet_tx_builder
      \<Rightarrow> wtb_error + wallet_tx_builder" where
  "select_for_tokens x fee max_spendable_value [] d b = Inr b"
| "select_for_tokens x fee max_spendable_value ((token_id, target_value) # ts) d b =
     rbind (case wtb_subaddress_index_to_spend_from b of
              None \<Rightarrow> Inr None
            | Some i \<Rightarrow>
                rbind (map_err WTB_WalletDb (Account_get (wtb_account_id_hex b) d)) (\<lambda>a.
                rbind (map_err WTB_WalletDb (Account_public_address x a i)) (\<lambda>subaddress.
                rbind (map_err WTB_B58 (b58_encode_public_address x subaddress)) (\<lambda>b58.
                  Inr (Some b58))))) (\<lambda>spend_subaddress.
     rbind (map_err WTB_WalletDb
         (Txo_select_spendable_txos_for_value x (wtb_account_id_hex b) target_value max_spendable_value
            spend_subaddress token_id (if token_id = snd fee then fst fee else 0) d)) (\<lambda>inputs.
       select_for_tokens x fee max_spendable_value ts d (b\<lparr>wtb_inputs := inputs\<rparr>)))"

definition select_txos ::
    "externals \<Rightarrow> u64 option \<Rightarrow> db \<Rightarrow> wallet_tx_builder \<Rightarrow> wtb_error + wallet_tx_builder" where
  "select_txos x max_spendable_value d b =
     (let (fee_value, fee_token_id) = fee_or_default x b;
          m = btree_upsert fee_token_id (\<lambda>v. v + unat fee_value) (unat fee_value)
                (outlay_value_sum_map (wtb_outlays b))
      in select_for_tokens x (fee_value, fee_token_id) max_spendable_value m d b)"

definition add_recipient :: "public_address \<Rightarrow> u64 \<Rightarrow> u64 \<Rightarrow> wallet_tx_builder \<Rightarrow> wallet_tx_builder" where
  "add_recipient recipient value token_id b = b\<lparr>wtb_outlays := wtb_outlays b @ [(recipient, value, token_id)]\<rparr>"

definition set_fee :: "u64 \<Rightarrow> u64 \<Rightarrow> wallet_tx_builder \<Rightarrow> wtb_error + wallet_tx_builder" where
  "set_fee fee token_id b =
     (if fee < 1 then Inl (WTB_InsufficientFee ''1'') else Inr (b\<lparr>wtb_fee := Some (fee, token_id)\<rparr>))"

definition set_block_version :: "u32 \<Rightarrow> wallet_tx_builder \<Rightarrow> wallet_tx_builder" where
  "set_block_version v b = b\<lparr>wtb_block_version := Some v\<rparr>"

definition set_tombstone :: "ledger_db \<Rightarrow> u64 \<Rightarrow> wallet_tx_builder \<Rightarrow> wtb_error + wallet_tx_builder" where
  "set_tombstone ledger tombstone b =
     rbind (if tombstone > 0 then Inr tombstone
            else rbind (map_err WTB_LedgerDB (l_num_blocks ledger)) (\<lambda>n.
              Inr (n + DEFAULT_NEW_TX_BLOCK_ATTEMPTS))) (\<lambda>tombstone_block.
       Inr (b\<lparr>wtb_tombstone := tombstone_block\<rparr>))"

subsection \<open>Fog\<close>

definition extract_fog_uri :: "'b crate_builder \<Rightarrow> public_address \<Rightarrow> wtb_error + string option" where
  "extract_fog_uri cb addr =
     (case cb_fog_report_url cb addr of
       Some s \<Rightarrow> rbind (map_err WTB_UriParse (cb_fog_uri_from_str cb s)) (\<lambda>u. Inr (Some u))
     | None \<Rightarrow> Inr None)"

definition get_fog_resolver ::
    "externals \<Rightarrow> 'b crate_builder \<Rightarrow> wallet_tx_builder \<Rightarrow> db \<Rightarrow> wtb_error + bytes" where
  "get_fog_resolver x cb b d =
     rbind (map_err WTB_WalletDb (Account_get (wtb_account_id_hex b) d)) (\<lambda>a.
     rbind (map_err WTB_WalletDb (Account_change_subaddress x a d)) (\<lambda>change_subaddress.
     rbind (map_err WTB_WalletDb (AssignedSubaddress_public_address x change_subaddress)) (\<lambda>change_public_address.
     rbind (collect_results (extract_fog_uri cb) (change_public_address # map fst (wtb_outlays b))) (\<lambda>uris.
       map_err WTB_FogPubkeyResolver
         (cb_fog_resolver_factory cb (List.map_filter (\<lambda>u. u) uris))))))"

subsection \<open>Rings\<close>

text \<open>The inner loop: \<open>RING_SIZE\<close> members from the iterator of sampled indices and proofs; \<open>next().unwrap()\<close>
  on an exhausted iterator is a panic.\<close>

fun take_ring ::
    "ledger_db \<Rightarrow> nat \<Rightarrow> (u64 \<times> membership_proof) list
      \<Rightarrow> wtb_error + (tx_out \<times> membership_proof) list \<times> (u64 \<times> membership_proof) list" where
  "take_ring ledger 0 it = Inr ([], it)"
| "take_ring ledger (Suc n) it =
     (case it of
       [] \<Rightarrow> Inl WTB_Panic
     | (index, proof) # it' \<Rightarrow>
         rbind (map_err WTB_LedgerDB (l_get_tx_out_by_index ledger index)) (\<lambda>t.
         rbind (take_ring ledger n it') (\<lambda>(ring, rest).
           Inr ((t, proof) # ring, rest))))"

fun take_rings ::
    "ledger_db \<Rightarrow> nat \<Rightarrow> nat \<Rightarrow> (u64 \<times> membership_proof) list
      \<Rightarrow> wtb_error + (tx_out \<times> membership_proof) list list" where
  "take_rings ledger ring_size 0 it = Inr []"
| "take_rings ledger ring_size (Suc n) it =
     rbind (take_ring ledger ring_size it) (\<lambda>(ring, rest).
     rbind (take_rings ledger ring_size n rest) (\<lambda>rings. Inr (ring # rings)))"

definition get_rings ::
    "externals \<Rightarrow> ledger_db \<Rightarrow> (u64 \<Rightarrow> nat \<Rightarrow> u64) \<Rightarrow> (u64 list \<Rightarrow> u64 list) \<Rightarrow> nat \<Rightarrow> u64 list
      \<Rightarrow> (wtb_error + (tx_out \<times> membership_proof) list list) option" where
  "get_rings x ledger rng hash_order num_rings excluded =
     (let num_requested = x_RING_SIZE x * num_rings
      in case l_num_txos ledger of
        Inl e \<Rightarrow> Some (Inl (WTB_LedgerDB e))
      | Inr num_txos \<Rightarrow>
          (if length excluded > unat num_txos then
             Some (Inl (WTB_InvalidArgument ''excluded_tx_out_indices exceeds amount of tx outs in ledger''))
           else if num_requested > unat num_txos - length excluded then
             Some (Inl WTB_InsufficientTxOuts)
           else
             map_option (\<lambda>sampled.
               let sampled_indices_vec = hash_order sampled
               in rbind (map_err WTB_LedgerDB
                    (l_get_tx_out_proof_of_memberships ledger sampled_indices_vec)) (\<lambda>proofs.
                  take_rings ledger (x_RING_SIZE x) num_rings (zip sampled_indices_vec proofs)))
               (sample_loop (rng num_txos) num_requested excluded 0 [])))"

text \<open>The input takes its place in the ring.\<close>

definition place_input ::
    "tx_out list \<Rightarrow> membership_proof list \<Rightarrow> tx_out \<Rightarrow> membership_proof
      \<Rightarrow> tx_out list \<times> membership_proof list \<times> nat" where
  "place_input ring proofs db_tx_out proof =
     (case position (\<lambda>t. t = db_tx_out) ring of
       Some p \<Rightarrow> (ring, proofs, p)
     | None \<Rightarrow>
         (if ring = [] then (ring @ [db_tx_out], proofs @ [proof], 0)
          else (ring[0 := db_tx_out], proofs[0 := proof], 0)))"

subsection \<open>Building\<close>

definition txo_ledger_out :: "externals \<Rightarrow> ledger_db \<Rightarrow> txo \<Rightarrow> wtb_error + tx_out" where
  "txo_ledger_out x ledger utxo =
     rbind (map_err WTB_ProstDecode (Txo_public_key x utxo)) (\<lambda>k.
     rbind (map_err WTB_LedgerDB (l_get_tx_out_index_by_public_key ledger k)) (\<lambda>i.
       map_err WTB_LedgerDB (l_get_tx_out_by_index ledger i)))"

text \<open>The indices of the inputs, looked up twice: for the proofs, where a public key that does not
  decode is reported as an error of the ledger, and for the exclusion.\<close>

definition input_index :: "externals \<Rightarrow> ledger_db \<Rightarrow> txo \<Rightarrow> ledger_error + u64" where
  "input_index x ledger utxo =
     rbind (map_err LedgerOther (Txo_public_key x utxo)) (\<lambda>k.
     rbind (l_get_tx_out_index_by_public_key ledger k) (\<lambda>i.
     rbind (l_get_tx_out_by_index ledger i) (\<lambda>t.
       l_get_tx_out_index_by_hash ledger t)))"

definition excluded_index :: "externals \<Rightarrow> ledger_db \<Rightarrow> txo \<times> membership_proof \<Rightarrow> wtb_error + u64" where
  "excluded_index x ledger p =
     rbind (txo_ledger_out x ledger (fst p)) (\<lambda>t.
       map_err WTB_LedgerDB (l_get_tx_out_index_by_hash ledger t))"

fun add_inputs ::
    "externals \<Rightarrow> 'b crate_builder \<Rightarrow> ledger_db \<Rightarrow> private_key \<Rightarrow> (txo \<times> membership_proof) list
      \<Rightarrow> (tx_out list \<times> membership_proof list) list \<Rightarrow> 'b \<Rightarrow> unsigned_input_txo list
      \<Rightarrow> wtb_error + 'b \<times> unsigned_input_txo list" where
  "add_inputs x cb ledger view_private_key [] rings_and_proofs tb acc = Inr (tb, acc)"
| "add_inputs x cb ledger view_private_key ((utxo, proof) # ps) rings_and_proofs tb acc =
     rbind (ok_or (WTB_CannotUseOrphanedTxoAsInput (txo_id utxo)) (txo_subaddress_index utxo)) (\<lambda>subaddress_index.
     rbind (txo_ledger_out x ledger utxo) (\<lambda>db_tx_out.
       if rings_and_proofs = [] then Inl WTB_RingsAndProofsEmpty
       else
         (let (ring, membership_proofs) = last rings_and_proofs
          in if length ring \<noteq> length membership_proofs then Inl WTB_RingSizeMismatch
             else
               (let (ring', proofs', real_index) = place_input ring membership_proofs db_tx_out proof
                in if length ring' \<noteq> length proofs' then Inl WTB_RingSizeMismatch
                   else
                     rbind (map_err WTB_TxBuilder (cb_input_credentials_new cb
                        \<lparr>ic_ring = ring', ic_membership_proofs = proofs', ic_real_index = real_index,
                         ic_subaddress_index = subaddress_index, ic_view_private_key = view_private_key\<rparr>)) (\<lambda>ic.
                       add_inputs x cb ledger view_private_key ps (butlast rings_and_proofs)
                         (cb_add_input cb ic tb)
                         (acc @ [\<lparr>uin_tx_out = db_tx_out, uin_subaddress_index = subaddress_index,
                            uin_amount = \<lparr>am_value = txo_value utxo, am_token_id = txo_token_id utxo\<rparr>\<rparr>]))))))"

fun add_outputs ::
    "'b crate_builder \<Rightarrow> (public_address \<times> u64 \<times> u64) list \<Rightarrow> (u64 \<times> nat) list \<Rightarrow> 'b \<Rightarrow> output_txo list
      \<Rightarrow> wtb_error + (u64 \<times> nat) list \<times> 'b \<times> output_txo list" where
  "add_outputs cb [] totals tb acc = Inr (totals, tb, acc)"
| "add_outputs cb ((receiver, value, token_id) # os) totals tb acc =
     (let totals' = btree_upsert token_id (\<lambda>v. v + unat value) (unat value) totals;
          amt = \<lparr>am_value = value, am_token_id = token_id\<rparr>
      in rbind (map_err WTB_TxBuilder (cb_add_output cb amt receiver tb)) (\<lambda>(ctx, tb').
           add_outputs cb os totals' tb'
             (acc @ [\<lparr>out_tx_out = toc_tx_out ctx, out_recipient_public_address = receiver,
                out_confirmation_number = toc_confirmation ctx, out_amount = amt,
                out_shared_secret = Some (toc_shared_secret ctx)\<rparr>])))"

definition input_value_per_token :: "txo list \<Rightarrow> (u64 \<times> nat) list" where
  "input_value_per_token utxos =
     fold (\<lambda>t. btree_upsert (txo_token_id t) (\<lambda>v. v + unat (txo_value t)) (unat (txo_value t))) utxos []"

definition change_target ::
    "externals \<Rightarrow> 'b crate_builder \<Rightarrow> account \<Rightarrow> u64 option \<Rightarrow> reserved_subaddresses
      \<Rightarrow> wtb_error + public_address \<times> reserved_subaddresses" where
  "change_target x cb a spend_from reserved =
     (case spend_from of
       Some i \<Rightarrow>
         rbind (map_err WTB_WalletDb (Account_public_address x a i)) (\<lambda>change_address.
         rbind (map_err WTB_WalletDb (Account_account_key x a)) (\<lambda>k.
           Inr (change_address, cb_reserved_from_index cb k i)))
     | None \<Rightarrow> Inr (rs_change_subaddress reserved, reserved))"

fun add_changes ::
    "externals \<Rightarrow> 'b crate_builder \<Rightarrow> account \<Rightarrow> u64 option \<Rightarrow> reserved_subaddresses \<Rightarrow> (u64 \<times> nat) list
      \<Rightarrow> (u64 \<times> nat) list \<Rightarrow> 'b \<Rightarrow> output_txo list \<Rightarrow> wtb_error + 'b \<times> output_txo list" where
  "add_changes x cb a spend_from reserved totals [] tb acc = Inr (tb, acc)"
| "add_changes x cb a spend_from reserved totals ((token_id, input_value) # ts) tb acc =
     rbind (ok_or (WTB_MissingInputsForTokenId (show_u64 token_id)) (map_of totals token_id)) (\<lambda>total_value.
       if total_value > input_value then
         Inl (WTB_InsufficientInputFunds
           (''Total value required to send transaction '' @ show_nat total_value @ '', but only '' @
            show_nat input_value @ '' in inputs for token_id '' @ [CHR 0x22] @ show_u64 token_id @ [CHR 0x22]))
       else
         (let change_value = input_value - total_value;
              change_amount = \<lparr>am_value = word_of_nat change_value, am_token_id = token_id\<rparr>
          in if int change_value > uint (- 1 :: u64) then Inl (WTB_ChangeLargerThanMaxValue change_value)
             else
               rbind (change_target x cb a spend_from reserved) (\<lambda>(change_address, reserved').
               rbind (map_err WTB_TxBuilder (cb_add_change_output cb change_amount reserved' tb)) (\<lambda>(ctx, tb').
                 add_changes x cb a spend_from reserved totals ts tb'
                   (acc @ [\<lparr>out_tx_out = toc_tx_out ctx, out_recipient_public_address = change_address,
                      out_confirmation_number = toc_confirmation ctx, out_amount = change_amount,
                      out_shared_secret = Some (toc_shared_secret ctx)\<rparr>])))))"

text \<open>The part of \<open>build\<close> after the rings have been sampled.\<close>

definition build_with_rings ::
    "externals \<Rightarrow> 'b crate_builder \<Rightarrow> ledger_db \<Rightarrow> wallet_tx_builder \<Rightarrow> account \<Rightarrow> private_key
      \<Rightarrow> reserved_subaddresses \<Rightarrow> (txo \<times> membership_proof) list \<Rightarrow> 'b
      \<Rightarrow> (tx_out \<times> membership_proof) list list \<Rightarrow> wtb_error + unsigned_tx_proposal" where
  "build_with_rings x cb ledger b a view_private_key reserved inputs_and_proofs tb rings =
     (if length rings \<noteq> length inputs_and_proofs then Inl WTB_RingSizeMismatch
      else if wtb_outlays b = [] then Inl WTB_NoRecipient
      else
        rbind (add_inputs x cb ledger view_private_key inputs_and_proofs
            (map (\<lambda>r. (map fst r, map snd r)) rings) tb []) (\<lambda>(tb1, unsigned_input_txos).
        rbind (add_outputs cb (wtb_outlays b)
            [(snd (fee_or_default x b), unat (fst (fee_or_default x b)))] tb1 []) (\<lambda>(totals, tb2, payload_txos).
        rbind (add_changes x cb a (wtb_subaddress_index_to_spend_from b) reserved totals
            (input_value_per_token (map fst inputs_and_proofs)) tb2 []) (\<lambda>(tb3, change_txos).
        rbind (map_err WTB_TxBuilder (cb_build_unsigned cb tb3)) (\<lambda>unsigned_tx.
          Inr \<lparr>utp_unsigned_tx = unsigned_tx, utp_unsigned_input_txos = unsigned_input_txos,
               utp_payload_txos = payload_txos, utp_change_txos = change_txos\<rparr>)))))"

definition build_start ::
    "externals \<Rightarrow> 'b crate_builder \<Rightarrow> ledger_db \<Rightarrow> transaction_memo \<Rightarrow> db \<Rightarrow> wallet_tx_builder
      \<Rightarrow> wtb_error + account \<times> private_key \<times> reserved_subaddresses \<times> (txo \<times> membership_proof) list \<times> 'b \<times> u64 list" where
  "build_start x cb ledger memo d b =
     rbind (map_err WTB_WalletDb (Account_get (wtb_account_id_hex b) d)) (\<lambda>a.
     rbind (map_err WTB_WalletDb (Account_view_account_key x a)) (\<lambda>view_account_key.
     rbind (map_err WTB_WalletDb (Account_view_private_key x a)) (\<lambda>view_private_key.
     (let reserved = cb_reserved_from_view_key cb view_account_key;
          block_version = (case wtb_block_version b of None \<Rightarrow> cb_BLOCK_VERSION_MAX cb | Some v \<Rightarrow> v);
          fee_amount = \<lparr>am_value = fst (fee_or_default x b), am_token_id = snd (fee_or_default x b)\<rparr>
      in rbind (get_fog_resolver x cb b d) (\<lambda>fog_resolver.
         (let memo_builder = (case Account_account_key x a of
                Inr k \<Rightarrow> TransactionMemo_memo_builder x cb memo k
              | Inl _ \<Rightarrow> MB_Empty)
          in rbind (map_err WTB_TxBuilder (cb_new cb block_version fee_amount fog_resolver memo_builder)) (\<lambda>tb0.
             (let tb = cb_set_tombstone_block cb (wtb_tombstone b) tb0
              in if wtb_tombstone b = 0 then Inl WTB_TombstoneNotSet
                 else if wtb_inputs b = [] then Inl WTB_NoInputs
                 else
                   rbind (map_err WTB_LedgerDB (collect_results (input_index x ledger) (wtb_inputs b))) (\<lambda>indexes.
                   rbind (map_err WTB_LedgerDB (l_get_tx_out_proof_of_memberships ledger indexes)) (\<lambda>proofs.
                   (let inputs_and_proofs = zip (wtb_inputs b) proofs
                    in rbind (collect_results (excluded_index x ledger) inputs_and_proofs) (\<lambda>excluded.
                         Inr (a, view_private_key, reserved, inputs_and_proofs, tb, excluded)))))))))))))"

definition build ::
    "externals \<Rightarrow> 'b crate_builder \<Rightarrow> ledger_db \<Rightarrow> (u64 \<Rightarrow> nat \<Rightarrow> u64) \<Rightarrow> (u64 list \<Rightarrow> u64 list)
      \<Rightarrow> transaction_memo \<Rightarrow> db \<Rightarrow> wallet_tx_builder \<Rightarrow> (wtb_error + unsigned_tx_proposal) option" where
  "build x cb ledger rng hash_order memo d b =
     (case build_start x cb ledger memo d b of
       Inl e \<Rightarrow> Some (Inl e)
     | Inr (a, view_private_key, reserved, inputs_and_proofs, tb, excluded) \<Rightarrow>
         map_option (\<lambda>rings. rbind rings
             (build_with_rings x cb ledger b a view_private_key reserved inputs_and_proofs tb))
           (get_rings x ledger rng hash_order (length inputs_and_proofs) excluded))"

section \<open>Facts\<close>

subsection \<open>Sums per token\<close>

definition token_sum :: "u64 \<Rightarrow> amount list \<Rightarrow> nat" where
  "token_sum k as = sum_list (map (unat \<circ> am_value) (filter (\<lambda>a. am_token_id a = k) as))"

lemma token_sum_simps [simp]:
  "token_sum k [] = 0"
  "token_sum k (a # as) = (if am_token_id a = k then unat (am_value a) else 0) + token_sum k as"
  "token_sum k (as @ bs) = token_sum k as + token_sum k bs"
  by (simp_all add: token_sum_def)

definition map_value :: "('k \<times> nat) list \<Rightarrow> 'k \<Rightarrow> nat" where
  "map_value m k = (case map_of m k of None \<Rightarrow> 0 | Some v \<Rightarrow> v)"

abbreviation sorted_keys :: "('k :: linorder \<times> 'v) list \<Rightarrow> bool" where
  "sorted_keys m \<equiv> sorted_wrt (<) (map fst m)"

lemma map_value_upsert:
  "sorted_keys m \<Longrightarrow> map_value (btree_upsert k' (\<lambda>v. v + n) n m) k = map_value m k + (if k = k' then n else 0)"
  by (auto simp: map_value_def map_of_btree_upsert split: option.splits)

lemma fold_upsert:
  fixes key :: "'a \<Rightarrow> 'k :: linorder" and val :: "'a \<Rightarrow> nat" and as :: "'a list"
  assumes "sorted_keys m"
  defines "r \<equiv> fold (\<lambda>a. btree_upsert (key a) (\<lambda>v. v + val a) (val a)) as m"
  shows "sorted_keys r" "fst ` set r = key ` set as \<union> fst ` set m"
    "map_value r k = map_value m k + sum_list (map val (filter (\<lambda>a. key a = k) as))"
  unfolding r_def using assms(1)
  by (induction as arbitrary: m) (auto simp: sorted_btree_upsert keys_btree_upsert map_value_upsert)

lemma input_value_per_token_spec:
  "sorted_keys (input_value_per_token ts)"
  "fst ` set (input_value_per_token ts) = txo_token_id ` set ts"
  "map_value (input_value_per_token ts) k = sum_list (map txo_val (filter (\<lambda>t. txo_token_id t = k) ts))"
  using fold_upsert [of "[]" txo_token_id txo_val ts]
  by (simp_all add: input_value_per_token_def txo_val_def [abs_def] map_value_def)

subsection \<open>The loops of \<open>build\<close>\<close>

definition txo_amount :: "txo \<Rightarrow> amount" where
  "txo_amount t = \<lparr>am_value = txo_value t, am_token_id = txo_token_id t\<rparr>"

lemma add_inputs_Inr:
  assumes "add_inputs x cb l vk ps rings tb acc = Inr (tb', us)"
  shows "\<exists>us'. us = acc @ us' \<and> map uin_amount us' = map (txo_amount \<circ> fst) ps"
  using assms
proof (induction ps arbitrary: rings tb acc)
  case (Cons p ps)
  obtain t pf where p: "p = (t, pf)" by (cases p)
  from Cons.prems obtain i out where io: "txo_subaddress_index t = Some i" "txo_ledger_out x l t = Inr out"
    by (auto simp: p rbind_eq_Inr ok_or_def split: option.splits)
  obtain ring proofs where last: "last rings = (ring, proofs)"
    by (cases "last rings")
  obtain ring' proofs' r where place: "place_input ring proofs out pf = (ring', proofs', r)"
    by (cases "place_input ring proofs out pf")
  from Cons.prems obtain rings' tb1 where
      rec: "add_inputs x cb l vk ps rings' tb1
        (acc @ [\<lparr>uin_tx_out = out, uin_subaddress_index = i, uin_amount = txo_amount t\<rparr>]) = Inr (tb', us)"
    by (auto simp: p io last place rbind_eq_Inr ok_or_def txo_amount_def split: if_splits)
  from Cons.IH [OF rec] show ?case
    by (auto simp: p)
qed simp

abbreviation outlay_of :: "output_txo \<Rightarrow> public_address \<times> u64 \<times> u64" where
  "outlay_of t \<equiv> (out_recipient_public_address t, am_value (out_amount t), am_token_id (out_amount t))"

lemma add_outputs_Inr:
  assumes "add_outputs cb os totals tb acc = Inr (totals', tb', ps)" "sorted_keys totals"
  shows "\<exists>ps'. ps = acc @ ps' \<and> map outlay_of ps' = os \<and>
           (\<forall>k. map_value totals' k = map_value totals k + token_sum k (map out_amount ps'))"
  using assms
proof (induction os arbitrary: totals tb acc)
  case (Cons p os)
  obtain r v k' where p: "p = (r, v, k')" by (cases p)
  define totals1 where "totals1 = btree_upsert k' (\<lambda>w. w + unat v) (unat v) totals"
  have s1: "sorted_keys totals1"
    using Cons.prems(2) by (simp add: totals1_def sorted_btree_upsert)
  from Cons.prems(1) obtain ctx :: tx_out_context and tb1 where
      rec: "add_outputs cb os totals1 tb1 (acc @ [\<lparr>out_tx_out = toc_tx_out ctx,
        out_recipient_public_address = r, out_confirmation_number = toc_confirmation ctx,
        out_amount = \<lparr>am_value = v, am_token_id = k'\<rparr>,
        out_shared_secret = Some (toc_shared_secret ctx)\<rparr>]) = Inr (totals', tb', ps)"
    by (auto simp: p Let_def rbind_eq_Inr totals1_def split: prod.splits)
  from Cons.IH [OF rec s1] show ?case
    using map_value_upsert [OF Cons.prems(2), of k' "unat v"] by (auto simp: p totals1_def)
qed simp

lemma add_changes_Inr:
  assumes "add_changes x cb a sp rs totals ts tb acc = Inr (tb', cs)"
  shows "\<exists>cs'. cs = acc @ cs' \<and> list_all2 (\<lambda>(k, v) c. am_token_id (out_amount c) = k \<and>
           (\<exists>tot. map_of totals k = Some tot \<and> tot + unat (am_value (out_amount c)) = v)) ts cs'"
  using assms
proof (induction ts arbitrary: tb acc)
  case (Cons p ts)
  obtain k v where p: "p = (k, v)" by (cases p)
  from Cons.prems obtain tot where tot: "map_of totals k = Some tot" "tot \<le> v"
      "int (v - tot) \<le> uint (- 1 :: u64)"
    by (auto simp: p rbind_eq_Inr Let_def ok_or_def simp del: of_nat_diff split: option.splits if_splits)
  define w :: u64 where "w = word_of_nat (v - tot)"
  from Cons.prems tot obtain addr tb1 and ctx :: tx_out_context where
      rec: "add_changes x cb a sp rs totals ts tb1 (acc @ [\<lparr>out_tx_out = toc_tx_out ctx,
        out_recipient_public_address = addr, out_confirmation_number = toc_confirmation ctx,
        out_amount = \<lparr>am_value = w, am_token_id = k\<rparr>,
        out_shared_secret = Some (toc_shared_secret ctx)\<rparr>]) = Inr (tb', cs)"
    by (auto simp: p rbind_eq_Inr Let_def ok_or_def w_def [symmetric] simp del: of_nat_diff split: prod.splits)
  have "unat w = v - tot"
    using tot(3) by (simp add: w_def unat_of_nat take_bit_nat_eq_self unsigned_minus_1_eq_mask
        mask_eq_exp_minus_1 del: of_nat_diff)
  with Cons.IH [OF rec] tot show ?case
    by (auto simp: p)
qed simp

lemma change_sums:
  assumes "list_all2 (\<lambda>(k, v) c. am_token_id c = k \<and> f k + unat (am_value c) = v) m cs"
    and "sorted_keys m" "k \<in> fst ` set m"
  shows "map_value m k = f k + token_sum k cs"
  using assms
proof (induction rule: list_all2_induct)
  case (Cons p m c cs)
  have none: "token_sum k cs = 0" if "k \<notin> fst ` set m"
    using Cons.hyps(2) that by (induction rule: list_all2_induct) auto
  obtain k' v where p: "p = (k', v)" by (cases p)
  show ?case
  proof (cases "k = k'")
    case True
    with Cons.prems p have "k \<notin> fst ` set m"
      by auto
    with none True Cons.hyps p show ?thesis
      by (auto simp: map_value_def)
  next
    case False
    with Cons p show ?thesis
      by (auto simp: map_value_def)
  qed
qed simp

text \<open>A successful \<open>build\<close> is a run of its three loops.\<close>

lemma build_Inr:
  assumes "build x cb l rng hash_order memo d b = Some (Inr p)"
  obtains a vk rs ips rings tb tb1 us totals tb2 ps tb3 cs where
    "add_inputs x cb l vk ips rings tb [] = Inr (tb1, us)"
    "add_outputs cb (wtb_outlays b) [(snd (fee_or_default x b), unat (fst (fee_or_default x b)))] tb1 []
       = Inr (totals, tb2, ps)"
    "add_changes x cb a (wtb_subaddress_index_to_spend_from b) rs totals
       (input_value_per_token (map fst ips)) tb2 [] = Inr (tb3, cs)"
    "utp_unsigned_input_txos p = us" "utp_payload_txos p = ps" "utp_change_txos p = cs"
proof -
  obtain a vk rs ips tb exc where start: "build_start x cb l memo d b = Inr (a, vk, rs, ips, tb, exc)"
    using assms by (cases "build_start x cb l memo d b") (auto simp: build_def)
  obtain rings where "build_with_rings x cb l b a vk rs ips tb rings = Inr p"
    using assms start by (auto simp: build_def rbind_eq_Inr)
  then show ?thesis
    using that by (auto simp: build_with_rings_def rbind_eq_Inr split: if_splits)
qed

lemma build_conserves:
  assumes "build x cb l rng hash_order memo d b = Some (Inr p)"
  defines "ins \<equiv> map uin_amount (utp_unsigned_input_txos p)"
    and "outs \<equiv> map out_amount (utp_payload_txos p)"
    and "changes \<equiv> map out_amount (utp_change_txos p)"
    and "fee \<equiv> fee_or_default x b"
  shows "map outlay_of (utp_payload_txos p) = wtb_outlays b \<and>
         map am_token_id changes = sorted_list_of_set (set (map am_token_id ins)) \<and>
         (\<forall>k \<in> set (map am_token_id ins).
            token_sum k ins = token_sum k outs + token_sum k changes + (if k = snd fee then unat (fst fee) else 0))"
proof -
  obtain a vk rs ips rings tb tb1 us totals tb2 ps tb3 cs where
      us: "add_inputs x cb l vk ips rings tb [] = Inr (tb1, us)"
      and ps: "add_outputs cb (wtb_outlays b) [(snd fee, unat (fst fee))] tb1 [] = Inr (totals, tb2, ps)"
      and cs: "add_changes x cb a (wtb_subaddress_index_to_spend_from b) rs totals
                 (input_value_per_token (map fst ips)) tb2 [] = Inr (tb3, cs)"
      and p: "utp_unsigned_input_txos p = us" "utp_payload_txos p = ps" "utp_change_txos p = cs"
    unfolding fee_def by (rule build_Inr [OF assms(1)])
  define m where "m = input_value_per_token (map fst ips)"
  have ins: "ins = map txo_amount (map fst ips)"
    using add_inputs_Inr [OF us] by (simp add: ins_def p)
  have outs: "map outlay_of ps = wtb_outlays b"
      "map_value totals k = (if k = snd fee then unat (fst fee) else 0) + token_sum k outs" for k
    using add_outputs_Inr [OF ps] by (auto simp: outs_def p map_value_def)
  have chg: "list_all2 (\<lambda>(k, v) c. am_token_id c = k \<and> map_value totals k + unat (am_value c) = v) m changes"
    using add_changes_Inr [OF cs]
    by (auto simp: changes_def p m_def list_all2_map2 map_value_def elim!: list_all2_mono)
  have tok: "map am_token_id changes = map fst m"
    using chg by (induction rule: list_all2_induct) auto
  have in_sum: "token_sum k ins = map_value m k" for k
    unfolding ins m_def input_value_per_token_spec(3)
    by (induction ips) (auto simp: txo_amount_def txo_val_def)
  have keys: "fst ` set m = set (map am_token_id ins)"
    by (simp add: m_def input_value_per_token_spec(2) ins txo_amount_def image_image)
  have sm: "sorted_keys m"
    by (simp add: m_def input_value_per_token_spec(1))
  have ch_sum: "map_value m k = map_value totals k + token_sum k changes" if "k \<in> fst ` set m" for k
    by (rule change_sums [OF chg sm that])
  have "map fst m = sorted_list_of_set (fst ` set m)"
    using sm sorted_list_of_set.idem_if_sorted_distinct [of "map fst m"] by (simp add: strict_sorted_iff)
  then show ?thesis
    using outs tok keys in_sum ch_sum by (auto simp: p)
qed

text \<open>C32: a transaction conserves value. When the builder produces a transaction, its payload outputs
  are exactly the requested outlays, in order; there is one change output for each token of the
  inputs; and for each of those tokens the inputs are worth the outputs, the change and the fee.\<close>

theorem build_conserves_value:
  assumes "build x cb l rng hash_order memo d b = Some (Inr p)"
  defines "ins \<equiv> map uin_amount (utp_unsigned_input_txos p)"
    and "outs \<equiv> map out_amount (utp_payload_txos p)"
    and "changes \<equiv> map out_amount (utp_change_txos p)"
    and "fee \<equiv> fee_or_default x b"
  shows "map outlay_of (utp_payload_txos p) = wtb_outlays b \<and>
         map am_token_id changes = sorted_list_of_set (set (map am_token_id ins)) \<and>
         (\<forall>k \<in> set (map am_token_id ins).
            token_sum k ins = token_sum k outs + token_sum k changes + (if k = snd fee then unat (fst fee) else 0))"
  unfolding ins_def outs_def changes_def fee_def by (rule build_conserves [OF assms(1)])

subsection \<open>Rings\<close>

lemma position_Some: "position P xs = Some i \<Longrightarrow> i < length xs \<and> P (xs ! i)"
  by (induction xs arbitrary: i) (auto split: if_splits)

lemma position_None: "position P xs = None \<longleftrightarrow> list_all (\<lambda>a. \<not> P a) xs"
  by (induction xs) auto

text \<open>The real input in its ring. The ring keeps its size (an empty one gets the input alone), it has
  the input at the index reported, with as many proofs as members; all members but the first stay,
  and an input that was not among the sampled members comes with its own proof.\<close>

theorem place_input_real:
  assumes "length ring = length proofs" "place_input ring proofs t pf = (ring', proofs', i)"
  shows "i < length ring' \<and> ring' ! i = t \<and> length ring' = max 1 (length ring) \<and>
         length proofs' = length ring' \<and> tl ring' = tl ring \<and> tl proofs' = tl proofs \<and>
         (t \<in> set ring \<or> i = 0 \<and> proofs' ! 0 = pf)"
proof (cases "position (\<lambda>t'. t' = t) ring")
  case None
  with assms show ?thesis
    by (cases ring; cases proofs) (auto simp: place_input_def)
next
  case (Some j)
  with assms position_Some [OF Some] show ?thesis
    by (cases ring) (auto simp: place_input_def)
qed

lemma take_ring_Inr:
  assumes "\<And>i. i \<in> set is \<Longrightarrow> l_get_tx_out_by_index l i = Inr (out i)" "n \<le> length is"
  shows "take_ring l n (map (\<lambda>i. (i, pf i)) is) =
           Inr (map (\<lambda>i. (out i, pf i)) (take n is), map (\<lambda>i. (i, pf i)) (drop n is))"
  using assms
proof (induction n arbitrary: "is")
  case (Suc n)
  then show ?case
    by (cases "is") auto
qed simp

lemma take_rings_Inr:
  assumes "\<And>i. i \<in> set is \<Longrightarrow> l_get_tx_out_by_index l i = Inr (out i)" "length is = r * n"
  shows "\<exists>rings. take_rings l r n (map (\<lambda>i. (i, pf i)) is) = Inr rings \<and> length rings = n \<and>
           list_all (\<lambda>g. length g = r) rings \<and> concat rings = map (\<lambda>i. (out i, pf i)) is"
  using assms
proof (induction n arbitrary: "is")
  case (Suc n)
  obtain rings where "take_rings l r n (map (\<lambda>i. (i, pf i)) (drop r is)) = Inr rings" "length rings = n"
      "list_all (\<lambda>g. length g = r) rings" "concat rings = map (\<lambda>i. (out i, pf i)) (drop r is)"
    using Suc.IH [of "drop r is"] Suc.prems by (auto dest: in_set_dropD)
  with Suc.prems take_ring_Inr [of "is" l out r pf] show ?case
    by (intro exI [of _ "map (\<lambda>i. (out i, pf i)) (take r is) # rings"])
       (auto simp: map_append [symmetric] simp del: map_append)
qed simp

text \<open>C34: sampling rings. When the ledger has enough outputs outside the excluded ones and the random
  generator draws every index again and again, the rings are produced, without a panic: as many as
  asked for, each of \<open>RING_SIZE\<close> members with their proofs, all members of all rings at different
  indices and none of them excluded.\<close>

theorem get_rings_returns:
  fixes num :: u64
  assumes num: "l_num_txos l = Inr num"
    and room: "length excluded + x_RING_SIZE x * num_rings \<le> unat num"
    and range: "\<And>i. rng num i < num"
    and fair: "\<And>j idx. idx < num \<Longrightarrow> \<exists>i \<ge> j. rng num i = idx"
    and hash_order: "\<And>js. distinct js \<Longrightarrow> mset (hash_order js) = mset js"
    and outs: "\<And>idx. idx < num \<Longrightarrow> l_get_tx_out_by_index l idx = Inr (out idx)"
    and proofs: "\<And>js. set js \<subseteq> {..<num} \<Longrightarrow> l_get_tx_out_proof_of_memberships l js = Inr (map pf js)"
  shows "\<exists>rings js. get_rings x l rng hash_order num_rings excluded = Some (Inr rings) \<and>
           length rings = num_rings \<and> list_all (\<lambda>ring. length ring = x_RING_SIZE x) rings \<and>
           concat rings = map (\<lambda>i. (out i, pf i)) js \<and> distinct js \<and> set js \<subseteq> {..<num} - set excluded"
proof -
  obtain r where r: "sample_loop (rng num) (x_RING_SIZE x * num_rings) excluded 0 [] = Some r"
      "length r = x_RING_SIZE x * num_rings" "distinct r" "set r \<subseteq> {..<num} - set excluded"
    using sample_loop_returns [of "rng num" num excluded "x_RING_SIZE x * num_rings" "[]" 0] range fair room
    by auto
  define js where "js = hash_order r"
  have "mset js = mset r"
    using hash_order r(3) by (simp add: js_def)
  then have js: "length js = x_RING_SIZE x * num_rings" "distinct js" "set js \<subseteq> {..<num} - set excluded"
    using mset_eq_length [of js r] mset_eq_imp_distinct_iff [of js r] mset_eq_setD [of js r] r by auto
  have "zip js (map pf js) = map (\<lambda>i. (i, pf i)) js"
    by (simp add: zip_map2 zip_same_conv_map)
  moreover have "l_get_tx_out_proof_of_memberships l js = Inr (map pf js)"
    using js(3) proofs by blast
  moreover have "\<exists>rings. take_rings l (x_RING_SIZE x) num_rings (map (\<lambda>i. (i, pf i)) js) = Inr rings \<and>
      length rings = num_rings \<and> list_all (\<lambda>g. length g = x_RING_SIZE x) rings \<and>
      concat rings = map (\<lambda>i. (out i, pf i)) js"
    using js(1,3) outs by (intro take_rings_Inr) auto
  ultimately show ?thesis
    using num room r(1) js(2,3) by (auto simp: get_rings_def Let_def js_def [symmetric])
qed

subsection \<open>Choosing the inputs\<close>

lemma select_for_tokens_Inr:
  assumes "select_for_tokens x fee cap ts d b = Inr b'" "ts \<noteq> []"
  shows "\<exists>sp. Txo_select_spendable_txos_for_value x (wtb_account_id_hex b) (snd (last ts)) cap sp
           (fst (last ts)) (if fst (last ts) = snd fee then fst fee else 0) d = Inr (wtb_inputs b')"
  using assms
proof (induction ts arbitrary: b)
  case (Cons p ts)
  obtain k v where p: "p = (k, v)" by (cases p)
  from Cons.prems(1) obtain sp inputs where
      sel: "Txo_select_spendable_txos_for_value x (wtb_account_id_hex b) v cap sp k
        (if k = snd fee then fst fee else 0) d = Inr inputs"
      and rec: "select_for_tokens x fee cap ts d (b\<lparr>wtb_inputs := inputs\<rparr>) = Inr b'"
    by (auto simp: p rbind_eq_Inr map_err_eq_Inr)
  show ?case
  proof (cases "ts = []")
    case True
    with sel rec p show ?thesis by auto
  next
    case False
    with Cons.IH [OF rec] p show ?thesis by simp
  qed
qed simp

lemma sorted_keys_last:
  "sorted_keys m \<Longrightarrow> m \<noteq> [] \<Longrightarrow> fst (last m) = Max (fst ` set m)"
proof (induction m)
  case (Cons p m)
  show ?case
  proof (cases "m = []")
    case False
    then have "fst p < fst (last m)"
      using Cons.prems by simp
    with False Cons show ?thesis
      by (simp add: max_def less_imp_le)
  qed simp
qed simp

lemma map_value_last:
  assumes "sorted_keys m" "m \<noteq> []"
  shows "map_value m (fst (last m)) = snd (last m)"
proof -
  have "map_of m (fst (last m)) = Some (snd (last m))"
    using assms by (intro map_of_is_SomeI) (simp_all add: strict_sorted_iff)
  then show ?thesis
    by (simp add: map_value_def)
qed

lemma selected_inputs:
  assumes "db_ok d" "Txo_select_spendable_txos_for_value x acct target cap b58 token fee d = Inr sel"
  shows "distinct sel \<and> length sel \<le> unat (x_MAX_INPUTS x) \<and> target \<le> vsum sel \<and>
         (\<exists>sub. \<forall>t \<in> set sel. eligible d (Some acct) sub cap token t)"
  using assms(2)
proof (rule select_Inr [OF assms(1)], goal_cases)
  case (1 sub k)
  then show ?case
    using window_subset [of _ k "rev (spendable_list d (Some acct) sub cap token)"]
      distinct_spendable_list [OF assms(1)]
    by (auto simp: length_window distinct_window set_spendable_list)
qed

text \<open>C33: the inputs the builder selects. Of all tokens of the outlays and of the fee, the inputs are
  those selected for the token with the greatest identifier alone: spendable txos of that token,
  that cover its outlays (and the fee, if it is the token of the fee). In a transaction of one
  token they cover everything; in a transaction of several tokens the inputs for the other tokens
  have been overwritten.\<close>

theorem select_txos_covers_last_token:
  assumes "db_ok d" "select_txos x cap d b = Inr b'"
  defines "fee \<equiv> fee_or_default x b"
    and "k \<equiv> Max (insert (snd (fee_or_default x b)) ((\<lambda>(_, _, t). t) ` set (wtb_outlays b)))"
  shows "distinct (wtb_inputs b') \<and> length (wtb_inputs b') \<le> unat (x_MAX_INPUTS x) \<and>
         (\<exists>sub. \<forall>t \<in> set (wtb_inputs b'). eligible d (Some (wtb_account_id_hex b)) sub cap k t) \<and>
         sum_list (map (\<lambda>(_, v, _). unat v) (filter (\<lambda>(_, _, t). t = k) (wtb_outlays b)))
           + (if k = snd fee then unat (fst fee) else 0) \<le> vsum (wtb_inputs b')"
proof -
  define m where "m = btree_upsert (snd fee) (\<lambda>v. v + unat (fst fee)) (unat (fst fee))
                        (outlay_value_sum_map (wtb_outlays b))"
  have o: "sorted_keys (outlay_value_sum_map (wtb_outlays b))"
      "fst ` set (outlay_value_sum_map (wtb_outlays b)) = (\<lambda>(_, _, t). t) ` set (wtb_outlays b)"
      "map_value (outlay_value_sum_map (wtb_outlays b)) k' =
         sum_list (map (\<lambda>(_, v, _). unat v) (filter (\<lambda>(_, _, t). t = k') (wtb_outlays b)))" for k'
    using fold_upsert [of "[]" "\<lambda>(_, _, t). t" "\<lambda>(_, v, _). unat v" "wtb_outlays b"]
    by (simp_all add: outlay_value_sum_map_def case_prod_unfold map_value_def)
  have sm: "sorted_keys m" and keys: "fst ` set m = insert (snd fee) ((\<lambda>(_, _, t). t) ` set (wtb_outlays b))"
    using o by (simp_all add: m_def sorted_btree_upsert keys_btree_upsert)
  then have ne: "m \<noteq> []" by auto
  have last: "fst (last m) = k"
    using sorted_keys_last [OF sm ne] keys by (simp add: k_def fee_def)
  have val: "snd (last m) = map_value m k"
    using map_value_last [OF sm ne] by (simp add: last)
  obtain sp where sel: "Txo_select_spendable_txos_for_value x (wtb_account_id_hex b) (map_value m k) cap sp k
       (if k = snd fee then fst fee else 0) d = Inr (wtb_inputs b')"
    using select_for_tokens_Inr [of x fee cap m d b b'] assms(2) ne last val
    by (auto simp: select_txos_def m_def fee_def case_prod_unfold Let_def)
  have "map_value m k = sum_list (map (\<lambda>(_, v, _). unat v) (filter (\<lambda>(_, _, t). t = k) (wtb_outlays b)))
           + (if k = snd fee then unat (fst fee) else 0)"
    unfolding m_def map_value_upsert [OF o(1)] o(3) by simp
  then show ?thesis
    using selected_inputs [OF assms(1) sel] by auto
qed

subsection \<open>Examples\<close>

text \<open>A builder of the crate that numbers the outputs it makes, and a ledger that knows every key.\<close>

definition sample_context :: "nat \<Rightarrow> tx_out_context" where
  "sample_context n = \<lparr>toc_tx_out = sample_tx_out\<lparr>to_public_key := [100 + of_nat n]\<rparr>,
     toc_confirmation = [of_nat n], toc_shared_secret = [9, of_nat n]\<rparr>"

definition sample_crate :: "nat crate_builder" where
  "sample_crate = \<lparr>
     cb_BLOCK_VERSION_MAX = 3, cb_new = (\<lambda>_ _ _ _. Inr 0), cb_set_tombstone_block = (\<lambda>_ n. n),
     cb_input_credentials_new = Inr, cb_add_input = (\<lambda>_ n. n),
     cb_add_output = (\<lambda>_ _ n. Inr (sample_context n, Suc n)),
     cb_add_change_output = (\<lambda>_ _ n. Inr (sample_context n, Suc n)),
     cb_build_unsigned = (\<lambda>_. Inr \<lparr>utx_prefix = \<lparr>pfx_fee = 4, pfx_fee_token_id = 0,
       pfx_tombstone_block = 15\<rparr>, utx_bytes = []\<rparr>),
     cb_reserved_from_view_key = (\<lambda>k. \<lparr>rs_keys = k, rs_change_subaddress = k @ [0xFE]\<rparr>),
     cb_reserved_from_index = (\<lambda>k i. \<lparr>rs_keys = k, rs_change_subaddress = k @ [ucast i]\<rparr>),
     cb_credential_from = (\<lambda>k. k), cb_credential_new = (\<lambda>a k. a),
     cb_fog_report_url = (\<lambda>_. None), cb_fog_uri_from_str = Inr,
     cb_fog_resolver_factory = (\<lambda>_. Inr [])\<rparr>"

definition sample_build_ledger :: ledger_db where
  "sample_build_ledger = sample_ledger\<lparr>l_get_tx_out_index_by_public_key := (\<lambda>k. Inr 7)\<rparr>"

definition sample_rng :: "u64 \<Rightarrow> nat \<Rightarrow> u64" where
  "sample_rng num i = of_nat i mod num"

text \<open>A payment of 6 with a fee of 4 from the sample wallet.\<close>

definition sample_builder :: wallet_tx_builder where
  "sample_builder = (wtb_new ''BA'')\<lparr>wtb_outlays := [([2, 0], 6, 0)], wtb_tombstone := 15,
     wtb_fee := Some (4, 0)\<rparr>"

lemma sample_selected:
  "select_txos sample_ext None sample_db sample_builder =
     Inr (sample_builder\<lparr>wtb_inputs := [sample_txo ''A'' 0 5 1, sample_txo ''B'' 1 7 1]\<rparr>)"
proof -
  have res: "resolve_subaddress None sample_db = Inr None"
    by (simp add: resolve_subaddress_def)
  have sel: "Txo_select_spendable_txos_for_value sample_ext ''BA'' 10 None None 0 4 sample_db =
      Inr [sample_txo ''A'' 0 5 1, sample_txo ''B'' 1 7 1]"
    unfolding select_eq [OF sample_db_ok res] sample_spendable
    by (simp add: windows_def window_def upt_rec txo_val_def sample_txo_sel sample_ext_def)
  show ?thesis
    using sel by (simp add: select_txos_def fee_or_default_def sample_builder_def wtb_new_def outlay_value_sum_map_def)
qed

lemma map_option_Inr:
  "map_option (map_sum id f) r = Some (Inr v) \<longleftrightarrow> (\<exists>p. r = Some (Inr p) \<and> f p = v)"
proof (cases r)
  case (Some s)
  then show ?thesis
    by (cases s) auto
qed simp

definition sample_ready :: wallet_tx_builder where
  "sample_ready = sample_builder\<lparr>wtb_inputs := [sample_txo ''A'' 0 5 1, sample_txo ''B'' 1 7 1]\<rparr>"

lemma sample_built:
  "\<exists>p. build sample_ext sample_crate sample_build_ledger sample_rng rev Memo_Empty sample_db sample_ready
        = Some (Inr p) \<and>
      map uin_amount (utp_unsigned_input_txos p) =
        [\<lparr>am_value = 5, am_token_id = 0\<rparr>, \<lparr>am_value = 7, am_token_id = 0\<rparr>]"
proof -
  have "map_option (map_sum id (\<lambda>p. map uin_amount (utp_unsigned_input_txos p)))
     (build sample_ext sample_crate sample_build_ledger sample_rng rev Memo_Empty sample_db sample_ready)
    = Some (Inr [\<lparr>am_value = 5, am_token_id = 0\<rparr>, \<lparr>am_value = 7, am_token_id = 0\<rparr>])"
    by code_simp
  then show ?thesis
    by (simp only: map_option_Inr)
qed

theorem build_conserves_value_witness:
  "\<exists>p. build sample_ext sample_crate sample_build_ledger sample_rng rev Memo_Empty sample_db sample_ready
        = Some (Inr p) \<and>
     map outlay_of (utp_payload_txos p) = [([2, 0], 6, 0)] \<and>
     token_sum 0 (map out_amount (utp_payload_txos p)) + token_sum 0 (map out_amount (utp_change_txos p)) + 4 = 12"
proof -
  obtain p where p: "build sample_ext sample_crate sample_build_ledger sample_rng rev Memo_Empty sample_db sample_ready
        = Some (Inr p)"
    "map uin_amount (utp_unsigned_input_txos p) =
       [\<lparr>am_value = 5, am_token_id = 0\<rparr>, \<lparr>am_value = 7, am_token_id = 0\<rparr>]"
    using sample_built by (elim exE conjE)
  from build_conserves_value [OF p(1)] p show ?thesis
    by (simp add: fee_or_default_def sample_ready_def sample_builder_def)
qed

theorem place_input_real_witness:
  "place_input [sample_tx_out\<lparr>to_public_key := [8]\<rparr>, sample_tx_out\<lparr>to_public_key := [9]\<rparr>] [[1], [2]] sample_tx_out [3]
     = ([sample_tx_out, sample_tx_out\<lparr>to_public_key := [9]\<rparr>], [[3], [2]], 0)"
proof -
  have ne: "sample_tx_out\<lparr>to_public_key := [8]\<rparr> \<noteq> sample_tx_out" "sample_tx_out\<lparr>to_public_key := [9]\<rparr> \<noteq> sample_tx_out"
    by (simp_all add: sample_tx_out_def)
  have eq: "place_input [sample_tx_out\<lparr>to_public_key := [8]\<rparr>, sample_tx_out\<lparr>to_public_key := [9]\<rparr>] [[1], [2]] sample_tx_out [3]
     = ([sample_tx_out, sample_tx_out\<lparr>to_public_key := [9]\<rparr>], [[3], [2]], 0)"
    using ne by (simp add: place_input_def)
  from place_input_real [OF _ eq] eq show ?thesis
    by simp
qed

lemma sample_rng_facts:
  "sample_rng 40 i < 40" "idx < 40 \<Longrightarrow> \<exists>i \<ge> j. sample_rng 40 i = idx"
proof -
  show "sample_rng 40 i < 40"
    by (simp add: sample_rng_def word_less_nat_alt unat_mod)
  assume idx: "idx < 40"
  have "\<exists>i \<ge> j. of_nat i mod 40 = idx"
  proof (intro exI [of _ "j * 40 * 2 ^ 64 + unat idx"] conjI)
    have "(of_nat (j * 40 * 2 ^ 64 + unat idx) :: u64) = idx"
      using unsigned_less [where 'a = nat, of idx] by (simp add: word_unat_eq_iff unat_word_ariths)
    with idx show "of_nat (j * 40 * 2 ^ 64 + unat idx) mod 40 = idx"
      by (simp add: word_unat_eq_iff unat_mod word_less_nat_alt del: of_nat_add of_nat_mult)
  qed simp
  then show "\<exists>i \<ge> j. sample_rng 40 i = idx"
    by (simp add: sample_rng_def)
qed

theorem get_rings_returns_witness:
  "\<exists>rings. get_rings sample_ext sample_ledger sample_rng rev 2 [7] = Some (Inr rings) \<and> length rings = 2"
proof -
  have "\<exists>rings js. get_rings sample_ext sample_ledger sample_rng rev 2 [7] = Some (Inr rings) \<and>
           length rings = 2 \<and> list_all (\<lambda>ring. length ring = x_RING_SIZE sample_ext) rings \<and>
           concat rings = map (\<lambda>i :: u64. (sample_tx_out, [ucast i])) js \<and> distinct js \<and> set js \<subseteq> {..<40} - set [7]"
  proof (rule get_rings_returns)
    show "l_num_txos sample_ledger = Inr 40"
      by (simp add: sample_ledger_def)
    show "length [7 :: u64] + x_RING_SIZE sample_ext * 2 \<le> unat (40 :: u64)"
      by (simp add: sample_ext_def)
    show "sample_rng 40 i < 40" for i
      by (rule sample_rng_facts)
    show "\<exists>i \<ge> j. sample_rng 40 i = idx" if "idx < 40" for j idx
      using that by (rule sample_rng_facts)
  qed (simp_all add: sample_ledger_def)
  then show ?thesis
    by blast
qed

theorem select_txos_covers_last_token_witness:
  "select_txos sample_ext None sample_db sample_builder =
     Inr (sample_builder\<lparr>wtb_inputs := [sample_txo ''A'' 0 5 1, sample_txo ''B'' 1 7 1]\<rparr>) \<and>
   6 + 4 \<le> vsum [sample_txo ''A'' 0 5 1, sample_txo ''B'' 1 7 1]"
  using select_txos_covers_last_token [OF sample_db_ok sample_selected] sample_selected
  by (simp add: sample_builder_def fee_or_default_def)

end
