(* ===== verification/Amounts.thy ===== *)
theory Amounts
  imports Externals
begin

section \<open>Amounts in requests\<close>

text \<open>
  Requests carry 64-bit integers as decimal strings. This theory has \<open>str::parse::<u64>\<close> with
  its three errors, and the amounts of \<open>json_rpc/v2/models/amount.rs\<close> with their conversions in
  both directions.
\<close>

subsection \<open>Parsing integers\<close>

datatype parse_int_error = PI_Empty | PI_InvalidDigit | PI_PosOverflow

text \<open>Every character is first read as a digit; only then are the multiplication and the addition
  checked.\<close>

fun parse_digits :: "string \<Rightarrow> int \<Rightarrow> parse_int_error + int" where
  "parse_digits [] acc = Inr acc"
| "parse_digits (c # cs) acc =
     (if of_char c < (48 :: int) \<or> of_char c > (57 :: int) then Inl PI_InvalidDigit
      else if 10 * acc + (of_char c - 48) > uint (- 1 :: u64) then Inl PI_PosOverflow
      else parse_digits cs (10 * acc + (of_char c - 48)))"

definition parse_u64 :: "string \<Rightarrow> parse_int_error + u64" where
  "parse_u64 s =
     (case s of
       [] \<Rightarrow> Inl PI_Empty
     | c # cs \<Rightarrow>
         (if c = CHR ''+'' then
            (if cs = [] then Inl PI_InvalidDigit else rbind (parse_digits cs 0) (\<lambda>i. Inr (word_of_int i)))
          else rbind (parse_digits s 0) (\<lambda>i. Inr (word_of_int i))))"

definition show_parse_int_error :: "parse_int_error \<Rightarrow> string" where
  "show_parse_int_error e = ''ParseIntError { kind: '' @
     (case e of PI_Empty \<Rightarrow> ''Empty'' | PI_InvalidDigit \<Rightarrow> ''InvalidDigit'' | PI_PosOverflow \<Rightarrow> ''PosOverflow'')
     @ '' }''"

subsection \<open>Amounts\<close>

record amount_json =
  aj_value :: string
  aj_token_id :: string

definition Amount_new :: "u64 \<Rightarrow> u64 \<Rightarrow> amount_json" where
  "Amount_new value token_id = \<lparr>aj_value = show_u64 value, aj_token_id = show_u64 token_id\<rparr>"

definition Amount_from :: "amount \<Rightarrow> amount_json" where
  "Amount_from src = Amount_new (am_value src) (am_token_id src)"

definition Amount_try_from :: "amount_json \<Rightarrow> string + amount" where
  "Amount_try_from src =
     rbind (map_err (\<lambda>err. ''Could not parse value u64: '' @ show_parse_int_error err)
              (parse_u64 (aj_value src))) (\<lambda>v.
     rbind (map_err (\<lambda>err. ''Could not parse token_id u64: '' @ show_parse_int_error err)
              (parse_u64 (aj_token_id src))) (\<lambda>t.
       Inr \<lparr>am_value = v, am_token_id = t\<rparr>))"

subsection \<open>Round trip\<close>

lemma parse_digits_append:
  "parse_digits (xs @ ys) acc = rbind (parse_digits xs acc) (parse_digits ys)"
  by (induction xs arbitrary: acc) (auto simp: rbind_def)

lemma of_char_digit:
  "k < 10 \<Longrightarrow> of_char (char_of (48 + k :: nat)) = (48 + int k)"
proof -
  assume "k < 10"
  then have "of_char (char_of (48 + k :: nat)) = 48 + k" by simp
  then have "int (of_char (char_of (48 + k :: nat))) = int (48 + k)" by (simp only:)
  then show ?thesis by (simp only: of_nat_of_char of_nat_add of_nat_numeral)
qed

lemma parse_digits_show_nat:
  "int n \<le> uint (- 1 :: u64) \<Longrightarrow> parse_digits (show_nat n) 0 = Inr (int n)"
proof (induction n rule: show_nat.induct)
  case (1 n)
  show ?case
  proof (cases "n < 10")
    case True
    then show ?thesis using 1 by (subst show_nat.simps) (simp add: of_char_digit)
  next
    case False
    have "int (n div 10) \<le> uint (- 1 :: u64)" using "1.prems" by linarith
    then have "parse_digits (show_nat (n div 10)) 0 = Inr (int (n div 10))"
      using 1(1) False by simp
    moreover have "10 * int (n div 10) + int (n mod 10) = int n"
      by (simp add: zdiv_int zmod_int)
    ultimately show ?thesis using False "1.prems"
      by (subst show_nat.simps) (simp add: parse_digits_append rbind_def of_char_digit)
  qed
qed

lemma show_nat_hd: "\<exists>c cs. show_nat n = c # cs \<and> c \<noteq> CHR ''+''"
proof (induction n rule: show_nat.induct)
  case (1 n)
  show ?case
  proof (cases "n < 10")
    case True
    have "of_char (char_of (48 + n)) \<noteq> (of_char (CHR ''+'') :: int)"
      using True by (simp add: of_char_digit)
    then show ?thesis using True by (subst show_nat.simps) auto
  next
    case False
    then show ?thesis using 1 by (subst show_nat.simps) auto
  qed
qed

lemma parse_show_u64: "parse_u64 (show_u64 w) = Inr w"
proof -
  have "int (unat w) \<le> uint (- 1 :: u64)"
    by (metis uint_nat word_le_def word_order.extremum)
  then have "parse_digits (show_nat (unat w)) 0 = Inr (uint w)"
    by (simp add: parse_digits_show_nat)
  moreover obtain c cs where "show_nat (unat w) = c # cs" "c \<noteq> CHR ''+''"
    using show_nat_hd by blast
  ultimately show ?thesis by (simp add: parse_u64_def show_u64_def rbind_def del: parse_digits.simps)
qed

text \<open>C25: An amount written into a response reads back as the same amount, for every value and token
  id of 64 bits; so do the decimal strings of the wallet on their own.\<close>

theorem amount_roundtrip:
  "Amount_try_from (Amount_from a) = Inr a \<and> parse_u64 (show_u64 w) = Inr w"
  by (simp add: Amount_try_from_def Amount_from_def Amount_new_def parse_show_u64 rbind_def
      map_err_simps)

end
