(* ===== verification/Transaction_Service.thy ===== *)
theory Transaction_Service
  imports Tx_Builder Amounts
begin

section \<open>The transaction service\<close>

text \<open>
  \<open>service/transaction.rs\<close>: building a transaction from a request, signing it, and submitting it
  to a consensus node, with the signing of \<open>service/models/tx_proposal.rs\<close> that dispatches between
  the local signer and a hardware wallet. The state of the service is the wallet database, the
  counter of the round robin over the nodes, and the transactions that were proposed to a node.
  The connection to the nodes is the record \<open>network\<close>.
\<close>

datatype address_service_error =
    ADS_Database wallet_db_error
  | ADS_Diesel diesel_error
  | ADS_B58 b58_error

datatype (plugins only: code size) transaction_service_error =
    TS_B58 b58_error
  | TS_Database wallet_db_error
  | TS_TransactionBuilder wtb_error
  | TS_U64Parse
  | TS_MissingAccountOnSubmit
  | TS_NodeNotFound
  | TS_NoPeersConfigured
  | TS_ProtoConversion ext_error
  | TS_ProtoConversionInfallible
  | TS_Offline
  | TS_Connection ext_error
  | TS_InvalidPublicAddress string
  | TS_AddressService address_service_error
  | TS_Diesel diesel_error
  | TS_LedgerDB ledger_error
  | TS_InvalidAmount string
  | TS_DefaultFeeNotFoundForToken u64
  | TS_FromHex ext_error
  | TS_InvalidBurnRedemptionMemo string
  | TS_Decode ext_error
  | TS_TxBuilder ext_error
  | TS_LedgerService ledger_service_error
  | TS_Key ext_error
  | TS_Retry ext_error
  | TS_RingCT ext_error
  | TS_HardwareWalletService hardware_error

record service_state =
  ss_db :: db
  ss_submit_node_offset :: u64
  ss_proposed :: "(string \<times> tx) list"

type_synonym 'a service_action = "(service_state, transaction_service_error, 'a) action"

text \<open>An action on the database is an action on the state of the service.\<close>

definition with_db :: "(db, 'e, 'a) action \<Rightarrow> (service_state, 'e, 'a) action" where
  "with_db m s = (case m (ss_db s) of (r, d) \<Rightarrow> (r, s\<lparr>ss_db := d\<rparr>))"

abbreviation tsdb :: "'a db_action \<Rightarrow> (db, transaction_service_error, 'a) action" where
  "tsdb \<equiv> smap_err TS_Database"

text \<open>What the service uses of other crates to sign and send: the ring signer of a local account, the
  hardware wallets, the encoding of a transaction, and the nodes. \<open>net_conn\<close> gives the connection to
  a node, whose \<open>propose_tx\<close> retries on its own.\<close>

record signing =
  sg_sign :: "account_key \<Rightarrow> unsigned_tx \<Rightarrow> ext_error + tx"
  sg_encode_tx :: "tx \<Rightarrow> bytes"
  sg_hardware :: hardware

record network =
  net_responder_ids :: "string list"
  net_conn :: "string \<Rightarrow> (tx \<Rightarrow> ext_error + u64) option"

subsection \<open>Checks of the request\<close>

definition validate_number_inputs :: "externals \<Rightarrow> u64 \<Rightarrow> transaction_service_error + unit" where
  "validate_number_inputs x num_inputs =
     (if num_inputs > x_MAX_INPUTS x then
        Inl (TS_TransactionBuilder (WTB_InvalidArgument
          (''Invalid number of input txos. '' @ show_u64 num_inputs @
           '' txo ids provided but maximum allowed number of inputs is '' @ show_u64 (x_MAX_INPUTS x))))
      else Inr ())"

definition validate_number_outputs :: "externals \<Rightarrow> u64 \<Rightarrow> transaction_service_error + unit" where
  "validate_number_outputs x num_outputs =
     (let max_outputs = x_MAX_OUTPUTS x - 1
      in if num_outputs > max_outputs then
        Inl (TS_TransactionBuilder (WTB_InvalidArgument
          (''Invalid number of recipiants. '' @ show_u64 num_outputs @
           '' recipiants provided but maximum allowed number of outputs is '' @ show_u64 max_outputs)))
      else Inr ())"

definition verify_address :: "externals \<Rightarrow> string \<Rightarrow> address_service_error + public_address" where
  "verify_address x addr = map_err ADS_B58 (b58_decode_public_address x addr)"

definition parse_arg :: "string \<Rightarrow> transaction_service_error + u64" where
  "parse_arg s = map_err (\<lambda>_. TS_U64Parse) (parse_u64 s)"

subsection \<open>Building\<close>

text \<open>The arguments that the building functions share.\<close>

record build_args =
  ba_account_id_hex :: string
  ba_addresses_and_amounts :: "(string \<times> amount_json) list"
  ba_input_txo_ids :: "string list option"
  ba_fee_value :: "string option"
  ba_fee_token_id :: "string option"
  ba_tombstone_block :: "string option"
  ba_max_spendable_value :: "string option"
  ba_memo :: transaction_memo
  ba_block_version :: "u32 option"
  ba_spend_subaddress :: "string option"

text \<open>The loop over the recipients; it leaves the token of the last one as the default of the fee.\<close>

fun add_recipients ::
    "externals \<Rightarrow> (string \<times> amount_json) list \<Rightarrow> u64 \<Rightarrow> wallet_tx_builder
      \<Rightarrow> transaction_service_error + u64 \<times> wallet_tx_builder" where
  "add_recipients x [] default_fee_token_id b = Inr (default_fee_token_id, b)"
| "add_recipients x ((addr, aj) # rest) default_fee_token_id b =
     (if \<not> is_ok (verify_address x addr) then Inl (TS_InvalidPublicAddress addr)
      else
        rbind (map_err TS_B58 (b58_decode_public_address x addr)) (\<lambda>recipient.
        rbind (map_err TS_InvalidAmount (Amount_try_from aj)) (\<lambda>amt.
          add_recipients x rest (am_token_id amt)
            (add_recipient recipient (am_value amt) (am_token_id amt) b))))"

definition fee_of_request ::
    "node \<Rightarrow> build_args \<Rightarrow> u64 \<Rightarrow> transaction_service_error + u64 \<times> u64" where
  "fee_of_request n a default_fee_token_id =
     rbind (case ba_fee_token_id a of Some t \<Rightarrow> parse_arg t | None \<Rightarrow> Inr default_fee_token_id)
       (\<lambda>fee_token_id.
     rbind (case ba_fee_value a of
              Some f \<Rightarrow> parse_arg f
            | None \<Rightarrow>
                rbind (map_err TS_LedgerService (get_network_fees n)) (\<lambda>fees.
                  ok_or (TS_DefaultFeeNotFoundForToken fee_token_id) (fees fee_token_id)))
       (\<lambda>fee_value. Inr (fee_value, fee_token_id)))"

definition inputs_of_request ::
    "externals \<Rightarrow> build_args \<Rightarrow> db \<Rightarrow> wallet_tx_builder \<Rightarrow> transaction_service_error + wallet_tx_builder" where
  "inputs_of_request x a d b =
     (case ba_input_txo_ids a of
       Some inputs \<Rightarrow> map_err TS_TransactionBuilder (set_txos inputs d b)
     | None \<Rightarrow>
         rbind (case ba_spend_subaddress a of
                  Some subaddress \<Rightarrow>
                    rbind (map_err TS_Database (AssignedSubaddress_get subaddress d)) (\<lambda>s.
                      Inr (set_spend_subaddress (asub_subaddress_index s) b))
                | None \<Rightarrow> Inr b) (\<lambda>b1.
         rbind (case ba_max_spendable_value a of
                  Some msv \<Rightarrow> rbind (parse_arg msv) (\<lambda>v. Inr (Some v))
                | None \<Rightarrow> Inr None) (\<lambda>max_spendable.
           map_err TS_TransactionBuilder (select_txos x max_spendable d b1))))"

text \<open>Everything of \<open>build_transaction\<close> up to the call of \<open>build\<close>.\<close>

definition builder_of_request ::
    "externals \<Rightarrow> node \<Rightarrow> build_args \<Rightarrow> db \<Rightarrow> transaction_service_error + wallet_tx_builder" where
  "builder_of_request x n a d =
     rbind (validate_number_inputs x (word_of_nat (length
       (case ba_input_txo_ids a of None \<Rightarrow> [] | Some ids \<Rightarrow> ids)))) (\<lambda>_.
     rbind (validate_number_outputs x (word_of_nat (length (ba_addresses_and_amounts a)))) (\<lambda>_.
     rbind (map_err TS_Database (Account_get (ba_account_id_hex a) d)) (\<lambda>acct.
       if acct_require_spend_subaddress acct \<and> ba_spend_subaddress a = None then
         Inl (TS_TransactionBuilder (WTB_NullSubaddress
           ''This account requires subaddresses be specified when spending. Please provide a subaddress to spend from.''))
       else
         rbind (add_recipients x (ba_addresses_and_amounts a) (x_MOB_ID x) (wtb_new (ba_account_id_hex a)))
           (\<lambda>(default_fee_token_id, b1).
         rbind (case ba_tombstone_block a of Some t \<Rightarrow> parse_arg t | None \<Rightarrow> Inr 0) (\<lambda>tombstone.
         rbind (map_err TS_TransactionBuilder (set_tombstone (n_ledger n) tombstone b1)) (\<lambda>b2.
         rbind (fee_of_request n a default_fee_token_id) (\<lambda>(fee_value, fee_token_id).
         rbind (map_err TS_TransactionBuilder (set_fee fee_value fee_token_id b2)) (\<lambda>b3.
         rbind (case ba_block_version a of
                  Some v \<Rightarrow> Inr v
                | None \<Rightarrow> map_err TS_LedgerService (get_network_block_version n)) (\<lambda>v.
           inputs_of_request x a d (set_block_version v b3)))))))))) "

text \<open>\<open>None\<close> stands for a sampling of the rings that does not end. The transaction around it only
  reads.\<close>

definition build_transaction ::
    "externals \<Rightarrow> 'b crate_builder \<Rightarrow> node \<Rightarrow> (u64 \<Rightarrow> nat \<Rightarrow> u64) \<Rightarrow> (u64 list \<Rightarrow> u64 list) \<Rightarrow> build_args
      \<Rightarrow> db \<Rightarrow> (transaction_service_error + unsigned_tx_proposal) option" where
  "build_transaction x cb n rng hash_order a d =
     (case builder_of_request x n a d of
       Inl e \<Rightarrow> Some (Inl e)
     | Inr b \<Rightarrow>
         map_option (map_err TS_TransactionBuilder)
           (build x cb (n_ledger n) rng hash_order (ba_memo a) d b))"

subsection \<open>Signing\<close>

definition sign_with_local_signer ::
    "externals \<Rightarrow> signing \<Rightarrow> account_key \<Rightarrow> unsigned_tx_proposal \<Rightarrow> transaction_service_error + tx_proposal" where
  "sign_with_local_signer x sg account_key p =
     rbind (map_err TS_Key (collect_results (sign_input x account_key) (utp_unsigned_input_txos p))) (\<lambda>input_txos.
     rbind (map_err TS_RingCT (sg_sign sg account_key (utp_unsigned_tx p))) (\<lambda>t.
       Inr \<lparr>tp_tx = t, tp_input_txos = input_txos, tp_payload_txos = utp_payload_txos p,
            tp_change_txos = utp_change_txos p\<rparr>))"

definition UnsignedTxProposal_sign ::
    "externals \<Rightarrow> signing \<Rightarrow> unsigned_tx_proposal \<Rightarrow> account \<Rightarrow> transaction_service_error + tx_proposal" where
  "UnsignedTxProposal_sign x sg p a =
     (if acct_view_only a then
        rbind (map_err TS_Database (Account_view_account_key x a)) (\<lambda>vk.
          map_err TS_HardwareWalletService (sign_tx_proposal x (sg_hardware sg) p vk))
      else
        rbind (map_err TS_Database (Account_account_key x a)) (\<lambda>k. sign_with_local_signer x sg k p))"

text \<open>Building and signing; a sampling that does not end gives no action.\<close>

definition sign_and_log ::
    "externals \<Rightarrow> signing \<Rightarrow> string \<Rightarrow> unsigned_tx_proposal \<Rightarrow> (db, transaction_service_error, tx_proposal) action" where
  "sign_and_log x sg account_id_hex p =
     sbind (tsdb (sread (Account_get account_id_hex))) (\<lambda>acct.
     sbind (sread (\<lambda>_. UnsignedTxProposal_sign x sg p acct)) (\<lambda>tx_proposal.
       transaction (sthen (tsdb (TransactionLog_log_signed x (sg_encode_tx sg) tx_proposal [] account_id_hex))
         (sreturn tx_proposal))))"

definition build_and_sign_transaction ::
    "externals \<Rightarrow> 'b crate_builder \<Rightarrow> signing \<Rightarrow> node \<Rightarrow> (u64 \<Rightarrow> nat \<Rightarrow> u64) \<Rightarrow> (u64 list \<Rightarrow> u64 list)
      \<Rightarrow> build_args \<Rightarrow> service_state \<Rightarrow> ((transaction_service_error + tx_proposal) \<times> service_state) option" where
  "build_and_sign_transaction x cb sg n rng hash_order a s =
     (case build_transaction x cb n rng hash_order a (ss_db s) of
       None \<Rightarrow> None
     | Some (Inl e) \<Rightarrow> Some (Inl e, s)
     | Some (Inr p) \<Rightarrow> Some (with_db (sign_and_log x sg (ba_account_id_hex a) p) s))"

subsection \<open>Submitting\<close>

text \<open>The node is chosen by the counter, which is advanced before anything can fail.\<close>

definition propose ::
    "'e \<Rightarrow> (ext_error \<Rightarrow> 'e) \<Rightarrow> network \<Rightarrow> tx \<Rightarrow> (service_state, 'e, u64) action" where
  "propose node_not_found retry net t s =
     (let ids = net_responder_ids net;
          idx = ss_submit_node_offset s;
          s1 = s\<lparr>ss_submit_node_offset := idx + 1\<rparr>;
          responder_id = ids ! unat (idx mod word_of_nat (length ids))
      in case net_conn net responder_id of
           None \<Rightarrow> (Inl node_not_found, s1)
         | Some propose_tx \<Rightarrow>
             (map_err retry (propose_tx t), s1\<lparr>ss_proposed := ss_proposed s @ [(responder_id, t)]\<rparr>))"

definition log_of_submission ::
    "externals \<Rightarrow> signing \<Rightarrow> tx_proposal \<Rightarrow> u64 \<Rightarrow> string option \<Rightarrow> string
      \<Rightarrow> (transaction_log \<times> associated_txos \<times> (u64 \<rightharpoonup> u64)) db_action" where
  "log_of_submission x sg p block_index comment account_id_hex =
     smatch (Account_get account_id_hex) (\<lambda>r.
       if is_ok r then
         sbind (TransactionLog_log_submitted x (sg_encode_tx sg) p block_index
                  (case comment of None \<Rightarrow> [] | Some c \<Rightarrow> c) account_id_hex) (\<lambda>l.
         sbind (sread (TransactionLog_get_associated_txos l)) (\<lambda>associated.
         sbind (sread (TransactionLog_value_map l)) (\<lambda>value_map.
           sreturn (l, associated, value_map))))
       else sraise (AccountNotFound account_id_hex))"

definition submit_transaction ::
    "externals \<Rightarrow> signing \<Rightarrow> node \<Rightarrow> network \<Rightarrow> tx_proposal \<Rightarrow> string option \<Rightarrow> string option
      \<Rightarrow> (transaction_log \<times> associated_txos \<times> (u64 \<rightharpoonup> u64)) option service_action" where
  "submit_transaction x sg n net p comment account_id_hex =
     (if n_offline n then sraise TS_Offline
      else if net_responder_ids net = [] then sraise TS_NoPeersConfigured
      else
        sbind (propose TS_NodeNotFound TS_Retry net (tp_tx p)) (\<lambda>block_index.
          case account_id_hex of
            Some account_id \<Rightarrow>
              sbind (with_db (tsdb (log_of_submission x sg p block_index comment account_id)))
                (\<lambda>res. sreturn (Some res))
          | None \<Rightarrow> sreturn None))"

definition build_sign_and_submit_transaction ::
    "externals \<Rightarrow> 'b crate_builder \<Rightarrow> signing \<Rightarrow> node \<Rightarrow> network \<Rightarrow> (u64 \<Rightarrow> nat \<Rightarrow> u64) \<Rightarrow> (u64 list \<Rightarrow> u64 list)
      \<Rightarrow> build_args \<Rightarrow> string option \<Rightarrow> service_state
      \<Rightarrow> ((transaction_service_error + (transaction_log \<times> associated_txos \<times> (u64 \<rightharpoonup> u64)) \<times> tx_proposal)
          \<times> service_state) option" where
  "build_sign_and_submit_transaction x cb sg n net rng hash_order a comment s =
     map_option (\<lambda>(r, s1).
       sbind (\<lambda>s. (r, s)) (\<lambda>p.
       sbind (submit_transaction x sg n net p comment (Some (ba_account_id_hex a))) (\<lambda>res.
         case res of
           Some l \<Rightarrow> sreturn (l, p)
         | None \<Rightarrow> sraise TS_MissingAccountOnSubmit)) s1)
     (build_and_sign_transaction x cb sg n rng hash_order a s)"

section \<open>Facts\<close>

subsection \<open>What is built\<close>

lemma add_recipients_Inr:
  assumes "add_recipients x rs tok b = Inr (tok', b')"
  shows "\<exists>outs. b' = b\<lparr>wtb_outlays := wtb_outlays b @ outs\<rparr> \<and>
           list_all2 (\<lambda>(addr, aj) (recipient, value, token_id).
             b58_decode_public_address x addr = Inr recipient \<and>
             Amount_try_from aj = Inr \<lparr>am_value = value, am_token_id = token_id\<rparr>) rs outs \<and>
           tok' = last (tok # map (\<lambda>(_, _, t). t) outs)"
  using assms
proof (induction rs arbitrary: tok b)
  case Nil
  then show ?case by (intro exI [of _ "[]"]) simp
next
  case (Cons r rs)
  obtain addr aj where r: "r = (addr, aj)" by (cases r)
  obtain recipient amt where
      step: "b58_decode_public_address x addr = Inr recipient" "Amount_try_from aj = Inr amt"
        "add_recipients x rs (am_token_id amt)
           (add_recipient recipient (am_value amt) (am_token_id amt) b) = Inr (tok', b')"
    using Cons.prems unfolding r by (auto simp: rbind_eq_Inr map_err_eq_Inr split: if_splits)
  from Cons.IH [OF step(3)] obtain outs where
    "b' = (add_recipient recipient (am_value amt) (am_token_id amt) b)\<lparr>wtb_outlays :=
        wtb_outlays (add_recipient recipient (am_value amt) (am_token_id amt) b) @ outs\<rparr>"
    "list_all2 (\<lambda>(addr, aj) (recipient, value, token_id).
       b58_decode_public_address x addr = Inr recipient \<and>
       Amount_try_from aj = Inr \<lparr>am_value = value, am_token_id = token_id\<rparr>) rs outs"
    "tok' = last (am_token_id amt # map (\<lambda>(_, _, t). t) outs)" by blast
  then show ?case
    using step(1,2) by (intro exI [of _ "(recipient, am_value amt, am_token_id amt) # outs"])
      (simp add: r add_recipient_def)
qed

lemma select_for_tokens_frame:
  "select_for_tokens x fee cap ts d b = Inr b' \<Longrightarrow> \<exists>ins. b' = b\<lparr>wtb_inputs := ins\<rparr>"
proof (induction ts arbitrary: b)
  case Nil
  then show ?case by (intro exI [of _ "wtb_inputs b"]) simp
next
  case (Cons t ts)
  obtain k v where t: "t = (k, v)" by (cases t)
  obtain ins where "select_for_tokens x fee cap ts d (b\<lparr>wtb_inputs := ins\<rparr>) = Inr b'"
    using Cons.prems unfolding t by (auto simp: rbind_eq_Inr)
  from Cons.IH [OF this] show ?case by auto
qed

lemma inputs_of_request_frame:
  "inputs_of_request x a d b = Inr b' \<Longrightarrow> wtb_outlays b' = wtb_outlays b \<and> wtb_fee b' = wtb_fee b"
  by (auto simp: inputs_of_request_def set_txos_def select_txos_def set_spend_subaddress_def Let_def
      case_prod_unfold rbind_eq_Inr map_err_eq_Inr
      dest!: select_for_tokens_frame split: option.splits)

lemma builder_of_request_Inr:
  assumes "builder_of_request x n a d = Inr b"
  obtains acct tok where
    "Account_get (ba_account_id_hex a) d = Inr acct"
    "\<not> (acct_require_spend_subaddress acct \<and> ba_spend_subaddress a = None)"
    "\<not> word_of_nat (length (ba_addresses_and_amounts a)) > x_MAX_OUTPUTS x - 1"
    "list_all2 (\<lambda>(addr, aj) (recipient, value, token_id).
       b58_decode_public_address x addr = Inr recipient \<and>
       Amount_try_from aj = Inr \<lparr>am_value = value, am_token_id = token_id\<rparr>)
       (ba_addresses_and_amounts a) (wtb_outlays b)"
    "tok = last (x_MOB_ID x # map (\<lambda>(_, _, t). t) (wtb_outlays b))"
    "\<exists>f. fee_of_request n a tok = Inr f \<and> wtb_fee b = Some f"
proof -
  from assms obtain acct tok b1 b2 b3 tombstone fee_value fee_token v where
      outs: "validate_number_outputs x (word_of_nat (length (ba_addresses_and_amounts a))) = Inr ()"
      and acct: "Account_get (ba_account_id_hex a) d = Inr acct"
      and req: "\<not> (acct_require_spend_subaddress acct \<and> ba_spend_subaddress a = None)"
      and rec: "add_recipients x (ba_addresses_and_amounts a) (x_MOB_ID x) (wtb_new (ba_account_id_hex a))
                  = Inr (tok, b1)"
      and tomb: "set_tombstone (n_ledger n) tombstone b1 = Inr b2"
      and fee: "fee_of_request n a tok = Inr (fee_value, fee_token)"
      and setf: "set_fee fee_value fee_token b2 = Inr b3"
      and ins: "inputs_of_request x a d (set_block_version v b3) = Inr b"
    unfolding builder_of_request_def
    by (fastforce simp: rbind_eq_Inr map_err_eq_Inr split: if_splits)
  have b3: "wtb_outlays b3 = wtb_outlays b1" "wtb_fee b3 = Some (fee_value, fee_token)"
    using tomb setf by (auto simp: set_tombstone_def set_fee_def rbind_eq_Inr split: if_splits)
  have b: "wtb_outlays b = wtb_outlays b1" "wtb_fee b = Some (fee_value, fee_token)"
    using inputs_of_request_frame [OF ins] b3 by (simp_all add: set_block_version_def)
  from add_recipients_Inr [OF rec] have
      "list_all2 (\<lambda>(addr, aj) (recipient, value, token_id).
         b58_decode_public_address x addr = Inr recipient \<and>
         Amount_try_from aj = Inr \<lparr>am_value = value, am_token_id = token_id\<rparr>)
         (ba_addresses_and_amounts a) (wtb_outlays b)"
      "tok = last (x_MOB_ID x # map (\<lambda>(_, _, t). t) (wtb_outlays b))"
    by (auto simp: b wtb_new_def)
  moreover have "\<not> word_of_nat (length (ba_addresses_and_amounts a)) > x_MAX_OUTPUTS x - 1"
    using outs by (auto simp: validate_number_outputs_def Let_def split: if_splits)
  ultimately show thesis
    using that [of acct tok] acct req fee b(2) by blast
qed

lemma build_transaction_Inr:
  assumes "build_transaction x cb n rng hash_order a d = Some (Inr p)"
  obtains b where "builder_of_request x n a d = Inr b"
    "build x cb (n_ledger n) rng hash_order (ba_memo a) d b = Some (Inr p)"
    "wtb_outlays b = map outlay_of (utp_payload_txos p)"
    "list_all2 (\<lambda>(addr, aj) out.
       b58_decode_public_address x addr = Inr (out_recipient_public_address out) \<and>
       Amount_try_from aj = Inr (out_amount out)) (ba_addresses_and_amounts a) (utp_payload_txos p)"
proof -
  obtain b where b: "builder_of_request x n a d = Inr b"
      and p: "build x cb (n_ledger n) rng hash_order (ba_memo a) d b = Some (Inr p)"
    using assms(1) by (auto simp: build_transaction_def map_err_eq_Inr split: sum.splits)
  have pay: "wtb_outlays b = map outlay_of (utp_payload_txos p)"
    using build_conserves [OF p] by simp
  have "list_all2 (\<lambda>(addr, aj) (recipient, value, token_id).
       b58_decode_public_address x addr = Inr recipient \<and>
       Amount_try_from aj = Inr \<lparr>am_value = value, am_token_id = token_id\<rparr>)
       (ba_addresses_and_amounts a) (wtb_outlays b)"
    by (rule builder_of_request_Inr [OF b])
  then have "list_all2 (\<lambda>(addr, aj) out.
      b58_decode_public_address x addr = Inr (out_recipient_public_address out) \<and>
      Amount_try_from aj = Inr (out_amount out)) (ba_addresses_and_amounts a) (utp_payload_txos p)"
    unfolding pay list_all2_map2 by (rule list_all2_mono) auto
  with b p pay show thesis by (rule that)
qed


subsection \<open>Signing keeps the proposal\<close>

lemma sign_Inr:
  assumes "UnsignedTxProposal_sign x sg p a = Inr q"
  shows "list_all2 same_input (utp_unsigned_input_txos p) (tp_input_txos q) \<and>
         tp_payload_txos q = utp_payload_txos p \<and> tp_change_txos q = utp_change_txos p"
proof (cases "acct_view_only a")
  case True
  with assms obtain synced where
    "collect_results (signed_input x synced) (utp_unsigned_input_txos p) = Inr (tp_input_txos q)"
    "tp_payload_txos q = utp_payload_txos p" "tp_change_txos q = utp_change_txos p"
    by (auto simp: UnsignedTxProposal_sign_def sign_tx_proposal_def rbind_eq_Inr map_err_eq_Inr
        split: if_splits)
  then show ?thesis
    using collect_same_inputs signed_input_Inr by blast
next
  case False
  with assms obtain k where
    "collect_results (sign_input x k) (utp_unsigned_input_txos p) = Inr (tp_input_txos q)"
    "tp_payload_txos q = utp_payload_txos p" "tp_change_txos q = utp_change_txos p"
    by (auto simp: UnsignedTxProposal_sign_def sign_with_local_signer_def rbind_eq_Inr map_err_eq_Inr)
  then show ?thesis
    using collect_same_inputs sign_input_Inr by blast
qed

subsection \<open>Submitting\<close>

text \<open>The rows of the log with a given identifier all carry a submission.\<close>

definition submitted_at :: "string \<Rightarrow> u64 \<Rightarrow> db \<Rightarrow> bool" where
  "submitted_at i b d \<longleftrightarrow>
     list_all (\<lambda>l. tl_id l = i \<longrightarrow> tl_submitted_block_index l = Some b) (db_transaction_logs d)"

lemma submitted_other:
  assumes "\<And>d. db_transaction_logs (f d) = db_transaction_logs d"
  shows "preserves (submitted_at i b) (exec_stmt f)"
  by (rule preserves_exec_stmt) (simp add: submitted_at_def assms)

lemma submitted_memos: "kept_by_memos (submitted_at i b)"
  unfolding kept_by_memos_def by (auto intro: submitted_other)

lemma submitted_outputs: "preserves (submitted_at i b) (create_outputs x ps cs j)"
  unfolding create_outputs_def
  by (intro preserves_intros preserves_create_new_output submitted_memos)
     (auto simp: insert_into_def intro: submitted_other)

lemma submitted_input: "preserves (submitted_at i b) (input_with_key_image x j t)"
  unfolding input_with_key_image_def Let_def insert_input_txo_def Txo_update_key_image_def
    insert_into_def update_where_def
  by (intro preserves_intros submitted_other) simp_all

lemma submitted_update:
  assumes "update_where db_transaction_logs_update (\<lambda>l. tl_id l = i)
             (\<lambda>l. l\<lparr>tl_submitted_block_index := Some b\<rparr>) d = (Inr u, d')"
  shows "submitted_at i b d'"
proof -
  have "d' = db_transaction_logs_update
      (update_rows (\<lambda>l. tl_id l = i) (\<lambda>l. l\<lparr>tl_submitted_block_index := Some b\<rparr>)) d"
    using assms unfolding update_where_def exec_stmt_Inr by (rule conjunct2)
  moreover have "list_all (\<lambda>l. tl_id l = i \<longrightarrow> tl_submitted_block_index l = Some b)
      (update_rows (\<lambda>l. tl_id l = i) (\<lambda>l. l\<lparr>tl_submitted_block_index := Some b\<rparr>) rows)" for rows
    by (induction rows) (simp_all add: update_rows_def)
  ultimately show ?thesis
    by (simp add: submitted_at_def)
qed

lemma submitted_comment: "preserves (submitted_at i b) (TransactionLog_update_comment l c)"
  unfolding TransactionLog_update_comment_def update_where_def
  by (rule preserves_exec_stmt) (auto simp: submitted_at_def list_all_iff set_update_rows)

lemma submitted_insert:
  assumes "insert_into db_transaction_logs_update (new_log_row i a pfx (Some b) tomb c t) d = (Inr u, d')"
    and "TransactionLog_get i d = Inl e"
  shows "submitted_at i b d'"
  using assms by (auto simp: insert_into_def exec_stmt_Inr submitted_at_def list_all_iff new_log_row_def
      TransactionLog_get_def find_row_None ok_or_def split: option.splits)

lemma log_submitted_Inr:
  assumes "TransactionLog_log_submitted x enc p b c acct d = (Inr l, d')"
  shows "l \<in> set (db_transaction_logs d') \<and> TransactionId_try_from_proposal x p = Inr (tl_id l) \<and>
         tl_submitted_block_index l = Some b"
proof -
  obtain i u where i: "TransactionId_try_from_proposal x p = Inr i"
      and get: "TransactionLog_get i d' = Inr l"
      and run: "(case TransactionLog_get i d of
           Inr l \<Rightarrow> sthen (TransactionLog_update_submitted_block_index l b) (TransactionLog_update_comment l c)
         | Inl e \<Rightarrow> (case e of
             TransactionLogNotFound _ \<Rightarrow>
               sthen (insert_into db_transaction_logs_update
                 (new_log_row i acct (tx_prefix (tp_tx p)) (Some b)
                    (Some (pfx_tombstone_block (tx_prefix (tp_tx p)))) c (enc (tp_tx p))))
               (sthen (sfor (tp_input_txos p) (input_with_key_image x i))
                 (create_outputs x (tp_payload_txos p) (tp_change_txos p) i))
           | _ \<Rightarrow> sraise e)) d = (Inr u, d')"
    using assms unfolding TransactionLog_log_submitted_def Let_def
    by (auto simp: sthen_eq_Inr sbind_eq_Inr sread_eq_Inr smatch_apply map_err_eq_Inr)
  have "submitted_at i b d'"
  proof (cases "TransactionLog_get i d")
    case (Inr l0)
    then have "tl_id l0 = i"
      by (auto simp: TransactionLog_get_def ok_or_eq_Inr dest: find_row_Some)
    with run Inr show ?thesis
      by (auto simp: sthen_eq_Inr TransactionLog_update_submitted_block_index_def
          dest!: submitted_update intro: preservesD_eq [OF submitted_comment])
  next
    case (Inl e)
    then have "e = TransactionLogNotFound i"
      by (auto simp: TransactionLog_get_def ok_or_def split: option.splits)
    with run Inl obtain d1 u1 where
        ins: "insert_into db_transaction_logs_update
          (new_log_row i acct (tx_prefix (tp_tx p)) (Some b)
             (Some (pfx_tombstone_block (tx_prefix (tp_tx p)))) c (enc (tp_tx p))) d = (Inr u1, d1)"
        and rest: "sthen (sfor (tp_input_txos p) (input_with_key_image x i))
          (create_outputs x (tp_payload_txos p) (tp_change_txos p) i) d1 = (Inr u, d')"
      by (auto simp: sthen_eq_Inr)
    have "preserves (submitted_at i b) (sthen (sfor (tp_input_txos p) (input_with_key_image x i))
          (create_outputs x (tp_payload_txos p) (tp_change_txos p) i))"
      by (intro preserves_intros submitted_input submitted_outputs)
    then show ?thesis
      using submitted_insert [OF ins Inl] rest by (rule preservesD_eq)
  qed
  with i get show ?thesis
    by (auto simp: submitted_at_def list_all_iff TransactionLog_get_def ok_or_eq_Inr dest!: find_row_Some)
qed

lemma log_of_submission_Inr:
  assumes "log_of_submission x sg p b comment acct d = (Inr (l, rest), d')"
  shows "l \<in> set (db_transaction_logs d') \<and> TransactionId_try_from_proposal x p = Inr (tl_id l) \<and>
         tl_submitted_block_index l = Some b"
proof -
  obtain c where "TransactionLog_log_submitted x (sg_encode_tx sg) p b c acct d = (Inr l, d')"
    using assms by (auto simp: log_of_submission_def smatch_apply sbind_eq_Inr sread_eq_Inr split: if_splits)
  then show ?thesis by (rule log_submitted_Inr)
qed

lemma propose_node:
  assumes "length (net_responder_ids net) < 2 ^ 64" and "net_responder_ids net \<noteq> []"
  shows "propose node_not_found retry net t s =
    (let node_id = net_responder_ids net ! (unat (ss_submit_node_offset s) mod length (net_responder_ids net));
         s1 = s\<lparr>ss_submit_node_offset := ss_submit_node_offset s + 1\<rparr>
     in case net_conn net node_id of
          None \<Rightarrow> (Inl node_not_found, s1)
        | Some propose_tx \<Rightarrow> (map_err retry (propose_tx t), s1\<lparr>ss_proposed := ss_proposed s @ [(node_id, t)]\<rparr>))"
proof -
  have "unat (ss_submit_node_offset s mod word_of_nat (length (net_responder_ids net))) =
      unat (ss_submit_node_offset s) mod length (net_responder_ids net)"
    using assms(1) by (simp add: unat_mod unat_of_nat take_bit_nat_eq_self)
  then show ?thesis by (simp only: propose_def Let_def)
qed

lemma with_db_eq: "with_db m s = (r, s') \<longleftrightarrow> (\<exists>d. m (ss_db s) = (r, d) \<and> s' = s\<lparr>ss_db := d\<rparr>)"
  by (auto simp: with_db_def split: prod.splits)

lemma sbind_eq: "sbind m f s = (case m s of (Inl e, t) \<Rightarrow> (Inl e, t) | (Inr a, t) \<Rightarrow> f a t)"
  by (auto simp: sbind_def split: prod.splits sum.splits)

lemma logged_result:
  assumes "(case account of
      Some account_id \<Rightarrow>
        sbind (with_db (tsdb (log_of_submission x sg p b comment account_id))) (\<lambda>res. sreturn (Some res))
    | None \<Rightarrow> sreturn None) s = (r, s')"
  shows "ss_proposed s' = ss_proposed s \<and> ss_submit_node_offset s' = ss_submit_node_offset s \<and>
    (case r of
      Inr (Some (l, _)) \<Rightarrow>
        l \<in> set (db_transaction_logs (ss_db s')) \<and>
        TransactionId_try_from_proposal x p = Inr (tl_id l) \<and> tl_submitted_block_index l = Some b
    | Inr None \<Rightarrow> account = None \<and> ss_db s' = ss_db s
    | Inl _ \<Rightarrow> account \<noteq> None)"
proof (cases account)
  case None
  with assms have "r = Inr None" "s' = s" by (simp_all add: sreturn_apply)
  with None show ?thesis by simp
next
  case (Some acct)
  obtain r0 d where run: "log_of_submission x sg p b comment acct (ss_db s) = (r0, d)"
    by (cases "log_of_submission x sg p b comment acct (ss_db s)")
  then have wd: "with_db (tsdb (log_of_submission x sg p b comment acct)) s =
      (map_err TS_Database r0, s\<lparr>ss_db := d\<rparr>)"
    by (simp add: with_db_def smap_err_def map_err_def)
  show ?thesis
  proof (cases r0)
    case (Inl e)
    with assms Some wd have "r = Inl (TS_Database e)" "s' = s\<lparr>ss_db := d\<rparr>"
      by (simp_all add: sbind_eq)
    with Some show ?thesis by simp
  next
    case (Inr res)
    obtain l rest where res: "res = (l, rest)" by (cases res)
    from Inr assms Some wd have "r = Inr (Some res)" "s' = s\<lparr>ss_db := d\<rparr>"
      by (simp_all add: sbind_eq sreturn_apply)
    with log_of_submission_Inr run Inr show ?thesis by (simp add: res)
  qed
qed

lemma submit_accepted:
  assumes "\<not> n_offline n" "net_responder_ids net \<noteq> []"
    and "propose TS_NodeNotFound TS_Retry net (tp_tx p) s = (Inr b, s1)"
    and "submit_transaction x sg n net p comment account s = (r, s')" "ss_db s1 = d"
  shows "ss_proposed s' = ss_proposed s1 \<and> ss_submit_node_offset s' = ss_submit_node_offset s1 \<and>
    (case r of
      Inr (Some (l, _)) \<Rightarrow>
        l \<in> set (db_transaction_logs (ss_db s')) \<and>
        TransactionId_try_from_proposal x p = Inr (tl_id l) \<and> tl_submitted_block_index l = Some b
    | Inr None \<Rightarrow> account = None \<and> ss_db s' = d
    | Inl _ \<Rightarrow> account \<noteq> None)"
  unfolding assms(5) [symmetric]
proof (rule logged_result)
  show "(case account of
        Some account_id \<Rightarrow>
          sbind (with_db (tsdb (log_of_submission x sg p b comment account_id))) (\<lambda>res. sreturn (Some res))
      | None \<Rightarrow> sreturn None) s1 = (r, s')"
    using assms(1-4) by (simp add: submit_transaction_def sbind_eq)
qed


text \<open>C16: submitting for an account the wallet does not have. The account is looked up only after the
  node accepted the transaction: the transaction is sent to the network, the caller gets an
  error, and the database has no trace of it.\<close>

theorem submit_for_unknown_account:
  assumes "\<not> n_offline n" "net_responder_ids net \<noteq> []" "length (net_responder_ids net) < 2 ^ 64"
    and "net_conn net (net_responder_ids net ! (unat (ss_submit_node_offset s) mod length (net_responder_ids net)))
           = Some propose_tx"
    and "propose_tx (tp_tx p) = Inr block_index"
    and "account_id \<notin> acct_id ` set (db_accounts (ss_db s))"
  shows "\<exists>s'. submit_transaction x sg n net p comment (Some account_id) s
                = (Inl (TS_Database (AccountNotFound account_id)), s') \<and>
              tp_tx p \<in> snd ` set (ss_proposed s') \<and> ss_db s' = ss_db s"
proof -
  have "Account_get account_id (ss_db s) = Inl (AccountNotFound account_id)"
    using assms(6) unfolding Account_get_def find_row_None [symmetric] by simp
  then show ?thesis
    using assms(1-5)
    by (simp add: submit_transaction_def sbind_eq propose_node Let_def with_db_def smap_err_def
        log_of_submission_def smatch_apply sraise_apply)
qed

subsection \<open>The whole way of a payment\<close>

lemma propose_Inr:
  assumes "propose node_not_found retry net t s = (Inr b, s')" "net_responder_ids net \<noteq> []"
  shows "\<exists>node_id f. net_conn net node_id = Some f \<and> f t = Inr b \<and>
    ss_proposed s' = ss_proposed s @ [(node_id, t)] \<and> ss_db s' = ss_db s"
  using assms by (auto simp: propose_def Let_def map_err_eq_Inr split: option.splits)

lemma submit_Inr_Some:
  assumes "submit_transaction x sg n net p comment account s = (Inr (Some (l, rest)), s')"
  shows "\<exists>node_id f b. net_conn net node_id = Some f \<and> f (tp_tx p) = Inr b \<and>
    ss_proposed s' = ss_proposed s @ [(node_id, tp_tx p)] \<and>
    l \<in> set (db_transaction_logs (ss_db s')) \<and> TransactionId_try_from_proposal x p = Inr (tl_id l) \<and>
    tl_submitted_block_index l = Some b"
proof -
  have ne: "net_responder_ids net \<noteq> []"
    using assms by (auto simp: submit_transaction_def sraise_apply split: if_splits)
  obtain b s1 where sent: "propose TS_NodeNotFound TS_Retry net (tp_tx p) s = (Inr b, s1)"
      and run: "(case account of
            Some account_id \<Rightarrow>
              sbind (with_db (tsdb (log_of_submission x sg p b comment account_id))) (\<lambda>res. sreturn (Some res))
          | None \<Rightarrow> sreturn None) s1 = (Inr (Some (l, rest)), s')"
    using assms unfolding submit_transaction_def by (auto simp: sbind_eq_Inr split: if_splits)
  show ?thesis
    using propose_Inr [OF sent ne] logged_result [OF run] by auto
qed

lemma sign_and_log_Inr:
  assumes "sign_and_log x sg i u d = (Inr p, d')"
  shows "\<exists>acct. UnsignedTxProposal_sign x sg u acct = Inr p"
proof -
  obtain acct q d1 where "UnsignedTxProposal_sign x sg u acct = Inr q"
      and "transaction (sthen (tsdb (TransactionLog_log_signed x (sg_encode_tx sg) q [] i)) (sreturn q)) d1
             = (Inr p, d')"
    using assms unfolding sign_and_log_def by (auto simp: sbind_eq_Inr sread_eq_Inr)
  then show ?thesis by (auto simp: transaction_Inr sthen_eq_Inr)
qed


subsection \<open>Examples\<close>

text \<open>A ledger that finds the outputs of the sample wallet, a signer that signs everything, two nodes
  that answer block 5, and a request to pay 6 from the sample wallet.\<close>

definition sample_pay_node :: node where
  "sample_pay_node = sample_node\<lparr>n_ledger := sample_ledger\<lparr>
     l_get_tx_out_index_by_public_key := (\<lambda>k. Inr (ucast (hd k))),
     l_get_tx_out_by_index := (\<lambda>i. Inr (sample_tx_out\<lparr>to_public_key := [ucast i]\<rparr>)),
     l_get_tx_out_index_by_hash := (\<lambda>t. Inr (ucast (hd (to_public_key t))))\<rparr>\<rparr>"

definition sample_signing :: signing where
  "sample_signing = \<lparr>sg_sign = (\<lambda>k u. Inr \<lparr>tx_prefix = utx_prefix u, tx_bytes = [1]\<rparr>), sg_encode_tx = tx_bytes,
     sg_hardware = \<lparr>hw_list = Inr [], hw_connect = (\<lambda>_. Inl ''no device''), hw_vk_spend_public_key = (\<lambda>k. k)\<rparr>\<rparr>"

definition sample_network :: network where
  "sample_network = \<lparr>net_responder_ids = [''node1'', ''node2''], net_conn = (\<lambda>_. Some (\<lambda>_. Inr 5))\<rparr>"

definition sample_args :: build_args where
  "sample_args = \<lparr>ba_account_id_hex = ''BA'',
     ba_addresses_and_amounts = [(''ACA'', \<lparr>aj_value = ''6'', aj_token_id = ''0''\<rparr>)],
     ba_input_txo_ids = Some [''A'', ''B''], ba_fee_value = Some ''4'', ba_fee_token_id = None,
     ba_tombstone_block = None, ba_max_spendable_value = None, ba_memo = Memo_Empty,
     ba_block_version = None, ba_spend_subaddress = None\<rparr>"

definition sample_state :: service_state where
  "sample_state = \<lparr>ss_db = sample_db, ss_submit_node_offset = 3, ss_proposed = []\<rparr>"

lemma sample_build_transaction:
  "\<exists>p. build_transaction sample_ext sample_crate sample_pay_node sample_rng rev sample_args sample_db
        = Some (Inr p) \<and>
      map uin_amount (utp_unsigned_input_txos p) =
        [\<lparr>am_value = 5, am_token_id = 0\<rparr>, \<lparr>am_value = 7, am_token_id = 0\<rparr>]"
proof -
  have "map_option (map_sum id (\<lambda>p. map uin_amount (utp_unsigned_input_txos p)))
     (build_transaction sample_ext sample_crate sample_pay_node sample_rng rev sample_args sample_db)
    = Some (Inr [\<lparr>am_value = 5, am_token_id = 0\<rparr>, \<lparr>am_value = 7, am_token_id = 0\<rparr>])"
    by code_simp
  then show ?thesis
    by (simp only: map_option_Inr)
qed

lemma run_ok: "map_option (\<lambda>(r, s). is_ok r) m = Some True \<Longrightarrow> \<exists>v s. m = Some (Inr v, s)"
proof -
  assume "map_option (\<lambda>(r, s). is_ok r) m = Some True"
  then obtain r s where "m = Some (r, s)" "is_ok r" by auto
  then show ?thesis by (cases r) auto
qed

lemma sample_payment:
  "\<exists>l rest p s'. build_sign_and_submit_transaction sample_ext sample_crate sample_signing sample_pay_node
      sample_network sample_rng rev sample_args None sample_state = Some (Inr ((l, rest), p), s')"
proof -
  have "map_option (\<lambda>(r, s'). is_ok r)
     (build_sign_and_submit_transaction sample_ext sample_crate sample_signing sample_pay_node
      sample_network sample_rng rev sample_args None sample_state) = Some True"
    by code_simp
  then obtain v s' where v: "build_sign_and_submit_transaction sample_ext sample_crate sample_signing
      sample_pay_node sample_network sample_rng rev sample_args None sample_state = Some (Inr v, s')"
    using run_ok by blast
  obtain l rest p where "v = ((l, rest), p)" by (metis prod.exhaust)
  with v show ?thesis by blast
qed



theorem submit_for_unknown_account_witness:
  "\<exists>s'. submit_transaction sample_ext sample_signing sample_pay_node sample_network
      \<lparr>tp_tx = \<lparr>tx_prefix = \<lparr>pfx_fee = 4, pfx_fee_token_id = 0, pfx_tombstone_block = 9\<rparr>, tx_bytes = [7]\<rparr>,
       tp_input_txos = [], tp_payload_txos = [], tp_change_txos = []\<rparr> None (Some ''nobody'') sample_state
     = (Inl (TS_Database (AccountNotFound ''nobody'')), s') \<and>
     \<lparr>tx_prefix = \<lparr>pfx_fee = 4, pfx_fee_token_id = 0, pfx_tombstone_block = 9\<rparr>, tx_bytes = [7]\<rparr>
       \<in> snd ` set (ss_proposed s') \<and> ss_db s' = sample_db"
  using submit_for_unknown_account [of sample_pay_node sample_network sample_state "\<lambda>_. Inr 5"
      "\<lparr>tp_tx = \<lparr>tx_prefix = \<lparr>pfx_fee = 4, pfx_fee_token_id = 0, pfx_tombstone_block = 9\<rparr>, tx_bytes = [7]\<rparr>,
       tp_input_txos = [], tp_payload_txos = [], tp_change_txos = []\<rparr>" 5 "''nobody''" sample_ext sample_signing None]
  by (simp add: sample_pay_node_def sample_node_def sample_network_def sample_state_def sample_db_def
      sample_account_def)


end
