(* ===== verification/Wallet_Services.thy ===== *)
theory Wallet_Services
  imports Transaction_Service
begin

section \<open>Addresses, txos, receipts and the other small services\<close>

text \<open>
  The services that read the wallet or change one row: \<open>service/address.rs\<close>, \<open>service/txo.rs\<close>,
  \<open>service/transaction_log.rs\<close>, \<open>service/payment_request.rs\<close>, \<open>service/memo.rs\<close>,
  \<open>service/confirmation_number.rs\<close> and \<open>service/receipt.rs\<close>.
\<close>

subsection \<open>Addresses\<close>

abbreviation addb :: "'a db_action \<Rightarrow> (db, address_service_error, 'a) action" where
  "addb \<equiv> smap_err ADS_Database"

definition assign_address_for_account ::
    "externals \<Rightarrow> node \<Rightarrow> string \<Rightarrow> string option \<Rightarrow> (db, address_service_error, assigned_subaddress) action" where
  "assign_address_for_account x n account_id metadata =
     transaction (addb
       (sbind (AssignedSubaddress_create_next_for_account x account_id
          (case metadata of None \<Rightarrow> [] | Some m \<Rightarrow> m) (n_ledger n)) (\<lambda>(public_address_b58, _).
        sread (AssignedSubaddress_get public_address_b58))))"

definition get_address :: "string \<Rightarrow> db \<Rightarrow> address_service_error + assigned_subaddress" where
  "get_address address_b58 d = map_err ADS_Database (AssignedSubaddress_get address_b58 d)"

definition get_address_for_account ::
    "string \<Rightarrow> i64 \<Rightarrow> db \<Rightarrow> address_service_error + assigned_subaddress" where
  "get_address_for_account account_id index d =
     map_err ADS_Database (AssignedSubaddress_get_for_account_by_index account_id index d)"

definition get_addresses ::
    "string option \<Rightarrow> u64 option \<Rightarrow> u64 option \<Rightarrow> db \<Rightarrow> address_service_error + assigned_subaddress list" where
  "get_addresses account_id offset limit d =
     map_err ADS_Database (AssignedSubaddress_list_all account_id offset limit d)"

subsection \<open>Txos\<close>

datatype (plugins only: code size) txo_service_error =
    TXS_Database wallet_db_error
  | TXS_LedgerDB ledger_error
  | TXS_Diesel diesel_error
  | TXS_MissingConfirmation string
  | TXS_TransactionService transaction_service_error
  | TXS_TxoNotSpendableByAnyAccount string
  | TXS_TxoNotSpendable string
  | TXS_InvalidQuery string
  | TXS_Decode ext_error
  | TXS_WalletTransactionBuilder wtb_error
  | TXS_Key ext_error
  | TXS_From string
  | TXS_TxBuilder ext_error
  | TXS_FeeMap ext_error
  | TXS_LedgerService ledger_service_error

record txo_info =
  ti_txo :: txo
  ti_memo :: txo_memo
  ti_status :: txo_status

definition txo_info_of :: "externals \<Rightarrow> db \<Rightarrow> txo \<Rightarrow> txo_service_error + txo_info" where
  "txo_info_of x d t =
     rbind (map_err TXS_Database (Txo_status t d)) (\<lambda>status.
     rbind (map_err TXS_Database (Txo_memo x t d)) (\<lambda>memo.
       Inr \<lparr>ti_txo = t, ti_memo = memo, ti_status = status\<rparr>))"

definition list_txos ::
    "externals \<Rightarrow> string option \<Rightarrow> string option \<Rightarrow> txo_status option \<Rightarrow> u64 option \<Rightarrow> u64 option \<Rightarrow> u64 option
      \<Rightarrow> u64 option \<Rightarrow> u64 option \<Rightarrow> db \<Rightarrow> txo_service_error + txo_info list" where
  "list_txos x account_id addr status token_id min_block max_block offset limit d =
     rbind (map_err TXS_Database
       (case addr of
          Some a \<Rightarrow> Txo_list_for_address a status min_block max_block offset limit token_id d
        | None \<Rightarrow>
            (case account_id of
               Some i \<Rightarrow> Txo_list_for_account i status min_block max_block offset limit token_id d
             | None \<Rightarrow> Txo_list status min_block max_block offset limit token_id d)))
       (\<lambda>txos. collect_results (txo_info_of x d) txos)"

definition get_txo :: "externals \<Rightarrow> string \<Rightarrow> db \<Rightarrow> txo_service_error + txo_info" where
  "get_txo x i d = rbind (map_err TXS_Database (Txo_get i d)) (txo_info_of x d)"

text \<open>Splitting a txo builds and signs a transaction from its account to one of its own subaddresses.\<close>

definition split_request ::
    "string \<Rightarrow> string list \<Rightarrow> i64 option \<Rightarrow> string option \<Rightarrow> string option \<Rightarrow> string option \<Rightarrow> db
      \<Rightarrow> txo_service_error + build_args" where
  "split_request i output_values subaddress_index fee_value fee_token_id tombstone_block d =
     rbind (map_err TXS_Database (Txo_get i d)) (\<lambda>t.
     rbind (ok_or (TXS_TxoNotSpendableByAnyAccount (txo_id t)) (txo_account_id t)) (\<lambda>account_id_hex.
     rbind (map_err TXS_Database (AssignedSubaddress_get_for_account_by_index account_id_hex
         (case subaddress_index of None \<Rightarrow> 0 | Some k \<Rightarrow> k) d)) (\<lambda>s.
       Inr \<lparr>ba_account_id_hex = account_id_hex,
            ba_addresses_and_amounts = map (\<lambda>v. (asub_public_address_b58 s,
              \<lparr>aj_value = v, aj_token_id = show_i64 (txo_token_id t)\<rparr>)) output_values,
            ba_input_txo_ids = Some [i], ba_fee_value = fee_value, ba_fee_token_id = fee_token_id,
            ba_tombstone_block = tombstone_block, ba_max_spendable_value = None,
            ba_memo = Memo_RTH None, ba_block_version = None, ba_spend_subaddress = None\<rparr>)))"

definition split_txo ::
    "externals \<Rightarrow> 'b crate_builder \<Rightarrow> signing \<Rightarrow> node \<Rightarrow> (u64 \<Rightarrow> nat \<Rightarrow> u64) \<Rightarrow> (u64 list \<Rightarrow> u64 list)
      \<Rightarrow> string \<Rightarrow> string list \<Rightarrow> i64 option \<Rightarrow> string option \<Rightarrow> string option \<Rightarrow> string option \<Rightarrow> db
      \<Rightarrow> (txo_service_error + tx_proposal) option" where
  "split_txo x cb sg n rng hash_order i output_values subaddress_index fee_value fee_token_id tombstone_block d =
     (case split_request i output_values subaddress_index fee_value fee_token_id tombstone_block d of
       Inl e \<Rightarrow> Some (Inl e)
     | Inr a \<Rightarrow>
         map_option (\<lambda>r.
           rbind (map_err TXS_TransactionService r) (\<lambda>unsigned.
           rbind (map_err TXS_Database (Account_get (ba_account_id_hex a) d)) (\<lambda>acct.
             map_err TXS_TransactionService (UnsignedTxProposal_sign x sg unsigned acct))))
         (build_transaction x cb n rng hash_order a d))"

subsection \<open>Transaction logs\<close>

datatype transaction_log_service_error =
    TLS_Database wallet_db_error
  | TLS_Diesel diesel_error

definition list_transaction_logs ::
    "string option \<Rightarrow> u64 option \<Rightarrow> u64 option \<Rightarrow> u64 option \<Rightarrow> u64 option \<Rightarrow> db
      \<Rightarrow> transaction_log_service_error + (transaction_log \<times> associated_txos \<times> (u64 \<rightharpoonup> u64)) list" where
  "list_transaction_logs account_id offset limit min_block max_block d =
     map_err TLS_Database (TransactionLog_list_all account_id offset limit min_block max_block d)"

definition get_transaction_log ::
    "string \<Rightarrow> db \<Rightarrow> transaction_log_service_error + transaction_log \<times> associated_txos \<times> (u64 \<rightharpoonup> u64)" where
  "get_transaction_log i d = map_err TLS_Database
     (rbind (TransactionLog_get i d) (\<lambda>l.
      rbind (TransactionLog_get_associated_txos l d) (\<lambda>associated.
      rbind (TransactionLog_value_map l d) (\<lambda>value_map. Inr (l, associated, value_map)))))"

subsection \<open>Payment requests\<close>

datatype payment_request_service_error =
    PRS_B58 b58_error
  | PRS_Database wallet_db_error
  | PRS_LedgerDB ledger_error
  | PRS_HexDecode ext_error
  | PRS_Diesel diesel_error
  | PRS_LedgerService ledger_service_error
  | PRS_UnknownKeyDerivation u8
  | PRS_InvalidMnemonic string

definition create_payment_request ::
    "externals \<Rightarrow> string \<Rightarrow> i64 option \<Rightarrow> amount \<Rightarrow> string option \<Rightarrow> db \<Rightarrow> payment_request_service_error + string" where
  "create_payment_request x account_id subaddress_index amt memo d =
     rbind (map_err PRS_Database (AssignedSubaddress_get_for_account_by_index account_id
        (case subaddress_index of None \<Rightarrow> 0 | Some i \<Rightarrow> i) d)) (\<lambda>s.
     rbind (map_err PRS_B58 (b58_decode_public_address x (asub_public_address_b58 s))) (\<lambda>public_address.
       map_err PRS_B58 (b58_encode_payment_request x public_address amt
         (case memo of None \<Rightarrow> [] | Some m \<Rightarrow> m))))"

subsection \<open>Memos\<close>

datatype memo_service_error =
    MS_WalletDb wallet_db_error
  | MS_B58 b58_error
  | MS_Decode ext_error
  | MS_LedgerService ledger_service_error
  | MS_Key ext_error
  | MS_MemoDecoding ext_error
  | MS_InvalidMemoTypeForValidation
  | MS_TxoOrphaned string

text \<open>The check of the three kinds of sender memos is the crate's.\<close>

record memo_ext =
  mx_validate :: "memo_payload \<Rightarrow> public_address \<Rightarrow> private_key \<Rightarrow> compressed_public \<Rightarrow> bool"
  mx_subaddress_view_private :: "account_key \<Rightarrow> u64 \<Rightarrow> private_key"

definition validate_sender_memo ::
    "externals \<Rightarrow> memo_ext \<Rightarrow> node \<Rightarrow> string \<Rightarrow> string \<Rightarrow> db \<Rightarrow> memo_service_error + bool" where
  "validate_sender_memo x mx n txo_id_hex sender_address d =
     rbind (map_err MS_B58 (b58_decode_public_address x sender_address)) (\<lambda>sender.
     rbind (map_err MS_WalletDb (Txo_get txo_id_hex d)) (\<lambda>t.
     rbind (map_err MS_WalletDb (Txo_account t d)) (\<lambda>acct. case acct of
       None \<Rightarrow> Inr False
     | Some a \<Rightarrow>
         (case txo_subaddress_index t of
           None \<Rightarrow> Inl (MS_TxoOrphaned txo_id_hex)
         | Some subaddress_index \<Rightarrow>
             rbind (map_err MS_WalletDb (Account_account_key x a)) (\<lambda>k.
             rbind (map_err MS_LedgerService (get_txo_object x n txo_id_hex d)) (\<lambda>tx_out.
             rbind (map_err MS_Key (x_ristretto_try_from x (to_public_key tx_out))) (\<lambda>tx_public_key.
             rbind (map_err MS_WalletDb (Account_get_shared_secret x a tx_public_key)) (\<lambda>shared_secret.
               let memo_payload = decrypt_memo x (to_e_memo tx_out) shared_secret;
                   valid = mx_validate mx memo_payload sender
                     (mx_subaddress_view_private mx k subaddress_index) (to_public_key tx_out)
               in case x_memo_type_try_from x memo_payload of
                    Inr (MT_AuthenticatedSender _) \<Rightarrow> Inr valid
                  | Inr (MT_AuthenticatedSenderWithPaymentIntentId _ _) \<Rightarrow> Inr valid
                  | Inr (MT_AuthenticatedSenderWithPaymentRequestId _ _) \<Rightarrow> Inr valid
                  | Inr _ \<Rightarrow> Inl MS_InvalidMemoTypeForValidation
                  | Inl e \<Rightarrow> Inl (MS_MemoDecoding e)))))))))"

subsection \<open>Confirmation numbers\<close>

datatype (plugins only: code size) confirmation_service_error =
    CS_Database wallet_db_error
  | CS_Diesel diesel_error
  | CS_LedgerDB ledger_error
  | CS_ProstDecode ext_error
  | CS_HexDecode ext_error
  | CS_MissingConfirmation string
  | CS_TxoService txo_service_error
  | CS_TransactionLogService transaction_log_service_error

record confirmation =
  cf_txo_id :: string
  cf_txo_index :: u64
  cf_confirmation :: confirmation_number

definition confirmation_of ::
    "externals \<Rightarrow> node \<Rightarrow> db \<Rightarrow> txo \<times> string \<Rightarrow> confirmation_service_error + confirmation" where
  "confirmation_of x n d out =
     rbind (map_err CS_TxoService (get_txo x (txo_id (fst out)) d)) (\<lambda>info.
       case txo_confirmation (ti_txo info) of
         None \<Rightarrow> Inl (CS_MissingConfirmation (txo_id (fst out)))
       | Some c \<Rightarrow>
           rbind (map_err CS_ProstDecode (x_decode_confirmation x c)) (\<lambda>conf.
           rbind (map_err CS_ProstDecode (x_decode_compressed x (txo_public_key (ti_txo info)))) (\<lambda>pubkey.
           rbind (map_err CS_LedgerDB (l_get_tx_out_index_by_public_key (n_ledger n) pubkey)) (\<lambda>txo_index.
             Inr \<lparr>cf_txo_id = txo_id (ti_txo info), cf_txo_index = txo_index, cf_confirmation = conf\<rparr>))))"

definition get_confirmations ::
    "externals \<Rightarrow> node \<Rightarrow> string \<Rightarrow> db \<Rightarrow> confirmation_service_error + confirmation list" where
  "get_confirmations x n transaction_log_id d =
     rbind (map_err CS_TransactionLogService (get_transaction_log transaction_log_id d)) (\<lambda>(_, associated, _).
       collect_results (confirmation_of x n d) (at_outputs associated))"

definition validate_confirmation ::
    "externals \<Rightarrow> node \<Rightarrow> string \<Rightarrow> string \<Rightarrow> string \<Rightarrow> db \<Rightarrow> confirmation_service_error + bool" where
  "validate_confirmation x n account_id i confirmation_hex d =
     rbind (map_err CS_HexDecode (n_hex_decode n confirmation_hex)) (\<lambda>b.
     rbind (map_err CS_ProstDecode (x_decode_confirmation x b)) (\<lambda>conf.
       map_err CS_Database (Txo_validate_confirmation x account_id i conf d)))"

subsection \<open>Receipts\<close>

datatype (plugins only: code size) receipt_service_error =
    RS_Database wallet_db_error
  | RS_Diesel diesel_error
  | RS_LedgerDB ledger_error
  | RS_ProtoConversion ext_error
  | RS_ProtoConversionInfallible
  | RS_ProstDecode ext_error
  | RS_CryptoKey ext_error
  | RS_HexDecode ext_error
  | RS_TxOutConversion

record receiver_receipt =
  rr_public_key :: compressed_public
  rr_confirmation :: confirmation_number
  rr_tombstone_block :: u64
  rr_amount :: bytes

datatype receipt_transaction_status =
    TransactionSuccess
  | TransactionPending
  | TxosReceivedAtDifferentBlockIndices
  | InvalidConfirmation
  | DuplicateTxos
  | AmountMismatch string
  | FailedAmountDecryption

text \<open>The part of the check after the txo was found and has left the pending states.\<close>

definition check_received ::
    "externals \<Rightarrow> node \<Rightarrow> account \<Rightarrow> receiver_receipt \<Rightarrow> txo_info \<Rightarrow> db
      \<Rightarrow> receipt_service_error + receipt_transaction_status" where
  "check_received x n a r info d =
     rbind (map_err RS_ProstDecode (x_decode_account_key x (acct_account_key a))) (\<lambda>k.
     rbind (map_err RS_CryptoKey (x_ristretto_try_from x (rr_public_key r))) (\<lambda>public_key.
       let shared_secret = x_get_tx_out_shared_secret x (x_view_private_key x k) public_key
       in case x_amount_get_value x (rr_amount r) shared_secret of
            Inl _ \<Rightarrow> Inr FailedAmountDecryption
          | Inr expected \<Rightarrow>
              (if txo_value (ti_txo info) \<noteq> am_value expected then
                 Inr (AmountMismatch (''Expected: '' @ show_u64 (am_value expected) @ '', Got: '' @
                   show_u64 (txo_value (ti_txo info))))
               else
                 (let confirmation_hex = x_hex_encode x (x_encode_confirmation x (rr_confirmation r))
                  in rbind (map_err RS_HexDecode (n_hex_decode n confirmation_hex)) (\<lambda>b.
                     rbind (map_err RS_ProstDecode (x_decode_confirmation x b)) (\<lambda>conf.
                     rbind (map_err RS_Database (Txo_validate_confirmation x (acct_id a)
                        (txo_id (ti_txo info)) conf d)) (\<lambda>valid.
                       Inr (if valid then TransactionSuccess else InvalidConfirmation))))))))"

definition check_receipt_status ::
    "externals \<Rightarrow> node \<Rightarrow> string \<Rightarrow> receiver_receipt \<Rightarrow> db
      \<Rightarrow> receipt_service_error + receipt_transaction_status \<times> txo_info option" where
  "check_receipt_status x n addr r d =
     rbind (map_err RS_Database (AssignedSubaddress_get addr d)) (\<lambda>s.
     rbind (map_err RS_Database (Account_get (asub_account_id s) d)) (\<lambda>a.
     rbind (map_err RS_Database (Txo_select_by_public_key x [rr_public_key r] d)) (\<lambda>txos.
       case txos of
         [] \<Rightarrow> Inr (TransactionPending, None)
       | t # _ \<Rightarrow>
           rbind (map_err RS_Database (Txo_status t d)) (\<lambda>status.
           rbind (map_err RS_Database (Txo_memo x t d)) (\<lambda>memo.
             let info = \<lparr>ti_txo = t, ti_memo = memo, ti_status = status\<rparr>
             in if status = Pending \<or> status = Created then Inr (TransactionPending, Some info)
                else rbind (check_received x n a r info d) (\<lambda>st. Inr (st, Some info)))))))"

definition create_receiver_receipts ::
    "tx_proposal \<Rightarrow> receipt_service_error + receiver_receipt list" where
  "create_receiver_receipts p =
     collect_results (\<lambda>out.
       rbind (ok_or RS_TxOutConversion (to_masked_amount (out_tx_out out))) (\<lambda>amt.
         Inr \<lparr>rr_public_key = to_public_key (out_tx_out out), rr_confirmation = out_confirmation_number out,
              rr_tombstone_block = pfx_tombstone_block (tx_prefix (tp_tx p)), rr_amount = amt\<rparr>))
     (tp_payload_txos p)"

section \<open>Facts\<close>

text \<open>C24: a payment request reads back as what was requested: the address of the subaddress of the
  account it was made for, the amount with its token, and the memo; and it is not mistaken for an
  address.\<close>

theorem payment_request_roundtrip:
  assumes "b58_laws x" "create_payment_request x account_id subaddress_index amt memo d = Inr code"
  shows "\<exists>s address. AssignedSubaddress_get_for_account_by_index account_id
             (case subaddress_index of None \<Rightarrow> 0 | Some i \<Rightarrow> i) d = Inr s \<and>
           b58_decode_public_address x (asub_public_address_b58 s) = Inr address \<and>
           b58_decode_payment_request x code = Inr \<lparr>dpr_public_address = address,
             dpr_value = am_value amt, dpr_token_id = am_token_id amt,
             dpr_memo = (case memo of None \<Rightarrow> [] | Some m \<Rightarrow> m)\<rparr> \<and>
           b58_decode_public_address x code = Inl NotPublicAddress"
  using assms(2) b58_payment_request_decode_encode [OF assms(1)]
  by (auto simp: create_payment_request_def rbind_eq_Inr map_err_eq_Inr)

lemma case_eq_Inr:
  "(case v of Inl e \<Rightarrow> f e | Inr a \<Rightarrow> g a) = Inr y \<longleftrightarrow>
     (\<exists>e. v = Inl e \<and> f e = Inr y) \<or> (\<exists>a. v = Inr a \<and> g a = Inr y)"
  "(case xs of [] \<Rightarrow> b | t # ts \<Rightarrow> h t ts) = Inr y \<longleftrightarrow>
     xs = [] \<and> b = Inr y \<or> (\<exists>t ts. xs = t # ts \<and> h t ts = Inr y)"
  "(if c then p else q) = Inr y \<longleftrightarrow> c \<and> p = Inr y \<or> \<not> c \<and> q = Inr y"
  by (auto split: sum.splits list.splits)

lemma check_received_success:
  "check_received x n a r i d = Inr TransactionSuccess \<longleftrightarrow>
     (\<exists>k pk expected b conf. x_decode_account_key x (acct_account_key a) = Inr k \<and>
        x_ristretto_try_from x (rr_public_key r) = Inr pk \<and>
        x_amount_get_value x (rr_amount r) (x_get_tx_out_shared_secret x (x_view_private_key x k) pk) = Inr expected \<and>
        am_value expected = txo_value (ti_txo i) \<and>
        n_hex_decode n (x_hex_encode x (x_encode_confirmation x (rr_confirmation r))) = Inr b \<and>
        x_decode_confirmation x b = Inr conf \<and>
        Txo_validate_confirmation x (acct_id a) (txo_id (ti_txo i)) conf d = Inr True)" (is "?L \<longleftrightarrow> ?R")
proof
  assume ?L
  then show ?R
    by (auto simp: check_received_def rbind_eq_Inr map_err_eq_Inr Let_def case_eq_Inr split: if_splits)
next
  assume ?R
  then show ?L
    by (elim exE conjE) (simp add: check_received_def)
qed


subsection \<open>Examples\<close>

theorem payment_request_roundtrip_witness:
  "\<exists>code. create_payment_request sample_ext ''BA'' None \<lparr>am_value = 6, am_token_id = 1\<rparr> (Some ''hi'') sample_db = Inr code \<and>
     b58_decode_payment_request sample_ext code = Inr \<lparr>dpr_public_address = [1, 0], dpr_value = 6,
       dpr_token_id = 1, dpr_memo = ''hi''\<rparr>"
proof -
  have "is_ok (create_payment_request sample_ext ''BA'' None \<lparr>am_value = 6, am_token_id = 1\<rparr> (Some ''hi'') sample_db)"
    by code_simp
  then obtain code where code:
    "create_payment_request sample_ext ''BA'' None \<lparr>am_value = 6, am_token_id = 1\<rparr> (Some ''hi'') sample_db = Inr code"
    by (auto simp: is_ok_def split: sum.splits)
  have "map_sum id asub_public_address_b58 (AssignedSubaddress_get_for_account_by_index ''BA'' 0 sample_db) = Inr ''ABA''"
      "b58_decode_public_address sample_ext ''ABA'' = Inr [1, 0]"
    by code_simp+
  with payment_request_roundtrip [OF sample_b58_laws code] code show ?thesis
    by auto
qed

definition sample_receipt_node :: node where
  "sample_receipt_node = sample_node\<lparr>n_hex_decode := (\<lambda>s. Inr (bytes_of_chars s))\<rparr>"

text \<open>A receipt for 5 of token 7 succeeds for a txo of 5 of token 0.\<close>

lemma sample_receipt_checked:
  "map_sum id fst (check_receipt_status sample_ext sample_receipt_node ''ABA''
     \<lparr>rr_public_key = [0], rr_confirmation = [0], rr_tombstone_block = 9, rr_amount = [1, 5, 7]\<rparr> sample_db)
   = Inr TransactionSuccess"
  by code_simp

end
