(* ===== verification/Gift_Service.thy ===== *)
theory Gift_Service
  imports Wallet_Services
begin

section \<open>Gift codes\<close>

text \<open>
  \<open>service/gift_code.rs\<close>: a gift code is a fresh account that receives one output and is handed
  over as a printable code. Building and submitting go through the transaction service; claiming
  builds a transaction of its own, with its own sampling loop, that moves the output to the
  claimer. What only this service uses of the crates is the record \<open>gift_ext\<close>.
\<close>

datatype (plugins only: code size) gift_code_service_error =
    GC_Database wallet_db_error
  | GC_LedgerDB ledger_error
  | GC_HexDecode ext_error
  | GC_ProstDecode ext_error
  | GC_BuildGiftCodeFailed
  | GC_UnexpectedTxStatus string
  | GC_UnexpectedNumOutputs nat
  | GC_InsufficientValueForFee u64
  | GC_UnexpectedNumTxosInGiftCodeAccount nat
  | GC_UnexpectedValueInGiftCodeTxo u64
  | GC_TxoNotConsumable
  | GC_AccountNotFound
  | GC_UnexpectedTxProposalFormat
  | GC_Diesel diesel_error
  | GC_TransactionService transaction_service_error
  | GC_AccountService account_service_error
  | GC_PrintableWrapper ext_error
  | GC_CryptoKey ext_error
  | GC_GiftCodeTxoNotInLedger u64
  | GC_GiftCodeClaimed
  | GC_GiftCodeNotYetAvailable
  | GC_GiftCodeRemoved
  | GC_NodeNotFound
  | GC_Connection ext_error
  | GC_ProtoConversion ext_error
  | GC_TxBuilder ext_error
  | GC_UriParse ext_error
  | GC_AddressService address_service_error
  | GC_B58 b58_error
  | GC_FogPubkeyResolver string
  | GC_InvalidFogUri string
  | GC_Amount ext_error
  | GC_WalletTransactionBuilder wtb_error
  | GC_TxOutConversion
  | GC_LedgerService ledger_service_error
  | GC_Retry ext_error
  | GC_Panic

record decoded_gift_code =
  dg_gift_code_b58 :: string
  dg_root_entropy :: "bytes option"
  dg_bip39_entropy :: "bytes option"
  dg_txo_public_key :: bytes
  dg_value :: u64
  dg_memo :: string

datatype gift_code_status = GiftCodeSubmittedPending | GiftCodeAvailable | GiftCodeClaimed

record 'b gift_ext =
  gx_compressed_proto :: "compressed_public \<Rightarrow> bytes"
  gx_json_memo :: "string \<Rightarrow> string"
  gx_add_input :: "tx_out list \<Rightarrow> membership_proof list \<Rightarrow> nat \<Rightarrow> private_key \<Rightarrow> private_key
      \<Rightarrow> ext_error + ('b \<Rightarrow> 'b)"
  gx_build :: "'b \<Rightarrow> ext_error + tx"

subsection \<open>Building and submitting\<close>

text \<open>A code whose account key is missing is a panic of the decoder.\<close>

definition decode_transfer_payload ::
    "externals \<Rightarrow> string \<Rightarrow> gift_code_service_error + decoded_transfer_payload" where
  "decode_transfer_payload x gift_code_b58 =
     (case b58_decode_transfer_payload x gift_code_b58 of
       None \<Rightarrow> Inl GC_Panic
     | Some r \<Rightarrow> map_err GC_B58 r)"

definition DecodedGiftCode_try_from ::
    "externals \<Rightarrow> gift_code \<Rightarrow> gift_code_service_error + decoded_gift_code" where
  "DecodedGiftCode_try_from x src =
     rbind (decode_transfer_payload x (gc_gift_code_b58 src)) (\<lambda>p.
       Inr \<lparr>dg_gift_code_b58 = gc_gift_code_b58 src, dg_root_entropy = dtp_root_entropy p,
            dg_bip39_entropy = dtp_bip39_entropy p,
            dg_txo_public_key = x_encode_compressed x (dtp_txo_public_key p),
            dg_value = gc_value src, dg_memo = dtp_memo p\<rparr>)"

text \<open>The mnemonic is the random one; the proposal is signed but not logged.\<close>

definition gift_request ::
    "externals \<Rightarrow> string \<Rightarrow> string \<Rightarrow> u64 \<Rightarrow> string list option \<Rightarrow> u64 option \<Rightarrow> u64 option \<Rightarrow> u64 option
      \<Rightarrow> build_args" where
  "gift_request x account_id gift_address value input_txo_ids fee tombstone_block max_spendable_value =
     \<lparr>ba_account_id_hex = account_id,
      ba_addresses_and_amounts = [(gift_address, Amount_new value (x_MOB_ID x))],
      ba_input_txo_ids = input_txo_ids, ba_fee_value = map_option show_u64 fee, ba_fee_token_id = None,
      ba_tombstone_block = map_option show_u64 tombstone_block,
      ba_max_spendable_value = map_option show_u64 max_spendable_value,
      ba_memo = Memo_RTH None, ba_block_version = None, ba_spend_subaddress = None\<rparr>"

definition package_gift_code ::
    "externals \<Rightarrow> 'b gift_ext \<Rightarrow> signing \<Rightarrow> bytes \<Rightarrow> account \<Rightarrow> string option \<Rightarrow> unsigned_tx_proposal
      \<Rightarrow> gift_code_service_error + tx_proposal \<times> string" where
  "package_gift_code x gx sg mnemonic from_account memo utp =
     rbind (map_err GC_TransactionService (UnsignedTxProposal_sign x sg utp from_account)) (\<lambda>p.
       case tp_payload_txos p of
         [out] \<Rightarrow>
           rbind (map_err GC_B58 (b58_encode_transfer_payload x (x_mnemonic_entropy x mnemonic)
              (gx_compressed_proto gx (to_public_key (out_tx_out out)))
              (case memo of None \<Rightarrow> [] | Some m \<Rightarrow> m))) (\<lambda>gift_code_b58.
             Inr (p, gift_code_b58))
       | _ \<Rightarrow> Inl GC_UnexpectedTxProposalFormat)"

definition build_gift_code ::
    "externals \<Rightarrow> 'b crate_builder \<Rightarrow> 'b gift_ext \<Rightarrow> signing \<Rightarrow> node \<Rightarrow> (u64 \<Rightarrow> nat \<Rightarrow> u64) \<Rightarrow> (u64 list \<Rightarrow> u64 list)
      \<Rightarrow> bytes \<Rightarrow> string \<Rightarrow> u64 \<Rightarrow> string option \<Rightarrow> string list option \<Rightarrow> u64 option \<Rightarrow> u64 option \<Rightarrow> u64 option
      \<Rightarrow> db \<Rightarrow> (gift_code_service_error + tx_proposal \<times> string) option" where
  "build_gift_code x cb gx sg n rng hash_order mnemonic from_account_id value memo input_txo_ids fee
      tombstone_block max_spendable_value d =
     (let k = x_account_key_from_mnemonic x mnemonic
      in case rbind (map_err GC_B58 (b58_encode_public_address x (x_subaddress x k (x_DEFAULT_SUBADDRESS_INDEX x))))
            (\<lambda>b58. rbind (map_err GC_Database (Account_get from_account_id d)) (\<lambda>a. Inr (b58, a))) of
           Inl e \<Rightarrow> Some (Inl e)
         | Inr (b58, from_account) \<Rightarrow>
             map_option (\<lambda>r. rbind (map_err GC_TransactionService r)
                 (package_gift_code x gx sg mnemonic from_account memo))
               (build_transaction x cb n rng hash_order
                 (gift_request x (acct_id from_account) b58 value input_txo_ids fee tombstone_block
                    max_spendable_value) d))"

text \<open>The code is saved in a transaction of its own before the transaction is sent.\<close>

definition submit_gift_code ::
    "externals \<Rightarrow> 'b gift_ext \<Rightarrow> signing \<Rightarrow> node \<Rightarrow> network \<Rightarrow> string \<Rightarrow> string \<Rightarrow> tx_proposal
      \<Rightarrow> (service_state, gift_code_service_error, decoded_gift_code) action" where
  "submit_gift_code x gx sg n net from_account_id gift_code_b58 p =
     sbind (sread (\<lambda>_. decode_transfer_payload x gift_code_b58)) (\<lambda>payload.
     sbind (sread (\<lambda>_. case tp_payload_txos p of [] \<Rightarrow> Inl GC_Panic | out # _ \<Rightarrow> Inr (am_value (out_amount out))))
       (\<lambda>value.
     sbind (with_db (smap_err GC_Database (transaction (GiftCode_create gift_code_b58 value)))) (\<lambda>gc.
     sthen (smap_err GC_TransactionService (submit_transaction x sg n net p
              (Some (gx_json_memo gx (dtp_memo payload))) (Some from_account_id)))
       (sreturn \<lparr>dg_gift_code_b58 = gc_gift_code_b58 gc, dg_root_entropy = dtp_root_entropy payload,
          dg_bip39_entropy = dtp_bip39_entropy payload,
          dg_txo_public_key = x_encode_compressed x (dtp_txo_public_key payload),
          dg_value = value, dg_memo = dtp_memo payload\<rparr>))))"

subsection \<open>Reading and removing\<close>

definition get_gift_code :: "externals \<Rightarrow> string \<Rightarrow> db \<Rightarrow> gift_code_service_error + decoded_gift_code" where
  "get_gift_code x gift_code_b58 d =
     rbind (map_err GC_Database (GiftCode_get gift_code_b58 d)) (DecodedGiftCode_try_from x)"

definition list_gift_codes ::
    "externals \<Rightarrow> u64 option \<Rightarrow> u64 option \<Rightarrow> db \<Rightarrow> gift_code_service_error + decoded_gift_code list" where
  "list_gift_codes x offset limit d =
     rbind (map_err GC_Database (GiftCode_list_all offset limit d))
       (collect_results (DecodedGiftCode_try_from x))"

definition remove_gift_code :: "string \<Rightarrow> (db, gift_code_service_error, bool) action" where
  "remove_gift_code gift_code_b58 =
     sthen (smap_err GC_Database (transaction (sbind (sread (GiftCode_get gift_code_b58)) GiftCode_delete)))
       (sreturn True)"

subsection \<open>Claiming\<close>

definition gift_key_image ::
    "externals \<Rightarrow> account_key \<Rightarrow> compressed_public \<Rightarrow> gift_code_service_error + key_image" where
  "gift_key_image x k gift_public_key =
     rbind (map_err GC_CryptoKey (x_ristretto_try_from x gift_public_key)) (\<lambda>pk.
       Inr (x_key_image_from x (x_recover_onetime_private_key x pk (x_view_private_key x k)
         (x_subaddress_spend_private x k (x_DEFAULT_SUBADDRESS_INDEX x)))))"

definition check_gift_code_status ::
    "externals \<Rightarrow> node \<Rightarrow> string \<Rightarrow> gift_code_service_error + gift_code_status \<times> i64 option \<times> string" where
  "check_gift_code_status x n gift_code_b58 =
     rbind (decode_transfer_payload x gift_code_b58) (\<lambda>p.
       let k = dtp_account_key p
       in case l_get_tx_out_index_by_public_key (n_ledger n) (dtp_txo_public_key p) of
            Inl LedgerNotFound \<Rightarrow> Inr (GiftCodeSubmittedPending, None, dtp_memo p)
          | Inl e \<Rightarrow> Inl (GC_LedgerDB e)
          | Inr index \<Rightarrow>
              rbind (map_err GC_LedgerDB (l_get_tx_out_by_index (n_ledger n) index)) (\<lambda>gift_txo.
              rbind (map_err GC_CryptoKey (x_ristretto_try_from x (to_public_key gift_txo))) (\<lambda>pk.
              rbind (ok_or GC_TxOutConversion (to_masked_amount gift_txo)) (\<lambda>masked.
              rbind (map_err GC_Amount (x_amount_get_value x masked
                 (x_get_tx_out_shared_secret x (x_view_private_key x k) pk))) (\<lambda>value.
              rbind (gift_key_image x k (dtp_txo_public_key p)) (\<lambda>key_image.
              rbind (map_err GC_LedgerDB (l_contains_key_image (n_ledger n) key_image)) (\<lambda>spent.
                Inr (if spent then GiftCodeClaimed else GiftCodeAvailable, Some (am_value value), dtp_memo p))))))))"

text \<open>The loop that samples the ring; \<open>None\<close> when it does not end. The real output comes first.\<close>

definition gift_ring_indices ::
    "externals \<Rightarrow> (nat \<Rightarrow> u64) \<Rightarrow> (u64 list \<Rightarrow> u64 list) \<Rightarrow> u64 \<Rightarrow> u64 list option" where
  "gift_ring_indices x rng hash_order gift_txo_index =
     map_option (\<lambda>sampled. gift_txo_index # hash_order sampled)
       (sample_loop rng (x_RING_SIZE x - 1) [gift_txo_index] 0 [])"

definition gift_fog_resolver ::
    "'b crate_builder \<Rightarrow> public_address \<Rightarrow> gift_code_service_error + bytes" where
  "gift_fog_resolver cb recipient =
     rbind (case cb_fog_report_url cb recipient of
              None \<Rightarrow> Inr []
            | Some u \<Rightarrow> rbind (map_err GC_UriParse (cb_fog_uri_from_str cb u)) (\<lambda>uri. Inr [uri])) (\<lambda>uris.
       map_err GC_FogPubkeyResolver (cb_fog_resolver_factory cb uris))"

text \<open>The transaction of a claim, once its ring is known.\<close>

definition gift_tx ::
    "externals \<Rightarrow> 'b crate_builder \<Rightarrow> 'b gift_ext \<Rightarrow> node \<Rightarrow> account_key \<Rightarrow> u64 \<Rightarrow> public_address \<Rightarrow> bytes
      \<Rightarrow> u64 list \<Rightarrow> gift_code_service_error + tx" where
  "gift_tx x cb gx n k gift_value recipient fog_resolver indices =
     rbind (map_err GC_LedgerDB (l_get_tx_out_proof_of_memberships (n_ledger n) indices)) (\<lambda>proofs.
     rbind (map_err GC_LedgerDB (collect_results (l_get_tx_out_by_index (n_ledger n)) indices)) (\<lambda>ring.
     rbind (map_err GC_CryptoKey (x_ristretto_try_from x (to_public_key (hd ring)))) (\<lambda>pk.
     rbind (map_err GC_TxBuilder (gx_add_input gx ring proofs 0
        (x_recover_onetime_private_key x pk (x_view_private_key x k)
           (x_subaddress_spend_private x k (x_DEFAULT_SUBADDRESS_INDEX x)))
        (x_view_private_key x k))) (\<lambda>add_input.
     rbind (map_err GC_LedgerService (get_network_block_version n)) (\<lambda>block_version.
     rbind (map_err GC_TxBuilder (cb_new cb block_version
        \<lparr>am_value = x_MOB_MINIMUM_FEE x, am_token_id = x_MOB_ID x\<rparr> fog_resolver
        (MB_RTH \<lparr>rth_sender_credential = cb_credential_from cb k, rth_destination_memo = True,
                 rth_payment_intent_id = None, rth_payment_request_id = None\<rparr>))) (\<lambda>tb.
     rbind (map_err GC_TxBuilder (cb_add_output cb
        \<lparr>am_value = gift_value - x_MOB_MINIMUM_FEE x, am_token_id = x_MOB_ID x\<rparr> recipient
        (add_input tb))) (\<lambda>(_, tb1).
     rbind (map_err GC_LedgerDB (l_num_blocks (n_ledger n))) (\<lambda>num_blocks.
       map_err GC_TxBuilder
         (gx_build gx (cb_set_tombstone_block cb (num_blocks + DEFAULT_NEW_TX_BLOCK_ATTEMPTS) tb1))))))))))"

definition send_gift_tx ::
    "network \<Rightarrow> tx \<Rightarrow> (service_state, gift_code_service_error, tx) action" where
  "send_gift_tx net t =
     (if net_responder_ids net = [] then sraise GC_TxoNotConsumable
      else sthen (propose GC_NodeNotFound GC_Retry net t) (sreturn t))"

text \<open>Before the sampling: the status decides, then an address is assigned if none is given.\<close>

definition claim_start ::
    "externals \<Rightarrow> 'b crate_builder \<Rightarrow> 'b gift_ext \<Rightarrow> node \<Rightarrow> string \<Rightarrow> string \<Rightarrow> string option
      \<Rightarrow> (db, gift_code_service_error, account_key \<times> u64 \<times> public_address \<times> bytes \<times> u64 \<times> u64) action" where
  "claim_start x cb gx n gift_code_b58 account_id public_address_b58 =
     sbind (sread (\<lambda>_. check_gift_code_status x n gift_code_b58)) (\<lambda>(status, gift_value, _).
     sbind (sread (\<lambda>_. case status of
        GiftCodeClaimed \<Rightarrow> Inl GC_GiftCodeClaimed
      | GiftCodeSubmittedPending \<Rightarrow> Inl GC_GiftCodeNotYetAvailable
      | GiftCodeAvailable \<Rightarrow> ok_or GC_GiftCodeNotYetAvailable gift_value)) (\<lambda>value.
     sbind (sread (\<lambda>_. decode_transfer_payload x gift_code_b58)) (\<lambda>p.
     sbind (case public_address_b58 of
        Some b58 \<Rightarrow> sreturn b58
      | None \<Rightarrow> sbind (smap_err GC_AddressService (assign_address_for_account x n account_id
            (Some (gx_json_memo gx (dtp_memo p))))) (\<lambda>s. sreturn (asub_public_address_b58 s))) (\<lambda>b58.
     sread (\<lambda>_.
       rbind (map_err GC_B58 (b58_decode_public_address x b58)) (\<lambda>recipient.
         if value < x_MOB_MINIMUM_FEE x then Inl (GC_InsufficientValueForFee value)
         else
           rbind (map_err GC_LedgerDB (l_get_tx_out_index_by_public_key (n_ledger n) (dtp_txo_public_key p))) (\<lambda>index.
           rbind (gift_fog_resolver cb recipient) (\<lambda>fog_resolver.
           rbind (map_err GC_LedgerDB (l_num_txos (n_ledger n))) (\<lambda>num_txos.
             Inr (dtp_account_key p, value, recipient, fog_resolver, index, num_txos)))))))))) "

definition claim_gift_code ::
    "externals \<Rightarrow> 'b crate_builder \<Rightarrow> 'b gift_ext \<Rightarrow> node \<Rightarrow> network \<Rightarrow> (u64 \<Rightarrow> nat \<Rightarrow> u64) \<Rightarrow> (u64 list \<Rightarrow> u64 list)
      \<Rightarrow> string \<Rightarrow> string \<Rightarrow> string option \<Rightarrow> service_state
      \<Rightarrow> ((gift_code_service_error + tx) \<times> service_state) option" where
  "claim_gift_code x cb gx n net rng hash_order gift_code_b58 account_id public_address_b58 s =
     (case with_db (claim_start x cb gx n gift_code_b58 account_id public_address_b58) s of
       (Inl e, s1) \<Rightarrow> Some (Inl e, s1)
     | (Inr (k, value, recipient, fog_resolver, index, num_txos), s1) \<Rightarrow>
         map_option (\<lambda>indices.
           sbind (sread (\<lambda>_. gift_tx x cb gx n k value recipient fog_resolver indices)) (send_gift_tx net) s1)
         (gift_ring_indices x (rng num_txos) hash_order index))"

section \<open>Facts\<close>

subsection \<open>The sampling loop of a claim\<close>

lemma sample_loop_sound:
  fixes num :: u64
  assumes "sample_loop rng k ex i acc = Some r"
  shows "(\<forall>i. rng i < num) \<and> distinct acc \<and> set acc \<subseteq> {..<num} - set ex \<longrightarrow>
    k \<le> length r \<and> distinct r \<and> set r \<subseteq> {..<num} - set ex"
proof (rule sample_loop.raw_induct [OF _ assms])
  fix f and rng :: "nat \<Rightarrow> u64" and k ex i acc r
  let ?P = "\<lambda>rng k ex i acc r. (\<forall>i. rng i < num) \<and> distinct acc \<and> set acc \<subseteq> {..<num} - set ex \<longrightarrow>
    k \<le> length r \<and> distinct r \<and> set r \<subseteq> {..<num} - set ex"
  assume IH: "\<And>rng k ex i acc r. f rng k ex i acc = Some r \<Longrightarrow> ?P rng k ex i acc r"
    and run: "(if length acc < k then
        (let index = rng i
         in if index \<in> set ex then f rng k ex (Suc i) acc
            else f rng k ex (Suc i) (if index \<in> set acc then acc else acc @ [index]))
      else Some acc) = Some r"
  show "?P rng k ex i acc r"
  proof (cases "length acc < k")
    case False
    with run show ?thesis by simp
  next
    case True
    define acc' where "acc' = (if rng i \<in> set ex \<or> rng i \<in> set acc then acc else acc @ [rng i])"
    have "f rng k ex (Suc i) acc' = Some r"
      using run True by (auto simp: acc'_def Let_def split: if_splits)
    from IH [OF this] show ?thesis
      by (auto simp: acc'_def split: if_splits)
  qed
qed

lemma gift_ring_returns:
  fixes num :: u64
  assumes range: "\<And>i. rng i < num" and fair: "\<And>j idx. idx < num \<Longrightarrow> \<exists>i \<ge> j. rng i = idx"
    and index: "index < num"
  shows "gift_ring_indices x rng hash_order index \<noteq> None \<longleftrightarrow> x_RING_SIZE x \<le> unat num"
proof
  assume "gift_ring_indices x rng hash_order index \<noteq> None"
  then obtain r where r: "sample_loop rng (x_RING_SIZE x - 1) [index] 0 [] = Some r"
    by (auto simp: gift_ring_indices_def)
  have "x_RING_SIZE x - 1 \<le> length r \<and> distinct r \<and> set r \<subseteq> {..<num} - set [index]"
    using sample_loop_sound [OF r, of num] range by simp
  moreover from this have "card (set r) \<le> card ({..<num} - {index})"
    by (intro card_mono) auto
  moreover have "card ({..<num} - {index}) = unat num - 1"
    using index by (simp add: card_lessThan_word)
  moreover have "0 < unat num"
    using index by (simp add: word_less_nat_alt)
  ultimately show "x_RING_SIZE x \<le> unat num"
    by (auto simp: distinct_card)
next
  assume "x_RING_SIZE x \<le> unat num"
  then have "length [index] + (x_RING_SIZE x - 1) \<le> unat num"
    using index by (simp add: word_less_nat_alt)
  from sample_loop_returns [of rng num "[index]" "x_RING_SIZE x - 1" "[]" 0, OF range fair this]
  show "gift_ring_indices x rng hash_order index \<noteq> None"
    by (auto simp: gift_ring_indices_def)
qed

text \<open>C22: claiming a gift code returns exactly when the ledger has at least as many outputs as a ring.
  With a fair random generator the sampling loop then ends; in a smaller ledger it never does,
  since nothing checks the number of outputs first.\<close>

theorem claim_returns_iff_enough_outputs:
  fixes num :: u64
  assumes "with_db (claim_start x cb gx n gift_code_b58 account_id public_address_b58) s =
             (Inr (k, value, recipient, fog_resolver, index, num), s1)"
    and "\<And>i. rng num i < num" "\<And>j idx. idx < num \<Longrightarrow> \<exists>i \<ge> j. rng num i = idx" "index < num"
  shows "claim_gift_code x cb gx n net rng hash_order gift_code_b58 account_id public_address_b58 s \<noteq> None
           \<longleftrightarrow> x_RING_SIZE x \<le> unat num"
  using gift_ring_returns [OF assms(2,3,4), of x hash_order] assms(1)
  by (simp add: claim_gift_code_def)

subsection \<open>What a gift code hands over\<close>

lemma package_gift_code_Inr:
  assumes "package_gift_code x gx sg mnemonic a memo u = Inr (p, code)"
  shows "UnsignedTxProposal_sign x sg u a = Inr p"
    and "\<exists>out. tp_payload_txos p = [out] \<and> b58_encode_transfer_payload x (x_mnemonic_entropy x mnemonic)
           (gx_compressed_proto gx (to_public_key (out_tx_out out))) (case memo of None \<Rightarrow> [] | Some m \<Rightarrow> m) = Inr code"
  using assms by (auto simp: package_gift_code_def rbind_eq_Inr map_err_eq_Inr case_eq_Inr)

lemma build_gift_code_Inr:
  assumes "build_gift_code x cb gx sg n rng hash_order mnemonic from_account_id value memo input_txo_ids
      fee tombstone_block max_spendable_value d = Some (Inr r)"
  shows "\<exists>b58 acct u. b58_encode_public_address x (x_subaddress x (x_account_key_from_mnemonic x mnemonic)
      (x_DEFAULT_SUBADDRESS_INDEX x)) = Inr b58 \<and>
    build_transaction x cb n rng hash_order
      (gift_request x (acct_id acct) b58 value input_txo_ids fee tombstone_block max_spendable_value) d = Some (Inr u) \<and>
    package_gift_code x gx sg mnemonic acct memo u = Inr r"
proof (cases "b58_encode_public_address x (x_subaddress x (x_account_key_from_mnemonic x mnemonic)
      (x_DEFAULT_SUBADDRESS_INDEX x))")
  case (Inl e)
  with assms show ?thesis by (simp add: build_gift_code_def)
next
  case (Inr b58)
  show ?thesis
  proof (cases "Account_get from_account_id d")
    case (Inl e)
    with assms Inr show ?thesis by (simp add: build_gift_code_def)
  next
    case acct: (Inr acct)
    with assms Inr have "map_option (\<lambda>r. rbind (map_err GC_TransactionService r) (package_gift_code x gx sg mnemonic acct memo))
        (build_transaction x cb n rng hash_order (gift_request x (acct_id acct) b58 value input_txo_ids fee
           tombstone_block max_spendable_value) d) = Some (Inr r)"
      by (simp add: build_gift_code_def)
    with Inr show ?thesis
      by (auto simp: rbind_eq_Inr map_err_eq_Inr)
  qed
qed

text \<open>C21: a gift code hands over the account that was paid. The code that comes with a built gift decodes
  to the account of the fresh mnemonic and to the public key of the only payload output; that output
  pays the value, in MOB, to the default subaddress of this account, and the memo is kept. The laws
  are those of the encoders: b58 and protobuf decoding invert encoding, and a mnemonic is determined by its
  entropy.\<close>

theorem gift_code_hands_over_account:
  assumes built: "build_gift_code x cb gx sg n rng hash_order mnemonic from_account_id value memo input_txo_ids
      fee tombstone_block max_spendable_value d = Some (Inr (p, code))"
    and laws: "b58_laws x" "\<And>k. x_compressed_try_from_proto x (gx_compressed_proto gx k) = Inr k"
      "x_mnemonic_from_entropy x (x_mnemonic_entropy x mnemonic) = Inr mnemonic"
      "x_mnemonic_entropy x mnemonic \<noteq> []"
  defines "key \<equiv> x_account_key_from_mnemonic x mnemonic"
  shows "\<exists>out payload. tp_payload_txos p = [out] \<and>
           out_recipient_public_address out = x_subaddress x key (x_DEFAULT_SUBADDRESS_INDEX x) \<and>
           out_amount out = \<lparr>am_value = value, am_token_id = x_MOB_ID x\<rparr> \<and>
           decode_transfer_payload x code = Inr payload \<and> dtp_account_key payload = key \<and>
           dtp_txo_public_key payload = to_public_key (out_tx_out out) \<and>
           dtp_memo payload = (case memo of None \<Rightarrow> [] | Some m \<Rightarrow> m)"
proof -
  obtain b58 acct u where
      b58: "b58_encode_public_address x (x_subaddress x key (x_DEFAULT_SUBADDRESS_INDEX x)) = Inr b58"
      and u: "build_transaction x cb n rng hash_order
        (gift_request x (acct_id acct) b58 value input_txo_ids fee tombstone_block max_spendable_value) d = Some (Inr u)"
      and pack: "package_gift_code x gx sg mnemonic acct memo u = Inr (p, code)"
    using build_gift_code_Inr [OF built] unfolding key_def by blast
  obtain out where out: "tp_payload_txos p = [out]"
      and enc: "b58_encode_transfer_payload x (x_mnemonic_entropy x mnemonic)
         (gx_compressed_proto gx (to_public_key (out_tx_out out))) (case memo of None \<Rightarrow> [] | Some m \<Rightarrow> m) = Inr code"
    using package_gift_code_Inr(2) [OF pack] by blast
  have pay: "utp_payload_txos u = [out]"
    using sign_Inr [OF package_gift_code_Inr(1) [OF pack]] out by simp
  have "b58_decode_public_address x b58 = Inr (out_recipient_public_address out)"
      "Amount_try_from (Amount_new value (x_MOB_ID x)) = Inr (out_amount out)"
    by (rule build_transaction_Inr [OF u], simp add: gift_request_def pay)+
  moreover have "Amount_try_from (Amount_new value (x_MOB_ID x)) = Inr \<lparr>am_value = value, am_token_id = x_MOB_ID x\<rparr>"
    by (simp add: Amount_try_from_def Amount_new_def parse_show_u64)
  ultimately show ?thesis
    using out b58_address_decode_encode [OF laws(1) b58]
      transfer_payload_decode_encode [OF laws(1) enc laws(4,3,2)]
    by (simp add: decode_transfer_payload_def key_def)
qed

subsection \<open>Examples\<close>

definition sample_gift :: "nat gift_ext" where
  "sample_gift = \<lparr>gx_compressed_proto = (\<lambda>k. k), gx_json_memo = (\<lambda>m. m), gx_add_input = (\<lambda>_ _ _ _ _. Inr (\<lambda>b. b)),
     gx_build = (\<lambda>_. Inr \<lparr>tx_prefix = \<lparr>pfx_fee = 4, pfx_fee_token_id = 0, pfx_tombstone_block = 15\<rparr>, tx_bytes = [2]\<rparr>)\<rparr>"

text \<open>The code of a gift whose account opens the output in block 3 of the sample ledger.\<close>

definition sample_gift_code :: string where
  "sample_gift_code = (case b58_encode_transfer_payload sample_ext [1] [3] ''hi'' of Inr s \<Rightarrow> s | Inl _ \<Rightarrow> [])"

lemma option_ok: "map_option is_ok m = Some True \<Longrightarrow> \<exists>v. m = Some (Inr v)"
proof -
  assume "map_option is_ok m = Some True"
  then obtain r where "m = Some r" "is_ok r" by auto
  then show ?thesis by (cases r) auto
qed

theorem gift_code_hands_over_account_witness:
  "\<exists>p code payload. build_gift_code sample_ext sample_crate sample_gift sample_signing sample_pay_node sample_rng rev
       [1, 2] ''BA'' 6 (Some ''hi'') (Some [''A'', ''B'']) (Some 4) None None sample_db = Some (Inr (p, code)) \<and>
     decode_transfer_payload sample_ext code = Inr payload \<and> dtp_account_key payload = [1, 2] \<and> dtp_memo payload = ''hi''"
proof -
  have "map_option is_ok (build_gift_code sample_ext sample_crate sample_gift sample_signing sample_pay_node sample_rng rev
       [1, 2] ''BA'' 6 (Some ''hi'') (Some [''A'', ''B'']) (Some 4) None None sample_db) = Some True"
    by code_simp
  then obtain r where r: "build_gift_code sample_ext sample_crate sample_gift sample_signing sample_pay_node
      sample_rng rev [1, 2] ''BA'' 6 (Some ''hi'') (Some [''A'', ''B'']) (Some 4) None None sample_db = Some (Inr r)"
    using option_ok by blast
  obtain p code where "r = (p, code)" by (cases r)
  with r have built: "build_gift_code sample_ext sample_crate sample_gift sample_signing sample_pay_node
      sample_rng rev [1, 2] ''BA'' 6 (Some ''hi'') (Some [''A'', ''B'']) (Some 4) None None sample_db = Some (Inr (p, code))"
    by simp
  have "x_compressed_try_from_proto sample_ext (gx_compressed_proto sample_gift k) = Inr k" for k
    by (simp add: sample_ext_def sample_gift_def)
  from gift_code_hands_over_account [OF built sample_b58_laws this] built show ?thesis
    by (auto simp: sample_ext_def)
qed

lemma sample_claim_start:
  "\<exists>k v rec fog s1. with_db (claim_start sample_ext sample_crate sample_gift sample_node sample_gift_code ''BA''
      (Some ''ABA'')) sample_state = (Inr (k, v, rec, fog, 7, 40), s1)"
proof -
  have "map_sum id (\<lambda>(k, v, rec, fog, i, num). (i, num)) (fst (with_db (claim_start sample_ext sample_crate
      sample_gift sample_node sample_gift_code ''BA'' (Some ''ABA'')) sample_state)) = Inr (7, 40)"
    by code_simp
  then show ?thesis
    by (cases "with_db (claim_start sample_ext sample_crate sample_gift sample_node sample_gift_code ''BA''
      (Some ''ABA'')) sample_state") (auto simp: map_sum_def split: sum.splits prod.splits)
qed

theorem claim_returns_iff_enough_outputs_witness:
  "claim_gift_code sample_ext sample_crate sample_gift sample_node sample_network sample_rng rev sample_gift_code
     ''BA'' (Some ''ABA'') sample_state \<noteq> None"
proof -
  obtain k v rec fog s1 where start: "with_db (claim_start sample_ext sample_crate sample_gift sample_node
      sample_gift_code ''BA'' (Some ''ABA'')) sample_state = (Inr (k, v, rec, fog, 7, 40), s1)"
    using sample_claim_start by blast
  have "7 < (40 :: u64)" by simp
  from claim_returns_iff_enough_outputs [where rng = sample_rng, OF start sample_rng_facts this, of sample_network rev]
  show ?thesis by (simp add: sample_ext_def)
qed

end
