(* ===== verification/Background.thy ===== *)
theory Background
  imports Sync Wallet_Services
begin

section \<open>The background tasks\<close>

text \<open>
  The two threads that run beside the ledger scan: \<open>service/t3_sync.rs\<close> reports txos with an
  authenticated sender to the T3 service, and \<open>service/webhook.rs\<close> posts the accounts that
  received deposits. A round of the first is an action on the database and the list of reports
  sent. The second shares the map of deposits with the scan, so its loop is a step relation in
  which the steps of the scan may come between any two of its own.
\<close>

subsection \<open>Reporting to T3\<close>

datatype t3_sync_error =
    T3_WalletDb wallet_db_error
  | T3_FromHex ext_error
  | T3_Connection ext_error
  | T3_McUtilSerialDecode ext_error
  | T3_TxoMemoIsNotAuthenticatedSender string

datatype reported_direction = DIRECTION_RECEIVE | DIRECTION_SEND

record transparent_transaction =
  tt_sender_address_hash :: bytes
  tt_recipient_address_hash :: bytes
  tt_token_id :: u64
  tt_amount :: u64
  tt_reported_direction :: reported_direction
  tt_public_key_hex :: string

record t3_connection =
  t3_create_transaction :: "transparent_transaction \<Rightarrow> ext_error + unit"
  t3_hex_decode :: "string \<Rightarrow> ext_error + bytes"
  t3_short_address_hash :: "public_address \<Rightarrow> bytes"

record t3_state =
  t3_db :: db
  t3_sent :: "transparent_transaction list"

type_synonym 'a t3_action = "(t3_state, t3_sync_error, 'a) action"

definition TXO_CHUNK_SIZE :: u64 where
  "TXO_CHUNK_SIZE = 5"

definition transparent_of ::
    "externals \<Rightarrow> t3_connection \<Rightarrow> txo \<Rightarrow> authenticated_sender_memo \<Rightarrow> bytes option
      \<Rightarrow> t3_sync_error + transparent_transaction" where
  "transparent_of x c t memo recipient =
     rbind (map_err T3_FromHex (t3_hex_decode c (asm_sender_address_hash memo))) (\<lambda>sender.
     rbind (map_err T3_McUtilSerialDecode (Txo_public_key x t)) (\<lambda>k.
       Inr \<lparr>tt_sender_address_hash = sender,
            tt_recipient_address_hash = (case recipient of None \<Rightarrow> [] | Some h \<Rightarrow> h),
            tt_token_id = txo_token_id t, tt_amount = txo_value t,
            tt_reported_direction =
              (case txo_account_id t of Some _ \<Rightarrow> DIRECTION_RECEIVE | None \<Rightarrow> DIRECTION_SEND),
            tt_public_key_hex = x_hex_encode x k\<rparr>))"

definition t3_sync_txo ::
    "externals \<Rightarrow> t3_connection \<Rightarrow> txo \<Rightarrow> authenticated_sender_memo \<Rightarrow> bytes option \<Rightarrow> unit t3_action" where
  "t3_sync_txo x c t memo recipient =
     sbind (sread (\<lambda>_. transparent_of x c t memo recipient)) (\<lambda>tt s.
       (map_err T3_Connection (t3_create_transaction c tt),
        if is_ok (t3_create_transaction c tt) then s\<lparr>t3_sent := t3_sent s @ [tt]\<rparr> else s))"

definition with_t3_db :: "'a db_action \<Rightarrow> 'a t3_action" where
  "with_t3_db m s = (case m (t3_db s) of (r, d) \<Rightarrow> (map_err T3_WalletDb r, s\<lparr>t3_db := d\<rparr>))"

definition t3_report :: "externals \<Rightarrow> t3_connection \<Rightarrow> txo \<Rightarrow> db \<Rightarrow> t3_sync_error + authenticated_sender_memo \<times> bytes option" where
  "t3_report x c t d =
     rbind (map_err T3_WalletDb (Txo_memo x t d)) (\<lambda>txo_memo.
     rbind (case txo_memo of
              MemoAuthenticatedSender memo \<Rightarrow> Inr memo
            | _ \<Rightarrow> Inl (T3_TxoMemoIsNotAuthenticatedSender (txo_id t))) (\<lambda>memo.
     rbind (map_err T3_WalletDb (Txo_recipient_public_address x t d)) (\<lambda>recipient.
       Inr (memo, map_option (t3_short_address_hash c) recipient))))"

definition t3_sync_one :: "externals \<Rightarrow> t3_connection \<Rightarrow> txo \<Rightarrow> unit t3_action" where
  "t3_sync_one x c t =
     sbind (sread (\<lambda>s. t3_report x c t (t3_db s))) (\<lambda>(memo, recipient).
     sthen (t3_sync_txo x c t memo recipient)
       (with_t3_db (Txo_update_is_synced_to_t3 t True)))"

definition t3_sync_txos :: "externals \<Rightarrow> t3_connection \<Rightarrow> unit t3_action" where
  "t3_sync_txos x c =
     sbind (with_t3_db (sread (Txo_get_txos_that_need_to_be_synced_to_t3 x (Some TXO_CHUNK_SIZE)))) (\<lambda>txos.
       sfor txos (t3_sync_one x c))"

subsection \<open>The webhook\<close>

text \<open>The webhook takes a snapshot of the accounts that are fully synced and have deposits, removes
  them from the map one lock at a time, and posts them. The scan sets an account to \<open>False\<close> when a
  chunk had deposits and to \<open>True\<close> when it has caught up.\<close>

datatype webhook_pc = Polling | Removing "string list" "string list"

record webhook_state =
  wh_deposits :: deposits
  wh_pc :: webhook_pc
  wh_posts :: "string list list"

inductive webhook_step :: "webhook_state \<Rightarrow> webhook_state \<Rightarrow> bool" where
  snapshot: "wh_pc s = Polling \<Longrightarrow> distinct ks \<Longrightarrow> set ks = {k. wh_deposits s k = Some True} \<Longrightarrow>
    webhook_step s (s\<lparr>wh_pc := Removing ks ks\<rparr>)"
| remove: "wh_pc s = Removing ks (k # rest) \<Longrightarrow>
    webhook_step s (s\<lparr>wh_pc := Removing ks rest, wh_deposits := (wh_deposits s)(k := None)\<rparr>)"
| post: "wh_pc s = Removing ks [] \<Longrightarrow> ks \<noteq> [] \<Longrightarrow>
    webhook_step s (s\<lparr>wh_pc := Polling, wh_posts := wh_posts s @ [ks]\<rparr>)"
| nothing: "wh_pc s = Removing [] [] \<Longrightarrow> webhook_step s (s\<lparr>wh_pc := Polling\<rparr>)"

inductive scan_step :: "webhook_state \<Rightarrow> webhook_state \<Rightarrow> bool" where
  deposit: "scan_step s (s\<lparr>wh_deposits := (wh_deposits s)(k \<mapsto> False)\<rparr>)"
| caught_up: "wh_deposits s k \<noteq> None \<Longrightarrow>
    scan_step s (s\<lparr>wh_deposits := (wh_deposits s)(k \<mapsto> True)\<rparr>)"

inductive_cases webhook_step_cases: "webhook_step s s'"
inductive_cases scan_step_cases: "scan_step s s'"

section \<open>Facts\<close>

subsection \<open>A round of reports\<close>

definition needs_t3 :: "externals \<Rightarrow> txo \<Rightarrow> bool" where
  "needs_t3 x t \<longleftrightarrow> \<not> txo_is_synced_to_t3 t \<and>
     (\<exists>m \<in> set (map two_bytes_to_i32 [x_mt_authenticated_sender x, x_mt_authenticated_sender_payment_intent x,
        x_mt_authenticated_sender_payment_request x]). txo_memo_type t = Some m)"

definition mark_reported :: "string set \<Rightarrow> db \<Rightarrow> db" where
  "mark_reported ids d =
     db_txos_update (update_rows (\<lambda>t. txo_id t \<in> ids) (\<lambda>t. t\<lparr>txo_is_synced_to_t3 := True\<rparr>)) d"

abbreviation report_matches :: "txo \<Rightarrow> transparent_transaction \<Rightarrow> bool" where
  "report_matches t r \<equiv> tt_amount r = txo_value t \<and> tt_token_id r = txo_token_id t \<and>
     (tt_reported_direction r = DIRECTION_RECEIVE \<longleftrightarrow> txo_account_id t \<noteq> None)"

lemma mark_reported_ok: "db_ok d \<Longrightarrow> db_ok (mark_reported ids d)"
  unfolding mark_reported_def by (rule db_ok_update_txos) simp_all

lemma mark_reported_insert: "mark_reported ids (mark_reported {i} d) = mark_reported (insert i ids) d"
proof -
  have "update_rows (\<lambda>t. txo_id t \<in> ids) (\<lambda>t. t\<lparr>txo_is_synced_to_t3 := True\<rparr>)
      (update_rows (\<lambda>t. txo_id t \<in> {i}) (\<lambda>t. t\<lparr>txo_is_synced_to_t3 := True\<rparr>) rows) =
    update_rows (\<lambda>t. txo_id t \<in> insert i ids) (\<lambda>t. t\<lparr>txo_is_synced_to_t3 := True\<rparr>) rows" for rows
    by (induction rows) (simp_all add: update_rows_def)
  then show ?thesis by (cases d) (simp add: mark_reported_def)
qed

lemma t3_sync_one_Inr:
  assumes "t3_sync_one x c t s = (Inr u, s')"
  shows "\<exists>r. t3_db s' = mark_reported {txo_id t} (t3_db s) \<and> t3_sent s' = t3_sent s @ [r] \<and>
    report_matches t r"
proof -
  obtain memo recipient s1 where "t3_sync_txo x c t memo recipient s = (Inr (), s1)"
      and mark: "with_t3_db (Txo_update_is_synced_to_t3 t True) s1 = (Inr u, s')"
    using assms unfolding t3_sync_one_def by (auto simp: sbind_eq_Inr sthen_eq_Inr sread_eq_Inr)
  then obtain r where r: "transparent_of x c t memo recipient = Inr r" "s1 = s\<lparr>t3_sent := t3_sent s @ [r]\<rparr>"
    unfolding t3_sync_txo_def by (auto simp: sbind_eq_Inr sread_eq_Inr map_err_eq_Inr)
  have "s' = s1\<lparr>t3_db := mark_reported {txo_id t} (t3_db s1)\<rparr>"
    using mark by (auto simp: with_t3_db_def map_err_eq_Inr Txo_update_is_synced_to_t3_def update_where_def
        exec_stmt_Inr mark_reported_def split: prod.splits)
  moreover have "report_matches t r"
    using r(1) by (auto simp: transparent_of_def rbind_eq_Inr split: option.splits)
  ultimately show ?thesis using r(2) by auto
qed

lemma t3_sfor_Inr:
  assumes "sfor ts (t3_sync_one x c) s = (Inr u, s')" "db_ok (t3_db s)"
  shows "\<exists>rs. t3_db s' = mark_reported (txo_id ` set ts) (t3_db s) \<and> t3_sent s' = t3_sent s @ rs \<and>
    list_all2 report_matches ts rs"
  using assms
proof (induction ts arbitrary: s)
  case Nil
  then show ?case by (auto simp: sreturn_apply update_rows_def mark_reported_def)
next
  case (Cons t ts)
  obtain s1 u1 where one: "t3_sync_one x c t s = (Inr u1, s1)" and rest: "sfor ts (t3_sync_one x c) s1 = (Inr u, s')"
    using Cons.prems(1) by (auto simp: sthen_eq_Inr)
  obtain r where r: "t3_db s1 = mark_reported {txo_id t} (t3_db s)" "t3_sent s1 = t3_sent s @ [r]"
      "report_matches t r"
    using t3_sync_one_Inr [OF one] by blast
  have "db_ok (t3_db s1)" using Cons.prems(2) by (simp add: r(1) mark_reported_ok)
  from Cons.IH [OF rest this] obtain rs where
    "t3_db s' = mark_reported (txo_id ` set ts) (t3_db s1)" "t3_sent s' = t3_sent s1 @ rs"
    "list_all2 report_matches ts rs" by blast
  then show ?case
    using r by (intro exI [of _ "r # rs"]) (simp add: mark_reported_insert)
qed

text \<open>C20: a successful round of reporting to T3 takes the first five txos that have an authenticated
  sender and were not reported, sends exactly one report for each, in order and with its value,
  token and direction, and marks exactly these txos as reported.\<close>

theorem t3_round_reports_once:
  assumes "t3_sync_txos x c s = (Inr (), s')" "db_ok (t3_db s)"
  defines "todo \<equiv> take 5 (filter (needs_t3 x) (db_txos (t3_db s)))"
  shows "\<exists>rs. t3_sent s' = t3_sent s @ rs \<and> list_all2 report_matches todo rs \<and>
           t3_db s' = mark_reported (txo_id ` set todo) (t3_db s)"
proof -
  have "(\<lambda>t. \<not> txo_is_synced_to_t3 t \<and>
      (\<exists>m \<in> set (map two_bytes_to_i32 [x_mt_authenticated_sender x, x_mt_authenticated_sender_payment_intent x,
        x_mt_authenticated_sender_payment_request x]). txo_memo_type t = Some m)) = needs_t3 x"
    by (rule ext) (simp only: needs_t3_def)
  then have get: "Txo_get_txos_that_need_to_be_synced_to_t3 x (Some TXO_CHUNK_SIZE) (t3_db s) = Inr todo"
    unfolding Txo_get_txos_that_need_to_be_synced_to_t3_def Let_def
    by (simp add: todo_def sql_limit_def TXO_CHUNK_SIZE_def)
  have "sfor todo (t3_sync_one x c) s = (Inr (), s')"
    using assms(1) get by (simp add: t3_sync_txos_def sbind_def with_t3_db_def sread_apply)
  from t3_sfor_Inr [OF this assms(2)] show ?thesis by auto
qed

subsection \<open>Notifications\<close>

text \<open>The runs of both threads from the start of the service, with the number of chunks with deposits
  the scan found for each account.\<close>

inductive webhook_run :: "(string \<Rightarrow> nat) \<Rightarrow> webhook_state \<Rightarrow> bool" where
  start: "webhook_run (\<lambda>_. 0) \<lparr>wh_deposits = Map.empty, wh_pc = Polling, wh_posts = []\<rparr>"
| hook: "webhook_run n s \<Longrightarrow> webhook_step s s' \<Longrightarrow> webhook_run n s'"
| found: "webhook_run n s \<Longrightarrow>
    webhook_run (n(k := Suc (n k))) (s\<lparr>wh_deposits := (wh_deposits s)(k \<mapsto> False)\<rparr>)"
| synced: "webhook_run n s \<Longrightarrow> wh_deposits s k \<noteq> None \<Longrightarrow>
    webhook_run n (s\<lparr>wh_deposits := (wh_deposits s)(k \<mapsto> True)\<rparr>)"

definition posted :: "string \<Rightarrow> webhook_state \<Rightarrow> nat" where
  "posted k s = length (filter (\<lambda>ks. k \<in> set ks) (wh_posts s))"

definition pending_posts :: "string \<Rightarrow> webhook_state \<Rightarrow> nat" where
  "pending_posts k s = (case wh_pc s of
     Polling \<Rightarrow> (if wh_deposits s k \<noteq> None then 1 else 0)
   | Removing ks rest \<Rightarrow> (if k \<in> set ks then 1 else 0) +
       (if wh_deposits s k \<noteq> None \<and> k \<notin> set rest then 1 else 0))"

lemma webhook_run_bound:
  "webhook_run n s \<Longrightarrow> posted k s + pending_posts k s \<le> n k \<and>
     (\<forall>ks rest. wh_pc s = Removing ks rest \<longrightarrow> set rest \<subseteq> set ks)"
proof (induction rule: webhook_run.induct)
  case (hook n s s')
  from hook(2) hook.IH show ?case
    by (cases rule: webhook_step.cases)
       (auto simp: posted_def pending_posts_def split: if_splits)
qed (auto simp: posted_def pending_posts_def split: webhook_pc.splits if_splits)

lemma sync_one_deposits:
  assumes "sync_one_account x ledger num a (d, dep) = (r, d', dep')"
  shows "dep' = dep \<or> dep' = dep(acct_id a \<mapsto> False) \<or> dep (acct_id a) \<noteq> None \<and> dep' = dep(acct_id a \<mapsto> True)"
  using assms
  by (auto simp: sync_one_account_def sthen_def sbind_def on_db_def on_deposits_def sreturn_def
      split: if_splits sum.splits prod.splits option.splits)

lemma sync_one_scan:
  assumes "sync_one_account x ledger num a (d, dep) = (r, d', dep')"
  shows "scan_step\<^sup>*\<^sup>* (w\<lparr>wh_deposits := dep\<rparr>) (w\<lparr>wh_deposits := dep'\<rparr>)"
proof -
  let ?s = "w\<lparr>wh_deposits := dep\<rparr>"
  have "dep' = dep \<or> scan_step ?s (w\<lparr>wh_deposits := dep'\<rparr>)"
    using sync_one_deposits [OF assms] scan_step.deposit [of ?s "acct_id a"]
      scan_step.caught_up [of ?s "acct_id a"] by auto
  then show ?thesis by auto
qed

lemma sync_list_scan:
  "sfor accounts (sync_one_account x ledger num) (d, dep) = (r, d', dep') \<Longrightarrow>
     scan_step\<^sup>*\<^sup>* (w\<lparr>wh_deposits := dep\<rparr>) (w\<lparr>wh_deposits := dep'\<rparr>)"
proof (induction accounts arbitrary: d dep)
  case Nil
  then show ?case by (simp add: sreturn_apply)
next
  case (Cons a as)
  obtain r1 d1 dep1 where one: "sync_one_account x ledger num a (d, dep) = (r1, d1, dep1)"
    by (metis prod.exhaust)
  show ?case
  proof (cases r1)
    case (Inl e)
    with Cons.prems one sync_one_scan [OF one] show ?thesis by (simp add: sthen_Inl)
  next
    case (Inr u)
    with Cons.prems one have "sfor as (sync_one_account x ledger num) (d1, dep1) = (r, d', dep')"
      by (simp add: sthen_Inr)
    from Cons.IH [OF this] sync_one_scan [OF one] show ?thesis by (rule rtranclp_trans [rotated])
  qed
qed


text \<open>C17: notifications do not run ahead of deposits. In every interleaving of the webhook with the
  scan, an account is posted at most as often as the scan found deposits for it; every post names
  at least one account.\<close>

theorem webhook_posts_bounded:
  assumes "webhook_run n s"
  shows "posted k s \<le> n k \<and> [] \<notin> set (wh_posts s)"
proof
  show "posted k s \<le> n k"
    using webhook_run_bound [OF assms, of k] by simp
  from assms show "[] \<notin> set (wh_posts s)"
    by (induction rule: webhook_run.induct) (auto elim!: webhook_step_cases)
qed

text \<open>C18: the removal can drop a new deposit. Between the snapshot of the webhook and the removal of an
  account from the map, the scan may record a new deposit for that account. The removal then drops
  it, and catching up does not bring it back: the post that is already due is the only one, sent
  although the account has not caught up.\<close>

theorem webhook_drops_new_deposit:
  assumes "wh_pc s = Removing ks (k # rest)"
  shows "\<exists>s1 s2. scan_step s s1 \<and> wh_deposits s1 k = Some False \<and> webhook_step s1 s2 \<and>
           wh_deposits s2 k = None \<and>
           (\<forall>s3. scan_step s2 s3 \<longrightarrow> wh_deposits s3 k \<in> {None, Some False})"
proof -
  define s1 where "s1 = s\<lparr>wh_deposits := (wh_deposits s)(k \<mapsto> False)\<rparr>"
  define s2 where "s2 = s1\<lparr>wh_pc := Removing ks rest, wh_deposits := (wh_deposits s1)(k := None)\<rparr>"
  have "scan_step s s1" unfolding s1_def by (rule scan_step.deposit)
  moreover have "webhook_step s1 s2"
    unfolding s2_def by (rule webhook_step.remove) (simp add: s1_def assms)
  moreover have "wh_deposits s3 k \<in> {None, Some False}" if "scan_step s2 s3" for s3
    using that by (cases rule: scan_step.cases) (auto simp: s2_def)
  ultimately show ?thesis
    by (intro exI [of _ s1] exI [of _ s2]) (simp add: s1_def s2_def)
qed

subsection \<open>Examples\<close>

definition sample_t3 :: t3_connection where
  "sample_t3 = \<lparr>t3_create_transaction = (\<lambda>_. Inr ()), t3_hex_decode = (\<lambda>s. Inr (bytes_of_chars s)),
     t3_short_address_hash = (\<lambda>a. a)\<rparr>"

text \<open>The sample wallet in which the txo \<open>A\<close> has an authenticated sender.\<close>

definition sample_t3_state :: t3_state where
  "sample_t3_state = \<lparr>t3_db = sample_db\<lparr>
     db_txos := [(sample_txo ''A'' 0 5 1)\<lparr>txo_memo_type := Some (two_bytes_to_i32 (1, 0))\<rparr>, sample_txo ''B'' 1 7 1,
       sample_txo ''C'' 2 100 2],
     db_authenticated_sender_memos := [\<lparr>asm_txo_id = ''A'', asm_sender_address_hash = ''BB'',
       asm_payment_request_id = None, asm_payment_intent_id = None\<rparr>]\<rparr>, t3_sent = []\<rparr>"

theorem t3_round_reports_once_witness:
  "\<exists>s' rs. t3_sync_txos sample_ext sample_t3 sample_t3_state = (Inr (), s') \<and> t3_sent s' = rs \<and>
     map tt_amount rs = [5] \<and>
     map txo_is_synced_to_t3 (db_txos (t3_db s')) = [True, False, False]"
proof -
  have run: "t3_sync_txos sample_ext sample_t3 sample_t3_state =
      (Inr (), snd (t3_sync_txos sample_ext sample_t3 sample_t3_state))"
    by (rule run_result) code_simp
  have ok: "db_ok (t3_db sample_t3_state)" by code_simp
  have todo: "map txo_id (take 5 (filter (needs_t3 sample_ext) (db_txos (t3_db sample_t3_state)))) = [''A'']"
      "map txo_value (take 5 (filter (needs_t3 sample_ext) (db_txos (t3_db sample_t3_state)))) = [5]"
    by code_simp+
  define ts where "ts = take 5 (filter (needs_t3 sample_ext) (db_txos (t3_db sample_t3_state)))"
  have ts: "txo_id ` set ts = {''A''}" "map txo_value ts = [5]"
    using todo by (auto simp: ts_def simp flip: set_map)
  obtain rs where rs: "t3_sent (snd (t3_sync_txos sample_ext sample_t3 sample_t3_state)) = rs"
      "list_all2 report_matches ts rs"
      "t3_db (snd (t3_sync_txos sample_ext sample_t3 sample_t3_state)) = mark_reported {''A''} (t3_db sample_t3_state)"
    using t3_round_reports_once [OF run ok] ts(1) by (auto simp: ts_def sample_t3_state_def)
  have "map tt_amount rs = map txo_value ts"
    using rs(2) by (induction rule: list_all2_induct) auto
  moreover have "map txo_is_synced_to_t3 (db_txos (mark_reported {''A''} (t3_db sample_t3_state))) = [True, False, False]"
    by code_simp
  ultimately show ?thesis
    using run rs(1,3) ts(2) by metis
qed

lemma sample_webhook_run:
  "webhook_run ((\<lambda>_. 0)(''A'' := Suc 0))
     \<lparr>wh_deposits = Map.empty, wh_pc = Polling, wh_posts = [[''A'']]\<rparr>"
proof -
  let ?n = "(\<lambda>_. 0)(''A'' := Suc 0)"
  have "webhook_run ?n \<lparr>wh_deposits = [''A'' \<mapsto> False], wh_pc = Polling, wh_posts = []\<rparr>"
    using webhook_run.found [OF webhook_run.start, of "''A''"] by simp
  from webhook_run.synced [OF this, of "''A''"]
  have "webhook_run ?n \<lparr>wh_deposits = [''A'' \<mapsto> True], wh_pc = Polling, wh_posts = []\<rparr>"
    by simp
  from webhook_run.hook [OF this webhook_step.snapshot [of _ "[''A'']"]]
  have "webhook_run ?n \<lparr>wh_deposits = [''A'' \<mapsto> True], wh_pc = Removing [''A''] [''A''], wh_posts = []\<rparr>"
    by (auto split: if_splits)
  from webhook_run.hook [OF this webhook_step.remove]
  have "webhook_run ?n \<lparr>wh_deposits = Map.empty, wh_pc = Removing [''A''] [], wh_posts = []\<rparr>"
    by simp
  from webhook_run.hook [OF this webhook_step.post] show ?thesis
    by simp
qed

theorem webhook_posts_bounded_witness:
  "posted ''A'' \<lparr>wh_deposits = Map.empty, wh_pc = Polling, wh_posts = [[''A'']]\<rparr> \<le> Suc 0 \<and>
   webhook_run ((\<lambda>_. 0)(''A'' := Suc 0)) \<lparr>wh_deposits = Map.empty, wh_pc = Polling, wh_posts = [[''A'']]\<rparr>"
  using webhook_posts_bounded [OF sample_webhook_run, of "''A''"] sample_webhook_run by simp

theorem webhook_drops_new_deposit_witness:
  "\<exists>s1 s2. scan_step \<lparr>wh_deposits = [''A'' \<mapsto> True], wh_pc = Removing [''A''] [''A''], wh_posts = []\<rparr> s1 \<and>
     wh_deposits s1 ''A'' = Some False \<and> webhook_step s1 s2 \<and> wh_deposits s2 ''A'' = None"
  using webhook_drops_new_deposit [of "\<lparr>wh_deposits = [''A'' \<mapsto> True], wh_pc = Removing [''A''] [''A''], wh_posts = []\<rparr>"
      "[''A'']" "''A''" "[]"] by auto


end
