(* ===== verification/Wallet_Runs.thy ===== *)
theory Wallet_Runs
  imports Sync_Facts Gift_Service Background
begin

section \<open>Runs of the wallet\<close>

text \<open>
  Every way in which the services and the background threads write to the wallet database, as one
  step relation: the operations of the account, address, transaction and gift code services, a pass
  of the scan and a round of reports to T3, whatever they return. The ledger, the network and the
  arguments may differ from step to step. The locale \<open>service_invariant\<close> extends the interface of
  the account component up to this relation; it is interpreted for the well-formedness of the
  database and for the order in which transaction logs advance.
\<close>

subsection \<open>Steps\<close>

text \<open>All operations but the removal of an account, which also removes its transaction logs.\<close>

inductive wallet_write ::
    "externals \<Rightarrow> account_ext \<Rightarrow> 'b crate_builder \<Rightarrow> 'b gift_ext \<Rightarrow> signing \<Rightarrow> network \<Rightarrow> t3_connection
      \<Rightarrow> db \<Rightarrow> db \<Rightarrow> bool"
  for x ax cb gx sg net c where
  create_account: "wallet_write x ax cb gx sg net c d
    (snd (create_account x n mnemonic name url spki req d))"
| import_account: "wallet_write x ax cb gx sg net c d
    (snd (import_account x ax n phrase name first next url spki req d))"
| import_legacy: "wallet_write x ax cb gx sg net c d
    (snd (import_account_from_legacy_root_entropy x ax n entropy name first next url spki req d))"
| import_view_only: "wallet_write x ax cb gx sg net c d
    (snd (import_view_only_account x ax n vpk spk name first next req d))"
| import_hardware: "wallet_write x ax cb gx sg net c d
    (snd (import_view_only_account_from_hardware_wallet x ax (sg_hardware sg) n name first fog req d))"
| resync: "wallet_write x ax cb gx sg net c d (snd (resync_account i d))"
| rename: "wallet_write x ax cb gx sg net c d (snd (update_account_name i name d))"
| require: "wallet_write x ax cb gx sg net c d (snd (update_require_spend_subaddress i req d))"
| sync_view_only: "wallet_write x ax cb gx sg net c d (snd (sync_account x n i synced d))"
| assign_address: "wallet_write x ax cb gx sg net c d (snd (assign_address_for_account x n i metadata d))"
| sign: "build_and_sign_transaction x cb sg n rng hash_order a s = Some (r, s') \<Longrightarrow>
    wallet_write x ax cb gx sg net c (ss_db s) (ss_db s')"
| submit: "submit_transaction x sg n net p comment account s = (r, s') \<Longrightarrow>
    wallet_write x ax cb gx sg net c (ss_db s) (ss_db s')"
| pay: "build_sign_and_submit_transaction x cb sg n net rng hash_order a comment s = Some (r, s') \<Longrightarrow>
    wallet_write x ax cb gx sg net c (ss_db s) (ss_db s')"
| submit_gift: "submit_gift_code x gx sg n net i code p s = (r, s') \<Longrightarrow>
    wallet_write x ax cb gx sg net c (ss_db s) (ss_db s')"
| claim_gift: "claim_gift_code x cb gx n net rng hash_order code i addr s = Some (r, s') \<Longrightarrow>
    wallet_write x ax cb gx sg net c (ss_db s) (ss_db s')"
| remove_gift: "wallet_write x ax cb gx sg net c d (snd (remove_gift_code code d))"
| scan: "sync_all_accounts x ledger = Some pass \<Longrightarrow> pass (d, dep) = (r, d', dep') \<Longrightarrow>
    wallet_write x ax cb gx sg net c d d'"
| report: "t3_sync_txos x c s = (r, s') \<Longrightarrow> wallet_write x ax cb gx sg net c (t3_db s) (t3_db s')"

inductive wallet_step ::
    "externals \<Rightarrow> account_ext \<Rightarrow> 'b crate_builder \<Rightarrow> 'b gift_ext \<Rightarrow> signing \<Rightarrow> network \<Rightarrow> t3_connection
      \<Rightarrow> db \<Rightarrow> db \<Rightarrow> bool"
  for x ax cb gx sg net c where
  writes: "wallet_write x ax cb gx sg net c d d' \<Longrightarrow> wallet_step x ax cb gx sg net c d d'"
| remove: "wallet_step x ax cb gx sg net c d (snd (remove_account i d))"

subsection \<open>Invariants of all steps\<close>

lemma preserves_with_db [preserves_intros]:
  "preserves P m \<Longrightarrow> preserves (\<lambda>s. P (ss_db s)) (with_db m)"
  by (auto simp: preserves_def with_db_def split: prod.splits)

lemma preserves_with_t3_db [preserves_intros]:
  "preserves P m \<Longrightarrow> preserves (\<lambda>s. P (t3_db s)) (with_t3_db m)"
  by (auto simp: preserves_def with_t3_db_def split: prod.splits)

lemma preserves_on_db [preserves_intros]: "preserves P m \<Longrightarrow> preserves (P \<circ> fst) (on_db m)"
  by (auto simp: preserves_def on_db_def split: prod.splits)

lemma preserves_on_deposits [preserves_intros]: "preserves (P \<circ> fst) (on_deposits f)"
  by (auto simp: preserves_def on_deposits_def)

lemma preserves_propose: "preserves (\<lambda>s. P (ss_db s)) (propose nf rt net t)"
  by (auto simp: preserves_def propose_def Let_def split: option.splits)

lemma preserves_t3_sync_txo: "preserves (\<lambda>s. P (t3_db s)) (t3_sync_txo x c t memo recipient)"
  by (auto simp: preserves_def t3_sync_txo_def Let_def sbind_def sread_def split: prod.splits sum.splits)

locale service_invariant = account_invariant +
  assumes keep_new_gift: "preserves P (GiftCode_create code v)"
    and keep_delete_gift: "preserves P (GiftCode_delete g)"
    and keep_reported: "preserves P (Txo_update_is_synced_to_t3 t b)"
begin

lemma keeps_new_account:
  "preserves P (create_account x n mnemonic name url spki req)"
  "preserves P (import_account x ax n phrase name first next url spki req)"
  "preserves P (import_account_from_legacy_root_entropy x ax n entropy name first next url spki req)"
  "preserves P (import_view_only_account x ax n vpk spk name first next req)"
  "preserves P (import_view_only_account_from_hardware_wallet x ax hw n name first fog req)"
  unfolding create_account_def import_account_def import_account_from_legacy_root_entropy_def
    import_view_only_account_def import_view_only_account_from_hardware_wallet_def Let_def
  by (intro preserves_intros keeps_create_from keeps_import)+

lemma keeps_account_service:
  "preserves P (resync_account i)" "preserves P (update_account_name i name)"
  "preserves P (update_require_spend_subaddress i req)" "preserves P (sync_account x n i synced)"
  "preserves P (assign_address_for_account x n i metadata)"
  unfolding resync_account_def update_account_name_def update_require_spend_subaddress_def
    sync_account_def sync_txo_def Txo_update_key_image_by_pubkey_def assign_address_for_account_def
  by (intro preserves_intros keeps_account_updates keep_key_image keeps_create_next)+

lemma keeps_chunk: "preserves P (sync_account_next_chunk x ledger i)"
  unfolding sync_account_next_chunk_def process_chunk_def write_received_def settle_chunk_def
    mark_spent_def Let_def
  by (intro preserves_intros keeps_create_received keep_spent keep_succeeded keep_failed
      keeps_account_updates)

lemma keeps_scan:
  assumes "sync_all_accounts x ledger = Some pass"
  shows "preserves (P \<circ> fst) pass"
proof -
  have "preserves (P \<circ> fst) (sync_one_account x ledger num_blocks a)" for num_blocks a
    unfolding sync_one_account_def by (intro preserves_intros keeps_chunk keeps_account_updates)
  with assms show ?thesis
    unfolding sync_all_accounts_def by (auto intro!: preserves_intros split: sum.splits)
qed

lemma keeps_submit: "preserves (\<lambda>s. P (ss_db s)) (submit_transaction x sg n net p comment account)"
  unfolding submit_transaction_def log_of_submission_def
  by (intro preserves_intros preserves_propose keeps_log_submitted)

lemma keeps_sign:
  assumes "build_and_sign_transaction x cb sg n rng hash_order a s = Some (r, s')" "P (ss_db s)"
  shows "P (ss_db s')"
proof -
  have "preserves P (sign_and_log x sg i p)" for i p
    unfolding sign_and_log_def by (intro preserves_intros keeps_log_signed)
  from preservesD [OF preserves_with_db [OF this], of s] assms show ?thesis
    by (auto simp: build_and_sign_transaction_def split: option.splits sum.splits)
       (metis snd_conv)
qed

lemma keeps_pay:
  assumes "build_sign_and_submit_transaction x cb sg n net rng hash_order a comment s = Some (r, s')"
    and "P (ss_db s)"
  shows "P (ss_db s')"
proof -
  obtain r1 s1 where s1: "build_and_sign_transaction x cb sg n rng hash_order a s = Some (r1, s1)"
    using assms(1) by (auto simp: build_sign_and_submit_transaction_def)
  have "preserves (\<lambda>s. P (ss_db s)) (\<lambda>s. (r1, s))"
    by (simp add: preserves_def)
  then have "preserves (\<lambda>s. P (ss_db s)) (sbind (\<lambda>s. (r1, s)) (\<lambda>p.
      sbind (submit_transaction x sg n net p comment (Some (ba_account_id_hex a))) (\<lambda>res.
        case res of Some l \<Rightarrow> sreturn (l, p) | None \<Rightarrow> sraise TS_MissingAccountOnSubmit)))"
    by (intro preserves_intros keeps_submit)
  from preservesD [OF this keeps_sign [OF s1 assms(2)]] assms(1) s1 show ?thesis
    by (auto simp: build_sign_and_submit_transaction_def)
qed

lemma keeps_submit_gift: "preserves (\<lambda>s. P (ss_db s)) (submit_gift_code x gx sg n net i code p)"
  unfolding submit_gift_code_def by (intro preserves_intros keep_new_gift keeps_submit)

lemma keeps_remove_gift: "preserves P (remove_gift_code code)"
  unfolding remove_gift_code_def by (intro preserves_intros keep_delete_gift)

lemma keeps_claim:
  assumes "claim_gift_code x cb gx n net rng hash_order code i addr s = Some (r, s')" "P (ss_db s)"
  shows "P (ss_db s')"
proof -
  have "preserves P (claim_start x cb gx n code i addr)"
    unfolding claim_start_def by (intro preserves_intros keeps_account_service)
  from preservesD [OF preserves_with_db [OF this], of s] assms(2)
  have start: "P (ss_db s1)" if "with_db (claim_start x cb gx n code i addr) s = (r1, s1)" for r1 s1
    using that by simp
  have "preserves (\<lambda>s. P (ss_db s)) (sbind (sread f) (send_gift_tx net))"
    for f :: "service_state \<Rightarrow> gift_code_service_error + tx"
    unfolding send_gift_tx_def by (intro preserves_intros preserves_propose)
  note send = preservesD_eq [OF this]
  obtain r1 s1 where s1: "with_db (claim_start x cb gx n code i addr) s = (r1, s1)" by fastforce
  show ?thesis
    using assms(1) start [OF s1] s1 send
    by (cases r1) (auto simp: claim_gift_code_def)
qed

lemma keeps_report: "preserves (\<lambda>s. P (t3_db s)) (t3_sync_txos x c)"
  unfolding t3_sync_txos_def t3_sync_one_def
  by (intro preserves_intros preserves_t3_sync_txo keep_reported)

lemma keeps_write:
  assumes "wallet_write x ax cb gx sg net c d d'" "P d"
  shows "P d'"
  using assms
proof (cases rule: wallet_write.cases)
  case (scan ledger pass dep r dep')
  from preservesD [OF keeps_scan [OF scan(1)], of "(d, dep)"] scan(2) assms(2) show ?thesis by simp
qed (auto intro: preservesD [OF keeps_new_account(1)] preservesD [OF keeps_new_account(2)]
      preservesD [OF keeps_new_account(3)] preservesD [OF keeps_new_account(4)]
      preservesD [OF keeps_new_account(5)] preservesD [OF keeps_account_service(1)]
      preservesD [OF keeps_account_service(2)] preservesD [OF keeps_account_service(3)]
      preservesD [OF keeps_account_service(4)] preservesD [OF keeps_account_service(5)]
      preservesD [OF keeps_remove_gift] keeps_sign keeps_pay keeps_claim
      dest: preservesD_eq [OF keeps_submit] preservesD_eq [OF keeps_submit_gift]
      preservesD_eq [OF keeps_report])

end

subsection \<open>Well-formedness\<close>

lemma rows_ok_gift: "preserves rows_ok (exec_stmt (\<lambda>d. db_gift_codes_update f d))"
  by (rule preserves_exec_stmt) (simp add: rows_ok_def)

interpretation wf_service: service_invariant db_wf
  by unfold_locales
     (auto intro!: preserves_wf_conj preserves_intros rows_ok_gift rows_ok_update_txos
       simp: GiftCode_create_def GiftCode_delete_def delete_where_def Txo_update_is_synced_to_t3_def
         txo_row_ok_def)

text \<open>Removing an account keeps the well-formedness: the txos it owned are given up.\<close>

lemma wf_remove_account: "preserves db_wf (remove_account i)"
proof -
  have "preserves db_wf (Account_delete a)" for a
  proof (rule preservesI)
    fix d assume d: "db_wf d"
    then have "db_ok d" by (simp add: db_wf_def)
    then show "db_wf (snd (Account_delete a d))"
    proof (rule delete_account_eq [of _ a], goal_cases)
      case (1 d')
      then show ?case
        using d by (auto simp: db_wf_def rows_ok_def txo_row_ok_def intro!: list_all_filter list_all_update_rows)
    qed
  qed
  then show ?thesis
    unfolding remove_account_def by (intro preserves_intros)
qed

lemma wf_step:
  assumes "wallet_step x ax cb gx sg net c d d'" "db_wf d"
  shows "db_wf d'"
  using assms
  by (cases rule: wallet_step.cases) (auto intro: wf_service.keeps_write preservesD [OF wf_remove_account])

lemma wf_run: "(wallet_step x ax cb gx sg net c)\<^sup>*\<^sup>* d d' \<Longrightarrow> db_wf d \<Longrightarrow> db_wf d'"
  by (induction rule: rtranclp_induct) (auto intro: wf_step)

lemma wf_empty: "db_wf empty_db"
  unfolding db_wf_def by (rule conjI [OF db_ok_empty]) (simp add: rows_ok_def empty_db_def)

subsection \<open>The life of the transaction logs\<close>

interpretation advance_service: service_invariant "logs_advance d0" for d0
  by unfold_locales
     (auto intro!: preserves_advance_other preserves_intros
       simp: GiftCode_create_def GiftCode_delete_def delete_where_def Txo_update_is_synced_to_t3_def
         account_update_row_def txo_update_row_def insert_into_def update_where_def)

lemma advance_run: "(wallet_write x ax cb gx sg net c)\<^sup>*\<^sup>* d d' \<Longrightarrow> db_ok d \<Longrightarrow> logs_advance d d'"
  by (induction rule: rtranclp_induct) (auto intro: logs_advance_refl advance_service.keeps_write)

end
