(* ===== verification/Spec2Isabelle.thy ===== *)
theory Spec2Isabelle
  imports Wallet_Runs
begin

text \<open>
  \<^bold>\<open>Verification of the Full-Service wallet\<close>

  Full-Service (crate \<open>src/full-service\<close>) is a wallet server for a ledger of confidential transactions.
  It keeps accounts, subaddresses, transaction outputs (txos) and transaction logs in an encrypted
  SQLite database, scans the ledger for outputs and key images of its accounts, builds, signs and
  submits payments, and answers requests about all of this. The development follows the code from
  the statements on the tables up to the runs of the whole server.

  \<^bold>\<open>How the parts interact.\<close> The services (\<open>service/*.rs\<close>) read and write the database through the
  model functions of \<open>db/*.rs\<close>, mostly inside an exclusive transaction. A scan thread
  (\<open>service/sync.rs\<close>) advances every account over the blocks of the ledger, in chunks of 1000, each in one
  transaction; it records deposits, marks txos as spent, finalizes and expires transaction logs. A
  webhook thread announces accounts with deposits, and a T3 thread reports authenticated deposits.

  \<^bold>\<open>Conventions.\<close> A table is the list of its rows in insertion order; a row is a record with the columns of
  \<open>db/models.rs\<close>. The database is the record \<open>db\<close>. A read is a function \<open>db \<Rightarrow> error + 'a\<close>, a write an
  action \<open>s \<Rightarrow> (error + 'a) \<times> s\<close>, composed by \<open>sbind\<close>, \<open>sthen\<close> and \<open>sfor\<close>; every early return and every
  panic is a value of an error type. Numbers of 64 bits are words: Rust compares them unsigned, SQL
  signed, both are written out; sums the code takes in 128 bits are natural numbers. Functions
  of other crates (keys, hashing, protobuf, ring signatures, the ledger database, network nodes, hardware
  wallets) are fields of parameter records: \<open>externals\<close>, \<open>ledger_db\<close>, \<open>node\<close>, \<open>crate_builder\<close>,
  \<open>account_ext\<close>, \<open>gift_ext\<close>, \<open>signing\<close>, \<open>network\<close>, \<open>hardware\<close>, \<open>t3_connection\<close>. What a theorem needs of
  them is a hypothesis, and \<open>Samples\<close> has concrete functions with which the hypotheses are met.

  \<^bold>\<open>Theories and sources.\<close>
  \<^item> \<open>Prelude\<close>, \<open>Sql\<close>: results, actions, invariants of actions (\<open>preserves\<close> and the collection
    \<open>preserves_intros\<close>); three-valued conditions, joins, ordering and the locale \<open>db_table\<close> of a table with
    a unique key.
  \<^item> \<open>Externals\<close>, \<open>Models\<close>, \<open>Lookups\<close>: the parameters; the rows and tables with their unique indices and
    foreign keys (\<open>db/models.rs\<close>, \<open>migrations\<close>), checked at each statement by \<open>exec_stmt\<close>; reads of accounts and
    subaddresses (\<open>db/account.rs\<close>, \<open>db/assigned_subaddress.rs\<close>). \<open>Models\<close> interprets \<open>db_table\<close> for every
    table.
  \<^item> \<open>B58_Codes\<close>: \<open>util/b58\<close>, the printable codes and their round trips.
  \<^item> \<open>Txo_Query\<close>, \<open>Txo_Facts\<close>, \<open>Txo_Select\<close>, \<open>Txo_Write\<close>: \<open>db/txo.rs\<close>. The queries are shown equal to filters
    over the txos, the status to the specification \<open>status_spec\<close>; input selection is sound, complete
    and minimises the largest input; recording an output writes exactly its row.
  \<^item> \<open>Tx_Proposal\<close>, \<open>Transaction_Log\<close>, \<open>Txlog_Facts\<close>: \<open>service/models/tx_proposal.rs\<close> and
    \<open>db/transaction_log.rs\<close>. The locale \<open>txlog_invariant\<close> lifts a property kept by single statements to the
    operations; it is interpreted for the constraints, for well-formed rows, for the tables that
    stay untouched, and for the life cycle of a log.
  \<^item> \<open>Account_Ops\<close>, \<open>Account_Facts\<close>: creation, import, deletion of accounts and the next subaddress with the
    repair of orphaned txos; the locale \<open>account_invariant\<close> extends \<open>txlog_invariant\<close>.
  \<^item> \<open>Wallet_Db\<close>: \<open>db/wallet_db.rs\<close> and \<open>db/gift_code.rs\<close>; the retrying exclusive transaction is all or
    nothing, and the escaped password reads back.
  \<^item> \<open>Sync\<close>, \<open>Sync_Facts\<close>: \<open>service/sync.rs\<close>; what a chunk records, spends, finalizes and how far it advances,
    that chunks reach the end of the ledger, and what an undecodable memo does.
  \<^item> \<open>Ledger_Service\<close>, \<open>Account_Service\<close>, \<open>Balance\<close>, \<open>Hardware_Wallet\<close>: the services of the same names, with
    \<open>service/watcher.rs\<close>; block ranges, sampling of mixins, agreement of nodes; the parts of a balance.
  \<^item> \<open>Tx_Builder\<close>, \<open>Amounts\<close>, \<open>Transaction_Service\<close>: \<open>service/transaction_builder.rs\<close>,
    \<open>json_rpc/v2/models/amount.rs\<close> and \<open>service/transaction.rs\<close>; value is conserved, requests are paid
    as asked, and a payment is followed from its request to its log.
  \<^item> \<open>Wallet_Services\<close>, \<open>Gift_Service\<close>: addresses, txos, logs, payment requests, memos, confirmations, receipts
    and gift codes (\<open>service/address.rs\<close>, \<open>txo.rs\<close>, \<open>transaction_log.rs\<close>, \<open>payment_request.rs\<close>, \<open>memo.rs\<close>,
    \<open>confirmation_number.rs\<close>, \<open>receipt.rs\<close>, \<open>gift_code.rs\<close>).
  \<^item> \<open>Background\<close>: \<open>service/t3_sync.rs\<close> and \<open>service/webhook.rs\<close>. The webhook and the scan are step
    relations on the shared map of deposits; the scan is shown to refine its steps.
  \<^item> \<open>Wallet_Runs\<close>: every write of the server as one step relation, and the locale \<open>service_invariant\<close>, which
    extends \<open>account_invariant\<close>, interpreted for well-formedness and for the life cycle. The
    properties of whole runs follow below.

  \<^bold>\<open>Loops.\<close> The loops over blocks, inputs and recipients are total functions. Sampling ring members from a
  random source may not end: \<open>sample_loop\<close> is a partial function whose result \<open>None\<close> is divergence,
  and with a fair source it is shown to return exactly when the ledger has enough outputs. The retries of an
  exclusive transaction are bounded by \<open>NUM_RETRIES\<close>. No fuel is used.

  \<^bold>\<open>Simplifications.\<close> In the services an exclusive transaction is the attempt that gets the lock; the retries are
  modelled on their own in \<open>Wallet_Db\<close>. Steps of different requests interleave between operations, not
  between the statements of one operation. Secrets, logging and the conversion of one error
  type into another by \<open>From\<close> carry no content beyond the constructor they wrap.

  \<^bold>\<open>Not modelled.\<close> The JSON-RPC interface and its models other than amounts (dispatch and serialisation), the
  start of the server, its configuration, the host check and the threads' timing (input and output only);
  the synchronisation of the ledger from a validator, which the wallet sees only as the ledger; the
  conversions of proposals and receipts from JSON and protobuf, which compose decoders of other crates;
  the separate programs mirror, validator and offline signer, the T3 client, the Python client and
  the scripts.
\<close>

section \<open>Properties of the whole wallet\<close>

subsection \<open>A sample run\<close>

text \<open>Functions of the key crates for the examples; every phrase stands for the mnemonic \<open>[1]\<close>.\<close>

definition sample_account_ext :: account_ext where
  "sample_account_ext =
    \<lparr>ax_mnemonic_from_phrase = (\<lambda>_. Inr [1]), ax_hex_decode_32 = (\<lambda>s. Inr (bytes_of_chars s)),
     ax_view_account_key_new = (\<lambda>v s. v), ax_spend_private_key = (\<lambda>k. k), ax_public_from_private = (\<lambda>k. k),
     ax_private_bytes = (\<lambda>k. k), ax_sign_authority = (\<lambda>k b. Inr b),
     ax_public_address_new_with_fog = (\<lambda>s v u i b. s)\<rparr>"

text \<open>From an empty database: an account is imported, then a pass of the scan finds its output.\<close>

definition sample_imported :: db where
  "sample_imported = snd (import_account sample_ext sample_account_ext sample_node ''phrase'' (Some ''alice'')
     (Some 0) None [] [] False empty_db)"

definition sample_scanned :: "db \<Rightarrow> db" where
  "sample_scanned d = (case sync_all_accounts sample_ext sample_ledger of
     None \<Rightarrow> d | Some pass \<Rightarrow> fst (snd (pass (d, Map.empty))))"

lemma sample_scan_write:
  "wallet_write sample_ext ax cb gx sg net c d (sample_scanned d)"
proof -
  obtain pass where pass: "sync_all_accounts sample_ext sample_ledger = Some pass"
    by (auto simp: sync_all_accounts_def sample_ledger_def)
  obtain r d' dep' where "pass (d, Map.empty) = (r, d', dep')"
    by (metis prod_cases3)
  from wallet_write.scan [OF pass this] this pass show ?thesis
    by (simp add: sample_scanned_def)
qed

lemma sample_run:
  "(wallet_step sample_ext sample_account_ext sample_crate sample_gift sample_signing sample_network sample_t3)\<^sup>*\<^sup>*
     empty_db (sample_scanned sample_imported)"
proof (rule rtranclp.rtrancl_into_rtrancl)
  show "wallet_step sample_ext sample_account_ext sample_crate sample_gift sample_signing sample_network sample_t3
      sample_imported (sample_scanned sample_imported)"
    by (rule wallet_step.writes [OF sample_scan_write])
  show "(wallet_step sample_ext sample_account_ext sample_crate sample_gift sample_signing sample_network
      sample_t3)\<^sup>*\<^sup>* empty_db sample_imported"
    unfolding sample_imported_def
    by (rule r_into_rtranclp, rule wallet_step.writes, rule wallet_write.import_account)
qed

lemma sample_run_txos: "map txo_value (db_txos (sample_scanned sample_imported)) = [9]"
  by code_simp

subsection \<open>Reachable databases\<close>

text \<open>C11: the database is well-formed at every moment. Whatever the services, the scan and the reports
  do from an empty database on, in whatever order, with whatever arguments and answers of the network
  and whether they succeed or fail: keys are unique and references resolve, every txo
  of an account was received in some block, and a finalized transaction was submitted and has not
  failed.\<close>

theorem wallet_always_wellformed:
  assumes "(wallet_step x ax cb gx sg net c)\<^sup>*\<^sup>* empty_db d"
  shows "uniq_ok d \<and> fk_ok d \<and>
    (\<forall>t \<in> set (db_txos d). txo_account_id t \<noteq> None \<longrightarrow> txo_received_block_index t \<noteq> None) \<and>
    (\<forall>l \<in> set (db_transaction_logs d). tl_finalized_block_index l \<noteq> None \<longrightarrow>
       tl_submitted_block_index l \<noteq> None \<and> \<not> tl_failed l)"
  using wf_run [OF assms wf_empty]
  by (simp add: db_wf_def db_ok_def rows_ok_def txo_row_ok_def log_row_ok_def list_all_iff)

theorem wallet_always_wellformed_witness:
  "uniq_ok (sample_scanned sample_imported) \<and> fk_ok (sample_scanned sample_imported) \<and>
   map txo_value (db_txos (sample_scanned sample_imported)) = [9]"
  using wallet_always_wellformed [OF sample_run] sample_run_txos by blast

text \<open>C12: the life of a transaction. Between two moments at which no account is removed, every transaction
  log stays, for the same account, and its status only moves along the life cycle: built, pending,
  then succeeded or failed. One that has succeeded or failed keeps this status for good.\<close>

theorem transaction_life_cycle:
  assumes "(wallet_write x ax cb gx sg net c)\<^sup>*\<^sup>* d d'" "db_ok d" "l \<in> set (db_transaction_logs d)"
  shows "\<exists>l' \<in> set (db_transaction_logs d'). tl_id l' = tl_id l \<and> tl_account_id l' = tl_account_id l \<and>
    status_step\<^sup>*\<^sup>* (TransactionLog_status l) (TransactionLog_status l') \<and>
    (TransactionLog_status l \<in> {Succeeded, Failed} \<longrightarrow> TransactionLog_status l' = TransactionLog_status l)"
proof -
  from advance_run [OF assms(1,2)] assms(3) obtain l' where
    "l' \<in> set (db_transaction_logs d')" "tl_id l' = tl_id l" "tl_account_id l' = tl_account_id l"
    "status_le (TransactionLog_status l) (TransactionLog_status l')"
    unfolding logs_advance_def by blast
  then show ?thesis
    using status_le_terminal [of "TransactionLog_status l"] by (auto simp: status_le_def)
qed

theorem transaction_life_cycle_witness:
  "map TransactionLog_status (db_transaction_logs sample_db) = [TxPending] \<and>
   map TransactionLog_status (db_transaction_logs (sample_scanned sample_db)) = [Succeeded] \<and>
   (\<exists>(l' :: transaction_log). tl_id l' = ''L1'' \<and> status_step\<^sup>*\<^sup>* TxPending (TransactionLog_status l'))"
proof -
  have run: "(wallet_write sample_ext sample_account_ext sample_crate sample_gift sample_signing sample_network
      sample_t3)\<^sup>*\<^sup>* sample_db (sample_scanned sample_db)"
    by (rule r_into_rtranclp) (rule sample_scan_write)
  have "sample_log \<in> set (db_transaction_logs sample_db)" "TransactionLog_status sample_log = TxPending"
    "tl_id sample_log = ''L1''"
    by code_simp+
  with transaction_life_cycle [OF run sample_db_ok this(1)]
  have "\<exists>(l' :: transaction_log). tl_id l' = ''L1'' \<and> status_step\<^sup>*\<^sup>* TxPending (TransactionLog_status l')"
    by auto
  moreover have "map TransactionLog_status (db_transaction_logs sample_db) = [TxPending]"
    "map TransactionLog_status (db_transaction_logs (sample_scanned sample_db)) = [Succeeded]"
    by code_simp+
  ultimately show ?thesis by blast
qed



end
